(* ===== verification/Prelude.thy ===== *)
theory Prelude
  imports Main "HOL-Library.Word"
begin

text \<open>
  Shared vocabulary of the development: Go's machine integers and byte slices, Go
  errors as values, the error monad, the little-endian reading of a byte list as a
  machine word, and the general list and word lemmas the component theories rest on.
\<close>

unbundle bit_operations_syntax

section \<open>Go types\<close>

text \<open>
  Unsigned Go integers are words of their width.  A signed Go integer is an \<open>int\<close>
  (its value); the conversions \<open>uint8(v)\<close> and \<open>int8(u)\<close> are \<open>word_of_int\<close> and
  \<open>sint\<close>, and \<open>fits_signed\<close> says that a value is one the Go type has.
  Fixed-size byte arrays (\<open>[32]byte\<close>, \<open>[64]byte\<close>) are byte lists; the
  well-formedness predicates of the components fix their length.
\<close>

type_synonym byte = "8 word"
type_synonym u8 = "8 word"
type_synonym u16 = "16 word"
type_synonym u32 = "32 word"
type_synonym u64 = "64 word"
type_synonym bytes = "byte list"

definition fits_signed :: "nat \<Rightarrow> int \<Rightarrow> bool" where
  "fits_signed w v \<longleftrightarrow> - (2 ^ (w - 1)) \<le> v \<and> v < 2 ^ (w - 1)"

section \<open>Go errors\<close>

text \<open>
  A Go error is a sentinel, a message built by \<open>fmt.Errorf\<close> without \<open>%w\<close>
  (\<open>Errorf\<close>: the format string and its integer arguments), or a message that wraps
  another error with \<open>%w\<close> (\<open>Wrapf\<close>).  \<open>Panic\<close> is a run-time panic where a
  computation that can also return errors may raise one.  \<open>errors_is\<close> is \<open>errors.Is\<close> for the
  sentinels: it looks through every layer of wrapping.
\<close>

datatype go_error =
    ErrShortBuffer
  | ErrInvalidShortvec
  | ErrInvalidLength
  | ErrInvalidBase58
  | TrailingBytesError nat
  | Panic string
  | Errorf string "int list"
  | Wrapf string "int list" go_error

type_synonym 'a result = "go_error + 'a"

fun errors_is :: "go_error \<Rightarrow> go_error \<Rightarrow> bool" where
  "errors_is (Wrapf msg args e) t \<longleftrightarrow> Wrapf msg args e = t \<or> errors_is e t"
| "errors_is e t \<longleftrightarrow> e = t"

text \<open>Sequencing of two fallible computations: the second runs on success only.\<close>

definition res_bind :: "'a result \<Rightarrow> ('a \<Rightarrow> 'b result) \<Rightarrow> 'b result" where
  "res_bind r f = (case r of Inl e \<Rightarrow> Inl e | Inr x \<Rightarrow> f x)"

lemma res_bind_simps [simp]:
  "res_bind (Inl e) f = Inl e"
  "res_bind (Inr x) f = f x"
  by (simp_all add: res_bind_def)

lemma res_bind_Inr_iff: "res_bind r f = Inr y \<longleftrightarrow> (\<exists>x. r = Inr x \<and> f x = Inr y)"
  by (cases r) simp_all

lemma res_bind_Inl_iff:
  "res_bind r f = Inl e \<longleftrightarrow> r = Inl e \<or> (\<exists>x. r = Inr x \<and> f x = Inl e)"
  by (cases r) simp_all

text \<open>A sequence of state-changing calls on one receiver, in program order.\<close>

fun chain :: "('s \<Rightarrow> 's) list \<Rightarrow> 's \<Rightarrow> 's" where
  "chain [] s = s"
| "chain (w # ws) s = chain ws (w s)"

section \<open>Collections of lemmas\<close>

named_theorems codec_law \<open>a read succeeds with a value exactly when its encoding is next\<close>
named_theorems wire_size \<open>lengths of encodings\<close>
named_theorems frame_law \<open>what an operation leaves unchanged\<close>

section \<open>Little-endian words\<close>

fun le_word :: "byte list \<Rightarrow> 'a::len word" where
  "le_word [] = 0"
| "le_word (b # bs) = ucast b OR push_bit 8 (le_word bs)"

definition le_bytes :: "nat \<Rightarrow> 'a::len word \<Rightarrow> byte list" where
  "le_bytes k w = map (\<lambda>i. ucast (drop_bit (8 * i) w)) [0..<k]"

lemma length_le_bytes [simp]: "length (le_bytes k w) = k"
  by (simp add: le_bytes_def)

lemma bit_le_word:
  "bit (le_word bs :: 'a::len word) n \<longleftrightarrow>
     n < LENGTH('a) \<and> n div 8 < length bs \<and> bit (bs ! (n div 8)) (n mod 8)"
proof (induction bs arbitrary: n)
  case Nil
  then show ?case by simp
next
  case (Cons b bs)
  show ?case
  proof (cases "n < 8")
    case True
    then show ?thesis by (auto simp: bit_simps)
  next
    case False
    then obtain m where m: "n = m + 8"
      by (metis add.commute le_Suc_ex not_less)
    then have "n div 8 = Suc (m div 8)" and "n mod 8 = m mod 8" by simp_all
    with m show ?thesis
      by (auto simp: bit_simps Cons.IH dest: bit_imp_le_length)
  qed
qed

lemma le_word_le_bytes:
  assumes "LENGTH('a) = 8 * k"
  shows "le_word (le_bytes k w) = (w :: 'a::len word)"
proof (rule bit_word_eqI)
  fix n assume n: "n < LENGTH('a)"
  then have "n div 8 < k" using assms by auto
  with n show "bit (le_word (le_bytes k w) :: 'a word) n = bit w n"
    by (auto simp: bit_le_word le_bytes_def bit_simps)
qed

lemma le_bytes_le_word:
  assumes "LENGTH('a) = 8 * length bs"
  shows "le_bytes (length bs) (le_word bs :: 'a::len word) = bs"
proof (rule nth_equalityI)
  show "length (le_bytes (length bs) (le_word bs :: 'a word)) = length bs" by simp
next
  fix i assume "i < length (le_bytes (length bs) (le_word bs :: 'a word))"
  then have i: "i < length bs" by simp
  show "le_bytes (length bs) (le_word bs :: 'a word) ! i = bs ! i"
  proof (rule bit_word_eqI)
    fix n assume "n < LENGTH(8)"
    then show "bit (le_bytes (length bs) (le_word bs :: 'a word) ! i) n = bit (bs ! i) n"
      using i assms by (auto simp: le_bytes_def bit_le_word bit_simps)
  qed
qed

lemma le_word_eq_iff:
  assumes "LENGTH('a) = 8 * length bs"
  shows "(le_word bs :: 'a::len word) = w \<longleftrightarrow> bs = le_bytes (length bs) w"
  using assms le_word_le_bytes le_bytes_le_word by metis

section \<open>Lists\<close>

lemma take_length_append_iff: "take (length xs) zs = xs \<longleftrightarrow> (\<exists>ys. zs = xs @ ys)"
  by (metis append_eq_conv_conj append_take_drop_id)

lemma sum_list_map_const [simp]: "(\<And>x. x \<in> set xs \<Longrightarrow> f x = c) \<Longrightarrow> sum_list (map f xs) = length xs * (c::nat)"
  by (induction xs) auto

lemma length_concat_const: "(\<And>x. x \<in> set xs \<Longrightarrow> length x = c) \<Longrightarrow> length (concat xs) = length xs * c"
  by (simp add: length_concat)

lemma list4_of_length: "length xs = 4 \<Longrightarrow> \<exists>a b c d. xs = [a, b, c, d]"
  by (auto simp: numeral_eq_Suc length_Suc_conv)

lemma take_Suc_nth_drop: "i < length xs \<Longrightarrow> drop i xs = xs ! i # drop (Suc i) xs"
  by (rule Cons_nth_drop_Suc [symmetric])

section \<open>Bitwise operations as arithmetic\<close>

lemma nat_or_push_bit:
  fixes a c :: nat
  assumes "a < 2 ^ k"
  shows "a OR push_bit k c = a + 2 ^ k * c"
proof -
  have "a = take_bit k a" using assms by (simp add: take_bit_nat_eq_self)
  then have "a AND push_bit k c = 0"
    by (metis (no_types, opaque_lifting) bit_0_eq bit_and_iff bit_eqI bit_push_bit_iff bit_take_bit_iff bot_apply bot_bool_def linorder_not_less)
  then show ?thesis
    by (simp add: push_bit_eq_mult mult.commute disjunctive_add_eq_or)
qed

lemma nat_or_128:
  fixes x :: nat
  assumes "x < 256"
  shows "x OR 128 = 128 + x mod 128"
proof -
  have "x = x mod 128 OR push_bit 7 (x div 128)"
    using nat_or_push_bit [of "x mod 128" 7 "x div 128"] by simp
  then have "x OR 128 = x mod 128 OR push_bit 7 (x div 128 OR 1)"
    by (simp add: push_bit_or) (metis or.assoc)
  moreover have "x div 128 = 0 \<or> x div 128 = 1" using assms by auto
  ultimately show ?thesis
    using nat_or_push_bit [of "x mod 128" 7 1] by auto
qed

lemma unat_or_0x80: "unat (b OR 0x80 :: byte) = 128 + unat b mod 128"
  using nat_or_128 [of "unat b"] unsigned_less [of b] by (simp add: unsigned_or_eq)

lemma unat_and_0x7f: "unat (b AND 0x7f :: byte) = unat b mod 128"
proof -
  have "b AND 0x7f = take_bit 7 b" by (simp add: take_bit_eq_mask mask_eq_exp_minus_1)
  then show ?thesis by (simp add: unsigned_take_bit_eq take_bit_eq_mod [where ?'a = nat])
qed

lemma unat_u16_drop_bit: "unat (drop_bit k v) = unat (v :: u16) div 2 ^ k"
  using unsigned_less [where ?'a = nat, of v]
  by (simp add: unsigned_drop_bit_eq drop_bit_eq_div [where ?'a = nat] take_bit_nat_eq_self)

lemma unat_byte_drop: "unat (ucast (drop_bit k v) :: byte) = unat (v :: u16) div 2 ^ k mod 256"
  by (simp only: unsigned_ucast_eq take_bit_eq_mod unat_u16_drop_bit) simp

lemma unat_byte: "unat (ucast v :: byte) = unat (v :: u16) mod 256"
  by (simp add: unsigned_ucast_eq take_bit_eq_mod)

lemma unat_u16_or_shift:
  fixes a :: u16
  assumes "unat a < 2 ^ k" and "unat b * 2 ^ k < 2 ^ 16"
  shows "unat (a OR push_bit k (ucast (b :: byte))) = unat a + 2 ^ k * unat b"
proof -
  have "unat (push_bit k (ucast b :: u16)) = push_bit k (unat b)"
    using assms(2) unsigned_less [where ?'a = nat, of b]
    by (simp add: unsigned_push_bit_eq unsigned_ucast_eq push_bit_eq_mult [where ?'a = nat] take_bit_nat_eq_self)
  with assms(1) show ?thesis by (simp add: unsigned_or_eq nat_or_push_bit)
qed

lemma unat_u16_of_byte: "unat (ucast (b :: byte) :: u16) = unat b"
  using unsigned_less [where ?'a = nat, of b]
  by (simp add: unsigned_ucast_eq take_bit_nat_eq_self)

lemma split128: "u = c + 128 * k \<Longrightarrow> c < 128 \<Longrightarrow> u mod 128 = c \<and> u div 128 = (k::nat)"
  by simp

lemma byte_high:
  assumes "\<not> b < (0x80 :: byte)"
  obtains c where "unat b = 128 + c" and "c < 128"
proof
  show "unat b = 128 + (unat b - 128)" using assms by (simp add: word_less_nat_alt)
  show "unat b - 128 < 128" using unsigned_less [where ?'a = nat, of b] by simp
qed

section \<open>Counts and bytes\<close>

text \<open>A count that fits its word is determined by it.\<close>

lemma length_eq_unat:
  "length xs = unat (w :: u16) \<longleftrightarrow> length xs \<le> 0xFFFF \<and> w = of_nat (length xs)"
  "length ys = unat (b :: u8) \<longleftrightarrow> length ys \<le> 255 \<and> b = of_nat (length ys)"
  using unsigned_less [where ?'a = nat, of w] unsigned_less [where ?'a = nat, of b]
  by (auto simp: unat_of_nat)

lemma length_eq_uint:
  "int (length xs) = uint (w :: u16) \<longleftrightarrow> length xs \<le> 0xFFFF \<and> w = of_nat (length xs)"
  "int (length ys) = uint (b :: u8) \<longleftrightarrow> length ys \<le> 255 \<and> b = of_nat (length ys)"
  unfolding uint_nat of_nat_eq_iff by (rule length_eq_unat)+

lemmas count_laws = length_eq_unat length_eq_uint

lemma byte_enum: "list_all P (map of_nat [0..<256]) \<Longrightarrow> P (b :: byte)"
  using unsigned_less [where ?'a = nat, of b]
  by (auto simp: list_all_iff simp del: upt_rec_numeral dest: bspec [where x = "unat b"])

end
