(* ===== verification/Shortvec.thy ===== *)
theory Shortvec
  imports Prelude
begin

text \<open>
  Solana's compact-u16 length prefix (\<open>EncodeShortvec\<close> and \<open>DecodeShortvec\<close> of
  \<open>encoding/bincode.go\<close>).  \<open>shortvec v\<close> is the minimal encoding of \<open>v\<close> as a byte
  list; the encoder writes exactly it, and the decoder accepts exactly it.
\<close>

section \<open>Compact-u16 (shortvec)\<close>

text \<open>
  \<open>EncodeShortvec(b, v)\<close> stores into the caller's slice and returns the byte count.
  An index past the slice panics: \<open>None\<close>.
\<close>

definition slice_set :: "nat \<Rightarrow> byte \<Rightarrow> bytes \<Rightarrow> bytes option" where
  "slice_set i x b = (if i < length b then Some (b[i := x]) else None)"

definition EncodeShortvec :: "bytes \<Rightarrow> u16 \<Rightarrow> (bytes \<times> nat) option" where
  "EncodeShortvec b v =
     (if v < 0x80 then
        map_option (\<lambda>b. (b, 1)) (slice_set 0 (ucast v) b)
      else if v < 0x4000 then
        map_option (\<lambda>b. (b, 2))
          (Option.bind (slice_set 0 (ucast v OR 0x80) b) (slice_set 1 (ucast (drop_bit 7 v))))
      else
        map_option (\<lambda>b. (b, 3))
          (Option.bind (slice_set 0 (ucast v OR 0x80) b) (\<lambda>b.
           Option.bind (slice_set 1 (ucast (drop_bit 7 v) OR 0x80) b)
             (slice_set 2 (ucast (drop_bit 14 v))))))"

definition DecodeShortvec :: "bytes \<Rightarrow> (u16 \<times> nat) result" where
  "DecodeShortvec b =
     (if length b = 0 then Inl ErrShortBuffer
      else let b0 = b ! 0 in
        if b0 < 0x80 then Inr (ucast b0, 1)
        else if length b < 2 then Inl ErrShortBuffer
        else let b1 = b ! 1; v = (ucast (b0 AND 0x7f) OR push_bit 7 (ucast (b1 AND 0x7f)) :: u16) in
          if b1 < 0x80 then
            (if b1 = 0 then Inl ErrInvalidShortvec else Inr (v, 2))
          else if length b < 3 then Inl ErrShortBuffer
          else let b2 = b ! 2 in
            if b2 = 0 \<or> b2 > 0x03 then Inl ErrInvalidShortvec
            else Inr (v OR push_bit 14 (ucast b2), 3))"

text \<open>The canonical encoding, as a value.\<close>

definition shortvec :: "u16 \<Rightarrow> bytes" where
  "shortvec v =
     (if v < 0x80 then [ucast v]
      else if v < 0x4000 then [ucast v OR 0x80, ucast (drop_bit 7 v)]
      else [ucast v OR 0x80, ucast (drop_bit 7 v) OR 0x80, ucast (drop_bit 14 v)])"

section \<open>The encoder writes the canonical encoding\<close>

lemma EncodeShortvec_shortvec:
  assumes "3 \<le> length b"
  shows "EncodeShortvec b v = Some (shortvec v @ drop (length (shortvec v)) b, length (shortvec v))"
proof -
  from assms obtain x y z r where "b = x # y # z # r"
    by (auto simp: numeral_eq_Suc Suc_le_length_iff)
  then show ?thesis
    by (simp add: EncodeShortvec_def shortvec_def slice_set_def numeral_2_eq_2)
qed

lemma length_shortvec:
  "length (shortvec v) = (if unat v < 128 then 1 else if unat v < 16384 then 2 else 3)"
  by (simp add: shortvec_def word_less_nat_alt)

lemma shortvec_ne [simp]: "shortvec v \<noteq> []"
  by (simp add: shortvec_def)

section \<open>The decoder accepts exactly the canonical encoding\<close>

lemma shortvec_unat:
  "map unat (shortvec v) =
     (if unat v < 128 then [unat v]
      else if unat v < 16384 then [128 + unat v mod 128, unat v div 128]
      else [128 + unat v mod 128, 128 + unat v div 128 mod 128, unat v div 16384])"
proof -
  have m: "x mod 256 mod 128 = x mod (128::nat)" for x by (simp add: mod_mod_cancel)
  have lt: "unat v < 65536" using unsigned_less [where ?'a = nat, of v] by simp
  consider "unat v < 128" | "128 \<le> unat v" "unat v < 16384" | "16384 \<le> unat v" by linarith
  then show ?thesis
  proof cases
    case 1
    then show ?thesis by (simp add: shortvec_def word_less_nat_alt unat_byte)
  next
    case 2
    then have "unat v div 128 < 256" by linarith
    with 2 show ?thesis
      by (simp add: shortvec_def word_less_nat_alt unat_byte unat_or_0x80 unat_byte_drop unat_u16_drop_bit m)
  next
    case 3
    from lt have "unat v div 16384 < 256" by linarith
    with 3 show ?thesis
      by (simp add: shortvec_def word_less_nat_alt unat_byte unat_or_0x80 unat_byte_drop unat_u16_drop_bit m)
  qed
qed

lemma shortvec_group2:
  fixes b0 b1 :: byte
  shows "unat (ucast (b0 AND 0x7f) OR push_bit 7 (ucast (b1 AND 0x7f)) :: u16) =
     unat b0 mod 128 + 128 * (unat b1 mod 128)"
proof -
  have "unat (ucast (b0 AND 0x7f) :: u16) = unat b0 mod 128"
    by (simp only: unat_u16_of_byte unat_and_0x7f)
  moreover have "unat b1 mod 128 * 128 < 65536" using mod_less_divisor [of 128 "unat b1"] by linarith
  ultimately show ?thesis
    using unat_u16_or_shift [of "ucast (b0 AND 0x7f)" 7 "b1 AND 0x7f"] by (simp add: unat_and_0x7f)
qed

lemma shortvec_group3:
  fixes b0 b1 b2 :: byte
  assumes "b2 \<le> 3"
  shows "unat ((ucast (b0 AND 0x7f) OR push_bit 7 (ucast (b1 AND 0x7f))) OR push_bit 14 (ucast b2) :: u16) =
     unat b0 mod 128 + 128 * (unat b1 mod 128) + 16384 * unat b2"
proof -
  have "unat b2 \<le> 3" using assms by (simp add: word_le_nat_alt)
  moreover have "unat b0 mod 128 + 128 * (unat b1 mod 128) < 2 ^ 14"
    using mod_less_divisor [of 128 "unat b1"] mod_less_divisor [of 128 "unat b0"] by simp
  ultimately show ?thesis
    using unat_u16_or_shift [of "ucast (b0 AND 0x7f) OR push_bit 7 (ucast (b1 AND 0x7f))" 14 b2]
    by (simp add: shortvec_group2)
qed

lemma DecodeShortvec_shortvec: "DecodeShortvec (shortvec v @ rest) = Inr (v, length (shortvec v))"
proof -
  have lt: "unat v < 65536" using unsigned_less [where ?'a = nat, of v] by simp
  consider "unat v < 128" | "128 \<le> unat v" "unat v < 16384" | "16384 \<le> unat v" by linarith
  then show ?thesis
  proof cases
    case 1
    then obtain b0 where "shortvec v = [b0]" "unat b0 = unat v"
      using shortvec_unat [of v] by (auto simp: map_eq_Cons_conv)
    with 1 show ?thesis
      by (simp add: DecodeShortvec_def word_less_nat_alt word_unat_eq_iff unsigned_ucast_eq take_bit_nat_eq_self)
  next
    case 2
    then obtain b0 b1 where sv: "shortvec v = [b0, b1]" "unat b0 = 128 + unat v mod 128" "unat b1 = unat v div 128"
      using shortvec_unat [of v] by (auto simp: map_eq_Cons_conv)
    from 2 have "unat v div 128 < 128" "unat v div 128 \<noteq> 0" by linarith+
    with sv have "\<not> b0 < 0x80" "b1 < 0x80" "b1 \<noteq> 0"
      by (simp_all add: word_less_nat_alt word_unat_eq_iff)
    moreover have "(ucast (b0 AND 0x7f) OR push_bit 7 (ucast (b1 AND 0x7f)) :: u16) = v"
      unfolding word_unat_eq_iff shortvec_group2 using sv \<open>unat v div 128 < 128\<close> by simp
    ultimately show ?thesis by (simp add: DecodeShortvec_def sv)
  next
    case 3
    then obtain b0 b1 b2 where sv: "shortvec v = [b0, b1, b2]" "unat b0 = 128 + unat v mod 128"
        "unat b1 = 128 + unat v div 128 mod 128" "unat b2 = unat v div 16384"
      using shortvec_unat [of v] by (auto simp: map_eq_Cons_conv)
    from 3 lt have b2: "unat b2 \<noteq> 0" "unat b2 \<le> 3" unfolding sv by linarith+
    with sv have c: "\<not> b0 < 0x80" "\<not> b1 < 0x80" "b2 \<noteq> 0" "\<not> b2 > 3" "b2 \<le> 3"
      by (simp_all add: word_less_nat_alt word_le_nat_alt word_unat_eq_iff)
    have "unat v div 128 = unat v div 128 mod 128 + 128 * (unat v div 16384)"
      using mod_mult_div_eq [of "unat v div 128" 128] by (simp add: div_mult2_eq [symmetric])
    moreover have "unat v = unat v mod 128 + 128 * (unat v div 128)" by simp
    ultimately have "unat v = unat v mod 128 + 128 * (unat v div 128 mod 128) + 16384 * (unat v div 16384)"
      by linarith
    then have "((ucast (b0 AND 0x7f) OR push_bit 7 (ucast (b1 AND 0x7f))) OR push_bit 14 (ucast b2) :: u16) = v"
      unfolding word_unat_eq_iff shortvec_group3 [OF c(5)] using sv by simp
    with c show ?thesis by (simp add: DecodeShortvec_def sv)
  qed
qed


lemma DecodeShortvec_bytes:
  assumes "DecodeShortvec b = Inr (v, n)"
  shows "n \<le> length b \<and> map unat (shortvec v) = map unat (take n b)"
proof (cases b)
  case Nil
  with assms show ?thesis by (simp add: DecodeShortvec_def)
next
  case (Cons b0 r)
  show ?thesis
  proof (cases "b0 < 0x80")
    case True
    with assms Cons have "v = ucast b0" "n = 1" by (auto simp: DecodeShortvec_def)
    with True Cons show ?thesis by (simp add: shortvec_unat word_less_nat_alt unat_u16_of_byte)
  next
    case b0: False
    then obtain b1 r1 where r: "r = b1 # r1" using assms Cons
      by (cases r) (auto simp: DecodeShortvec_def)
    show ?thesis
    proof (cases "b1 < 0x80")
      case True
      with assms Cons r b0 have v: "v = ucast (b0 AND 0x7f) OR push_bit 7 (ucast (b1 AND 0x7f))" "n = 2" "b1 \<noteq> 0"
        by (auto simp: DecodeShortvec_def split: if_splits)
      with True have "0 < unat b1" "unat b1 < 128" by (simp_all add: word_less_nat_alt unat_gt_0)
      moreover obtain c where "unat b0 = 128 + c" "c < 128" by (rule byte_high [OF b0])
      ultimately show ?thesis
        using Cons r v by (simp add: shortvec_unat shortvec_group2)
    next
      case b1: False
      then obtain b2 r2 where r1: "r1 = b2 # r2" using assms Cons r b0
        by (cases r1) (auto simp: DecodeShortvec_def split: if_splits)
      with assms Cons r b0 b1 have v: "v = (ucast (b0 AND 0x7f) OR push_bit 7 (ucast (b1 AND 0x7f))) OR push_bit 14 (ucast b2)"
        "n = 3" "b2 \<noteq> 0" "b2 \<le> 3"
        by (auto simp: DecodeShortvec_def Let_def split: if_splits)
      then have "0 < unat b2" by (simp add: unat_gt_0)
      moreover obtain c0 where c0: "unat b0 = 128 + c0" "c0 < 128" by (rule byte_high [OF b0])
      moreover obtain c1 where c1: "unat b1 = 128 + c1" "c1 < 128" by (rule byte_high [OF b1])
      moreover from shortvec_group3 [OF v(4), of b0 b1] c0 c1
      have uv: "unat v = c0 + 128 * (c1 + 128 * unat b2)" by (simp add: v(1))
      then have "unat v mod 128 = c0" and d: "unat v div 128 = c1 + 128 * unat b2"
        using split128 c0(2) by blast+
      moreover have "unat v div 16384 = unat b2"
        using d c1(2) div_mult2_eq [of "unat v" 128 128] by simp
      moreover have "\<not> unat v < 16384" using uv \<open>0 < unat b2\<close> by simp
      ultimately show ?thesis using Cons r r1 v(2) by (simp add: shortvec_unat)
    qed
  qed
qed

lemma DecodeShortvec_law:
  "DecodeShortvec b = Inr (v, n) \<longleftrightarrow> (\<exists>rest. b = shortvec v @ rest) \<and> n = length (shortvec v)"
proof
  assume dec: "DecodeShortvec b = Inr (v, n)"
  then have "n \<le> length b" and eq: "map unat (shortvec v) = map unat (take n b)"
    using DecodeShortvec_bytes by blast+
  from eq have "shortvec v = take n b"
    by (rule inj_map_eq_map [THEN iffD1, rotated]) (simp add: inj_def word_unat_eq_iff)
  with \<open>n \<le> length b\<close> show "(\<exists>rest. b = shortvec v @ rest) \<and> n = length (shortvec v)"
    by (metis append_take_drop_id length_take min.absorb2)
qed (auto simp: DecodeShortvec_shortvec)


end
