(* ===== verification/Bincode.thy ===== *)
theory Bincode
  imports Shortvec
begin

text \<open>
  The wire primitives of package \<open>encoding\<close> (\<open>bincode.go\<close>, \<open>builder.go\<close>):
  the append-only \<open>Encoder\<close>, the cursor-based \<open>Decoder\<close>, and the compact-u16
  (shortvec) length prefix.  The locale \<open>wire_codec\<close> is the contract between a
  reader and the bytes it accepts; every fixed-width read and the shortvec read are
  interpretations of it, and the message formats compose them.
\<close>

section \<open>Encoder\<close>

record encoder =
  e_buf :: bytes

definition NewEncoder :: "nat \<Rightarrow> encoder" where
  "NewEncoder capacity = \<lparr>e_buf = []\<rparr>"

definition New :: encoder where
  "New = NewEncoder 128"

definition enc_Bytes :: "encoder \<Rightarrow> bytes" where
  "enc_Bytes e = e_buf e"

definition enc_Len :: "encoder \<Rightarrow> nat" where
  "enc_Len e = length (e_buf e)"

definition WriteUint8 :: "u8 \<Rightarrow> encoder \<Rightarrow> encoder" where
  "WriteUint8 v e = e\<lparr>e_buf := e_buf e @ [v]\<rparr>"

definition WriteUint16 :: "u16 \<Rightarrow> encoder \<Rightarrow> encoder" where
  "WriteUint16 v e = e\<lparr>e_buf := e_buf e @ [ucast v, ucast (drop_bit 8 v)]\<rparr>"

definition WriteUint32 :: "u32 \<Rightarrow> encoder \<Rightarrow> encoder" where
  "WriteUint32 v e = e\<lparr>e_buf := e_buf e @
     [ucast v, ucast (drop_bit 8 v), ucast (drop_bit 16 v), ucast (drop_bit 24 v)]\<rparr>"

definition WriteUint64 :: "u64 \<Rightarrow> encoder \<Rightarrow> encoder" where
  "WriteUint64 v e = e\<lparr>e_buf := e_buf e @
     [ucast v, ucast (drop_bit 8 v), ucast (drop_bit 16 v), ucast (drop_bit 24 v),
      ucast (drop_bit 32 v), ucast (drop_bit 40 v), ucast (drop_bit 48 v), ucast (drop_bit 56 v)]\<rparr>"

definition WriteInt8 :: "int \<Rightarrow> encoder \<Rightarrow> encoder" where
  "WriteInt8 v = WriteUint8 (word_of_int v)"

definition WriteInt16 :: "int \<Rightarrow> encoder \<Rightarrow> encoder" where
  "WriteInt16 v = WriteUint16 (word_of_int v)"

definition WriteInt32 :: "int \<Rightarrow> encoder \<Rightarrow> encoder" where
  "WriteInt32 v = WriteUint32 (word_of_int v)"

definition WriteInt64 :: "int \<Rightarrow> encoder \<Rightarrow> encoder" where
  "WriteInt64 v = WriteUint64 (word_of_int v)"

definition WriteBytes :: "bytes \<Rightarrow> encoder \<Rightarrow> encoder" where
  "WriteBytes b e = e\<lparr>e_buf := e_buf e @ b\<rparr>"

definition WriteShortvec :: "u16 \<Rightarrow> encoder \<Rightarrow> encoder" where
  "WriteShortvec v e =
     (case EncodeShortvec [0, 0, 0] v of
        Some (tmp, n) \<Rightarrow> e\<lparr>e_buf := e_buf e @ take n tmp\<rparr>
      | None \<Rightarrow> e)"

section \<open>Decoder\<close>

record decoder =
  d_buf :: bytes
  d_pos :: nat
  d_borsh :: bool

type_synonym 'a decm = "decoder \<Rightarrow> 'a result \<times> decoder"

definition NewDecoder :: "bytes \<Rightarrow> decoder" where
  "NewDecoder b = \<lparr>d_buf = b, d_pos = 0, d_borsh = False\<rparr>"

definition dec_Pos :: "decoder \<Rightarrow> nat" where
  "dec_Pos d = d_pos d"

definition Remaining :: "decoder \<Rightarrow> int" where
  "Remaining d = int (length (d_buf d)) - int (d_pos d)"

definition ReadUint8 :: "u8 decm" where
  "ReadUint8 d =
     (if Remaining d < 1 then (Inl ErrShortBuffer, d)
      else (Inr (d_buf d ! d_pos d), d\<lparr>d_pos := d_pos d + 1\<rparr>))"

definition PeekUint8 :: "u8 decm" where
  "PeekUint8 d =
     (if Remaining d < 1 then (Inl ErrShortBuffer, d) else (Inr (d_buf d ! d_pos d), d))"

definition ReadUint16 :: "u16 decm" where
  "ReadUint16 d =
     (if Remaining d < 2 then (Inl ErrShortBuffer, d)
      else let b = drop (d_pos d) (d_buf d);
               v = ucast (b ! 0) OR push_bit 8 (ucast (b ! 1))
           in (Inr v, d\<lparr>d_pos := d_pos d + 2\<rparr>))"

definition ReadUint32 :: "u32 decm" where
  "ReadUint32 d =
     (if Remaining d < 4 then (Inl ErrShortBuffer, d)
      else let b = drop (d_pos d) (d_buf d);
               v = ucast (b ! 0) OR push_bit 8 (ucast (b ! 1)) OR
                   push_bit 16 (ucast (b ! 2)) OR push_bit 24 (ucast (b ! 3))
           in (Inr v, d\<lparr>d_pos := d_pos d + 4\<rparr>))"

definition ReadUint64 :: "u64 decm" where
  "ReadUint64 d =
     (if Remaining d < 8 then (Inl ErrShortBuffer, d)
      else let b = drop (d_pos d) (d_buf d);
               v = ucast (b ! 0) OR push_bit 8 (ucast (b ! 1)) OR
                   push_bit 16 (ucast (b ! 2)) OR push_bit 24 (ucast (b ! 3)) OR
                   push_bit 32 (ucast (b ! 4)) OR push_bit 40 (ucast (b ! 5)) OR
                   push_bit 48 (ucast (b ! 6)) OR push_bit 56 (ucast (b ! 7))
           in (Inr v, d\<lparr>d_pos := d_pos d + 8\<rparr>))"

definition ReadBytes :: "int \<Rightarrow> bytes decm" where
  "ReadBytes n d =
     (if n < 0 then (Inl ErrShortBuffer, d)
      else if Remaining d < n then (Inl ErrShortBuffer, d)
      else (Inr (take (nat n) (drop (d_pos d) (d_buf d))), d\<lparr>d_pos := d_pos d + nat n\<rparr>))"

definition ReadShortvec :: "u16 decm" where
  "ReadShortvec d =
     (case DecodeShortvec (drop (d_pos d) (d_buf d)) of
        Inl e \<Rightarrow> (Inl e, d)
      | Inr (v, n) \<Rightarrow> (Inr v, d\<lparr>d_pos := d_pos d + n\<rparr>))"

text \<open>
  Sequencing of reads.  A failed read ends the sequence with the cursor where the
  failing read left it, as the early \<open>return\<close>s of the Go decoders do.
\<close>

definition rbind :: "'a decm \<Rightarrow> ('a \<Rightarrow> 'b decm) \<Rightarrow> 'b decm" where
  "rbind m f d = (case m d of (Inl e, d') \<Rightarrow> (Inl e, d') | (Inr x, d') \<Rightarrow> f x d')"

definition rreturn :: "'a \<Rightarrow> 'a decm" where
  "rreturn x d = (Inr x, d)"

definition rfail :: "go_error \<Rightarrow> 'a decm" where
  "rfail e d = (Inl e, d)"

text \<open>\<open>fmt.Errorf("msg: %w", err)\<close> around a read.\<close>

definition wrapr :: "string \<Rightarrow> int list \<Rightarrow> 'a decm \<Rightarrow> 'a decm" where
  "wrapr msg args m d = (case m d of (Inl e, d') \<Rightarrow> (Inl (Wrapf msg args e), d') | (Inr x, d') \<Rightarrow> (Inr x, d'))"

text \<open>
  A counted loop \<open>for i := 0; i < n; i++\<close> whose body reads one element; the index
  is passed for the error messages.
\<close>

fun read_loop :: "(nat \<Rightarrow> 'a decm) \<Rightarrow> nat \<Rightarrow> nat \<Rightarrow> 'a list decm" where
  "read_loop f i 0 = rreturn []"
| "read_loop f i (Suc n) = rbind (f i) (\<lambda>x. rbind (read_loop f (Suc i) n) (\<lambda>xs. rreturn (x # xs)))"

definition map_decm :: "('a \<Rightarrow> 'b) \<Rightarrow> 'a decm \<Rightarrow> 'b decm" where
  "map_decm f m = rbind m (\<lambda>x. rreturn (f x))"

definition ReadInt8 :: "int decm" where
  "ReadInt8 = map_decm sint ReadUint8"

definition ReadInt16 :: "int decm" where
  "ReadInt16 = map_decm sint ReadUint16"

definition ReadInt32 :: "int decm" where
  "ReadInt32 = map_decm sint ReadUint32"

definition ReadInt64 :: "int decm" where
  "ReadInt64 = map_decm sint ReadUint64"

section \<open>The cursor relation\<close>

text \<open>
  \<open>reads d xs d'\<close>: the bytes \<open>xs\<close> stand at the cursor of \<open>d\<close>, and \<open>d'\<close> is \<open>d\<close>
  with the cursor behind them.  It is the abstract view of a successful read.
\<close>

definition reads :: "decoder \<Rightarrow> bytes \<Rightarrow> decoder \<Rightarrow> bool" where
  "reads d xs d' \<longleftrightarrow>
     d_pos d + length xs \<le> length (d_buf d) \<and>
     take (length xs) (drop (d_pos d) (d_buf d)) = xs \<and>
     d' = d\<lparr>d_pos := d_pos d + length xs\<rparr>"

definition wf_decoder :: "decoder \<Rightarrow> bool" where
  "wf_decoder d \<longleftrightarrow> d_pos d \<le> length (d_buf d)"

lemma reads_append [codec_law]:
  "reads d (xs @ ys) d2 \<longleftrightarrow> (\<exists>d1. reads d xs d1 \<and> reads d1 ys d2)"
  by (auto simp: reads_def take_add add_ac)

lemma reads_Nil [simp]: "reads d [] d' \<longleftrightarrow> wf_decoder d \<and> d' = d"
  by (auto simp: reads_def wf_decoder_def)

lemma reads_wf [simp]: "reads d xs d' \<Longrightarrow> wf_decoder d'"
  by (auto simp: reads_def wf_decoder_def)

lemma reads_wf_start: "reads d xs d' \<Longrightarrow> wf_decoder d"
  by (auto simp: reads_def wf_decoder_def)

lemma reads_det: "reads d xs d1 \<Longrightarrow> reads d xs d2 \<Longrightarrow> d1 = d2"
  by (simp add: reads_def)

lemma reads_frame [frame_law]:
  "reads d xs d' \<Longrightarrow> d_buf d' = d_buf d \<and> d_borsh d' = d_borsh d \<and> d_pos d' = d_pos d + length xs"
  by (simp add: reads_def)

lemma reads_NewDecoder:
  "reads (NewDecoder bs) xs d' \<longleftrightarrow>
     (\<exists>rest. bs = xs @ rest) \<and> d' = (NewDecoder bs)\<lparr>d_pos := length xs\<rparr>"
  by (auto simp: reads_def NewDecoder_def take_length_append_iff)

lemma Remaining_reads_NewDecoder:
  assumes "reads (NewDecoder bs) xs d'"
  shows "Remaining d' = 0 \<longleftrightarrow> bs = xs"
proof -
  from assms obtain rest where "bs = xs @ rest" and "d' = (NewDecoder bs)\<lparr>d_pos := length xs\<rparr>"
    by (auto simp: reads_NewDecoder)
  then show ?thesis by (simp add: Remaining_def NewDecoder_def)
qed

lemma wf_NewDecoder [simp]: "wf_decoder (NewDecoder b)"
  by (simp add: wf_decoder_def NewDecoder_def)

section \<open>Laws of the read monad\<close>

lemma rbind_Inr [codec_law]:
  "rbind m f d = (Inr y, d') \<longleftrightarrow> (\<exists>x d1. m d = (Inr x, d1) \<and> f x d1 = (Inr y, d'))"
  by (auto simp: rbind_def split: prod.splits sum.splits)

lemma rreturn_Inr [codec_law]: "rreturn x d = (Inr y, d') \<longleftrightarrow> y = x \<and> d' = d"
  by (auto simp: rreturn_def)

lemma rfail_Inr [codec_law]: "rfail e d = (Inr y, d') \<longleftrightarrow> False"
  by (auto simp: rfail_def)

lemma wrapr_Inr [codec_law]: "wrapr msg args m d = (Inr y, d') \<longleftrightarrow> m d = (Inr y, d')"
  by (auto simp: wrapr_def split: prod.splits sum.splits)

lemma guard_Inr [codec_law]: "(if c then rfail e else m) d = (Inr y, d') \<longleftrightarrow> \<not> c \<and> m d = (Inr y, d')"
  by (simp add: rfail_def)

lemma map_decm_Inr [codec_law]:
  "map_decm f m d = (Inr y, d') \<longleftrightarrow> (\<exists>x. m d = (Inr x, d') \<and> y = f x)"
  by (auto simp: map_decm_def rbind_Inr rreturn_Inr)

section \<open>Readers and codecs\<close>

text \<open>
  The two contracts of the package.  A \<open>wire_reader\<close> only ever moves the cursor,
  forwards and never past the buffer, whether it succeeds or fails.  A \<open>wire_codec\<close>
  succeeds with a value exactly when the encoding of that value stands at the cursor,
  and consumes exactly that encoding.
\<close>

locale wire_reader =
  fixes dec :: "'a decm"
  assumes frame: "dec d = (r, d') \<Longrightarrow> d_buf d' = d_buf d \<and> d_borsh d' = d_borsh d"
    and bounded: "dec d = (r, d') \<Longrightarrow> wf_decoder d \<Longrightarrow> d_pos d \<le> d_pos d' \<and> wf_decoder d'"

locale wire_codec = wire_reader dec for dec :: "'a decm" +
  fixes enc :: "'a \<Rightarrow> bytes" and valid :: "'a \<Rightarrow> bool"
  assumes law: "dec d = (Inr x, d') \<longleftrightarrow> valid x \<and> reads d (enc x) d'"
begin

lemma roundtrip:
  "valid x \<Longrightarrow> dec (NewDecoder (enc x @ rest)) =
     (Inr x, (NewDecoder (enc x @ rest))\<lparr>d_pos := length (enc x)\<rparr>)"
  by (auto simp: law reads_NewDecoder)

lemma prefix_free:
  assumes "valid x" and "valid y" and "enc x @ xs = enc y @ ys"
  shows "x = y"
proof -
  from assms have "dec (NewDecoder (enc x @ xs)) = (Inr y, (NewDecoder (enc y @ ys))\<lparr>d_pos := length (enc y)\<rparr>)"
    using roundtrip by metis
  with roundtrip [OF assms(1), of xs] show ?thesis by simp
qed

lemma truncated:
  assumes "valid x" and "n < length (enc x)"
  shows "\<exists>e d'. dec (NewDecoder (take n (enc x))) = (Inl e, d')"
proof (rule ccontr)
  assume "\<nexists>e d'. dec (NewDecoder (take n (enc x))) = (Inl e, d')"
  then obtain y d' where "dec (NewDecoder (take n (enc x))) = (Inr y, d')"
    by (metis old.sum.exhaust surj_pair)
  then obtain rest where y: "valid y" and eq: "take n (enc x) = enc y @ rest"
    by (auto simp: law reads_NewDecoder)
  then have "enc x @ [] = enc y @ (rest @ drop n (enc x))"
    by (metis append.assoc append.right_neutral append_take_drop_id)
  with assms(1) y have "x = y" by (rule prefix_free)
  with eq assms(2) have "length (take n (enc x)) = length (enc x) + length rest" by simp
  with assms(2) show False by simp
qed

end

subsection \<open>Closure of readers under sequencing\<close>

lemma wire_reader_return: "wire_reader (rreturn x)"
  by unfold_locales (auto simp: rreturn_def)

lemma wire_reader_fail: "wire_reader (rfail e)"
  by unfold_locales (auto simp: rfail_def)

lemma wire_reader_bind:
  assumes "wire_reader m" and "\<And>x. wire_reader (f x)"
  shows "wire_reader (rbind m f)"
proof
  fix d r d'
  assume *: "rbind m f d = (r, d')"
  then consider (err) e where "m d = (Inl e, d')"
    | (ok) x d1 where "m d = (Inr x, d1)" "f x d1 = (r, d')"
    by (auto simp: rbind_def split: prod.splits sum.splits)
  then show "d_buf d' = d_buf d \<and> d_borsh d' = d_borsh d"
    by cases (use assms wire_reader.frame in metis)+
next
  fix d r d'
  assume *: "rbind m f d = (r, d')" and wf: "wf_decoder d"
  from * consider (err) e where "m d = (Inl e, d')"
    | (ok) x d1 where "m d = (Inr x, d1)" "f x d1 = (r, d')"
    by (auto simp: rbind_def split: prod.splits sum.splits)
  then show "d_pos d \<le> d_pos d' \<and> wf_decoder d'"
    by cases (use assms wf wire_reader.bounded le_trans in metis)+
qed

lemma wire_reader_wrap:
  assumes "wire_reader m"
  shows "wire_reader (wrapr msg args m)"
proof -
  have "\<exists>r'. m d = (r', d')" if "wrapr msg args m d = (r, d')" for d r d'
    using that by (auto simp: wrapr_def split: prod.splits sum.splits)
  with assms show ?thesis
    unfolding wire_reader_def by metis
qed

lemma wire_reader_if: "wire_reader m \<Longrightarrow> wire_reader m' \<Longrightarrow> wire_reader (if c then m else m')"
  by simp

lemma wire_reader_loop:
  assumes "\<And>i. wire_reader (f i)"
  shows "wire_reader (read_loop f i n)"
  by (induction n arbitrary: i)
     (simp_all add: wire_reader_return wire_reader_bind assms)

lemma wire_reader_map: "wire_reader m \<Longrightarrow> wire_reader (map_decm f m)"
  unfolding map_decm_def by (intro wire_reader_bind wire_reader_return)

lemmas reader_intros = wire_reader_return wire_reader_fail wire_reader_bind wire_reader_wrap
  wire_reader_if wire_reader_loop wire_reader_map

text \<open>The counted loop reads the concatenation of its elements' encodings.\<close>

lemma read_loop_law [codec_law]:
  assumes "\<And>i d x d'. f i d = (Inr x, d') \<longleftrightarrow> valid x \<and> reads d (enc x) d'" and "wf_decoder d"
  shows "read_loop f i n d = (Inr xs, d') \<longleftrightarrow>
    length xs = n \<and> (\<forall>x \<in> set xs. valid x) \<and> reads d (concat (map enc xs)) d'"
  using assms(2)
proof (induction n arbitrary: i xs d)
  case 0
  then show ?case by (auto simp: rreturn_def)
next
  case (Suc n)
  have step: "read_loop f (Suc i) n d1 = (Inr ys, d') \<longleftrightarrow>
      length ys = n \<and> (\<forall>x \<in> set ys. valid x) \<and> reads d1 (concat (map enc ys)) d'"
    if "reads d bs d1" for d1 ys bs
    using Suc.IH that by simp
  show ?case
    by (cases xs) (auto simp: rbind_Inr rreturn_Inr assms(1) reads_append step cong: conj_cong)
qed

section \<open>The fixed-width reads are codecs\<close>

lemma e_buf_Write [simp]:
  "e_buf (WriteUint8 v8 e) = e_buf e @ [v8]"
  "e_buf (WriteUint16 v16 e) = e_buf e @ le_bytes 2 v16"
  "e_buf (WriteUint32 v32 e) = e_buf e @ le_bytes 4 v32"
  "e_buf (WriteUint64 v64 e) = e_buf e @ le_bytes 8 v64"
  "e_buf (WriteBytes b e) = e_buf e @ b"
  "e_buf (NewEncoder n) = []"
  by (simp_all add: WriteUint8_def WriteUint16_def WriteUint32_def WriteUint64_def WriteBytes_def
      NewEncoder_def le_bytes_def upt_rec)

lemma reads_take:
  "n \<le> length (d_buf d) - d_pos d \<Longrightarrow> d_pos d \<le> length (d_buf d) \<Longrightarrow>
   reads d xs (d\<lparr>d_pos := d_pos d + n\<rparr>) \<longleftrightarrow> xs = take n (drop (d_pos d) (d_buf d))"
proof
  assume "n \<le> length (d_buf d) - d_pos d" "d_pos d \<le> length (d_buf d)"
    "reads d xs (d\<lparr>d_pos := d_pos d + n\<rparr>)"
  then have "d_pos (d\<lparr>d_pos := d_pos d + n\<rparr>) = d_pos d + length xs"
    using reads_frame by blast
  with \<open>reads d xs _\<close> show "xs = take n (drop (d_pos d) (d_buf d))"
    by (simp add: reads_def)
qed (auto simp: reads_def)

text \<open>
  A read of \<open>n\<close> bytes that is decoded by \<open>un\<close>, a bijection with inverse \<open>en\<close>
  between byte lists of length \<open>n\<close> and values.
\<close>

lemma fixed_read_law:
  assumes bij: "\<And>bs x. length bs = n \<Longrightarrow> un bs = x \<longleftrightarrow> bs = en x"
    and len: "\<And>x. length (en x) = n"
    and dec: "\<And>d. dec d = (if Remaining d < int n then (Inl ErrShortBuffer, d)
        else (Inr (un (take n (drop (d_pos d) (d_buf d)))), d\<lparr>d_pos := d_pos d + n\<rparr>))"
  shows "wire_codec dec en (\<lambda>_. True)"
proof
  fix d x d'
  show "dec d = (Inr x, d') \<longleftrightarrow> True \<and> reads d (en x) d'"
  proof (cases "Remaining d < int n")
    case True
    then have "\<not> reads d (en x) d'" by (auto simp: reads_def Remaining_def len)
    with True show ?thesis by (simp add: dec)
  next
    case False
    then have le: "d_pos d + n \<le> length (d_buf d)" by (auto simp: Remaining_def)
    then have "length (take n (drop (d_pos d) (d_buf d))) = n" by simp
    from bij [OF this, of x] le False show ?thesis
      by (auto simp: dec reads_def len)
  qed
qed (auto simp: dec Remaining_def wf_decoder_def split: if_splits)

lemma le_word_take2:
  assumes "2 \<le> length bs"
  shows "le_word (take 2 bs) = ucast (bs ! 0) OR push_bit 8 (ucast (bs ! 1))"
proof -
  from assms have "\<exists>a b r. bs = a # b # r"
    by (auto simp: numeral_eq_Suc Suc_le_length_iff)
  then show ?thesis by (auto simp: push_bit_or)
qed

lemma le_word_take4:
  assumes "4 \<le> length bs"
  shows "le_word (take 4 bs) = ucast (bs ! 0) OR push_bit 8 (ucast (bs ! 1)) OR
           push_bit 16 (ucast (bs ! 2)) OR push_bit 24 (ucast (bs ! 3))"
proof -
  from assms have "\<exists>a b c d r. bs = a # b # c # d # r"
    by (auto simp: numeral_eq_Suc Suc_le_length_iff)
  then show ?thesis by (auto simp: push_bit_or or.assoc)
qed

lemma le_word_take8:
  assumes "8 \<le> length bs"
  shows "le_word (take 8 bs) = ucast (bs ! 0) OR push_bit 8 (ucast (bs ! 1)) OR
           push_bit 16 (ucast (bs ! 2)) OR push_bit 24 (ucast (bs ! 3)) OR
           push_bit 32 (ucast (bs ! 4)) OR push_bit 40 (ucast (bs ! 5)) OR
           push_bit 48 (ucast (bs ! 6)) OR push_bit 56 (ucast (bs ! 7))"
proof -
  from assms have "\<exists>a b c d e f g h r. bs = a # b # c # d # e # f # g # h # r"
    by (auto simp: numeral_eq_Suc Suc_le_length_iff)
  then show ?thesis by (auto simp: push_bit_or or.assoc)
qed

lemma u8_codec: "wire_codec ReadUint8 (\<lambda>v. [v]) (\<lambda>_. True)"
proof (rule fixed_read_law [where un = hd and n = 1])
  show "ReadUint8 d = (if Remaining d < int 1 then (Inl ErrShortBuffer, d)
      else (Inr (hd (take 1 (drop (d_pos d) (d_buf d)))), d\<lparr>d_pos := d_pos d + 1\<rparr>))" for d
    by (simp add: ReadUint8_def Remaining_def hd_drop_conv_nth)
qed (auto simp: length_Suc_conv)

lemma u16_codec: "wire_codec ReadUint16 (le_bytes 2) (\<lambda>_. True)"
proof (rule fixed_read_law [where un = le_word and n = 2])
  show "ReadUint16 d = (if Remaining d < int 2 then (Inl ErrShortBuffer, d)
      else (Inr (le_word (take 2 (drop (d_pos d) (d_buf d)))), d\<lparr>d_pos := d_pos d + 2\<rparr>))" for d
    by (simp add: ReadUint16_def Remaining_def le_word_take2)
qed (auto simp: le_word_eq_iff)

lemma u32_codec: "wire_codec ReadUint32 (le_bytes 4) (\<lambda>_. True)"
proof (rule fixed_read_law [where un = le_word and n = 4])
  show "ReadUint32 d = (if Remaining d < int 4 then (Inl ErrShortBuffer, d)
      else (Inr (le_word (take 4 (drop (d_pos d) (d_buf d)))), d\<lparr>d_pos := d_pos d + 4\<rparr>))" for d
    by (simp add: ReadUint32_def Remaining_def le_word_take4)
qed (auto simp: le_word_eq_iff)

lemma u64_codec: "wire_codec ReadUint64 (le_bytes 8) (\<lambda>_. True)"
proof (rule fixed_read_law [where un = le_word and n = 8])
  show "ReadUint64 d = (if Remaining d < int 8 then (Inl ErrShortBuffer, d)
      else (Inr (le_word (take 8 (drop (d_pos d) (d_buf d)))), d\<lparr>d_pos := d_pos d + 8\<rparr>))" for d
    by (simp add: ReadUint64_def Remaining_def le_word_take8)
qed (auto simp: le_word_eq_iff)

interpretation u8: wire_codec ReadUint8 "\<lambda>v. [v]" "\<lambda>_. True"
  by (rule u8_codec)

interpretation u16: wire_codec ReadUint16 "le_bytes 2" "\<lambda>_. True"
  by (rule u16_codec)

interpretation u32: wire_codec ReadUint32 "le_bytes 4" "\<lambda>_. True"
  by (rule u32_codec)

interpretation u64: wire_codec ReadUint64 "le_bytes 8" "\<lambda>_. True"
  by (rule u64_codec)

lemma ReadBytes_law: "ReadBytes n d = (Inr x, d') \<longleftrightarrow> int (length x) = n \<and> reads d x d'"
  by (auto simp: ReadBytes_def reads_def Remaining_def)

lemma ReadBytes_reader: "wire_reader (ReadBytes n)"
  by unfold_locales (auto simp: ReadBytes_def Remaining_def wf_decoder_def split: if_splits)

interpretation raw: wire_codec "ReadBytes (int n)" "\<lambda>b. b" "\<lambda>b. length b = n" for n
proof (intro wire_codec.intro wire_codec_axioms.intro ReadBytes_reader)
  show "ReadBytes (int n) d = (Inr x, d') \<longleftrightarrow> length x = n \<and> reads d x d'" for d x d'
    by (simp add: ReadBytes_law)
qed

lemma signed_codec:
  fixes dec :: "'a::len word decm"
  assumes "wire_codec dec en (\<lambda>_. True)"
  shows "wire_codec (map_decm sint dec) (\<lambda>v. en (word_of_int v)) (fits_signed LENGTH('a))"
proof (intro wire_codec.intro wire_codec_axioms.intro wire_reader_map)
  show "wire_reader dec" using assms by (rule wire_codec.axioms)
  have "sint w = v \<longleftrightarrow> fits_signed LENGTH('a) v \<and> w = word_of_int v" for w :: "'a word" and v
    using sint_range_size [of w]
    by (auto simp: fits_signed_def word_size signed_take_bit_int_eq_self_iff sint_sbintrunc')
  with wire_codec.law [OF assms] show "map_decm sint dec d = (Inr x, d') \<longleftrightarrow>
      fits_signed LENGTH('a) x \<and> reads d (en (word_of_int x)) d'" for d x d'
    by (simp add: map_decm_Inr) metis
qed

lemma signed_codecs:
  "wire_codec ReadInt8 (\<lambda>v. [word_of_int v]) (fits_signed 8)"
  "wire_codec ReadInt16 (\<lambda>v. le_bytes 2 (word_of_int v :: u16)) (fits_signed 16)"
  "wire_codec ReadInt32 (\<lambda>v. le_bytes 4 (word_of_int v :: u32)) (fits_signed 32)"
  "wire_codec ReadInt64 (\<lambda>v. le_bytes 8 (word_of_int v :: u64)) (fits_signed 64)"
  using signed_codec [OF u8_codec] signed_codec [OF u16_codec] signed_codec [OF u32_codec]
    signed_codec [OF u64_codec]
  by (simp_all add: ReadInt8_def ReadInt16_def ReadInt32_def ReadInt64_def)

lemma e_buf_WriteShortvec [simp]: "e_buf (WriteShortvec v e) = e_buf e @ shortvec v"
  by (simp add: WriteShortvec_def EncodeShortvec_shortvec)

lemma DecodeShortvec_pos: "DecodeShortvec b = Inr (v, n) \<Longrightarrow> n \<le> length b"
  using DecodeShortvec_bytes by blast

lemma shortvec_prefix: "shortvec v @ r = shortvec x @ r' \<Longrightarrow> v = x"
  using DecodeShortvec_shortvec [of v r] DecodeShortvec_shortvec [of x r'] by simp

lemma shortvec_codec: "wire_codec ReadShortvec shortvec (\<lambda>_. True)"
proof
  fix d x d'
  show "ReadShortvec d = (Inr x, d') \<longleftrightarrow> True \<and> reads d (shortvec x) d'"
  proof (cases "DecodeShortvec (drop (d_pos d) (d_buf d))")
    case (Inl e)
    then have "\<not> (\<exists>rest. drop (d_pos d) (d_buf d) = shortvec x @ rest)"
      by (metis DecodeShortvec_shortvec Inl_Inr_False)
    with Inl show ?thesis by (auto simp: ReadShortvec_def reads_def take_length_append_iff)
  next
    case (Inr vn)
    then obtain v n where vn: "DecodeShortvec (drop (d_pos d) (d_buf d)) = Inr (v, n)"
      by (cases vn) auto
    then obtain rest where rest: "drop (d_pos d) (d_buf d) = shortvec v @ rest" and n: "n = length (shortvec v)"
      by (auto simp: DecodeShortvec_law)
    have "d_pos d + n \<le> length (d_buf d)"
    proof -
      have "drop (d_pos d) (d_buf d) \<noteq> []" using rest by simp
      then have "d_pos d < length (d_buf d)" by simp
      with DecodeShortvec_pos [OF vn] show ?thesis by simp
    qed
    moreover have "take (length (shortvec x)) (shortvec v @ rest) = shortvec x \<longleftrightarrow> v = x"
      unfolding take_length_append_iff using shortvec_prefix by blast
    ultimately show ?thesis
      using vn rest n by (auto simp: ReadShortvec_def reads_def)
  qed
next
  fix d r d'
  assume "ReadShortvec d = (r, d')"
  then show "d_buf d' = d_buf d \<and> d_borsh d' = d_borsh d"
    by (auto simp: ReadShortvec_def split: sum.splits)
next
  fix d r d'
  assume "ReadShortvec d = (r, d')" "wf_decoder d"
  then show "d_pos d \<le> d_pos d' \<and> wf_decoder d'"
    by (auto simp: ReadShortvec_def wf_decoder_def dest!: DecodeShortvec_pos split: sum.splits)
qed

interpretation sv: wire_codec ReadShortvec shortvec "\<lambda>_. True"
  by (rule shortvec_codec)

lemmas base_laws = u8.law u16.law u32.law u64.law sv.law ReadBytes_law
lemmas base_readers = u8.wire_reader_axioms u16.wire_reader_axioms u32.wire_reader_axioms
  u64.wire_reader_axioms sv.wire_reader_axioms ReadBytes_reader

lemma reads_Cons: "reads d (x # xs) d2 \<longleftrightarrow> (\<exists>d1. reads d [x] d1 \<and> reads d1 xs d2)"
  using reads_append [of d "[x]" xs d2] by simp

lemma reads_byte_unique: "reads d [b] d1 \<Longrightarrow> reads d [x] d2 \<longleftrightarrow> x = b \<and> d2 = d1"
  by (auto simp: reads_def)

lemma reads_first: "reads d xs d' \<Longrightarrow> xs \<noteq> [] \<Longrightarrow> \<exists>b d1. reads d [b] d1"
  using reads_Cons [of d "hd xs" "tl xs" d'] by (cases xs) auto

lemma PeekUint8_law: "PeekUint8 d = (Inr b, d') \<longleftrightarrow> d' = d \<and> (\<exists>d1. reads d [b] d1)"
  by (auto simp: PeekUint8_def reads_def Remaining_def take_Suc_conv_app_nth hd_drop_conv_nth take_Suc)

lemma encoder_eq_iff: "(e :: encoder) = e' \<longleftrightarrow> e_buf e = e_buf e'"
  by (cases e; cases e') simp

lemma fold_WriteBytes [simp]: "e_buf (fold WriteBytes bs e) = e_buf e @ concat bs"
  by (induction bs arbitrary: e) (simp_all add: WriteBytes_def)

end
