(* ===== verification/Primitives.thy ===== *)
theory Primitives
  imports Prelude
begin

text \<open>
  The core value types of \<open>solana.go\<close>: \<open>PublicKey\<close>, \<open>Hash\<close> and \<open>Signature\<close>, with
  their constructors and their base58, JSON, text and SQL forms.  The base58 codec is
  a third-party package: its \<open>Encode\<close> and \<open>Decode\<close> are parameters \<open>b58enc\<close> and
  \<open>b58dec\<close> of the definitions that call them (\<open>None\<close>: a decode error).  Text is a
  \<open>string\<close>: a Go string and a \<open>[]byte\<close> of JSON are the same sequence of bytes.
\<close>

section \<open>Sizes and types\<close>

definition PublicKeySize :: nat where "PublicKeySize = 32"
definition HashSize :: nat where "HashSize = 32"
definition SignatureSize :: nat where "SignatureSize = 64"

type_synonym PublicKey = bytes
type_synonym Hash = bytes
type_synonym Signature = bytes

definition zero_array :: "nat \<Rightarrow> bytes" where
  "zero_array n = replicate n 0"

lemma length_zero_array [simp]: "length (zero_array n) = n"
  by (simp add: zero_array_def)

section \<open>Constructors from raw bytes\<close>

text \<open>
  The constructors return the zero array with the error; \<open>Inl\<close> carries the error, and
  the array the Go caller must ignore is dropped.
\<close>

definition PublicKeyFromBytes :: "bytes \<Rightarrow> PublicKey result" where
  "PublicKeyFromBytes b =
     (if length b \<noteq> PublicKeySize
      then Inl (Wrapf ''solana: public key: %w: got %d, want %d''
             [int (length b), int PublicKeySize] ErrInvalidLength)
      else Inr b)"

definition HashFromBytes :: "bytes \<Rightarrow> Hash result" where
  "HashFromBytes b =
     (if length b \<noteq> HashSize
      then Inl (Wrapf ''solana: hash: %w: got %d, want %d''
             [int (length b), int HashSize] ErrInvalidLength)
      else Inr b)"

definition SignatureFromBytes :: "bytes \<Rightarrow> Signature result" where
  "SignatureFromBytes b =
     (if length b \<noteq> SignatureSize
      then Inl (Wrapf ''solana: signature: %w: got %d, want %d''
             [int (length b), int SignatureSize] ErrInvalidLength)
      else Inr b)"

section \<open>Constructors from base58\<close>

type_synonym b58decoder = "string \<Rightarrow> bytes option"
type_synonym b58encoder = "bytes \<Rightarrow> string"

definition decodeSizedBase58 :: "b58decoder \<Rightarrow> string \<Rightarrow> nat \<Rightarrow> string \<Rightarrow> bytes result" where
  "decodeSizedBase58 b58dec s sz label =
     (if s = [] then Inl (Wrapf (''solana: '' @ label @ '': %w: empty string'') [] ErrInvalidBase58)
      else case b58dec s of
        None \<Rightarrow> Inl (Wrapf (''solana: '' @ label @ '': %w'') [] ErrInvalidBase58)
      | Some b \<Rightarrow>
          if length b \<noteq> sz
          then Inl (Wrapf (''solana: '' @ label @ '': %w: decoded %d bytes, want %d'')
                 [int (length b), int sz] ErrInvalidLength)
          else Inr b)"

definition PublicKeyFromBase58 :: "b58decoder \<Rightarrow> string \<Rightarrow> PublicKey result" where
  "PublicKeyFromBase58 b58dec s = decodeSizedBase58 b58dec s PublicKeySize ''public key''"

definition HashFromBase58 :: "b58decoder \<Rightarrow> string \<Rightarrow> Hash result" where
  "HashFromBase58 b58dec s = decodeSizedBase58 b58dec s HashSize ''hash''"

definition SignatureFromBase58 :: "b58decoder \<Rightarrow> string \<Rightarrow> Signature result" where
  "SignatureFromBase58 b58dec s = decodeSizedBase58 b58dec s SignatureSize ''signature''"

text \<open>The \<open>Must\<close> variants panic on an error: \<open>None\<close>.\<close>

definition MustPublicKey :: "b58decoder \<Rightarrow> string \<Rightarrow> PublicKey option" where
  "MustPublicKey b58dec s = (case PublicKeyFromBase58 b58dec s of Inl e \<Rightarrow> None | Inr pk \<Rightarrow> Some pk)"

definition MustHash :: "b58decoder \<Rightarrow> string \<Rightarrow> Hash option" where
  "MustHash b58dec s = (case HashFromBase58 b58dec s of Inl e \<Rightarrow> None | Inr h \<Rightarrow> Some h)"

definition MustSignature :: "b58decoder \<Rightarrow> string \<Rightarrow> Signature option" where
  "MustSignature b58dec s = (case SignatureFromBase58 b58dec s of Inl e \<Rightarrow> None | Inr h \<Rightarrow> Some h)"

section \<open>Accessors\<close>

definition pk_Equal :: "PublicKey \<Rightarrow> PublicKey \<Rightarrow> bool" where
  "pk_Equal p other \<longleftrightarrow> p = other"

definition pk_IsZero :: "PublicKey \<Rightarrow> bool" where
  "pk_IsZero p \<longleftrightarrow> p = zero_array PublicKeySize"

definition hash_IsZero :: "Hash \<Rightarrow> bool" where
  "hash_IsZero h \<longleftrightarrow> h = zero_array HashSize"

definition sig_IsZero :: "Signature \<Rightarrow> bool" where
  "sig_IsZero s \<longleftrightarrow> s = zero_array SignatureSize"

section \<open>JSON\<close>

definition jsonQuote :: "string \<Rightarrow> string" where
  "jsonQuote s = CHR 0x22 # s @ [CHR 0x22]"

definition isJSONNull :: "string \<Rightarrow> bool" where
  "isJSONNull data \<longleftrightarrow>
     length data = 4 \<and> data ! 0 = CHR ''n'' \<and> data ! 1 = CHR ''u'' \<and> data ! 2 = CHR ''l'' \<and> data ! 3 = CHR ''l''"

definition unquoteJSONString :: "string \<Rightarrow> string result" where
  "unquoteJSONString data =
     (if length data < 2 \<or> data ! 0 \<noteq> CHR 0x22 \<or> data ! (length data - 1) \<noteq> CHR 0x22
      then Inl (Errorf ''expected JSON string, got %q'' [])
      else Inr (take (length data - 2) (drop 1 data)))"

definition pk_MarshalJSON :: "b58encoder \<Rightarrow> PublicKey \<Rightarrow> string" where
  "pk_MarshalJSON b58enc p = jsonQuote (b58enc p)"

definition hash_MarshalJSON :: "b58encoder \<Rightarrow> Hash \<Rightarrow> string" where
  "hash_MarshalJSON b58enc h = jsonQuote (b58enc h)"

definition sig_MarshalJSON :: "b58encoder \<Rightarrow> Signature \<Rightarrow> string" where
  "sig_MarshalJSON b58enc s = jsonQuote (b58enc s)"

text \<open>
  An \<open>Unmarshal\<close> or \<open>Scan\<close> method returns an error or \<open>nil\<close> and stores into its
  receiver: the model returns both, the receiver unchanged where the code returns
  before the store.
\<close>

type_synonym 'a unmarshal = "'a \<Rightarrow> go_error option \<times> 'a"

definition store :: "'a result \<Rightarrow> 'a unmarshal" where
  "store r p = (case r of Inl e \<Rightarrow> (Some e, p) | Inr v \<Rightarrow> (None, v))"

definition unmarshal_base58_json ::
    "(string \<Rightarrow> bytes result) \<Rightarrow> string \<Rightarrow> string \<Rightarrow> bytes unmarshal" where
  "unmarshal_base58_json from_base58 label data p =
     (if isJSONNull data then (None, p)
      else case unquoteJSONString data of
        Inl _ \<Rightarrow> (Some (Wrapf (''solana: '' @ label @ '': %w'') [] ErrInvalidBase58), p)
      | Inr s \<Rightarrow> store (from_base58 s) p)"

definition pk_UnmarshalJSON :: "b58decoder \<Rightarrow> string \<Rightarrow> PublicKey unmarshal" where
  "pk_UnmarshalJSON b58dec = unmarshal_base58_json (PublicKeyFromBase58 b58dec) ''public key''"

definition hash_UnmarshalJSON :: "b58decoder \<Rightarrow> string \<Rightarrow> Hash unmarshal" where
  "hash_UnmarshalJSON b58dec = unmarshal_base58_json (HashFromBase58 b58dec) ''hash''"

definition sig_UnmarshalJSON :: "b58decoder \<Rightarrow> string \<Rightarrow> Signature unmarshal" where
  "sig_UnmarshalJSON b58dec = unmarshal_base58_json (SignatureFromBase58 b58dec) ''signature''"

section \<open>Text and SQL\<close>

definition pk_UnmarshalText :: "b58decoder \<Rightarrow> string \<Rightarrow> PublicKey unmarshal" where
  "pk_UnmarshalText b58dec text = store (PublicKeyFromBase58 b58dec text)"

definition hash_UnmarshalText :: "b58decoder \<Rightarrow> string \<Rightarrow> Hash unmarshal" where
  "hash_UnmarshalText b58dec text = store (HashFromBase58 b58dec text)"

definition sig_UnmarshalText :: "b58decoder \<Rightarrow> string \<Rightarrow> Signature unmarshal" where
  "sig_UnmarshalText b58dec text = store (SignatureFromBase58 b58dec text)"

text \<open>The dynamic type of a SQL source value: \<open>nil\<close>, a string, a byte slice, or another type.\<close>

datatype sql_value = SqlNil | SqlString string | SqlBytes string | SqlOther

definition scanBase58String :: "sql_value \<Rightarrow> string \<Rightarrow> string result" where
  "scanBase58String src label =
     (case src of
        SqlString v \<Rightarrow> Inr v
      | SqlBytes v \<Rightarrow> Inr v
      | _ \<Rightarrow> Inl (Errorf (''solana: '' @ label @ '': cannot Scan %T into base58 string'') []))"

definition scan_base58 ::
    "(string \<Rightarrow> bytes result) \<Rightarrow> string \<Rightarrow> sql_value \<Rightarrow> bytes unmarshal" where
  "scan_base58 from_base58 label src p =
     (if src = SqlNil then (None, p)
      else store (res_bind (scanBase58String src label) from_base58) p)"

definition pk_Scan :: "b58decoder \<Rightarrow> sql_value \<Rightarrow> PublicKey unmarshal" where
  "pk_Scan b58dec = scan_base58 (PublicKeyFromBase58 b58dec) ''public key''"

definition hash_Scan :: "b58decoder \<Rightarrow> sql_value \<Rightarrow> Hash unmarshal" where
  "hash_Scan b58dec = scan_base58 (HashFromBase58 b58dec) ''hash''"

definition sig_Scan :: "b58decoder \<Rightarrow> sql_value \<Rightarrow> Signature unmarshal" where
  "sig_Scan b58dec = scan_base58 (SignatureFromBase58 b58dec) ''signature''"

definition pk_Value :: "b58encoder \<Rightarrow> PublicKey \<Rightarrow> sql_value" where
  "pk_Value b58enc p = SqlString (b58enc p)"

section \<open>Laws\<close>

text \<open>
  What the code relies on of the base58 package: decoding the encoding of a non-empty
  byte slice gives the slice back, and that encoding is not empty.
\<close>

definition base58_ok :: "b58encoder \<Rightarrow> b58decoder \<Rightarrow> bool" where
  "base58_ok b58enc b58dec \<longleftrightarrow> (\<forall>b. b \<noteq> [] \<longrightarrow> b58enc b \<noteq> [] \<and> b58dec (b58enc b) = Some b)"

lemma unquote_jsonQuote [simp]: "unquoteJSONString (jsonQuote s) = Inr s"
  by (simp add: unquoteJSONString_def jsonQuote_def nth_append)

lemma not_null_jsonQuote [simp]: "\<not> isJSONNull (jsonQuote s)"
  by (simp add: isJSONNull_def jsonQuote_def)

lemma decodeSizedBase58_enc:
  assumes "base58_ok b58enc b58dec" and "length b = sz" and "0 < sz"
  shows "decodeSizedBase58 b58dec (b58enc b) sz label = Inr b"
proof -
  have "b \<noteq> []" using assms(2,3) by auto
  with assms(1) have "b58enc b \<noteq> []" and "b58dec (b58enc b) = Some b"
    by (auto simp: base58_ok_def)
  with assms(2) show ?thesis by (simp add: decodeSizedBase58_def)
qed

lemma decodeSizedBase58_size: "decodeSizedBase58 b58dec s sz label = Inr b \<Longrightarrow> length b = sz"
  by (auto simp: decodeSizedBase58_def split: if_splits option.splits)

lemma unmarshal_base58_json_quote:
  "unmarshal_base58_json f label (jsonQuote s) p = store (f s) p"
  by (simp add: unmarshal_base58_json_def)

lemmas from_base58_defs = PublicKeyFromBase58_def HashFromBase58_def SignatureFromBase58_def
  PublicKeySize_def HashSize_def SignatureSize_def

text \<open>
  The receiver of a failed \<open>UnmarshalJSON\<close> keeps its value; a successful one holds a
  key of the right length or was left alone by a \<open>null\<close>.
\<close>

lemma unmarshal_base58_json_cases:
  assumes "unmarshal_base58_json f label data p = (e, q)"
  shows "e \<noteq> None \<Longrightarrow> q = p"
    and "e = None \<Longrightarrow> (isJSONNull data \<and> q = p) \<or> (\<exists>s. unquoteJSONString data = Inr s \<and> f s = Inr q)"
  using assms by (auto simp: unmarshal_base58_json_def store_def split: if_splits sum.splits)

end
