(* ===== verification/Message.thy ===== *)
theory Message
  imports Bincode Primitives
begin

text \<open>
  The transaction message of \<open>message.go\<close> and \<open>message_v1.go\<close>: its data types, its
  wire encoding (legacy, v0 and v1), its decoder, the size computation and the
  resolution of address-table lookups.  \<open>message_bytes\<close> is the wire format as a
  value; the encoder writes exactly it and the decoder accepts exactly it.
\<close>

section \<open>Data\<close>

type_synonym MessageVersion = u8

definition MessageVersionLegacy :: MessageVersion where "MessageVersionLegacy = 0xFF"
definition MessageVersion0 :: MessageVersion where "MessageVersion0 = 0"
definition MessageVersion1 :: MessageVersion where "MessageVersion1 = 1"
definition versionPrefixMask :: byte where "versionPrefixMask = 0x80"
definition maxMessageVersion :: MessageVersion where "maxMessageVersion = 1"

lemmas version_defs = MessageVersionLegacy_def MessageVersion0_def MessageVersion1_def
  versionPrefixMask_def maxMessageVersion_def

record MessageHeader =
  NumRequiredSignatures :: u8
  NumReadonlySignedAccounts :: u8
  NumReadonlyUnsignedAccounts :: u8

record CompiledInstruction =
  ProgramIDIndex :: u8
  ci_Accounts :: bytes
  ci_Data :: bytes

record MessageAddressTableLookup =
  lk_AccountKey :: PublicKey
  WritableIndexes :: bytes
  ReadonlyIndexes :: bytes

record TransactionConfig =
  PriorityFee :: "u64 option"
  ComputeUnitLimit :: "u32 option"
  LoadedAccountsDataSizeLimit :: "u32 option"
  HeapSize :: "u32 option"

record Message =
  Version :: MessageVersion
  Header :: MessageHeader
  AccountKeys :: "PublicKey list"
  RecentBlockhash :: Hash
  Instructions :: "CompiledInstruction list"
  AddressTableLookups :: "MessageAddressTableLookup list"
  TxConfig :: "TransactionConfig option"

section \<open>Size\<close>

definition svSize :: "nat \<Rightarrow> nat" where
  "svSize n = (if n < 128 then 1 else if n < 16384 then 2 else 3)"

definition instruction_size :: "CompiledInstruction \<Rightarrow> nat" where
  "instruction_size ix =
     1 + svSize (length (ci_Accounts ix)) + length (ci_Accounts ix) +
     svSize (length (ci_Data ix)) + length (ci_Data ix)"

definition lookup_size :: "MessageAddressTableLookup \<Rightarrow> nat" where
  "lookup_size lk =
     PublicKeySize + svSize (length (WritableIndexes lk)) + length (WritableIndexes lk) +
     svSize (length (ReadonlyIndexes lk)) + length (ReadonlyIndexes lk)"

definition opt_size :: "nat \<Rightarrow> 'a option \<Rightarrow> nat" where
  "opt_size k v = (case v of None \<Rightarrow> 0 | Some _ \<Rightarrow> k)"

definition serializedSizeV1 :: "Message \<Rightarrow> nat" where
  "serializedSizeV1 m =
     (let sz = 1 + 3 + 4 + HashSize + 1 + 1 + length (AccountKeys m) * PublicKeySize;
          sz = (case TxConfig m of
                  None \<Rightarrow> sz
                | Some c \<Rightarrow> sz + opt_size 8 (PriorityFee c) + opt_size 4 (ComputeUnitLimit c) +
                    opt_size 4 (LoadedAccountsDataSizeLimit c) + opt_size 4 (HeapSize c))
      in sz + sum_list (map (\<lambda>ix. 4 + length (ci_Accounts ix) + length (ci_Data ix)) (Instructions m)))"

definition SerializedSize :: "Message \<Rightarrow> nat" where
  "SerializedSize m =
     (if Version m = MessageVersion1 then serializedSizeV1 m
      else
        3 + (if Version m \<noteq> MessageVersionLegacy then 1 else 0) +
        svSize (length (AccountKeys m)) + length (AccountKeys m) * PublicKeySize +
        HashSize +
        svSize (length (Instructions m)) + sum_list (map instruction_size (Instructions m)) +
        (if Version m = MessageVersion0
         then svSize (length (AddressTableLookups m)) + sum_list (map lookup_size (AddressTableLookups m))
         else 0))"

section \<open>Encoding\<close>

definition validate :: "Message \<Rightarrow> go_error option" where
  "validate m =
     (if Version m = MessageVersionLegacy then
        (if AddressTableLookups m \<noteq> []
         then Some (Errorf ''solana: message: legacy messages cannot carry address table lookups'' [])
         else None)
      else if Version m = MessageVersion0 then None
      else if Version m = MessageVersion1 then
        (if AddressTableLookups m \<noteq> []
         then Some (Errorf ''solana: message: v1 messages cannot carry address table lookups'' [])
         else None)
      else Some (Errorf ''solana: message: unsupported version %d'' [uint (Version m)]))"

definition v1PriorityFeeMask :: u32 where "v1PriorityFeeMask = 0x03"
definition v1ComputeUnitLimitMask :: u32 where "v1ComputeUnitLimitMask = 0x04"
definition v1LoadedDataSizeMask :: u32 where "v1LoadedDataSizeMask = 0x08"
definition v1HeapSizeMask :: u32 where "v1HeapSizeMask = 0x10"
definition v1KnownConfigMask :: u32 where "v1KnownConfigMask = 0x1f"

lemmas v1_masks = v1PriorityFeeMask_def v1ComputeUnitLimitMask_def v1LoadedDataSizeMask_def
  v1HeapSizeMask_def v1KnownConfigMask_def

definition config_mask :: "TransactionConfig option \<Rightarrow> u32" where
  "config_mask cfg =
     (case cfg of
        None \<Rightarrow> 0
      | Some c \<Rightarrow>
          (if PriorityFee c \<noteq> None then v1PriorityFeeMask else 0) OR
          (if ComputeUnitLimit c \<noteq> None then v1ComputeUnitLimitMask else 0) OR
          (if LoadedAccountsDataSizeLimit c \<noteq> None then v1LoadedDataSizeMask else 0) OR
          (if HeapSize c \<noteq> None then v1HeapSizeMask else 0))"

definition write_opt :: "('a \<Rightarrow> encoder \<Rightarrow> encoder) \<Rightarrow> 'a option \<Rightarrow> encoder \<Rightarrow> encoder" where
  "write_opt w v e = (case v of None \<Rightarrow> e | Some x \<Rightarrow> w x e)"

definition v1_instruction_ok :: "CompiledInstruction \<Rightarrow> bool" where
  "v1_instruction_ok ix \<longleftrightarrow> \<not> (length (ci_Accounts ix) > 255 \<or> length (ci_Data ix) > 65535)"

fun check_v1_instructions :: "nat \<Rightarrow> CompiledInstruction list \<Rightarrow> go_error option" where
  "check_v1_instructions i [] = None"
| "check_v1_instructions i (ix # ixs) =
     (if \<not> v1_instruction_ok ix
      then Some (Errorf ''solana: message: v1 instruction %d exceeds wire length'' [int i])
      else check_v1_instructions (Suc i) ixs)"

definition marshalV1Into :: "Message \<Rightarrow> encoder \<Rightarrow> encoder result" where
  "marshalV1Into m e =
     (if length (AccountKeys m) > 255 \<or> length (Instructions m) > 255
      then Inl (Errorf ''solana: message: v1 account or instruction count exceeds 255'' [])
      else case check_v1_instructions 0 (Instructions m) of
        Some err \<Rightarrow> Inl err
      | None \<Rightarrow> Inr (chain [
          WriteUint8 (versionPrefixMask OR MessageVersion1),
          WriteUint8 (NumRequiredSignatures (Header m)),
          WriteUint8 (NumReadonlySignedAccounts (Header m)),
          WriteUint8 (NumReadonlyUnsignedAccounts (Header m)),
          WriteUint32 (config_mask (TxConfig m)),
          WriteBytes (RecentBlockhash m),
          WriteUint8 (of_nat (length (Instructions m))),
          WriteUint8 (of_nat (length (AccountKeys m))),
          fold WriteBytes (AccountKeys m),
          (\<lambda>e. case TxConfig m of
             None \<Rightarrow> e
           | Some c \<Rightarrow>
               chain [write_opt WriteUint64 (PriorityFee c),
                write_opt WriteUint32 (ComputeUnitLimit c),
                write_opt WriteUint32 (LoadedAccountsDataSizeLimit c),
                write_opt WriteUint32 (HeapSize c)] e),
          fold (\<lambda>ix. chain [WriteUint8 (ProgramIDIndex ix),
                     WriteUint8 (of_nat (length (ci_Accounts ix))),
                     WriteUint16 (of_nat (length (ci_Data ix)))]) (Instructions m),
          fold (\<lambda>ix. chain [WriteBytes (ci_Accounts ix), WriteBytes (ci_Data ix)]) (Instructions m)] e))"

fun marshal_instructions :: "nat \<Rightarrow> CompiledInstruction list \<Rightarrow> encoder \<Rightarrow> encoder result" where
  "marshal_instructions i [] e = Inr e"
| "marshal_instructions i (ix # ixs) e =
     (let e = WriteUint8 (ProgramIDIndex ix) e in
      if length (ci_Accounts ix) > 0xFFFF
      then Inl (Errorf ''solana: message: marshal: instruction %d has too many account indices (%d, max %d)''
             [int i, int (length (ci_Accounts ix)), 0xFFFF])
      else
        let e = chain [WriteShortvec (of_nat (length (ci_Accounts ix))), WriteBytes (ci_Accounts ix)] e in
        if length (ci_Data ix) > 0xFFFF
        then Inl (Errorf ''solana: message: marshal: instruction %d data too long (%d, max %d)''
               [int i, int (length (ci_Data ix)), 0xFFFF])
        else
          let e = chain [WriteShortvec (of_nat (length (ci_Data ix))), WriteBytes (ci_Data ix)] e in
          marshal_instructions (Suc i) ixs e)"

fun marshal_lookups :: "nat \<Rightarrow> MessageAddressTableLookup list \<Rightarrow> encoder \<Rightarrow> encoder result" where
  "marshal_lookups i [] e = Inr e"
| "marshal_lookups i (lk # lks) e =
     (let e = WriteBytes (lk_AccountKey lk) e in
      if length (WritableIndexes lk) > 0xFFFF
      then Inl (Errorf ''solana: message: marshal: lookup %d has too many writable indices (%d, max %d)''
             [int i, int (length (WritableIndexes lk)), 0xFFFF])
      else
        let e = chain [WriteShortvec (of_nat (length (WritableIndexes lk))), WriteBytes (WritableIndexes lk)] e in
        if length (ReadonlyIndexes lk) > 0xFFFF
        then Inl (Errorf ''solana: message: marshal: lookup %d has too many readonly indices (%d, max %d)''
               [int i, int (length (ReadonlyIndexes lk)), 0xFFFF])
        else
          let e = chain [WriteShortvec (of_nat (length (ReadonlyIndexes lk))), WriteBytes (ReadonlyIndexes lk)] e in
          marshal_lookups (Suc i) lks e)"

definition marshalInto :: "Message \<Rightarrow> encoder \<Rightarrow> encoder result" where
  "marshalInto m e =
     (if Version m = MessageVersion1 then marshalV1Into m e
      else
        let e = (if Version m \<noteq> MessageVersionLegacy
                 then WriteUint8 (versionPrefixMask OR Version m) e else e);
            e = chain [WriteUint8 (NumRequiredSignatures (Header m)),
                 WriteUint8 (NumReadonlySignedAccounts (Header m)),
                 WriteUint8 (NumReadonlyUnsignedAccounts (Header m))] e
        in
        if length (AccountKeys m) > 0xFFFF
        then Inl (Errorf ''solana: message: marshal: too many account keys (%d, max %d)''
               [int (length (AccountKeys m)), 0xFFFF])
        else
          let e = chain [WriteShortvec (of_nat (length (AccountKeys m))),
                   fold WriteBytes (AccountKeys m),
                   WriteBytes (RecentBlockhash m)] e
          in
          if length (Instructions m) > 0xFFFF
          then Inl (Errorf ''solana: message: marshal: too many instructions (%d, max %d)''
                 [int (length (Instructions m)), 0xFFFF])
          else
            res_bind (marshal_instructions 0 (Instructions m)
                (WriteShortvec (of_nat (length (Instructions m))) e)) (\<lambda>e.
              if Version m = MessageVersion0 then
                (if length (AddressTableLookups m) > 0xFFFF
                 then Inl (Errorf ''solana: message: marshal: too many address table lookups (%d, max %d)''
                        [int (length (AddressTableLookups m)), 0xFFFF])
                 else marshal_lookups 0 (AddressTableLookups m)
                        (WriteShortvec (of_nat (length (AddressTableLookups m))) e))
              else Inr e))"

definition Marshal :: "Message \<Rightarrow> bytes result" where
  "Marshal m =
     (case validate m of
        Some err \<Rightarrow> Inl err
      | None \<Rightarrow> res_bind (marshalInto m (NewEncoder (SerializedSize m))) (\<lambda>e. Inr (enc_Bytes e)))"

section \<open>Decoding\<close>

text \<open>
  A loop over a list of headers read before: the second pass of the v1 decoder, which
  reads instruction \<open>i\<close>'s accounts and data with the counts of its header.
\<close>

fun read_each :: "(nat \<Rightarrow> 'h \<Rightarrow> 'a decm) \<Rightarrow> nat \<Rightarrow> 'h list \<Rightarrow> 'a list decm" where
  "read_each f i [] = rreturn []"
| "read_each f i (h # hs) = rbind (f i h) (\<lambda>x. rbind (read_each f (Suc i) hs) (\<lambda>xs. rreturn (x # xs)))"

definition read_opt :: "bool \<Rightarrow> 'a decm \<Rightarrow> 'a option decm" where
  "read_opt c m = (if c then map_decm Some m else rreturn None)"

definition v1_mask_bad :: "u32 \<Rightarrow> bool" where
  "v1_mask_bad cfg \<longleftrightarrow>
     cfg AND NOT v1KnownConfigMask \<noteq> 0 \<or> cfg AND v1PriorityFeeMask = 1 \<or> cfg AND v1PriorityFeeMask = 2"

definition decode_v1_config :: "u32 \<Rightarrow> TransactionConfig decm" where
  "decode_v1_config cfgmask =
     rbind (read_opt (cfgmask AND v1PriorityFeeMask \<noteq> 0)
              (wrapr ''solana: message: v1 priority fee: %w'' [] ReadUint64)) (\<lambda>fee.
     rbind (read_opt (cfgmask AND v1ComputeUnitLimitMask \<noteq> 0)
              (wrapr ''solana: message: v1 compute unit limit: %w'' [] ReadUint32)) (\<lambda>cu.
     rbind (read_opt (cfgmask AND v1LoadedDataSizeMask \<noteq> 0)
              (wrapr ''solana: message: v1 loaded account data size: %w'' [] ReadUint32)) (\<lambda>ld.
     rbind (read_opt (cfgmask AND v1HeapSizeMask \<noteq> 0)
              (wrapr ''solana: message: v1 heap size: %w'' [] ReadUint32)) (\<lambda>hs.
     rreturn \<lparr>PriorityFee = fee, ComputeUnitLimit = cu,
              LoadedAccountsDataSizeLimit = ld, HeapSize = hs\<rparr>))))"

definition decode_v1_instructions :: "u8 \<Rightarrow> CompiledInstruction list decm" where
  "decode_v1_instructions ixCount =
     rbind (read_loop (\<lambda>i.
              rbind (wrapr ''solana: message: v1 instruction %d program index: %w'' [int i] ReadUint8) (\<lambda>pid.
              rbind (wrapr ''solana: message: v1 instruction %d account count: %w'' [int i] ReadUint8) (\<lambda>ac.
              rbind (wrapr ''solana: message: v1 instruction %d data count: %w'' [int i] ReadUint16) (\<lambda>dc.
              rreturn (pid, ac, dc))))) 0 (unat ixCount)) (\<lambda>heads.
     read_each (\<lambda>i (pid, ac, dc).
              rbind (wrapr ''solana: message: v1 instruction %d accounts: %w'' [int i]
                       (ReadBytes (int (unat ac)))) (\<lambda>accounts.
              rbind (wrapr ''solana: message: v1 instruction %d data: %w'' [int i]
                       (ReadBytes (int (unat dc)))) (\<lambda>data.
              rreturn \<lparr>ProgramIDIndex = pid, ci_Accounts = accounts, ci_Data = data\<rparr>))) 0 heads)"

definition decode_v1_body :: "Message decm" where
  "decode_v1_body =
     rbind (wrapr ''solana: message: v1 header: %w'' [] ReadUint8) (\<lambda>h1.
     rbind (wrapr ''solana: message: v1 header: %w'' [] ReadUint8) (\<lambda>h2.
     rbind (wrapr ''solana: message: v1 header: %w'' [] ReadUint8) (\<lambda>h3.
     rbind (wrapr ''solana: message: v1 config mask: %w'' [] ReadUint32) (\<lambda>cfgmask.
     if v1_mask_bad cfgmask
     then rfail (Errorf ''solana: message: invalid v1 config mask %#x'' [uint cfgmask])
     else
     rbind (wrapr ''solana: message: v1 lifetime: %w'' [] (ReadBytes (int HashSize))) (\<lambda>blockhash.
     rbind (wrapr ''solana: message: v1 instruction count: %w'' [] ReadUint8) (\<lambda>ixCount.
     rbind (wrapr ''solana: message: v1 account count: %w'' [] ReadUint8) (\<lambda>keyCount.
     rbind (read_loop (\<lambda>i. wrapr ''solana: message: v1 account %d: %w'' [int i]
              (ReadBytes (int PublicKeySize))) 0 (unat keyCount)) (\<lambda>keys.
     rbind (decode_v1_config cfgmask) (\<lambda>cfg.
     rbind (decode_v1_instructions ixCount) (\<lambda>ixs.
     rreturn
       \<lparr>Version = MessageVersion1,
        Header = \<lparr>NumRequiredSignatures = h1, NumReadonlySignedAccounts = h2,
                  NumReadonlyUnsignedAccounts = h3\<rparr>,
        AccountKeys = keys, RecentBlockhash = blockhash, Instructions = ixs,
        AddressTableLookups = [], TxConfig = Some cfg\<rparr>))))))))))"

definition decodeMessageV1 :: "Message decm" where
  "decodeMessageV1 =
     rbind (wrapr ''solana: message: v1 version: %w'' [] ReadUint8) (\<lambda>_. decode_v1_body)"

definition decode_instruction :: "nat \<Rightarrow> CompiledInstruction decm" where
  "decode_instruction i =
     rbind (wrapr ''solana: message: instruction %d program index: %w'' [int i] ReadUint8) (\<lambda>pid.
     rbind (wrapr ''solana: message: instruction %d accounts count: %w'' [int i] ReadShortvec) (\<lambda>ac.
     rbind (wrapr ''solana: message: instruction %d accounts: %w'' [int i] (ReadBytes (int (unat ac)))) (\<lambda>accounts.
     rbind (wrapr ''solana: message: instruction %d data count: %w'' [int i] ReadShortvec) (\<lambda>dl.
     rbind (wrapr ''solana: message: instruction %d data: %w'' [int i] (ReadBytes (int (unat dl)))) (\<lambda>dataBytes.
     rreturn \<lparr>ProgramIDIndex = pid, ci_Accounts = accounts, ci_Data = dataBytes\<rparr>)))))"

definition decode_lookup :: "nat \<Rightarrow> MessageAddressTableLookup decm" where
  "decode_lookup i =
     rbind (wrapr ''solana: message: lookup %d account key: %w'' [int i] (ReadBytes (int PublicKeySize))) (\<lambda>kb.
     rbind (wrapr ''solana: message: lookup %d writable count: %w'' [int i] ReadShortvec) (\<lambda>wc.
     rbind (wrapr ''solana: message: lookup %d writable: %w'' [int i] (ReadBytes (int (unat wc)))) (\<lambda>w.
     rbind (wrapr ''solana: message: lookup %d readonly count: %w'' [int i] ReadShortvec) (\<lambda>rc.
     rbind (wrapr ''solana: message: lookup %d readonly: %w'' [int i] (ReadBytes (int (unat rc)))) (\<lambda>r.
     rreturn \<lparr>lk_AccountKey = kb, WritableIndexes = w, ReadonlyIndexes = r\<rparr>)))))"

definition decode_version :: "byte \<Rightarrow> MessageVersion decm" where
  "decode_version first =
     (if first AND versionPrefixMask \<noteq> 0 then
        rbind ReadUint8 (\<lambda>b.
        let v = b AND NOT versionPrefixMask in
        if v > maxMessageVersion
        then rfail (Errorf ''solana: message: unsupported version %d'' [uint v])
        else rreturn v)
      else rreturn MessageVersionLegacy)"

definition decode_body :: "MessageVersion \<Rightarrow> Message decm" where
  "decode_body version =
     rbind (wrapr ''solana: message: header numRequiredSignatures: %w'' [] ReadUint8) (\<lambda>h1.
     rbind (wrapr ''solana: message: header numReadonlySignedAccounts: %w'' [] ReadUint8) (\<lambda>h2.
     rbind (wrapr ''solana: message: header numReadonlyUnsignedAccounts: %w'' [] ReadUint8) (\<lambda>h3.
     rbind (wrapr ''solana: message: account keys count: %w'' [] ReadShortvec) (\<lambda>keyCount.
     rbind (read_loop (\<lambda>i. wrapr ''solana: message: account key %d: %w'' [int i]
              (ReadBytes (int PublicKeySize))) 0 (unat keyCount)) (\<lambda>keys.
     rbind (wrapr ''solana: message: recent blockhash: %w'' [] (ReadBytes (int HashSize))) (\<lambda>bh.
     rbind (wrapr ''solana: message: instruction count: %w'' [] ReadShortvec) (\<lambda>ixCount.
     rbind (read_loop decode_instruction 0 (unat ixCount)) (\<lambda>ixs.
     rbind (if version = MessageVersion0 then
              rbind (wrapr ''solana: message: address table lookups count: %w'' [] ReadShortvec) (\<lambda>lkCount.
              read_loop decode_lookup 0 (unat lkCount))
            else rreturn []) (\<lambda>lks.
     rreturn
       \<lparr>Version = version,
        Header = \<lparr>NumRequiredSignatures = h1, NumReadonlySignedAccounts = h2,
                  NumReadonlyUnsignedAccounts = h3\<rparr>,
        AccountKeys = keys, RecentBlockhash = bh, Instructions = ixs,
        AddressTableLookups = lks, TxConfig = None\<rparr>)))))))))"

definition DecodeMessage :: "Message decm" where
  "DecodeMessage =
     rbind (wrapr ''solana: message: version byte: %w'' [] PeekUint8) (\<lambda>first.
     if first = versionPrefixMask OR MessageVersion1 then decodeMessageV1
     else rbind (decode_version first) decode_body)"

definition UnmarshalBinary :: "bytes \<Rightarrow> Message result" where
  "UnmarshalBinary data =
     (if data = [] then Inl (Errorf ''solana: message: empty input'' [])
      else case DecodeMessage (NewDecoder data) of
        (Inl err, d) \<Rightarrow> Inl err
      | (Inr decoded, d) \<Rightarrow>
          if Remaining d \<noteq> 0
          then Inl (Errorf ''solana: message: %d trailing bytes after message body'' [Remaining d])
          else Inr decoded)"

section \<open>Signers and account resolution\<close>

definition Signers :: "Message \<Rightarrow> PublicKey list" where
  "Signers m =
     (let n = unat (NumRequiredSignatures (Header m));
          n = (if n > length (AccountKeys m) then length (AccountKeys m) else n)
      in take n (AccountKeys m))"

fun resolve_indexes :: "string \<Rightarrow> PublicKey list \<Rightarrow> u8 list \<Rightarrow> PublicKey list result" where
  "resolve_indexes kind addrs [] = Inr []"
| "resolve_indexes kind addrs (idx # idxs) =
     (if unat idx \<ge> length addrs
      then Inl (Errorf (''solana: message: ALT %s '' @ kind @ '' index %d out of range (table has %d entries)'')
             [uint idx, int (length addrs)])
      else res_bind (resolve_indexes kind addrs idxs) (\<lambda>ks. Inr (addrs ! unat idx # ks)))"

fun resolve_writable :: "(PublicKey \<rightharpoonup> PublicKey list) \<Rightarrow> MessageAddressTableLookup list \<Rightarrow> PublicKey list result" where
  "resolve_writable alts [] = Inr []"
| "resolve_writable alts (lk # lks) =
     (case alts (lk_AccountKey lk) of
        None \<Rightarrow> Inl (Errorf ''solana: message: ALT %s not in alts map'' [])
      | Some addrs \<Rightarrow>
          res_bind (resolve_indexes ''writable'' addrs (WritableIndexes lk)) (\<lambda>ks.
          res_bind (resolve_writable alts lks) (\<lambda>kss. Inr (ks @ kss))))"

fun resolve_readonly :: "(PublicKey \<rightharpoonup> PublicKey list) \<Rightarrow> MessageAddressTableLookup list \<Rightarrow> PublicKey list result" where
  "resolve_readonly alts [] = Inr []"
| "resolve_readonly alts (lk # lks) =
     (let addrs = (case alts (lk_AccountKey lk) of None \<Rightarrow> [] | Some a \<Rightarrow> a) in
      res_bind (resolve_indexes ''readonly'' addrs (ReadonlyIndexes lk)) (\<lambda>ks.
      res_bind (resolve_readonly alts lks) (\<lambda>kss. Inr (ks @ kss))))"

definition ResolvedAccountKeys ::
    "Message \<Rightarrow> (PublicKey \<rightharpoonup> PublicKey list) \<Rightarrow> PublicKey list result" where
  "ResolvedAccountKeys m alts =
     (if AddressTableLookups m = [] then Inr (AccountKeys m)
      else
        res_bind (resolve_writable alts (AddressTableLookups m)) (\<lambda>w.
        res_bind (resolve_readonly alts (AddressTableLookups m)) (\<lambda>r.
        Inr (AccountKeys m @ w @ r))))"

end
