(* ===== verification/Message_Builder.thy ===== *)
theory Message_Builder
  imports Message "HOL-Library.AList" "HOL-Library.Multiset"
begin

text \<open>
  The message builders of \<open>message_builder.go\<close>, with the instruction interface of
  \<open>instruction.go\<close> and the account-meta helpers of \<open>account_meta.go\<close>: collection of
  the accounts with their cumulative roles, the four role buckets, and the compilation
  of instructions to indices, for legacy messages and for v0 messages with address
  lookup tables.

  A Go \<open>map\<close> that is iterated is an association list; the order in which \<open>range\<close>
  visits it is unspecified, so it is a parameter (\<open>ord\<close>, a reordering of the entries).
\<close>

section \<open>Instructions and account metas\<close>

record AccountMeta =
  am_PublicKey :: PublicKey
  IsSigner :: bool
  IsWritable :: bool

text \<open>
  The \<open>Instruction\<close> interface: the values its three methods return.  A nil interface
  value and a nil \<open>*AccountMeta\<close> are \<open>None\<close>.
\<close>

record Instruction =
  ix_ProgramID :: PublicKey
  ix_Accounts :: "AccountMeta option list"
  ix_Data :: "bytes result"

definition NewAccountMeta :: "PublicKey \<Rightarrow> bool \<Rightarrow> bool \<Rightarrow> AccountMeta" where
  "NewAccountMeta pk isSigner isWritable =
     \<lparr>am_PublicKey = pk, IsSigner = isSigner, IsWritable = isWritable\<rparr>"

definition NewInstruction :: "PublicKey \<Rightarrow> AccountMeta option list \<Rightarrow> bytes \<Rightarrow> Instruction" where
  "NewInstruction programID accounts data =
     \<lparr>ix_ProgramID = programID, ix_Accounts = accounts, ix_Data = Inr data\<rparr>"

definition Meta :: "PublicKey \<Rightarrow> AccountMeta" where
  "Meta pubKey = \<lparr>am_PublicKey = pubKey, IsSigner = False, IsWritable = False\<rparr>"

definition WRITE :: "AccountMeta \<Rightarrow> AccountMeta" where
  "WRITE m = m\<lparr>IsWritable := True\<rparr>"

definition SIGNER :: "AccountMeta \<Rightarrow> AccountMeta" where
  "SIGNER m = m\<lparr>IsSigner := True\<rparr>"

type_synonym AccountMetaSlice = "AccountMeta option list"

definition ams_Append :: "AccountMeta option \<Rightarrow> AccountMetaSlice \<Rightarrow> AccountMetaSlice" where
  "ams_Append account s = s @ [account]"

fun GetAccounts :: "AccountMetaSlice \<Rightarrow> AccountMeta list" where
  "GetAccounts [] = []"
| "GetAccounts (None # s) = GetAccounts s"
| "GetAccounts (Some m # s) = m # GetAccounts s"

definition ams_Get :: "AccountMetaSlice \<Rightarrow> int \<Rightarrow> AccountMeta option" where
  "ams_Get s index = (if 0 \<le> index \<and> index < int (length s) then s ! nat index else None)"

definition GetSigners :: "AccountMetaSlice \<Rightarrow> AccountMeta list" where
  "GetSigners s = filter IsSigner (GetAccounts s)"

definition GetKeys :: "AccountMetaSlice \<Rightarrow> PublicKey list" where
  "GetKeys s = map am_PublicKey (GetAccounts s)"

section \<open>Static accounts\<close>

record staticEntry =
  se_pubkey :: PublicKey
  se_signer :: bool
  se_writable :: bool
  firstSeen :: nat

record staticEntries =
  se_m :: "(PublicKey \<times> staticEntry) list"
  se_counter :: nat

definition newStaticEntries :: staticEntries where
  "newStaticEntries = \<lparr>se_m = [], se_counter = 0\<rparr>"

definition addOrUpdate :: "PublicKey \<Rightarrow> bool \<Rightarrow> bool \<Rightarrow> staticEntries \<Rightarrow> staticEntries" where
  "addOrUpdate pk signer writable s =
     (let (e, s) =
        (case map_of (se_m s) pk of
           Some e \<Rightarrow> (e, s)
         | None \<Rightarrow> (\<lparr>se_pubkey = pk, se_signer = False, se_writable = False, firstSeen = se_counter s\<rparr>,
                    s\<lparr>se_counter := se_counter s + 1\<rparr>));
        e = e\<lparr>se_signer := se_signer e \<or> signer, se_writable := se_writable e \<or> writable\<rparr>
      in s\<lparr>se_m := AList.update pk e (se_m s)\<rparr>)"

definition bucketOf :: "staticEntry \<Rightarrow> nat" where
  "bucketOf e =
     (if se_signer e \<and> se_writable e then 0
      else if se_signer e \<and> \<not> se_writable e then 1
      else if \<not> se_signer e \<and> se_writable e then 2
      else 3)"

type_synonym 'a map_order = "'a list \<Rightarrow> 'a list"

definition bucket :: "staticEntry list \<Rightarrow> nat \<Rightarrow> staticEntry list" where
  "bucket es b = sort_key firstSeen (filter (\<lambda>e. bucketOf e = b) es)"

definition bucketAndOrder :: "staticEntry map_order \<Rightarrow> staticEntries \<Rightarrow> PublicKey list \<times> MessageHeader" where
  "bucketAndOrder ord s =
     (let es = ord (map snd (se_m s));
          buckets = map (bucket es) [0, 1, 2, 3];
          keys = concat (map (map se_pubkey) buckets);
          header = \<lparr>NumRequiredSignatures = of_nat (length (buckets ! 0) + length (buckets ! 1)),
                    NumReadonlySignedAccounts = of_nat (length (buckets ! 1)),
                    NumReadonlyUnsignedAccounts = of_nat (length (buckets ! 3))\<rparr>
      in (keys, header))"

section \<open>Compilation of instructions\<close>

fun compile_accounts :: "string \<Rightarrow> (PublicKey \<rightharpoonup> nat) \<Rightarrow> AccountMeta option list \<Rightarrow> bytes result" where
  "compile_accounts fnName keyIndex [] = Inr []"
| "compile_accounts fnName keyIndex (None # ms) = Inl (Panic ''nil AccountMeta'')"
| "compile_accounts fnName keyIndex (Some m # ms) =
     (case keyIndex (am_PublicKey m) of
        None \<Rightarrow> Inl (Errorf (''solana: '' @ fnName @ '': account %s missing from key index'') [])
      | Some idx \<Rightarrow> res_bind (compile_accounts fnName keyIndex ms) (\<lambda>is. Inr (of_nat idx # is)))"

definition compile_instruction ::
    "string \<Rightarrow> (PublicKey \<rightharpoonup> nat) \<Rightarrow> Instruction \<Rightarrow> CompiledInstruction result" where
  "compile_instruction fnName keyIndex ix =
     (case keyIndex (ix_ProgramID ix) of
        None \<Rightarrow> Inl (Errorf (''solana: '' @ fnName @ '': program id %s missing from key index'') [])
      | Some programIdx \<Rightarrow>
          res_bind (compile_accounts fnName keyIndex (ix_Accounts ix)) (\<lambda>accIdxs.
          case ix_Data ix of
            Inl err \<Rightarrow> Inl (Wrapf (''solana: '' @ fnName @ '': instruction data: %w'') [] err)
          | Inr data \<Rightarrow> Inr \<lparr>ProgramIDIndex = of_nat programIdx, ci_Accounts = accIdxs, ci_Data = data\<rparr>))"

fun compileInstructions ::
    "Instruction option list \<Rightarrow> (PublicKey \<rightharpoonup> nat) \<Rightarrow> string \<Rightarrow> CompiledInstruction list result" where
  "compileInstructions [] keyIndex fnName = Inr []"
| "compileInstructions (None # ixs) keyIndex fnName = Inl (Panic ''nil Instruction'')"
| "compileInstructions (Some ix # ixs) keyIndex fnName =
     res_bind (compile_instruction fnName keyIndex ix) (\<lambda>c.
     res_bind (compileInstructions ixs keyIndex fnName) (\<lambda>cs. Inr (c # cs)))"

text \<open>\<open>for i, k := range keys { keyIndex[k] = i }\<close>, started at an index.\<close>

fun index_keys :: "nat \<Rightarrow> PublicKey list \<Rightarrow> (PublicKey \<rightharpoonup> nat) \<Rightarrow> (PublicKey \<rightharpoonup> nat)" where
  "index_keys i [] m = m"
| "index_keys i (k # ks) m = index_keys (Suc i) ks (m(k \<mapsto> i))"

section \<open>Legacy messages\<close>

fun collect_metas :: "AccountMeta option list \<Rightarrow> staticEntries \<Rightarrow> staticEntries result" where
  "collect_metas [] s = Inr s"
| "collect_metas (None # ms) s = Inl (Errorf ''solana: NewMessage: nil AccountMeta'' [])"
| "collect_metas (Some m # ms) s =
     collect_metas ms (addOrUpdate (am_PublicKey m) (IsSigner m) (IsWritable m) s)"

fun collect_instructions :: "Instruction option list \<Rightarrow> staticEntries \<Rightarrow> staticEntries result" where
  "collect_instructions [] s = Inr s"
| "collect_instructions (None # ixs) s = Inl (Errorf ''solana: NewMessage: nil instruction'' [])"
| "collect_instructions (Some ix # ixs) s =
     res_bind (collect_metas (ix_Accounts ix) s) (\<lambda>s.
     collect_instructions ixs (addOrUpdate (ix_ProgramID ix) False False s))"

definition NewMessage ::
    "staticEntry map_order \<Rightarrow> PublicKey \<Rightarrow> Instruction option list \<Rightarrow> Hash \<Rightarrow> Message result" where
  "NewMessage ord payer instructions recentBlockhash =
     (if instructions = [] then Inl (Errorf ''solana: NewMessage: no instructions'' [])
      else
        res_bind (collect_instructions instructions (addOrUpdate payer True True newStaticEntries)) (\<lambda>entries.
        let (accountKeys, header) = bucketAndOrder ord entries in
        if length accountKeys > 256
        then Inl (Errorf ''solana: NewMessage: %d account keys exceeds Solana maximum of 256''
               [int (length accountKeys)])
        else
          res_bind (compileInstructions instructions (index_keys 0 accountKeys Map.empty) ''NewMessage'') (\<lambda>compiled.
          Inr \<lparr>Version = MessageVersionLegacy, Header = header, AccountKeys = accountKeys,
               RecentBlockhash = recentBlockhash, Instructions = compiled,
               AddressTableLookups = [], TxConfig = None\<rparr>)))"

section \<open>v0 messages\<close>

record LoadedAddressLookupTable =
  lt_AccountKey :: PublicKey
  lt_Addresses :: "PublicKey list"

type_synonym tableSlot = "nat \<times> nat"

fun index_table :: "nat \<Rightarrow> nat \<Rightarrow> PublicKey list \<Rightarrow> (PublicKey \<rightharpoonup> tableSlot) \<Rightarrow> (PublicKey \<rightharpoonup> tableSlot)" where
  "index_table ti si [] m = m"
| "index_table ti si (addr # addrs) m =
     index_table ti (Suc si) addrs (if m addr = None then m(addr \<mapsto> (ti, si)) else m)"

fun index_tables :: "nat \<Rightarrow> LoadedAddressLookupTable list \<Rightarrow> (PublicKey \<rightharpoonup> tableSlot) \<Rightarrow> (PublicKey \<rightharpoonup> tableSlot)" where
  "index_tables ti [] m = m"
| "index_tables ti (t # ts) m = index_tables (Suc ti) ts (index_table ti 0 (lt_Addresses t) m)"

fun signers_of_metas :: "AccountMeta option list \<Rightarrow> PublicKey set \<Rightarrow> PublicKey set result" where
  "signers_of_metas [] s = Inr s"
| "signers_of_metas (None # ms) s = Inl (Errorf ''solana: NewMessageV0: nil AccountMeta'' [])"
| "signers_of_metas (Some m # ms) s =
     signers_of_metas ms (if IsSigner m then insert (am_PublicKey m) s else s)"

fun signers_of :: "Instruction option list \<Rightarrow> PublicKey set \<Rightarrow> PublicKey set result" where
  "signers_of [] s = Inr s"
| "signers_of (None # ixs) s = Inl (Errorf ''solana: NewMessageV0: nil instruction'' [])"
| "signers_of (Some ix # ixs) s =
     res_bind (signers_of_metas (ix_Accounts ix) s) (\<lambda>s. signers_of ixs s)"

type_synonym tableAccounts = "(nat \<times> bool) list list"

definition addOrUpdateTable :: "tableSlot \<Rightarrow> bool \<Rightarrow> tableAccounts \<Rightarrow> tableAccounts" where
  "addOrUpdateTable slot writable tabs =
     (let (ti, si) = slot;
          prev = (case map_of (tabs ! ti) si of None \<Rightarrow> False | Some w \<Rightarrow> w)
      in tabs[ti := AList.update si (prev \<or> writable) (tabs ! ti)])"

fun route_metas ::
    "(PublicKey \<rightharpoonup> tableSlot) \<Rightarrow> PublicKey set \<Rightarrow> AccountMeta option list \<Rightarrow>
     staticEntries \<times> tableAccounts \<Rightarrow> staticEntries \<times> tableAccounts" where
  "route_metas tableIndex signerSet [] st = st"
| "route_metas tableIndex signerSet (None # ms) st = st"
| "route_metas tableIndex signerSet (Some m # ms) (entries, tabs) =
     route_metas tableIndex signerSet ms
       (case tableIndex (am_PublicKey m) of
          Some slot \<Rightarrow>
            if am_PublicKey m \<notin> signerSet
            then (entries, addOrUpdateTable slot (IsWritable m) tabs)
            else (addOrUpdate (am_PublicKey m) (IsSigner m) (IsWritable m) entries, tabs)
        | None \<Rightarrow> (addOrUpdate (am_PublicKey m) (IsSigner m) (IsWritable m) entries, tabs))"

fun route_instructions ::
    "(PublicKey \<rightharpoonup> tableSlot) \<Rightarrow> PublicKey set \<Rightarrow> Instruction option list \<Rightarrow>
     staticEntries \<times> tableAccounts \<Rightarrow> staticEntries \<times> tableAccounts" where
  "route_instructions tableIndex signerSet [] st = st"
| "route_instructions tableIndex signerSet (None # ixs) st = st"
| "route_instructions tableIndex signerSet (Some ix # ixs) st =
     (let (entries, tabs) = route_metas tableIndex signerSet (ix_Accounts ix) st
      in route_instructions tableIndex signerSet ixs
           (addOrUpdate (ix_ProgramID ix) False False entries, tabs))"

text \<open>
  The slots a table contributes: writable and readonly, each sorted.  A table without
  slots is not emitted.
\<close>

record tableSlots =
  ts_table :: LoadedAddressLookupTable
  ts_writable :: "nat list"
  ts_readonly :: "nat list"

definition table_slots ::
    "(nat \<times> bool) map_order \<Rightarrow> LoadedAddressLookupTable \<Rightarrow> (nat \<times> bool) list \<Rightarrow> tableSlots" where
  "table_slots ord t slots =
     \<lparr>ts_table = t,
      ts_writable = sort (map fst (filter snd (ord slots))),
      ts_readonly = sort (map fst (filter (\<lambda>p. \<not> snd p) (ord slots)))\<rparr>"

definition emitted_tables ::
    "(nat \<times> bool) map_order \<Rightarrow> LoadedAddressLookupTable list \<Rightarrow> tableAccounts \<Rightarrow> tableSlots list" where
  "emitted_tables ord tables tabs =
     map (\<lambda>(t, slots). table_slots ord t slots) (filter (\<lambda>(t, slots). slots \<noteq> []) (zip tables tabs))"

fun index_slots :: "(tableSlots \<Rightarrow> nat list) \<Rightarrow> tableSlots list \<Rightarrow> nat \<times> (PublicKey \<rightharpoonup> nat) \<Rightarrow> nat \<times> (PublicKey \<rightharpoonup> nat)" where
  "index_slots sel [] st = st"
| "index_slots sel (ts # tss) (nxt, keyIndex) =
     (let ks = map (\<lambda>s. lt_Addresses (ts_table ts) ! s) (sel ts)
      in index_slots sel tss (nxt + length ks, index_keys nxt ks keyIndex))"

definition lookup_of :: "tableSlots \<Rightarrow> MessageAddressTableLookup" where
  "lookup_of ts = \<lparr>lk_AccountKey = lt_AccountKey (ts_table ts),
     WritableIndexes = map of_nat (ts_writable ts), ReadonlyIndexes = map of_nat (ts_readonly ts)\<rparr>"

definition NewMessageV0 ::
    "staticEntry map_order \<Rightarrow> (nat \<times> bool) map_order \<Rightarrow> PublicKey \<Rightarrow> Instruction option list \<Rightarrow> Hash \<Rightarrow>
     LoadedAddressLookupTable list \<Rightarrow> Message result" where
  "NewMessageV0 ord ordt payer instructions recentBlockhash tables =
     (if instructions = [] then Inl (Errorf ''solana: NewMessageV0: no instructions'' [])
      else
        let tableIndex = index_tables 0 tables Map.empty in
        res_bind (signers_of instructions {payer}) (\<lambda>signerSet.
        let (entries, tabs) = route_instructions tableIndex signerSet instructions
              (addOrUpdate payer True True newStaticEntries, map (\<lambda>_. []) tables);
            (staticKeys, header) = bucketAndOrder ord entries
        in
        if length staticKeys > 256
        then Inl (Errorf ''solana: NewMessageV0: %d static account keys exceeds maximum of 256''
               [int (length staticKeys)])
        else
          let keyIndex = index_keys 0 staticKeys Map.empty;
              perTable = emitted_tables ordt tables tabs;
              (nxt, keyIndex) = index_slots ts_readonly perTable
                (index_slots ts_writable perTable (length staticKeys, keyIndex))
          in
          if nxt > 256
          then Inl (Errorf ''solana: NewMessageV0: %d total accounts (static + lookup) exceeds maximum of 256''
                 [int nxt])
          else
            res_bind (compileInstructions instructions keyIndex ''NewMessageV0'') (\<lambda>compiled.
            Inr \<lparr>Version = MessageVersion0, Header = header, AccountKeys = staticKeys,
                 RecentBlockhash = recentBlockhash, Instructions = compiled,
                 AddressTableLookups = map lookup_of perTable, TxConfig = None\<rparr>)))"

end
