(* ===== verification/Message_Wire.thy ===== *)
theory Message_Wire
  imports Message
begin

text \<open>
  The wire format of a message as a value (\<open>message_bytes\<close>), and the theorems that tie the
  code to it: \<open>Marshal\<close> writes exactly it, \<open>DecodeMessage\<close> accepts exactly it, and
  \<open>SerializedSize\<close> is its length.  \<open>message_ok\<close> says which messages a decoder can
  return, \<open>marshal_ok\<close> which ones the encoder takes.
\<close>

section \<open>Instructions and lookups\<close>

definition sv_bytes :: "bytes \<Rightarrow> bytes" where
  "sv_bytes xs = shortvec (of_nat (length xs)) @ xs"

definition instr_bytes :: "CompiledInstruction \<Rightarrow> bytes" where
  "instr_bytes ix = [ProgramIDIndex ix] @ sv_bytes (ci_Accounts ix) @ sv_bytes (ci_Data ix)"

definition instr_ok :: "CompiledInstruction \<Rightarrow> bool" where
  "instr_ok ix \<longleftrightarrow> length (ci_Accounts ix) \<le> 0xFFFF \<and> length (ci_Data ix) \<le> 0xFFFF"

definition lookup_bytes :: "MessageAddressTableLookup \<Rightarrow> bytes" where
  "lookup_bytes lk = lk_AccountKey lk @ sv_bytes (WritableIndexes lk) @ sv_bytes (ReadonlyIndexes lk)"

definition lookup_ok :: "MessageAddressTableLookup \<Rightarrow> bool" where
  "lookup_ok lk \<longleftrightarrow> length (lk_AccountKey lk) = PublicKeySize \<and>
     length (WritableIndexes lk) \<le> 0xFFFF \<and> length (ReadonlyIndexes lk) \<le> 0xFFFF"

lemma decode_instruction_law:
  "decode_instruction i d = (Inr x, d') \<longleftrightarrow> instr_ok x \<and> reads d (instr_bytes x) d'"
  by (cases x, auto simp: decode_instruction_def codec_law base_laws count_laws
      instr_ok_def instr_bytes_def sv_bytes_def simp del: append_Cons, blast)

lemma decode_lookup_law:
  "decode_lookup i d = (Inr x, d') \<longleftrightarrow> lookup_ok x \<and> reads d (lookup_bytes x) d'"
  by (cases x, auto simp: decode_lookup_def codec_law base_laws count_laws
      lookup_ok_def lookup_bytes_def sv_bytes_def simp del: append_Cons, blast)

lemma keys_loop_law:
  "wf_decoder d \<Longrightarrow> read_loop (\<lambda>i. wrapr msg [int i] (ReadBytes (int n))) i k d = (Inr xs, d') \<longleftrightarrow>
    length xs = k \<and> (\<forall>x \<in> set xs. length x = n) \<and> reads d (concat xs) d'"
  using read_loop_law [where f = "\<lambda>i. wrapr msg [int i] (ReadBytes (int n))" and enc = "\<lambda>x. x" and valid = "\<lambda>x. length x = n"]
  by (simp add: wrapr_Inr ReadBytes_law)
lemmas instruction_loop_law = read_loop_law [of decode_instruction, OF decode_instruction_law]
lemmas lookup_loop_law = read_loop_law [of decode_lookup, OF decode_lookup_law]

section \<open>Legacy and v0 bodies\<close>

definition header_bytes :: "MessageHeader \<Rightarrow> bytes" where
  "header_bytes h = [NumRequiredSignatures h] @ [NumReadonlySignedAccounts h] @ [NumReadonlyUnsignedAccounts h]"

definition sv_list :: "('a \<Rightarrow> bytes) \<Rightarrow> 'a list \<Rightarrow> bytes" where
  "sv_list f xs = shortvec (of_nat (length xs)) @ concat (map f xs)"

definition body_bytes :: "Message \<Rightarrow> bytes" where
  "body_bytes m = header_bytes (Header m) @ sv_list (\<lambda>k. k) (AccountKeys m) @ RecentBlockhash m @
     sv_list instr_bytes (Instructions m) @
     (if Version m = MessageVersion0 then sv_list lookup_bytes (AddressTableLookups m) else [])"

definition body_ok :: "Message \<Rightarrow> bool" where
  "body_ok m \<longleftrightarrow>
     length (AccountKeys m) \<le> 0xFFFF \<and> (\<forall>k \<in> set (AccountKeys m). length k = PublicKeySize) \<and>
     length (RecentBlockhash m) = HashSize \<and>
     length (Instructions m) \<le> 0xFFFF \<and> (\<forall>ix \<in> set (Instructions m). instr_ok ix) \<and>
     (if Version m = MessageVersion0
      then length (AddressTableLookups m) \<le> 0xFFFF \<and> (\<forall>lk \<in> set (AddressTableLookups m). lookup_ok lk)
      else AddressTableLookups m = []) \<and>
     TxConfig m = None"

lemma decode_body_law:
  "decode_body v d = (Inr m, d') \<longleftrightarrow> Version m = v \<and> body_ok m \<and> reads d (body_bytes m) d'"
  by (cases m, cases "Header m", cases "v = MessageVersion0";
      auto simp: decode_body_def rbind_Inr rreturn_Inr wrapr_Inr base_laws count_laws reads_append
        keys_loop_law instruction_loop_law lookup_loop_law body_ok_def body_bytes_def header_bytes_def sv_list_def
        simp del: append_Cons cong: conj_cong; blast)

section \<open>v1 bodies\<close>

definition opt_bytes :: "('a \<Rightarrow> bytes) \<Rightarrow> 'a option \<Rightarrow> bytes" where
  "opt_bytes enc v = (case v of None \<Rightarrow> [] | Some x \<Rightarrow> enc x)"

lemma read_opt_law:
  assumes "\<And>d x d'. m d = (Inr x, d') \<longleftrightarrow> reads d (enc x) d'" and "wf_decoder d"
  shows "read_opt c m d = (Inr v, d') \<longleftrightarrow> c = (\<not> Option.is_none v) \<and> reads d (opt_bytes enc v) d'"
  using assms by (cases v) (auto simp: read_opt_def opt_bytes_def map_decm_Inr rreturn_Inr)

lemma read_each_law:
  assumes "\<And>i h d x d'. f i h d = (Inr x, d') \<longleftrightarrow> h = hd_of x \<and> valid x \<and> reads d (enc x) d'"
    and "wf_decoder d"
  shows "read_each f i hs d = (Inr xs, d') \<longleftrightarrow>
    hs = map hd_of xs \<and> (\<forall>x \<in> set xs. valid x) \<and> reads d (concat (map enc xs)) d'"
  using assms(2)
proof (induction hs arbitrary: i xs d)
  case Nil
  then show ?case by (auto simp: rreturn_def)
next
  case (Cons h hs)
  have IH: "read_each f (Suc i) hs d1 = (Inr ys, d') \<longleftrightarrow>
      hs = map hd_of ys \<and> (\<forall>x \<in> set ys. valid x) \<and> reads d1 (concat (map enc ys)) d'"
    if "reads d zs d1" for ys zs d1 using that Cons.IH reads_wf by blast
  show ?case
    by (cases xs) (auto simp: rbind_Inr rreturn_Inr assms(1) reads_append IH cong: conj_cong)
qed

definition v1_head :: "CompiledInstruction \<Rightarrow> u8 \<times> u8 \<times> u16" where
  "v1_head ix = (ProgramIDIndex ix, of_nat (length (ci_Accounts ix)), of_nat (length (ci_Data ix)))"

definition head_bytes :: "u8 \<times> u8 \<times> u16 \<Rightarrow> bytes" where
  "head_bytes h = (case h of (pid, ac, dc) \<Rightarrow> [pid] @ [ac] @ le_bytes 2 dc)"

definition payload_bytes :: "CompiledInstruction \<Rightarrow> bytes" where
  "payload_bytes ix = ci_Accounts ix @ ci_Data ix"

lemma v1_head_loop_law:
  assumes "wf_decoder d"
  shows "read_loop (\<lambda>i.
              rbind (wrapr m1 [int i] ReadUint8) (\<lambda>pid.
              rbind (wrapr m2 [int i] ReadUint8) (\<lambda>ac.
              rbind (wrapr m3 [int i] ReadUint16) (\<lambda>dc.
              rreturn (pid, ac, dc))))) i n d = (Inr hs, d') \<longleftrightarrow>
     length hs = n \<and> reads d (concat (map head_bytes hs)) d'"
proof -
  have "(rbind (wrapr m1 [int i] ReadUint8) (\<lambda>pid.
              rbind (wrapr m2 [int i] ReadUint8) (\<lambda>ac.
              rbind (wrapr m3 [int i] ReadUint16) (\<lambda>dc.
              rreturn (pid, ac, dc))))) d = (Inr x, d') \<longleftrightarrow> True \<and> reads d (head_bytes x) d'" for i d x d'
    by (cases x) (auto simp: codec_law base_laws head_bytes_def simp del: append_Cons)
  from read_loop_law [OF this assms] show ?thesis by simp
qed

lemma v1_payload_law:
  assumes "wf_decoder d"
  shows "read_each (\<lambda>i (pid, ac, dc).
              rbind (wrapr m1 [int i] (ReadBytes (int (unat ac)))) (\<lambda>accounts.
              rbind (wrapr m2 [int i] (ReadBytes (int (unat dc)))) (\<lambda>data.
              rreturn \<lparr>ProgramIDIndex = pid, ci_Accounts = accounts, ci_Data = data\<rparr>))) i hs d = (Inr ixs, d') \<longleftrightarrow>
     hs = map v1_head ixs \<and> (\<forall>ix \<in> set ixs. v1_instruction_ok ix) \<and>
     reads d (concat (map payload_bytes ixs)) d'"
  by (rule read_each_law [OF _ assms])
     (auto simp: codec_law base_laws count_laws payload_bytes_def v1_head_def v1_instruction_ok_def not_less
       split: prod.splits; fastforce)

definition config_of :: "TransactionConfig option \<Rightarrow> TransactionConfig" where
  "config_of c = (case c of None \<Rightarrow> \<lparr>PriorityFee = None, ComputeUnitLimit = None,
      LoadedAccountsDataSizeLimit = None, HeapSize = None\<rparr> | Some c \<Rightarrow> c)"

definition config_bytes :: "TransactionConfig \<Rightarrow> bytes" where
  "config_bytes c = opt_bytes (le_bytes 8) (PriorityFee c) @ opt_bytes (le_bytes 4) (ComputeUnitLimit c) @
     opt_bytes (le_bytes 4) (LoadedAccountsDataSizeLimit c) @ opt_bytes (le_bytes 4) (HeapSize c)"

lemma small_word_cases:
  assumes "w AND NOT 0x1f = (0::u32)"
  shows "w \<in> of_nat ` set [0..<32]"
proof -
  have "(0x1f :: u32) = mask 5" by (simp add: mask_eq_exp_minus_1)
  with assms have "w = take_bit 5 w"
    by (auto simp: take_bit_eq_mask bit_eq_iff bit_simps)
  then have "unat w = take_bit 5 (unat w)" by (metis unsigned_take_bit_eq)
  then have "unat w < 32" by (simp add: take_bit_eq_mod)
  then show ?thesis by (intro image_eqI [of _ _ "unat w"]) auto
qed

lemma small_mask_rebuild:
  "list_all (\<lambda>w. v1_mask_bad w \<or>
     w = (if w AND v1PriorityFeeMask \<noteq> 0 then v1PriorityFeeMask else 0) OR
         (if w AND v1ComputeUnitLimitMask \<noteq> 0 then v1ComputeUnitLimitMask else 0) OR
         (if w AND v1LoadedDataSizeMask \<noteq> 0 then v1LoadedDataSizeMask else 0) OR
         (if w AND v1HeapSizeMask \<noteq> 0 then v1HeapSizeMask else 0)) (map of_nat [0..<32])"
  by code_simp

definition mask_fits :: "u32 \<Rightarrow> TransactionConfig \<Rightarrow> bool" where
  "mask_fits w c \<longleftrightarrow>
     (w AND v1PriorityFeeMask \<noteq> 0) = (\<not> Option.is_none (PriorityFee c)) \<and>
     (w AND v1ComputeUnitLimitMask \<noteq> 0) = (\<not> Option.is_none (ComputeUnitLimit c)) \<and>
     (w AND v1LoadedDataSizeMask \<noteq> 0) = (\<not> Option.is_none (LoadedAccountsDataSizeLimit c)) \<and>
     (w AND v1HeapSizeMask \<noteq> 0) = (\<not> Option.is_none (HeapSize c))"

lemma mask_fits_unique:
  assumes "\<not> v1_mask_bad w" and "mask_fits w c"
  shows "w = config_mask (Some c)"
proof -
  have "w \<in> of_nat ` set [0..<32]" using assms(1) small_word_cases by (simp add: v1_mask_bad_def v1_masks)
  then have "w \<in> set (map of_nat [0..<32])" by (simp only: set_map)
  with assms(1) small_mask_rebuild [unfolded list_all_iff]
  have w: "w = (if w AND v1PriorityFeeMask \<noteq> 0 then v1PriorityFeeMask else 0) OR
         (if w AND v1ComputeUnitLimitMask \<noteq> 0 then v1ComputeUnitLimitMask else 0) OR
         (if w AND v1LoadedDataSizeMask \<noteq> 0 then v1LoadedDataSizeMask else 0) OR
         (if w AND v1HeapSizeMask \<noteq> 0 then v1HeapSizeMask else 0)" by blast
  show ?thesis unfolding config_mask_def option.case using assms(2) [unfolded mask_fits_def Option.is_none_def]
    by (subst w) presburger
qed

lemma mask_of_config [simp]:
  "\<not> v1_mask_bad (config_mask (Some c))" "mask_fits (config_mask (Some c)) c"
  by (auto simp: v1_mask_bad_def v1_masks config_mask_def mask_fits_def Option.is_none_def)

lemma decode_v1_config_law:
  "wf_decoder d \<Longrightarrow> decode_v1_config w d = (Inr c, d') \<longleftrightarrow> mask_fits w c \<and> reads d (config_bytes c) d'"
  by (cases c, simp add: decode_v1_config_def codec_law base_laws read_opt_law mask_fits_def config_bytes_def
      cong: conj_cong) blast

lemma decode_v1_instructions_law:
  "wf_decoder d \<Longrightarrow> decode_v1_instructions n d = (Inr ixs, d') \<longleftrightarrow>
     length ixs = unat n \<and> (\<forall>ix \<in> set ixs. v1_instruction_ok ix) \<and>
     reads d (concat (map (\<lambda>ix. head_bytes (v1_head ix)) ixs) @ concat (map payload_bytes ixs)) d'"
  by (auto simp: decode_v1_instructions_def rbind_Inr v1_head_loop_law v1_payload_law reads_append comp_def
      simp del: of_nat_unat intro!: exI [of _ "map v1_head ixs"] cong: conj_cong)

definition v1_body_bytes :: "Message \<Rightarrow> bytes" where
  "v1_body_bytes m = header_bytes (Header m) @
     le_bytes 4 (config_mask (TxConfig m)) @ RecentBlockhash m @
     [of_nat (length (Instructions m))] @ [of_nat (length (AccountKeys m))] @
     concat (AccountKeys m) @ config_bytes (config_of (TxConfig m)) @
     concat (map (\<lambda>ix. head_bytes (v1_head ix)) (Instructions m)) @
     concat (map payload_bytes (Instructions m))"

definition v1_ok :: "Message \<Rightarrow> bool" where
  "v1_ok m \<longleftrightarrow> Version m = MessageVersion1 \<and>
     length (AccountKeys m) \<le> 255 \<and> (\<forall>k \<in> set (AccountKeys m). length k = PublicKeySize) \<and>
     length (RecentBlockhash m) = HashSize \<and>
     length (Instructions m) \<le> 255 \<and> (\<forall>ix \<in> set (Instructions m). v1_instruction_ok ix) \<and>
     AddressTableLookups m = [] \<and> TxConfig m \<noteq> None"

lemma decode_v1_body_law:
  "decode_v1_body d = (Inr m, d') \<longleftrightarrow> v1_ok m \<and> reads d (v1_body_bytes m) d'"
  by (cases m, cases "Header m";
      auto simp: decode_v1_body_def rbind_Inr rreturn_Inr guard_Inr wrapr_Inr base_laws count_laws reads_append
        keys_loop_law decode_v1_config_law decode_v1_instructions_law v1_ok_def v1_body_bytes_def header_bytes_def
        config_of_def dest!: mask_fits_unique
        simp del: append_Cons cong: conj_cong;
      (blast | (intro exI conjI, (assumption | rule refl mask_of_config)+)))

section \<open>Messages\<close>

definition message_ok :: "Message \<Rightarrow> bool" where
  "message_ok m \<longleftrightarrow>
     (if Version m = MessageVersion1 then v1_ok m
      else body_ok m \<and> (Version m = MessageVersion0 \<or>
        Version m = MessageVersionLegacy \<and> NumRequiredSignatures (Header m) < versionPrefixMask))"

definition message_bytes :: "Message \<Rightarrow> bytes" where
  "message_bytes m =
     (if Version m = MessageVersion1 then [versionPrefixMask OR MessageVersion1] @ v1_body_bytes m
      else (if Version m \<noteq> MessageVersionLegacy then [versionPrefixMask OR Version m] else []) @ body_bytes m)"

lemma message_bytes_ne [simp]: "message_bytes m \<noteq> []"
  by (simp add: message_bytes_def body_bytes_def header_bytes_def)

lemma version_byte:
  fixes b :: byte
  shows "(b AND 0x80 \<noteq> 0) = (0x80 \<le> b) \<and>
    (0x80 \<le> b \<longrightarrow> (b AND NOT 0x80 \<le> 1) = (b = 0x80 \<or> b = 0x81))"
  by (rule byte_enum [of _ b]) code_simp

lemma decode_version_law:
  assumes "reads d [b] d1" and "b \<noteq> 0x81"
  shows "decode_version b d = (Inr v, d') \<longleftrightarrow>
    b = 0x80 \<and> v = MessageVersion0 \<and> d' = d1 \<or> b < 0x80 \<and> v = MessageVersionLegacy \<and> d' = d"
  using assms version_byte [of b] reads_byte_unique [OF assms(1)]
  by (auto simp: decode_version_def Let_def codec_law base_laws version_defs not_less)

lemma DecodeMessage_law:
  "DecodeMessage d = (Inr m, d') \<longleftrightarrow> message_ok m \<and> reads d (message_bytes m) d'"
proof (cases "\<exists>b d1. reads d [b] d1")
  case False
  then have "\<not> reads d (message_bytes m) d'"
    using reads_first [of d "message_bytes m" d'] message_bytes_ne by blast
  with False show ?thesis
    by (simp add: DecodeMessage_def rbind_Inr wrapr_Inr PeekUint8_law)
next
  case True
  then obtain b d1 where b: "reads d [b] d1" by blast
  note u = reads_byte_unique [OF b]
  have cons: "reads d (x # xs) d' \<longleftrightarrow> x = b \<and> reads d1 xs d'" for x xs
    using u reads_Cons [of d x xs d'] by auto
  have *: "DecodeMessage d = (Inr m, d') \<longleftrightarrow>
    (if b = 0x81 then decodeMessageV1 d = (Inr m, d')
     else (\<exists>v d2. decode_version b d = (Inr v, d2) \<and> decode_body v d2 = (Inr m, d')))"
  proof -
    have "(\<exists>d1. reads d [x] d1) \<longleftrightarrow> x = b" for x using u b by blast
    then show ?thesis
      by (simp add: DecodeMessage_def rbind_Inr wrapr_Inr PeekUint8_law version_defs)
  qed
  show ?thesis
  proof (cases "b = 0x81")
    case v1: True
    have "decodeMessageV1 d = (Inr m, d') \<longleftrightarrow> v1_ok m \<and> reads d1 (v1_body_bytes m) d'"
      using u by (simp add: decodeMessageV1_def rbind_Inr wrapr_Inr base_laws decode_v1_body_law)
    with v1 show ?thesis
      unfolding * by (auto simp: message_ok_def message_bytes_def cons version_defs v1_ok_def
          body_bytes_def header_bytes_def)
  next
    case False
    with * have "DecodeMessage d = (Inr m, d') \<longleftrightarrow>
        b = 0x80 \<and> decode_body MessageVersion0 d1 = (Inr m, d') \<or>
        b < 0x80 \<and> decode_body MessageVersionLegacy d = (Inr m, d')"
      by (auto simp: decode_version_law [OF b])
    with False show ?thesis
      by (auto simp: decode_body_law message_ok_def message_bytes_def cons version_defs
          body_bytes_def header_bytes_def)
  qed
qed
section \<open>The encoder writes the wire format\<close>

definition marshal_ok :: "Message \<Rightarrow> bool" where
  "marshal_ok m \<longleftrightarrow>
     (if Version m = MessageVersion1
      then AddressTableLookups m = [] \<and> length (AccountKeys m) \<le> 255 \<and>
        length (Instructions m) \<le> 255 \<and> (\<forall>ix \<in> set (Instructions m). v1_instruction_ok ix)
      else length (AccountKeys m) \<le> 0xFFFF \<and>
        length (Instructions m) \<le> 0xFFFF \<and> (\<forall>ix \<in> set (Instructions m). instr_ok ix) \<and>
        (if Version m = MessageVersion0
         then length (AddressTableLookups m) \<le> 0xFFFF \<and>
           (\<forall>lk \<in> set (AddressTableLookups m).
              length (WritableIndexes lk) \<le> 0xFFFF \<and> length (ReadonlyIndexes lk) \<le> 0xFFFF)
         else Version m = MessageVersionLegacy \<and> AddressTableLookups m = []))"

lemma marshal_instructions_law:
  "marshal_instructions i ixs e = Inr e' \<longleftrightarrow>
     (\<forall>ix \<in> set ixs. instr_ok ix) \<and> e' = \<lparr>e_buf = e_buf e @ concat (map instr_bytes ixs)\<rparr>"
  by (induction ixs arbitrary: i e)
     (auto simp: encoder_eq_iff Let_def instr_ok_def instr_bytes_def sv_bytes_def)

lemma marshal_lookups_law:
  "marshal_lookups i lks e = Inr e' \<longleftrightarrow>
     (\<forall>lk \<in> set lks. length (WritableIndexes lk) \<le> 0xFFFF \<and> length (ReadonlyIndexes lk) \<le> 0xFFFF) \<and>
     e' = \<lparr>e_buf = e_buf e @ concat (map lookup_bytes lks)\<rparr>"
  by (induction lks arbitrary: i e)
     (auto simp: encoder_eq_iff Let_def lookup_bytes_def sv_bytes_def)

lemma check_v1_instructions_None:
  "check_v1_instructions i ixs = None \<longleftrightarrow> (\<forall>ix \<in> set ixs. v1_instruction_ok ix)"
  by (induction ixs arbitrary: i) auto

lemma fold_heads:
  "e_buf (fold (\<lambda>ix. chain [WriteUint8 (ProgramIDIndex ix), WriteUint8 (of_nat (length (ci_Accounts ix))),
      WriteUint16 (of_nat (length (ci_Data ix)))]) ixs e) =
   e_buf e @ concat (map (\<lambda>ix. head_bytes (v1_head ix)) ixs)"
  by (induction ixs arbitrary: e) (simp_all add: head_bytes_def v1_head_def)

lemma fold_payloads:
  "e_buf (fold (\<lambda>ix. chain [WriteBytes (ci_Accounts ix), WriteBytes (ci_Data ix)]) ixs e) =
   e_buf e @ concat (map payload_bytes ixs)"
  by (induction ixs arbitrary: e) (simp_all add: payload_bytes_def)

lemma write_opt_bytes [simp]:
  assumes "\<And>x e. e_buf (w x e) = e_buf e @ enc x"
  shows "e_buf (write_opt w v e) = e_buf e @ opt_bytes enc v"
  by (cases v) (simp_all add: write_opt_def opt_bytes_def assms)

lemma marshalV1Into_law:
  "marshalV1Into m e = Inr e' \<longleftrightarrow>
     length (AccountKeys m) \<le> 255 \<and> length (Instructions m) \<le> 255 \<and>
     (\<forall>ix \<in> set (Instructions m). v1_instruction_ok ix) \<and>
     e_buf e' = e_buf e @ [versionPrefixMask OR MessageVersion1] @ v1_body_bytes m"
proof (cases "check_v1_instructions 0 (Instructions m)")
  case None
  then have "\<forall>ix \<in> set (Instructions m). v1_instruction_ok ix"
    by (simp add: check_v1_instructions_None)
  with None show ?thesis
    by (auto simp: marshalV1Into_def encoder_eq_iff fold_heads fold_payloads
        write_opt_bytes [where enc = "le_bytes 8"] write_opt_bytes [where enc = "le_bytes 4"]
        v1_body_bytes_def header_bytes_def config_bytes_def config_of_def opt_bytes_def
        split: option.splits)
next
  case (Some err)
  then have "\<not> (\<forall>ix \<in> set (Instructions m). v1_instruction_ok ix)"
    by (metis check_v1_instructions_None option.distinct(1))
  with Some show ?thesis by (auto simp: marshalV1Into_def)
qed

lemma marshalInto_law:
  "marshalInto m e = Inr e' \<longleftrightarrow>
     (if Version m = MessageVersion1 then marshal_ok (m\<lparr>AddressTableLookups := []\<rparr>)
      else marshal_ok (if Version m = MessageVersion0 then m
             else m\<lparr>AddressTableLookups := [], Version := MessageVersionLegacy\<rparr>)) \<and>
     e_buf e' = e_buf e @ message_bytes m"
  by (auto simp: marshalInto_def marshalV1Into_law marshal_instructions_law marshal_lookups_law
      res_bind_Inr_iff encoder_eq_iff Let_def marshal_ok_def message_bytes_def body_bytes_def
      header_bytes_def sv_list_def version_defs; metis encoder.select_convs(1))

lemma Marshal_law: "Marshal m = Inr bs \<longleftrightarrow> marshal_ok m \<and> bs = message_bytes m"
proof (cases "validate m")
  case None
  then have "(if Version m = MessageVersion1 then marshal_ok (m\<lparr>AddressTableLookups := []\<rparr>)
      else marshal_ok (if Version m = MessageVersion0 then m
             else m\<lparr>AddressTableLookups := [], Version := MessageVersionLegacy\<rparr>)) \<longleftrightarrow> marshal_ok m"
    by (auto simp: validate_def marshal_ok_def version_defs split: if_splits)
  moreover have "(\<exists>e'. e_buf e' = message_bytes m \<and> bs = enc_Bytes e') \<longleftrightarrow> bs = message_bytes m"
    by (auto simp: enc_Bytes_def intro: exI [of _ "\<lparr>e_buf = message_bytes m\<rparr>"])
  ultimately show ?thesis using None
    by (auto simp: Marshal_def res_bind_Inr_iff marshalInto_law)
next
  case (Some err)
  then have "\<not> marshal_ok m"
    by (auto simp: validate_def marshal_ok_def version_defs split: if_splits)
  with Some show ?thesis by (simp add: Marshal_def)
qed

lemma message_ok_marshal_ok: "message_ok m \<Longrightarrow> marshal_ok m"
  by (auto simp: message_ok_def marshal_ok_def v1_ok_def body_ok_def lookup_ok_def version_defs)

section \<open>The message codec\<close>

lemma wire_reader_peek: "wire_reader PeekUint8"
  by unfold_locales (auto simp: PeekUint8_def split: if_splits)

lemma wire_reader_opt: "wire_reader m \<Longrightarrow> wire_reader (read_opt c m)"
  by (simp add: read_opt_def wire_reader_return wire_reader_map)

lemma wire_reader_each: "(\<And>i h. wire_reader (f i h)) \<Longrightarrow> wire_reader (read_each f i hs)"
  by (induction hs arbitrary: i) (simp_all add: wire_reader_return wire_reader_bind)

lemma decode_body_reader: "wire_reader (decode_body v)"
  unfolding decode_body_def decode_instruction_def decode_lookup_def
  by (intro reader_intros base_readers)

lemma decode_v1_reader: "wire_reader decodeMessageV1"
  unfolding decodeMessageV1_def decode_v1_body_def decode_v1_config_def decode_v1_instructions_def
    case_prod_beta
  by (intro reader_intros base_readers wire_reader_opt wire_reader_each)

lemma decode_version_reader: "wire_reader (decode_version b)"
  unfolding decode_version_def Let_def by (intro reader_intros base_readers)

lemma message_codec: "wire_codec DecodeMessage message_bytes message_ok"
proof (intro wire_codec.intro wire_codec_axioms.intro DecodeMessage_law)
  show "wire_reader DecodeMessage"
    unfolding DecodeMessage_def
    by (intro reader_intros wire_reader_peek decode_v1_reader decode_version_reader decode_body_reader)
qed

interpretation msg: wire_codec DecodeMessage message_bytes message_ok
  by (rule message_codec)

lemma UnmarshalBinary_law:
  "UnmarshalBinary bs = Inr m \<longleftrightarrow> message_ok m \<and> bs = message_bytes m"
proof
  assume "UnmarshalBinary bs = Inr m"
  then obtain d where d: "DecodeMessage (NewDecoder bs) = (Inr m, d)" "Remaining d = 0"
    by (auto simp: UnmarshalBinary_def split: if_splits prod.splits sum.splits)
  then show "message_ok m \<and> bs = message_bytes m"
    by (metis DecodeMessage_law Remaining_reads_NewDecoder)
next
  assume a: "message_ok m \<and> bs = message_bytes m"
  then have "DecodeMessage (NewDecoder bs) = (Inr m, (NewDecoder bs)\<lparr>d_pos := length bs\<rparr>)"
    by (simp add: DecodeMessage_law reads_NewDecoder)
  then show "UnmarshalBinary bs = Inr m"
    using a by (simp add: UnmarshalBinary_def Remaining_def NewDecoder_def)
qed

section \<open>Size\<close>

lemma length_shortvec_svSize [wire_size]: "n \<le> 0xFFFF \<Longrightarrow> length (shortvec (of_nat n)) = svSize n"
  by (simp add: length_shortvec svSize_def unat_of_nat)

definition arrays_ok :: "Message \<Rightarrow> bool" where
  "arrays_ok m \<longleftrightarrow> (\<forall>k \<in> set (AccountKeys m). length k = PublicKeySize) \<and>
     length (RecentBlockhash m) = HashSize \<and>
     (\<forall>lk \<in> set (AddressTableLookups m). length (lk_AccountKey lk) = PublicKeySize)"

lemma length_concat_sum:
  "(\<And>x. x \<in> set xs \<Longrightarrow> length (f x) = g x) \<Longrightarrow> length (concat (map f xs)) = sum_list (map g xs)"
  by (induction xs) auto

lemma length_opt_bytes [wire_size]:
  "(\<And>x. length (enc x) = k) \<Longrightarrow> length (opt_bytes enc v) = opt_size k v"
  by (cases v) (simp_all add: opt_bytes_def opt_size_def)

lemma opt_size_None: "opt_size k None = 0"
  by (simp add: opt_size_def)

lemma length_message_bytes:
  assumes "marshal_ok m" and "arrays_ok m"
  shows "length (message_bytes m) = SerializedSize m"
proof -
  have keys: "length (concat (AccountKeys m)) = length (AccountKeys m) * PublicKeySize"
    using length_concat_sum [of "AccountKeys m" "\<lambda>k. k" "\<lambda>_. PublicKeySize"] assms(2)
    by (simp add: arrays_ok_def sum_list_map_const)
  show ?thesis
  proof (cases "Version m = MessageVersion1")
    case True
    have "length (concat (map (\<lambda>ix. head_bytes (v1_head ix)) ixs)) + length (concat (map payload_bytes ixs)) =
        sum_list (map (\<lambda>ix. 4 + length (ci_Accounts ix) + length (ci_Data ix)) ixs)" for ixs
      by (induction ixs) (auto simp: head_bytes_def v1_head_def payload_bytes_def)
    with True keys assms show ?thesis
      by (simp add: message_bytes_def v1_body_bytes_def header_bytes_def SerializedSize_def
          serializedSizeV1_def config_bytes_def config_of_def wire_size arrays_ok_def opt_size_None
          split: option.splits)
  next
    case False
    have ixs: "length (concat (map instr_bytes (Instructions m))) = sum_list (map instruction_size (Instructions m))"
      using assms(1) False
      by (intro length_concat_sum) (auto simp: marshal_ok_def instr_ok_def instr_bytes_def sv_bytes_def
          instruction_size_def wire_size)
    have lks: "length (concat (map lookup_bytes (AddressTableLookups m))) =
        sum_list (map lookup_size (AddressTableLookups m))" if "Version m = MessageVersion0"
      using assms False that
      by (intro length_concat_sum) (auto simp: marshal_ok_def lookup_bytes_def sv_bytes_def
          lookup_size_def wire_size arrays_ok_def)
    from False keys ixs lks assms show ?thesis
      by (auto simp: message_bytes_def body_bytes_def header_bytes_def SerializedSize_def sv_list_def
          wire_size arrays_ok_def marshal_ok_def version_defs)
  qed
qed

section \<open>Resolution of lookups\<close>

definition table :: "(PublicKey \<rightharpoonup> PublicKey list) \<Rightarrow> MessageAddressTableLookup \<Rightarrow> PublicKey list" where
  "table alts lk = (case alts (lk_AccountKey lk) of None \<Rightarrow> [] | Some addrs \<Rightarrow> addrs)"

definition lookup_resolvable :: "(PublicKey \<rightharpoonup> PublicKey list) \<Rightarrow> MessageAddressTableLookup \<Rightarrow> bool" where
  "lookup_resolvable alts lk \<longleftrightarrow> alts (lk_AccountKey lk) \<noteq> None \<and>
     (\<forall>i \<in> set (WritableIndexes lk) \<union> set (ReadonlyIndexes lk). unat i < length (table alts lk))"

definition lookup_keys ::
    "(PublicKey \<rightharpoonup> PublicKey list) \<Rightarrow> (MessageAddressTableLookup \<Rightarrow> bytes) \<Rightarrow> Message \<Rightarrow> PublicKey list" where
  "lookup_keys alts idxs m =
     concat (map (\<lambda>lk. map (\<lambda>i. table alts lk ! unat i) (idxs lk)) (AddressTableLookups m))"

lemma resolve_indexes_Inr:
  "resolve_indexes kind addrs idxs = Inr ks \<longleftrightarrow>
     (\<forall>i \<in> set idxs. unat i < length addrs) \<and> ks = map (\<lambda>i. addrs ! unat i) idxs"
  by (induction idxs arbitrary: ks) (auto simp: res_bind_Inr_iff)

lemma resolve_writable_Inr:
  "resolve_writable alts lks = Inr ks \<longleftrightarrow>
     (\<forall>lk \<in> set lks. alts (lk_AccountKey lk) \<noteq> None \<and>
        (\<forall>i \<in> set (WritableIndexes lk). unat i < length (table alts lk))) \<and>
     ks = concat (map (\<lambda>lk. map (\<lambda>i. table alts lk ! unat i) (WritableIndexes lk)) lks)"
  by (induction lks arbitrary: ks)
     (auto simp: res_bind_Inr_iff resolve_indexes_Inr table_def split: option.splits)

lemma resolve_readonly_Inr:
  "resolve_readonly alts lks = Inr ks \<longleftrightarrow>
     (\<forall>lk \<in> set lks. \<forall>i \<in> set (ReadonlyIndexes lk). unat i < length (table alts lk)) \<and>
     ks = concat (map (\<lambda>lk. map (\<lambda>i. table alts lk ! unat i) (ReadonlyIndexes lk)) lks)"
  by (induction lks arbitrary: ks) (auto simp: res_bind_Inr_iff resolve_indexes_Inr table_def Let_def)

lemma ResolvedAccountKeys_law:
  "ResolvedAccountKeys m alts = Inr ks \<longleftrightarrow>
     list_all (lookup_resolvable alts) (AddressTableLookups m) \<and>
     ks = AccountKeys m @ lookup_keys alts WritableIndexes m @ lookup_keys alts ReadonlyIndexes m"
  by (auto simp: ResolvedAccountKeys_def res_bind_Inr_iff resolve_writable_Inr resolve_readonly_Inr
      list_all_iff lookup_resolvable_def lookup_keys_def)

section \<open>Properties\<close>

text \<open>
  C2: Decoding is the exact inverse of encoding.  \<open>UnmarshalBinary\<close> returns the message
  \<open>m\<close> for the bytes \<open>bs\<close> precisely when \<open>m\<close> is a decodable message and \<open>Marshal\<close>
  produces \<open>bs\<close> from it: every decodable message survives the round trip, and every
  accepted byte string is the canonical encoding of the message it decodes to (nothing
  truncated, padded, followed by more bytes or encoded with a non-minimal length is accepted).
\<close>

theorem UnmarshalBinary_iff_Marshal:
  "UnmarshalBinary bs = Inr m \<longleftrightarrow> message_ok m \<and> Marshal m = Inr bs"
  by (auto simp: UnmarshalBinary_law Marshal_law message_ok_marshal_ok)

text \<open>
  \<open>Marshal\<close> succeeds exactly on the messages of a known version whose counts fit their
  length prefixes and whose lookups the version allows, and then its bytes are the wire format.
\<close>

theorem Marshal_iff: "Marshal m = Inr bs \<longleftrightarrow> marshal_ok m \<and> bs = message_bytes m"
  by (rule Marshal_law)

text \<open>
  C31: \<open>SerializedSize\<close> is the length of what \<open>Marshal\<close> returns, for all three
  versions; the buffer it preallocates never grows.
\<close>

theorem SerializedSize_Marshal:
  assumes "arrays_ok m" and "Marshal m = Inr bs"
  shows "length bs = SerializedSize m"
  using assms by (simp add: Marshal_law length_message_bytes)

text \<open>
  \<open>DecodeMessage\<close> reads a message out of a longer stream: on the encoding of a decodable
  message followed by any bytes it returns the message with the cursor on the first byte
  behind it, and on every proper prefix of the encoding it fails.
\<close>

theorem DecodeMessage_stream:
  assumes "message_ok m" and "Marshal m = Inr bs"
  shows "DecodeMessage (NewDecoder (bs @ rest)) = (Inr m, (NewDecoder (bs @ rest))\<lparr>d_pos := length bs\<rparr>) \<and>
    (n < length bs \<longrightarrow> (\<exists>e d. DecodeMessage (NewDecoder (take n bs)) = (Inl e, d)))"
  using assms msg.roundtrip msg.truncated by (simp_all add: Marshal_law)

text \<open>
  C32: \<open>ResolvedAccountKeys\<close> returns the static keys, then the writable and then the readonly
  addresses of all lookups in lookup order, and it does so exactly when every lookup's table is
  known and every index lies inside its table.
\<close>

theorem ResolvedAccountKeys_iff:
  "ResolvedAccountKeys m alts = Inr ks \<longleftrightarrow>
     list_all (lookup_resolvable alts) (AddressTableLookups m) \<and>
     ks = AccountKeys m @ lookup_keys alts WritableIndexes m @ lookup_keys alts ReadonlyIndexes m"
  by (rule ResolvedAccountKeys_law)

text \<open>
  The version bit is ambiguous for a legacy message with 128 or more required signatures:
  \<open>Marshal\<close> accepts it, but no decoding of the result gives the message back.
\<close>

theorem legacy_signers_not_decodable:
  assumes "Version m = MessageVersionLegacy" and "marshal_ok m"
    and "128 \<le> unat (NumRequiredSignatures (Header m))"
  shows "\<exists>bs. Marshal m = Inr bs \<and> UnmarshalBinary bs \<noteq> Inr m"
  using assms by (auto simp: Marshal_law UnmarshalBinary_law message_ok_def version_defs word_less_nat_alt)

definition sample_message :: Message where
  "sample_message =
     \<lparr>Version = MessageVersion0,
      Header = \<lparr>NumRequiredSignatures = 1, NumReadonlySignedAccounts = 0, NumReadonlyUnsignedAccounts = 1\<rparr>,
      AccountKeys = [replicate 32 1, replicate 32 2],
      RecentBlockhash = replicate 32 9,
      Instructions = [\<lparr>ProgramIDIndex = 1, ci_Accounts = [0, 2], ci_Data = [7, 7, 7]\<rparr>],
      AddressTableLookups = [\<lparr>lk_AccountKey = replicate 32 5, WritableIndexes = [3], ReadonlyIndexes = []\<rparr>],
      TxConfig = None\<rparr>"

lemma sample_message_ok: "message_ok sample_message" "arrays_ok sample_message"
  by (simp_all add: sample_message_def message_ok_def body_ok_def instr_ok_def lookup_ok_def arrays_ok_def
      version_defs PublicKeySize_def HashSize_def)

lemma sample_message_Marshal: "Marshal sample_message = Inr (message_bytes sample_message)"
  by (simp add: Marshal_law message_ok_marshal_ok sample_message_ok)

lemma sample_message_size: "SerializedSize sample_message = 146"
  by (simp add: sample_message_def SerializedSize_def svSize_def instruction_size_def lookup_size_def
      version_defs PublicKeySize_def HashSize_def)

theorem SerializedSize_Marshal_witness: "length (message_bytes sample_message) = 146"
proof -
  have "length (message_bytes sample_message) = SerializedSize sample_message"
    by (rule SerializedSize_Marshal [OF sample_message_ok(2) sample_message_Marshal])
  then show ?thesis by (simp add: sample_message_size)
qed

theorem DecodeMessage_stream_witness:
  "DecodeMessage (NewDecoder (message_bytes sample_message @ [1, 2])) =
     (Inr sample_message, (NewDecoder (message_bytes sample_message @ [1, 2]))\<lparr>d_pos := 146\<rparr>) \<and>
   (\<exists>e d. DecodeMessage (NewDecoder (take 100 (message_bytes sample_message))) = (Inl e, d))"
  using DecodeMessage_stream [OF sample_message_ok(1) sample_message_Marshal, of "[1, 2]" 100]
    length_message_bytes [OF _ sample_message_ok(2)] message_ok_marshal_ok [OF sample_message_ok(1)]
  by (simp add: sample_message_size)

definition many_signers_message :: Message where
  "many_signers_message = sample_message\<lparr>Version := MessageVersionLegacy, AddressTableLookups := [],
     Header := \<lparr>NumRequiredSignatures = 200, NumReadonlySignedAccounts = 0, NumReadonlyUnsignedAccounts = 1\<rparr>\<rparr>"

theorem legacy_signers_not_decodable_witness:
  "\<exists>bs. Marshal many_signers_message = Inr bs \<and> UnmarshalBinary bs \<noteq> Inr many_signers_message"
  by (rule legacy_signers_not_decodable)
     (simp_all add: many_signers_message_def sample_message_def marshal_ok_def instr_ok_def version_defs)

end
