(* ===== verification/Builder_Laws.thy ===== *)
theory Builder_Laws
  imports Message_Builder Message_Wire
begin

text \<open>
  Correctness of the message builders.  The uses of an instruction list are the triples
  (key, signer, writable) in the order the code visits them; the static accounts are a
  function of that list (\<open>static_keys\<close>), whatever order Go iterates its maps in.  The
  locale \<open>key_index\<close> is the contract between the index map and the compiled
  instructions; both builders are instances.
\<close>

section \<open>Lists and association lists\<close>

definition first_occ :: "'a list \<Rightarrow> 'a list" where
  "first_occ xs = rev (remdups (rev xs))"

lemma first_occ_snoc: "first_occ (xs @ [x]) = (if x \<in> set xs then first_occ xs else first_occ xs @ [x])"
  by (simp add: first_occ_def)

lemma first_occ_Nil [simp]: "first_occ [] = []"
  by (simp add: first_occ_def)

lemma set_first_occ [simp]: "set (first_occ xs) = set xs"
  by (simp add: first_occ_def)

lemma distinct_first_occ [simp]: "distinct (first_occ xs)"
  by (simp add: first_occ_def)

lemma first_occ_Cons: "first_occ (x # xs) = x # filter (\<lambda>y. y \<noteq> x) (first_occ xs)"
proof (induction xs rule: rev_induct)
  case Nil
  then show ?case by (simp add: first_occ_def)
next
  case (snoc y ys)
  have "first_occ (x # ys @ [y]) = (if y \<in> set (x # ys) then first_occ (x # ys) else first_occ (x # ys) @ [y])"
    using first_occ_snoc [of "x # ys" y] by simp
  with snoc show ?case by (auto simp: first_occ_snoc)
qed

lemma AList_update_new: "k \<notin> fst ` set xs \<Longrightarrow> AList.update k v xs = xs @ [(k, v)]"
  by (induction xs) auto

lemma AList_update_old:
  "distinct (map fst xs) \<Longrightarrow> k \<in> fst ` set xs \<Longrightarrow>
   AList.update k v xs = map (\<lambda>(k', v'). (k', if k' = k then v else v')) xs"
proof (induction xs)
  case (Cons p xs)
  have "map (\<lambda>(k', v'). (k', if k' = k then v else v')) xs = xs" if "k \<notin> fst ` set xs"
    by (rule map_idI) (use that in force)
  with Cons show ?case by (cases p) auto
qed simp

section \<open>The static accounts\<close>

type_synonym account_use = "PublicKey \<times> bool \<times> bool"

definition apply_uses :: "account_use list \<Rightarrow> staticEntries \<Rightarrow> staticEntries" where
  "apply_uses us s = fold (\<lambda>(k, sg, wr). addOrUpdate k sg wr) us s"

definition use_signs :: "account_use list \<Rightarrow> PublicKey \<Rightarrow> bool" where
  "use_signs us k \<longleftrightarrow> (\<exists>w. (k, True, w) \<in> set us)"

definition use_writes :: "account_use list \<Rightarrow> PublicKey \<Rightarrow> bool" where
  "use_writes us k \<longleftrightarrow> (\<exists>sg. (k, sg, True) \<in> set us)"

definition entry_of :: "account_use list \<Rightarrow> PublicKey \<Rightarrow> nat \<Rightarrow> staticEntry" where
  "entry_of us k i = \<lparr>se_pubkey = k, se_signer = use_signs us k, se_writable = use_writes us k, firstSeen = i\<rparr>"

lemma signs_snoc: "use_signs (us @ [(k, sg, wr)]) k' \<longleftrightarrow> use_signs us k' \<or> k' = k \<and> sg"
  by (auto simp: use_signs_def)

lemma writes_snoc: "use_writes (us @ [(k, sg, wr)]) k' \<longleftrightarrow> use_writes us k' \<or> k' = k \<and> wr"
  by (auto simp: use_writes_def)

lemma entry_of_snoc:
  "entry_of (us @ [(k, sg, wr)]) k' i =
     (if k' = k then (entry_of us k i)\<lparr>se_signer := use_signs us k \<or> sg, se_writable := use_writes us k \<or> wr\<rparr>
      else entry_of us k' i)"
  by (auto simp: entry_of_def signs_snoc writes_snoc)

lemma apply_uses_new:
  "apply_uses us newStaticEntries =
     \<lparr>se_m = map (\<lambda>(i, k). (k, entry_of us k i)) (enumerate 0 (first_occ (map fst us))),
      se_counter = length (first_occ (map fst us))\<rparr>"
proof (induction us rule: rev_induct)
  case Nil
  then show ?case by (simp add: apply_uses_def newStaticEntries_def)
next
  case (snoc u us)
  obtain k sg wr where u: "u = (k, sg, wr)" by (cases u)
  let ?ks = "first_occ (map fst us)"
  let ?m = "map (\<lambda>(i, k). (k, entry_of us k i)) (enumerate 0 ?ks)"
  have keys: "map fst ?m = ?ks"
    by (simp add: case_prod_beta comp_def)
  then have dist: "distinct (map fst ?m)" and dom: "fst ` set ?m = set ?ks"
    by (simp_all flip: set_map)
  have step: "apply_uses (us @ [u]) newStaticEntries = addOrUpdate k sg wr (apply_uses us newStaticEntries)"
    by (simp add: apply_uses_def u)
  show ?case
  proof (cases "k \<in> set ?ks")
    case True
    then obtain i where i: "i < length ?ks" "?ks ! i = k" by (metis in_set_conv_nth)
    then have "(k, entry_of us k i) \<in> set ?m"
      by (force simp: in_set_enumerate_eq intro!: image_eqI [of _ _ "(i, k)"])
    then have look: "map_of ?m k = Some (entry_of us k i)" using dist by (simp add: map_of_is_SomeI del: map_map)
    have pos: "j = i" if "j < length ?ks" "?ks ! j = k" for j
      using that i nth_eq_iff_index_eq distinct_first_occ by metis
    have "AList.update k ((entry_of us k i)\<lparr>se_signer := use_signs us k \<or> sg, se_writable := use_writes us k \<or> wr\<rparr>) ?m =
        map (\<lambda>(i, k). (k, entry_of (us @ [u]) k i)) (enumerate 0 ?ks)"
      unfolding u AList_update_old [OF dist, unfolded dom, OF True]
      by (auto simp: entry_of_snoc in_set_enumerate_eq dest!: pos)
    with True look show ?thesis
      unfolding step snoc
      by (auto simp: addOrUpdate_def u first_occ_snoc entry_of_def [of us k i, THEN arg_cong [where f = se_signer]]
          entry_of_def [of us k i, THEN arg_cong [where f = se_writable]])
  next
    case False
    then have "map_of ?m k = None" using dom by (simp add: map_of_eq_None_iff)
    moreover have "use_signs us k = False" "use_writes us k = False"
      using False by (force simp: use_signs_def use_writes_def)+
    moreover have "map (\<lambda>(i, k'). (k', entry_of (us @ [(k, sg, wr)]) k' i)) (enumerate 0 ?ks) = ?m"
    proof -
      have "?ks ! a \<noteq> k" if "a < length ?ks" for a using False that nth_mem by metis
      then show ?thesis by (auto simp: entry_of_snoc in_set_enumerate_eq)
    qed
    ultimately show ?thesis
      using False dom unfolding step snoc
      by (auto simp: addOrUpdate_def u first_occ_snoc AList_update_new enumerate_append_eq entry_of_def
          signs_snoc writes_snoc)
  qed
qed

definition role_bucket :: "account_use list \<Rightarrow> PublicKey \<Rightarrow> nat" where
  "role_bucket us k = bucketOf (entry_of us k 0)"

definition in_role :: "account_use list \<Rightarrow> nat \<Rightarrow> PublicKey list" where
  "in_role us b = filter (\<lambda>k. role_bucket us k = b) (first_occ (map fst us))"

definition static_keys :: "account_use list \<Rightarrow> PublicKey list" where
  "static_keys us = in_role us 0 @ in_role us 1 @ in_role us 2 @ in_role us 3"

definition static_header :: "account_use list \<Rightarrow> MessageHeader" where
  "static_header us =
     \<lparr>NumRequiredSignatures = of_nat (length (in_role us 0) + length (in_role us 1)),
      NumReadonlySignedAccounts = of_nat (length (in_role us 1)),
      NumReadonlyUnsignedAccounts = of_nat (length (in_role us 3))\<rparr>"

text \<open>A reordering: what \<open>range\<close> over a map may do to the list of its entries.\<close>

definition reorders :: "'a map_order \<Rightarrow> bool" where
  "reorders ord \<longleftrightarrow> (\<forall>xs. mset (ord xs) = mset xs)"

lemma reordersD: "reorders ord \<Longrightarrow> mset (ord xs) = mset xs"
  by (simp add: reorders_def)

lemma reorders_id [simp]: "reorders (\<lambda>xs. xs)" "reorders rev"
  by (simp_all add: reorders_def)

lemma bucketOf_entry: "bucketOf (entry_of us k i) = role_bucket us k"
  by (simp add: role_bucket_def entry_of_def bucketOf_def)

lemma bucket_reorder:
  assumes "reorders ord" and "sorted_wrt (<) (map firstSeen es)"
  shows "bucket (ord es) b = filter (\<lambda>e. bucketOf e = b) es"
  unfolding bucket_def
proof (rule sort_key_inj_key_eq)
  let ?P = "\<lambda>e. bucketOf e = b"
  show "mset (filter ?P (ord es)) = mset (filter ?P es)" using reordersD [OF assms(1)] by simp
  have "distinct (map firstSeen es)" and "sorted (map firstSeen es)"
    using assms(2) by (simp_all add: strict_sorted_iff)
  then show "sorted (map firstSeen (filter ?P es))" by (simp add: sorted_filter)
  have "set (filter ?P (ord es)) \<subseteq> set es" using reordersD [OF assms(1), of es] by (auto dest: mset_eq_setD)
  then show "inj_on firstSeen (set (filter ?P (ord es)))"
    using \<open>distinct (map firstSeen es)\<close> by (auto simp: distinct_map intro: inj_on_subset)
qed

lemma bucketAndOrder_uses:
  assumes "reorders ord"
  shows "bucketAndOrder ord (apply_uses us newStaticEntries) = (static_keys us, static_header us)"
proof -
  let ?es = "map snd (se_m (apply_uses us newStaticEntries))"
  have es: "?es = map (\<lambda>(i, k). entry_of us k i) (enumerate 0 (first_occ (map fst us)))"
    by (simp add: apply_uses_new case_prod_beta comp_def)
  have "map firstSeen ?es = [0..<length (first_occ (map fst us))]"
    unfolding es by (simp add: case_prod_beta comp_def entry_of_def)
  then have "bucket (ord ?es) b = filter (\<lambda>e. bucketOf e = b) ?es" for b
    using bucket_reorder [OF assms] by simp
  moreover have "map se_pubkey (filter (\<lambda>e. bucketOf e = b) ?es) = in_role us b" for b
  proof -
    have "map se_pubkey (filter (\<lambda>e. bucketOf e = b) (map (\<lambda>(i, k). entry_of us k i) (enumerate n ks))) =
        filter (\<lambda>k. role_bucket us k = b) ks" for n ks
      by (induction ks arbitrary: n) (auto simp: bucketOf_entry entry_of_def [of _ _ _, THEN arg_cong [where f = se_pubkey]])
    then show ?thesis unfolding es in_role_def .
  qed
  ultimately have keys: "map se_pubkey (bucket (ord ?es) b) = in_role us b" for b by simp
  then have "length (bucket (ord ?es) b) = length (in_role us b)" for b by (metis length_map)
  with keys show ?thesis
    by (simp add: bucketAndOrder_def Let_def static_keys_def static_header_def numeral_3_eq_3)
qed

lemma role_bucket_cases:
  "role_bucket us k = (if use_signs us k then if use_writes us k then 0 else 1 else if use_writes us k then 2 else 3)"
  by (simp add: role_bucket_def bucketOf_def entry_of_def)

lemma set_in_role: "set (in_role us b) = {k \<in> fst ` set us. role_bucket us k = b}"
  by (auto simp: in_role_def)

lemma distinct_in_role [simp]: "distinct (in_role us b)"
  by (simp add: in_role_def)

lemma set_static_keys [simp]: "set (static_keys us) = fst ` set us"
  by (auto simp: static_keys_def set_in_role role_bucket_cases)

lemma distinct_static_keys [simp]: "distinct (static_keys us)"
  by (auto simp: static_keys_def set_in_role)

lemma length_static_keys: "length (static_keys us) = card (fst ` set us)"
  by (metis distinct_card distinct_static_keys set_static_keys)

lemma static_keys_hd: "static_keys ((payer, True, True) # us) = payer # tl (static_keys ((payer, True, True) # us))"
proof -
  have "role_bucket ((payer, True, True) # us) payer = 0"
    by (auto simp: role_bucket_cases use_signs_def use_writes_def)
  then show ?thesis by (simp add: static_keys_def in_role_def first_occ_Cons)
qed

section \<open>Instruction lists\<close>

definition metas :: "Instruction \<Rightarrow> AccountMeta list" where
  "metas ix = map the (ix_Accounts ix)"

definition uses_of_metas :: "AccountMeta list \<Rightarrow> account_use list" where
  "uses_of_metas ms = map (\<lambda>m. (am_PublicKey m, IsSigner m, IsWritable m)) ms"

definition uses_of :: "Instruction \<Rightarrow> account_use list" where
  "uses_of ix = uses_of_metas (metas ix) @ [(ix_ProgramID ix, False, False)]"

definition no_nil :: "Instruction option list \<Rightarrow> bool" where
  "no_nil ixs \<longleftrightarrow> None \<notin> set ixs \<and> (\<forall>ix \<in> set ixs. None \<notin> set (ix_Accounts (the ix)))"

definition data_ok :: "Instruction option list \<Rightarrow> bool" where
  "data_ok ixs \<longleftrightarrow> (\<forall>ix \<in> set ixs. \<exists>data. ix_Data (the ix) = Inr data)"

definition uses :: "PublicKey \<Rightarrow> Instruction option list \<Rightarrow> account_use list" where
  "uses payer ixs = (payer, True, True) # concat (map (uses_of \<circ> the) ixs)"

lemma apply_uses_append: "apply_uses (us @ vs) s = apply_uses vs (apply_uses us s)"
  by (simp add: apply_uses_def)

lemma collect_metas_law:
  "collect_metas ms s = Inr s' \<longleftrightarrow> None \<notin> set ms \<and> s' = apply_uses (uses_of_metas (map the ms)) s"
  by (induction ms s rule: collect_metas.induct) (auto simp: apply_uses_def uses_of_metas_def)

lemma collect_instructions_law:
  "collect_instructions ixs s = Inr s' \<longleftrightarrow>
     no_nil ixs \<and> s' = apply_uses (concat (map (uses_of \<circ> the) ixs)) s"
proof (induction ixs s rule: collect_instructions.induct)
  case (3 ix ixs s)
  have "apply_uses (uses_of ix) s =
      addOrUpdate (ix_ProgramID ix) False False (apply_uses (uses_of_metas (map the (ix_Accounts ix))) s)"
    by (simp add: uses_of_def metas_def apply_uses_def)
  with 3 show ?case
    by (auto simp: res_bind_Inr_iff collect_metas_law no_nil_def apply_uses_append)
qed (auto simp: no_nil_def apply_uses_def)

section \<open>The index map\<close>

text \<open>
  What compilation needs of an index map over a list of keys: an index it returns points
  at the key, and every key of the list has one.
\<close>

definition resolves :: "PublicKey list \<Rightarrow> Instruction option \<Rightarrow> CompiledInstruction \<Rightarrow> bool" where
  "resolves keys ix c \<longleftrightarrow>
     unat (ProgramIDIndex c) < length keys \<and> keys ! unat (ProgramIDIndex c) = ix_ProgramID (the ix) \<and>
     list_all2 (\<lambda>i m. unat i < length keys \<and> keys ! unat i = am_PublicKey m) (ci_Accounts c) (metas (the ix)) \<and>
     ix_Data (the ix) = Inr (ci_Data c)"

lemma compile_instruction_Inr:
  "compile_instruction fnName idx x = Inr c \<longleftrightarrow>
     (\<exists>i js data. idx (ix_ProgramID x) = Some i \<and> compile_accounts fnName idx (ix_Accounts x) = Inr js \<and>
        ix_Data x = Inr data \<and> c = \<lparr>ProgramIDIndex = of_nat i, ci_Accounts = js, ci_Data = data\<rparr>)"
  by (cases "ix_Data x") (auto simp: compile_instruction_def res_bind_Inr_iff split: option.splits)

locale key_index =
  fixes idx :: "PublicKey \<rightharpoonup> nat" and keys :: "PublicKey list"
  assumes sound: "idx k = Some i \<Longrightarrow> i < length keys \<and> keys ! i = k"
    and complete: "k \<in> set keys \<Longrightarrow> \<exists>i. idx k = Some i"
begin

lemma index_word:
  assumes "idx k = Some i" and "length keys \<le> 256"
  shows "unat (of_nat i :: u8) < length keys \<and> keys ! unat (of_nat i :: u8) = k"
proof -
  from assms sound have "i < length keys" and "keys ! i = k" by blast+
  with assms(2) show ?thesis by (simp add: unat_of_nat)
qed

lemma compile_accounts_resolves:
  assumes "compile_accounts fnName idx ms = Inr js" and "length keys \<le> 256"
  shows "list_all2 (\<lambda>i m. unat i < length keys \<and> keys ! unat i = am_PublicKey m) js (map the ms)"
  using assms
proof (induction ms arbitrary: js)
  case (Cons m ms)
  then obtain m' i js' where "m = Some m'" "idx (am_PublicKey m') = Some i" "js = of_nat i # js'"
    "compile_accounts fnName idx ms = Inr js'"
    by (cases m) (auto simp: res_bind_Inr_iff split: option.splits)
  with Cons index_word [of "am_PublicKey m'" i] show ?case by simp
qed simp

lemma compile_accounts_total:
  assumes "None \<notin> set ms" and "am_PublicKey ` the ` set ms \<subseteq> set keys"
  shows "\<exists>js. compile_accounts fnName idx ms = Inr js"
  using assms
proof (induction ms)
  case (Cons m ms)
  then obtain m' js where m: "m = Some m'" "compile_accounts fnName idx ms = Inr js"
    by (cases m) auto
  with Cons.prems obtain i where "idx (am_PublicKey m') = Some i" using complete by force
  with m show ?case by simp
qed simp

lemma compileInstructions_resolves:
  assumes "compileInstructions ixs idx fnName = Inr cs" and "length keys \<le> 256"
  shows "list_all2 (resolves keys) ixs cs"
  using assms
proof (induction ixs arbitrary: cs)
  case (Cons ix ixs)
  then obtain x c cs' i as data where *: "ix = Some x" "cs = c # cs'" "compileInstructions ixs idx fnName = Inr cs'"
    "idx (ix_ProgramID x) = Some i" "compile_accounts fnName idx (ix_Accounts x) = Inr as"
    "ix_Data x = Inr data" "c = \<lparr>ProgramIDIndex = of_nat i, ci_Accounts = as, ci_Data = data\<rparr>"
    by (cases ix) (auto simp: res_bind_Inr_iff compile_instruction_Inr)
  with Cons index_word [of "ix_ProgramID x" i] compile_accounts_resolves [of fnName "ix_Accounts x" as]
  show ?case by (simp add: resolves_def metas_def)
qed simp

lemma compileInstructions_total:
  assumes "no_nil ixs" and "data_ok ixs" and "\<Union> (set (map (\<lambda>ix. fst ` set (uses_of (the ix))) ixs)) \<subseteq> set keys"
  shows "\<exists>cs. compileInstructions ixs idx fnName = Inr cs"
  using assms
proof (induction ixs)
  case (Cons ix ixs)
  from Cons.prems obtain x data where x: "ix = Some x" "ix_Data x = Inr data" "None \<notin> set (ix_Accounts x)"
    by (cases ix) (auto simp: no_nil_def data_ok_def)
  from Cons.prems x(1) have "ix_ProgramID x \<in> set keys" and "am_PublicKey ` the ` set (ix_Accounts x) \<subseteq> set keys"
    by (auto simp: uses_of_def uses_of_metas_def metas_def image_image)
  then obtain i as where "idx (ix_ProgramID x) = Some i" "compile_accounts fnName idx (ix_Accounts x) = Inr as"
    using complete compile_accounts_total [OF x(3)] by metis
  moreover obtain cs where "compileInstructions ixs idx fnName = Inr cs"
    using Cons by (auto simp: no_nil_def data_ok_def)
  ultimately show ?case using x by (simp add: compile_instruction_def)
qed simp

lemma compileInstructions_data:
  "compileInstructions ixs idx fnName = Inr cs \<Longrightarrow> data_ok ixs"
proof (induction ixs arbitrary: cs)
  case (Cons ix ixs)
  then show ?case
    by (cases ix) (auto simp: res_bind_Inr_iff compile_instruction_Inr data_ok_def)
qed (simp add: data_ok_def)

end

lemma index_keys_law:
  "index_keys n ks m k = Some i \<Longrightarrow> n \<le> i \<and> i < n + length ks \<and> ks ! (i - n) = k \<or> k \<notin> set ks \<and> m k = Some i"
  by (induction n ks m rule: index_keys.induct)
     (fastforce simp: nth_Cons' less_Suc_eq_le split: if_splits)+

lemma index_keys_complete: "k \<in> set ks \<or> m k \<noteq> None \<Longrightarrow> index_keys n ks m k \<noteq> None"
  by (induction n ks m rule: index_keys.induct) auto

lemma index_keys_append: "index_keys n (xs @ ys) m = index_keys (n + length xs) ys (index_keys n xs m)"
  by (induction xs arbitrary: n m) auto

interpretation ki: key_index "index_keys 0 keys Map.empty" keys for keys
  using index_keys_law [of 0 keys Map.empty] index_keys_complete [of _ keys Map.empty 0]
  by unfold_locales fastforce+

section \<open>NewMessage\<close>

lemma set_uses: "fst ` set (uses payer ixs) = insert payer (\<Union> (set (map (\<lambda>ix. fst ` set (uses_of (the ix))) ixs)))"
  by (simp add: uses_def image_UN)

lemma NewMessage_law:
  assumes "reorders ord"
  shows "NewMessage ord payer ixs bh = Inr m \<longleftrightarrow>
    ixs \<noteq> [] \<and> no_nil ixs \<and> length (static_keys (uses payer ixs)) \<le> 256 \<and>
    (\<exists>cs. compileInstructions ixs (index_keys 0 (static_keys (uses payer ixs)) Map.empty) ''NewMessage'' = Inr cs \<and>
      m = \<lparr>Version = MessageVersionLegacy, Header = static_header (uses payer ixs),
           AccountKeys = static_keys (uses payer ixs), RecentBlockhash = bh, Instructions = cs,
           AddressTableLookups = [], TxConfig = None\<rparr>)"
proof -
  have "apply_uses (concat (map (uses_of \<circ> the) ixs)) (addOrUpdate payer True True newStaticEntries) =
      apply_uses (uses payer ixs) newStaticEntries"
    by (simp add: uses_def apply_uses_def)
  then show ?thesis
    by (auto simp: NewMessage_def res_bind_Inr_iff collect_instructions_law bucketAndOrder_uses [OF assms])
qed


lemma NewMessage_success:
  assumes "reorders ord"
  shows "(\<exists>m. NewMessage ord payer ixs bh = Inr m) \<longleftrightarrow>
    ixs \<noteq> [] \<and> no_nil ixs \<and> data_ok ixs \<and> card (fst ` set (uses payer ixs)) \<le> 256"
proof -
  let ?keys = "static_keys (uses payer ixs)"
  have "(\<exists>cs. compileInstructions ixs (index_keys 0 ?keys Map.empty) ''NewMessage'' = Inr cs) \<longleftrightarrow> data_ok ixs"
    if "no_nil ixs"
  proof
    assume "data_ok ixs"
    moreover have "\<Union> (set (map (\<lambda>ix. fst ` set (uses_of (the ix))) ixs)) \<subseteq> set ?keys"
      unfolding set_static_keys set_uses by blast
    ultimately show "\<exists>cs. compileInstructions ixs (index_keys 0 ?keys Map.empty) ''NewMessage'' = Inr cs"
      using that by (intro ki.compileInstructions_total)
  qed (use ki.compileInstructions_data in blast)
  then show ?thesis
    unfolding NewMessage_law [OF assms] length_static_keys by blast
qed

definition header_signer :: "Message \<Rightarrow> nat \<Rightarrow> bool" where
  "header_signer m i \<longleftrightarrow> i < unat (NumRequiredSignatures (Header m))"

definition header_writable :: "Message \<Rightarrow> nat \<Rightarrow> bool" where
  "header_writable m i \<longleftrightarrow>
     (let nreq = unat (NumRequiredSignatures (Header m));
          nros = unat (NumReadonlySignedAccounts (Header m));
          nrou = unat (NumReadonlyUnsignedAccounts (Header m))
      in i < nreq - nros \<or> nreq \<le> i \<and> i < length (AccountKeys m) - nrou)"

lemma static_header_roles:
  assumes "Header m = static_header us" and "AccountKeys m = static_keys us"
    and "length (static_keys us) \<le> 255" and "i < length (static_keys us)"
  shows "(header_signer m i \<longleftrightarrow> use_signs us (static_keys us ! i)) \<and>
    (header_writable m i \<longleftrightarrow> use_writes us (static_keys us ! i))"
proof -
  define a b c d where "a = length (in_role us 0)" and "b = length (in_role us 1)"
    and "c = length (in_role us 2)" and "d = length (in_role us 3)"
  note lens = a_def b_def c_def d_def
  have sum: "length (static_keys us) = a + b + c + d" by (simp add: static_keys_def lens)
  with assms(3) have h: "unat (NumRequiredSignatures (Header m)) = a + b"
      "unat (NumReadonlySignedAccounts (Header m)) = b" "unat (NumReadonlyUnsignedAccounts (Header m)) = d"
    unfolding assms(1) static_header_def MessageHeader.select_convs lens [symmetric] unat_of_nat
    by simp_all
  have split: "header_signer m i \<longleftrightarrow> i < a + b" "header_writable m i \<longleftrightarrow> i < a \<or> a + b \<le> i \<and> i < a + b + c"
    unfolding header_signer_def header_writable_def Let_def h assms(2) sum by auto
  have mem: "x \<in> set (in_role us r) \<Longrightarrow> role_bucket us x = r" for x r by (simp add: set_in_role)
  consider "i < a" | "a \<le> i" "i < a + b" | "a + b \<le> i" "i < a + b + c" | "a + b + c \<le> i" "i < a + b + c + d"
    using assms(4) sum by linarith
  then have "role_bucket us (static_keys us ! i) =
      (if i < a then 0 else if i < a + b then 1 else if i < a + b + c then 2 else 3)"
    by cases (auto intro!: mem simp: static_keys_def nth_append lens)
  then show ?thesis
    unfolding split by (auto simp: role_bucket_cases split: if_splits)
qed

lemma NewMessage_resolves:
  assumes "reorders ord" and "NewMessage ord payer ixs bh = Inr m"
  shows "AccountKeys m = static_keys (uses payer ixs) \<and> list_all2 (resolves (AccountKeys m)) ixs (Instructions m)"
proof -
  from assms(2) obtain cs where m: "AccountKeys m = static_keys (uses payer ixs)" "Instructions m = cs"
      "compileInstructions ixs (index_keys 0 (AccountKeys m) Map.empty) ''NewMessage'' = Inr cs"
      "length (AccountKeys m) \<le> 256"
    by (auto simp: NewMessage_law [OF assms(1)])
  then show ?thesis using ki.compileInstructions_resolves by blast
qed

section \<open>Properties of NewMessage\<close>

text \<open>
  C33: \<open>NewMessage\<close> returns a message exactly when there is an instruction, none of the
  instructions or account metas is nil, every instruction's data is available, and at
  most 256 distinct keys are referenced; in particular no account is ever missing from
  the index map and no nil is dereferenced.
\<close>

theorem NewMessage_succeeds_iff:
  assumes "reorders ord"
  shows "(\<exists>m. NewMessage ord payer ixs bh = Inr m) \<longleftrightarrow>
    ixs \<noteq> [] \<and> no_nil ixs \<and> data_ok ixs \<and> card (fst ` set (uses payer ixs)) \<le> 256"
  by (rule NewMessage_success [OF assms])

text \<open>
  C4: The compiled message means what the instructions say.  The payer is the first
  account key, the keys are pairwise distinct and are exactly the referenced ones, and
  every compiled instruction's program index and account indices point at the keys
  of the instruction it was compiled from, with the same data.
\<close>

theorem NewMessage_compiles:
  assumes "reorders ord" and "NewMessage ord payer ixs bh = Inr m"
  shows "AccountKeys m \<noteq> [] \<and> hd (AccountKeys m) = payer \<and> distinct (AccountKeys m) \<and>
    set (AccountKeys m) = fst ` set (uses payer ixs) \<and>
    list_all2 (resolves (AccountKeys m)) ixs (Instructions m)"
proof -
  have m: "AccountKeys m = static_keys (uses payer ixs)" using NewMessage_resolves [OF assms] by blast
  moreover have "AccountKeys m = payer # tl (AccountKeys m)"
    unfolding m uses_def by (rule static_keys_hd)
  ultimately show ?thesis using NewMessage_resolves [OF assms]
    by (metis distinct_static_keys set_static_keys list.sel(1) list.distinct(1))
qed

text \<open>
  C5: The header gives every account the role the instructions ask for: with at most 255
  keys, position \<open>i\<close> is a signer position exactly when the payer or some instruction
  marks that key as signer, and a writable position exactly when the payer or some
  instruction marks it as writable (roles are cumulative).
\<close>

theorem NewMessage_roles:
  assumes "reorders ord" and "NewMessage ord payer ixs bh = Inr m"
    and "length (AccountKeys m) \<le> 255" and "i < length (AccountKeys m)"
  shows "(header_signer m i \<longleftrightarrow> use_signs (uses payer ixs) (AccountKeys m ! i)) \<and>
    (header_writable m i \<longleftrightarrow> use_writes (uses payer ixs) (AccountKeys m ! i))"
proof -
  from assms(2) have "Header m = static_header (uses payer ixs)" "AccountKeys m = static_keys (uses payer ixs)"
    by (auto simp: NewMessage_law [OF assms(1)])
  with static_header_roles [of m "uses payer ixs" i] assms(3,4) show ?thesis by simp
qed

text \<open>
  The result does not depend on Go's map iteration order: for any two reorderings
  of the collected entries \<open>NewMessage\<close> returns the same message or the same error.
\<close>

theorem NewMessage_deterministic:
  assumes "reorders ord" and "reorders ord'"
  shows "NewMessage ord payer ixs bh = NewMessage ord' payer ixs bh"
proof (cases "collect_instructions ixs (addOrUpdate payer True True newStaticEntries)")
  case (Inr s)
  then have "s = apply_uses (uses payer ixs) newStaticEntries"
    by (simp add: collect_instructions_law uses_def apply_uses_def)
  with Inr show ?thesis
    by (simp add: NewMessage_def bucketAndOrder_uses [OF assms(1)] bucketAndOrder_uses [OF assms(2)])
qed (simp add: NewMessage_def)

definition sample_instruction :: Instruction where
  "sample_instruction = NewInstruction (replicate 32 9)
     [Some (SIGNER (Meta (replicate 32 2))), Some (WRITE (Meta (replicate 32 3))), Some (Meta (replicate 32 1))] [7, 0]"

lemma sample_uses: "uses (replicate 32 1) [Some sample_instruction] =
    [(replicate 32 1, True, True), (replicate 32 2, True, False), (replicate 32 3, False, True),
     (replicate 32 1, False, False), (replicate 32 9, False, False)]"
  by (simp add: uses_def uses_of_def uses_of_metas_def metas_def sample_instruction_def NewInstruction_def
      SIGNER_def WRITE_def Meta_def)

lemma sample_NewMessage:
  "\<exists>m. NewMessage rev (replicate 32 1) [Some sample_instruction] (replicate 32 4) = Inr m"
  unfolding NewMessage_success [OF reorders_id(2)] sample_uses
  by (auto simp: no_nil_def data_ok_def sample_instruction_def NewInstruction_def card_insert_if)

theorem NewMessage_succeeds_iff_witness:
  "(\<exists>m. NewMessage rev (replicate 32 1) [Some sample_instruction] (replicate 32 4) = Inr m) \<and>
   \<not> (\<exists>m. NewMessage rev (replicate 32 1) [None] (replicate 32 4) = Inr m)"
  unfolding NewMessage_succeeds_iff [OF reorders_id(2)] sample_uses
  by (auto simp: no_nil_def data_ok_def sample_instruction_def NewInstruction_def card_insert_if)

theorem NewMessage_compiles_witness:
  "\<exists>m. NewMessage rev (replicate 32 1) [Some sample_instruction] (replicate 32 4) = Inr m \<and>
     hd (AccountKeys m) = replicate 32 1 \<and> list_all2 (resolves (AccountKeys m)) [Some sample_instruction] (Instructions m)"
  using sample_NewMessage NewMessage_compiles [OF reorders_id(2), of "replicate 32 1" "[Some sample_instruction]"]
  by blast

theorem NewMessage_roles_witness:
  "\<exists>m. NewMessage rev (replicate 32 1) [Some sample_instruction] (replicate 32 4) = Inr m \<and>
     (header_signer m 1 \<longleftrightarrow> use_signs (uses (replicate 32 1) [Some sample_instruction]) (AccountKeys m ! 1))"
proof -
  obtain m where m: "NewMessage rev (replicate 32 1) [Some sample_instruction] (replicate 32 4) = Inr m"
    using sample_NewMessage by blast
  then have "length (AccountKeys m) = 4"
    by (auto simp: NewMessage_law [OF reorders_id(2)] length_static_keys sample_uses card_insert_if)
  with NewMessage_roles [OF reorders_id(2) m, of 1] m show ?thesis by auto
qed

theorem NewMessage_deterministic_witness:
  "NewMessage rev (replicate 32 1) [Some sample_instruction] (replicate 32 4) =
   NewMessage (\<lambda>xs. xs) (replicate 32 1) [Some sample_instruction] (replicate 32 4)"
  by (rule NewMessage_deterministic [OF reorders_id(2) reorders_id(1)])

end
