(* ===== verification/Builder_V0.thy ===== *)
theory Builder_V0
  imports Builder_Laws
begin

text \<open>
  \<open>NewMessageV0\<close>: which accounts are routed through lookup tables, the key order the
  index map is built from, and its agreement with \<open>ResolvedAccountKeys\<close>; which accounts come from
  tables, stated without the routing, and what follows for the key count and the program indices.
\<close>

section \<open>Routing through tables\<close>

type_synonym table_index = "PublicKey \<rightharpoonup> tableSlot"

definition routed :: "table_index \<Rightarrow> PublicKey set \<Rightarrow> PublicKey \<Rightarrow> bool" where
  "routed tix sgs k \<longleftrightarrow> tix k \<noteq> None \<and> k \<notin> sgs"

definition static_uses :: "table_index \<Rightarrow> PublicKey set \<Rightarrow> Instruction \<Rightarrow> account_use list" where
  "static_uses tix sgs ix =
     filter (\<lambda>u. \<not> routed tix sgs (fst u)) (uses_of_metas (metas ix)) @ [(ix_ProgramID ix, False, False)]"

definition table_uses :: "table_index \<Rightarrow> PublicKey set \<Rightarrow> Instruction \<Rightarrow> account_use list" where
  "table_uses tix sgs ix = filter (\<lambda>u. routed tix sgs (fst u)) (uses_of_metas (metas ix))"

definition apply_table_uses :: "table_index \<Rightarrow> account_use list \<Rightarrow> tableAccounts \<Rightarrow> tableAccounts" where
  "apply_table_uses tix us tabs = fold (\<lambda>(k, sg, wr). addOrUpdateTable (the (tix k)) wr) us tabs"

lemma route_metas_law:
  "None \<notin> set ms \<Longrightarrow> route_metas tix sgs ms (entries, tabs) =
     (apply_uses (filter (\<lambda>u. \<not> routed tix sgs (fst u)) (uses_of_metas (map the ms))) entries,
      apply_table_uses tix (filter (\<lambda>u. routed tix sgs (fst u)) (uses_of_metas (map the ms))) tabs)"
proof (induction ms arbitrary: entries tabs)
  case (Cons m ms)
  then show ?case
    by (cases m) (auto simp: apply_uses_def apply_table_uses_def uses_of_metas_def routed_def split: option.splits)
qed (simp add: apply_uses_def apply_table_uses_def uses_of_metas_def)

lemma route_instructions_law:
  "no_nil ixs \<Longrightarrow> route_instructions tix sgs ixs (entries, tabs) =
     (apply_uses (concat (map (static_uses tix sgs \<circ> the) ixs)) entries,
      apply_table_uses tix (concat (map (table_uses tix sgs \<circ> the) ixs)) tabs)"
proof (induction ixs arbitrary: entries tabs)
  case (Cons ix ixs)
  then obtain x where x: "ix = Some x" "None \<notin> set (ix_Accounts x)" "no_nil ixs"
    by (cases ix) (auto simp: no_nil_def)
  then show ?case
    using Cons.IH by (simp add: route_metas_law static_uses_def table_uses_def metas_def apply_uses_def apply_table_uses_def)
qed (simp add: apply_uses_def apply_table_uses_def)

lemma signers_of_law: "signers_of ixs s = Inr sgs \<longleftrightarrow> no_nil ixs \<and>
    sgs = s \<union> {k. \<exists>ix \<in> set ixs. \<exists>m \<in> set (metas (the ix)). IsSigner m \<and> am_PublicKey m = k}"
proof (induction ixs arbitrary: s)
  case (Cons ix ixs)
  have metas: "signers_of_metas ms s = Inr r \<longleftrightarrow> None \<notin> set ms \<and>
      r = s \<union> {k. \<exists>m \<in> set (map the ms). IsSigner m \<and> am_PublicKey m = k}" for ms s r
    by (induction ms s rule: signers_of_metas.induct) auto
  show ?case
    by (cases ix) (auto simp: res_bind_Inr_iff metas Cons.IH no_nil_def metas_def)
qed (auto simp: no_nil_def)

lemma index_table_law:
  "index_table ti si addrs m k = Some p \<Longrightarrow>
     m k = Some p \<or> (\<exists>j < length addrs. p = (ti, si + j) \<and> addrs ! j = k)"
proof (induction ti si addrs m rule: index_table.induct)
  case (2 ti si a addrs m)
  from 2(1) [OF 2(2) [simplified]] consider
    "(if m a = None then m(a \<mapsto> (ti, si)) else m) k = Some p"
    | j where "j < length addrs" "p = (ti, Suc si + j)" "addrs ! j = k" by blast
  then show ?case
  proof cases
    case 1
    then show ?thesis by (force split: if_splits)
  next
    case (2 j)
    then show ?thesis by (intro disjI2 exI [of _ "Suc j"]) simp
  qed
qed simp

lemma index_tables_law:
  "index_tables n ts m k = Some (ti, si) \<Longrightarrow>
     m k = Some (ti, si) \<or> (n \<le> ti \<and> ti < n + length ts \<and>
       si < length (lt_Addresses (ts ! (ti - n))) \<and> lt_Addresses (ts ! (ti - n)) ! si = k)"
proof (induction n ts m rule: index_tables.induct)
  case (2 n t ts m)
  from 2(1) [OF 2(2) [simplified]] consider
    "index_table n 0 (lt_Addresses t) m k = Some (ti, si)"
    | "Suc n \<le> ti" "ti < Suc n + length ts" "si < length (lt_Addresses (ts ! (ti - Suc n)))"
      "lt_Addresses (ts ! (ti - Suc n)) ! si = k" by blast
  then show ?case
  proof cases
    case 1
    then show ?thesis by (auto dest!: index_table_law)
  next
    case 2
    then have "(t # ts) ! (ti - n) = ts ! (ti - Suc n)"
      by (metis Suc_diff_Suc Suc_le_lessD diff_Suc_Suc nth_Cons_Suc)
    with 2 show ?thesis by simp
  qed
qed simp

lemma table_index_sound:
  "index_tables 0 tables Map.empty k = Some (ti, si) \<Longrightarrow>
     ti < length tables \<and> si < length (lt_Addresses (tables ! ti)) \<and> lt_Addresses (tables ! ti) ! si = k"
  using index_tables_law [of 0 tables Map.empty k ti si] by auto

lemma apply_table_uses_slots:
  assumes "\<And>u. u \<in> set us \<Longrightarrow> \<exists>ti si. tix (fst u) = Some (ti, si) \<and> ti < n"
  shows "length (apply_table_uses tix us (replicate n [])) = n \<and>
    (\<forall>ti < n. fst ` set (apply_table_uses tix us (replicate n []) ! ti) =
      {si. \<exists>u \<in> set us. tix (fst u) = Some (ti, si)})"
  using assms
proof (induction us rule: rev_induct)
  case Nil
  then show ?case by (simp add: apply_table_uses_def)
next
  case (snoc u us)
  let ?tabs = "apply_table_uses tix us (replicate n [])"
  obtain k sg wr where u: "u = (k, sg, wr)" by (cases u)
  from snoc.prems [of u] u obtain ti si where t: "tix k = Some (ti, si)" "ti < n" by auto
  have IH: "length ?tabs = n" "\<forall>ti < n. fst ` set (?tabs ! ti) = {si. \<exists>u \<in> set us. tix (fst u) = Some (ti, si)}"
    using snoc by auto
  have step: "apply_table_uses tix (us @ [u]) (replicate n []) =
      addOrUpdateTable (ti, si) wr ?tabs" by (simp add: apply_table_uses_def u t)
  show ?case
    unfolding step using IH t u
    by (auto simp: addOrUpdateTable_def nth_list_update dom_update)
qed

lemma table_slots_set:
  assumes "reorders ord"
  shows "set (ts_writable (table_slots ord t slots)) \<union> set (ts_readonly (table_slots ord t slots)) = fst ` set slots"
proof -
  have "set (ord slots) = set slots" using reordersD [OF assms] by (metis mset_eq_setD)
  then show ?thesis by (auto simp: table_slots_def image_iff)
qed

lemma emitted_tables_mem:
  "ts \<in> set (emitted_tables ord tables tabs) \<longleftrightarrow>
     (\<exists>ti < min (length tables) (length tabs). tabs ! ti \<noteq> [] \<and> ts = table_slots ord (tables ! ti) (tabs ! ti))"
  by (auto simp: emitted_tables_def set_zip image_iff)

lemma index_slots_law:
  "index_slots sel tss (n, m) =
     (let ks = concat (map (\<lambda>ts. map (\<lambda>s. lt_Addresses (ts_table ts) ! s) (sel ts)) tss)
      in (n + length ks, index_keys n ks m))"
  by (induction tss arbitrary: n m) (simp_all add: Let_def index_keys_append)


section \<open>NewMessageV0\<close>

definition signer_set :: "PublicKey \<Rightarrow> Instruction option list \<Rightarrow> PublicKey set" where
  "signer_set payer ixs =
     insert payer {k. \<exists>ix \<in> set ixs. \<exists>m \<in> set (metas (the ix)). IsSigner m \<and> am_PublicKey m = k}"

definition v0_routed :: "PublicKey \<Rightarrow> Instruction option list \<Rightarrow> LoadedAddressLookupTable list \<Rightarrow> PublicKey \<Rightarrow> bool" where
  "v0_routed payer ixs tables k \<longleftrightarrow> routed (index_tables 0 tables Map.empty) (signer_set payer ixs) k"

definition v0_uses :: "PublicKey \<Rightarrow> Instruction option list \<Rightarrow> LoadedAddressLookupTable list \<Rightarrow> account_use list" where
  "v0_uses payer ixs tables = (payer, True, True) #
     concat (map (static_uses (index_tables 0 tables Map.empty) (signer_set payer ixs) \<circ> the) ixs)"

definition v0_tables ::
    "(nat \<times> bool) map_order \<Rightarrow> PublicKey \<Rightarrow> Instruction option list \<Rightarrow> LoadedAddressLookupTable list \<Rightarrow> tableSlots list" where
  "v0_tables ordt payer ixs tables = emitted_tables ordt tables
     (apply_table_uses (index_tables 0 tables Map.empty)
        (concat (map (table_uses (index_tables 0 tables Map.empty) (signer_set payer ixs) \<circ> the) ixs))
        (replicate (length tables) []))"

definition slot_keys :: "(tableSlots \<Rightarrow> nat list) \<Rightarrow> tableSlots list \<Rightarrow> PublicKey list" where
  "slot_keys sel tss = concat (map (\<lambda>ts. map (\<lambda>s. lt_Addresses (ts_table ts) ! s) (sel ts)) tss)"

definition v0_keys ::
    "(nat \<times> bool) map_order \<Rightarrow> PublicKey \<Rightarrow> Instruction option list \<Rightarrow> LoadedAddressLookupTable list \<Rightarrow> PublicKey list" where
  "v0_keys ordt payer ixs tables =
     static_keys (v0_uses payer ixs tables) @ slot_keys ts_writable (v0_tables ordt payer ixs tables) @
     slot_keys ts_readonly (v0_tables ordt payer ixs tables)"

lemma NewMessageV0_law:
  assumes "reorders ord"
  shows "NewMessageV0 ord ordt payer ixs bh tables = Inr m \<longleftrightarrow>
    ixs \<noteq> [] \<and> no_nil ixs \<and> length (v0_keys ordt payer ixs tables) \<le> 256 \<and>
    (\<exists>cs. compileInstructions ixs (index_keys 0 (v0_keys ordt payer ixs tables) Map.empty) ''NewMessageV0'' = Inr cs \<and>
      m = \<lparr>Version = MessageVersion0, Header = static_header (v0_uses payer ixs tables),
           AccountKeys = static_keys (v0_uses payer ixs tables), RecentBlockhash = bh, Instructions = cs,
           AddressTableLookups = map lookup_of (v0_tables ordt payer ixs tables), TxConfig = None\<rparr>)"
proof (cases "no_nil ixs")
  case True
  have sg: "signers_of ixs {payer} = Inr (signer_set payer ixs)"
    using True by (simp add: signers_of_law signer_set_def)
  have st: "route_instructions (index_tables 0 tables Map.empty) (signer_set payer ixs) ixs
      (addOrUpdate payer True True newStaticEntries, map (\<lambda>_. []) tables) =
      (apply_uses (v0_uses payer ixs tables) newStaticEntries,
       apply_table_uses (index_tables 0 tables Map.empty)
        (concat (map (table_uses (index_tables 0 tables Map.empty) (signer_set payer ixs) \<circ> the) ixs))
        (replicate (length tables) []))"
    using True by (simp add: route_instructions_law v0_uses_def apply_uses_def map_replicate_const)
  have len: "length (static_keys (v0_uses payer ixs tables)) \<le> length (v0_keys ordt payer ixs tables)"
    by (simp add: v0_keys_def)
  show ?thesis
    using True len unfolding NewMessageV0_def Let_def sg res_bind_simps st
    by (auto simp: bucketAndOrder_uses [OF assms] index_slots_law Let_def res_bind_Inr_iff
        simp flip: v0_tables_def slot_keys_def index_keys_append)
      (auto simp: v0_keys_def index_keys_append add.assoc)
next
  case False
  then have "\<nexists>s. signers_of ixs {payer} = Inr s" by (simp add: signers_of_law)
  then obtain e where "signers_of ixs {payer} = Inl e" by (cases "signers_of ixs {payer}") auto
  with False show ?thesis by (simp add: NewMessageV0_def)
qed

lemma v0_slots:
  assumes "reorders ordt" and "ts \<in> set (v0_tables ordt payer ixs tables)"
  shows "ts_table ts \<in> set tables \<and>
    (\<forall>s \<in> set (ts_writable ts) \<union> set (ts_readonly ts). s < length (lt_Addresses (ts_table ts)))"
proof -
  let ?tix = "index_tables 0 tables Map.empty"
  let ?us = "concat (map (table_uses ?tix (signer_set payer ixs) \<circ> the) ixs)"
  have us: "\<exists>ti si. ?tix (fst u) = Some (ti, si) \<and> ti < length tables" if "u \<in> set ?us" for u
    using that table_index_sound [of tables "fst u"] by (fastforce simp: table_uses_def routed_def)
  from assms(2) obtain ti where ti: "ti < length tables"
      "ts = table_slots ordt (tables ! ti) (apply_table_uses ?tix ?us (replicate (length tables) []) ! ti)"
    unfolding v0_tables_def emitted_tables_mem by auto
  moreover have "s < length (lt_Addresses (tables ! ti))"
    if "s \<in> fst ` set (apply_table_uses ?tix ?us (replicate (length tables) []) ! ti)" for s
    using that ti(1) apply_table_uses_slots [of ?us ?tix "length tables"] us table_index_sound by blast
  moreover have "ts_table ts = tables ! ti" by (simp add: ti(2) table_slots_def)
  ultimately show ?thesis using table_slots_set [OF assms(1)] by auto
qed

lemma v0_routed_in_tables:
  assumes "reorders ordt" and "ix \<in> set ixs" and "m \<in> set (metas (the ix))"
    and "v0_routed payer ixs tables (am_PublicKey m)"
  shows "am_PublicKey m \<in> set (slot_keys ts_writable (v0_tables ordt payer ixs tables)) \<union>
    set (slot_keys ts_readonly (v0_tables ordt payer ixs tables))"
proof -
  let ?tix = "index_tables 0 tables Map.empty"
  let ?us = "concat (map (table_uses ?tix (signer_set payer ixs) \<circ> the) ixs)"
  let ?tabs = "apply_table_uses ?tix ?us (replicate (length tables) [])"
  have us: "\<exists>ti si. ?tix (fst u) = Some (ti, si) \<and> ti < length tables" if "u \<in> set ?us" for u
    using that table_index_sound [of tables "fst u"] by (fastforce simp: table_uses_def routed_def)
  from assms(4) obtain ti si where t: "?tix (am_PublicKey m) = Some (ti, si)"
    by (auto simp: v0_routed_def routed_def)
  note k = table_index_sound [OF t]
  have "(am_PublicKey m, IsSigner m, IsWritable m) \<in> set ?us"
    using assms(2-4) by (force simp: table_uses_def uses_of_metas_def v0_routed_def)
  then have mem: "\<exists>u \<in> set ?us. ?tix (fst u) = Some (ti, si)" using t by (metis fst_conv)
  note slots = apply_table_uses_slots [of ?us ?tix "length tables", OF us]
  have len: "length ?tabs = length tables" using slots by blast
  have "fst ` set (?tabs ! ti) = {si. \<exists>u \<in> set ?us. ?tix (fst u) = Some (ti, si)}" using slots k by blast
  with mem have si: "si \<in> fst ` set (?tabs ! ti)" by blast
  let ?ts = "table_slots ordt (tables ! ti) (?tabs ! ti)"
  have "?ts \<in> set (v0_tables ordt payer ixs tables)"
    unfolding v0_tables_def emitted_tables_mem using k len si by (intro exI [of _ ti]) auto
  moreover have "si \<in> set (ts_writable ?ts) \<union> set (ts_readonly ?ts)"
    using si table_slots_set [OF assms(1)] by blast
  moreover have "lt_Addresses (ts_table ?ts) ! si = am_PublicKey m" using k by (simp add: table_slots_def)
  ultimately show ?thesis unfolding slot_keys_def by force
qed

lemma v0_keys_cover:
  assumes "reorders ordt"
  shows "\<Union> (set (map (\<lambda>ix. fst ` set (uses_of (the ix))) ixs)) \<subseteq> set (v0_keys ordt payer ixs tables)"
proof
  fix k assume "k \<in> \<Union> (set (map (\<lambda>ix. fst ` set (uses_of (the ix))) ixs))"
  then obtain ix where ix: "ix \<in> set ixs" and "k \<in> fst ` set (uses_of (the ix))" by auto
  then consider "k = ix_ProgramID (the ix)" | m where "m \<in> set (metas (the ix))" "k = am_PublicKey m"
    by (auto simp: uses_of_def uses_of_metas_def)
  then show "k \<in> set (v0_keys ordt payer ixs tables)"
  proof cases
    case 1
    with ix show ?thesis by (force simp: v0_keys_def v0_uses_def static_uses_def)
  next
    case (2 m)
    show ?thesis
    proof (cases "v0_routed payer ixs tables k")
      case True
      with v0_routed_in_tables [OF assms ix 2(1)] 2 show ?thesis by (auto simp: v0_keys_def)
    next
      case False
      with ix 2 show ?thesis
        by (force simp: v0_keys_def v0_uses_def static_uses_def v0_routed_def uses_of_metas_def)
    qed
  qed
qed

lemma lookup_of_sel [simp]:
  "lk_AccountKey (lookup_of ts) = lt_AccountKey (ts_table ts)"
  "WritableIndexes (lookup_of ts) = map of_nat (ts_writable ts)"
  "ReadonlyIndexes (lookup_of ts) = map of_nat (ts_readonly ts)"
  by (simp_all add: lookup_of_def)

lemma v0_resolved:
  assumes "reorders ordt"
    and alts: "\<And>t. t \<in> set tables \<Longrightarrow> alts (lt_AccountKey t) = Some (lt_Addresses t) \<and> length (lt_Addresses t) \<le> 256"
    and lks: "AddressTableLookups m = map lookup_of (v0_tables ordt payer ixs tables)"
    and keys: "AccountKeys m = static_keys (v0_uses payer ixs tables)"
  shows "ResolvedAccountKeys m alts = Inr (v0_keys ordt payer ixs tables)"
proof -
  let ?tss = "v0_tables ordt payer ixs tables"
  have addrs: "table alts (lookup_of ts) = lt_Addresses (ts_table ts)"
      and known: "alts (lt_AccountKey (ts_table ts)) \<noteq> None" if "ts \<in> set ?tss" for ts
    using v0_slots [OF assms(1) that] alts by (auto simp: table_def)
  have lt: "s < length (lt_Addresses (ts_table ts))" and word: "unat (of_nat s :: u8) = s"
    if "ts \<in> set ?tss" and "s \<in> set (ts_writable ts) \<union> set (ts_readonly ts)" for ts s
  proof -
    note v = v0_slots [OF assms(1) that(1)]
    show lt: "s < length (lt_Addresses (ts_table ts))" using v that by blast
    also have "\<dots> \<le> 256" using v alts by blast
    finally show "unat (of_nat s :: u8) = s" by (simp add: unat_of_nat)
  qed
  have "list_all (lookup_resolvable alts) (map lookup_of ?tss)"
    using known word addrs lt by (auto simp: list_all_iff lookup_resolvable_def)
  moreover have "lookup_keys alts WritableIndexes m = slot_keys ts_writable ?tss"
    "lookup_keys alts ReadonlyIndexes m = slot_keys ts_readonly ?tss"
    unfolding lookup_keys_def slot_keys_def lks map_map comp_def
    using word addrs by (auto intro!: arg_cong [where f = concat] map_cong)
  ultimately show ?thesis unfolding ResolvedAccountKeys_law lks keys v0_keys_def by simp
qed

section \<open>Which accounts a table supplies\<close>

text \<open>
  Without the routing functions: an account that some instruction names, that some table holds and
  that nobody signs for comes from a table; every other account, the payer and all programs are static.
\<close>

definition meta_keys :: "Instruction option list \<Rightarrow> PublicKey set" where
  "meta_keys ixs = {am_PublicKey m | ix m. ix \<in> set ixs \<and> m \<in> set (metas (the ix))}"

definition table_accounts :: "PublicKey \<Rightarrow> Instruction option list \<Rightarrow> LoadedAddressLookupTable list \<Rightarrow> PublicKey set" where
  "table_accounts payer ixs tables =
     {k \<in> meta_keys ixs. (\<exists>t \<in> set tables. k \<in> set (lt_Addresses t)) \<and> k \<notin> signer_set payer ixs}"

definition static_accounts :: "PublicKey \<Rightarrow> Instruction option list \<Rightarrow> LoadedAddressLookupTable list \<Rightarrow> PublicKey set" where
  "static_accounts payer ixs tables =
     insert payer ((\<lambda>ix. ix_ProgramID (the ix)) ` set ixs \<union> (meta_keys ixs - table_accounts payer ixs tables))"

lemma dom_index_table: "dom (index_table ti si addrs m) = dom m \<union> set addrs"
  by (induction ti si addrs m rule: index_table.induct) (auto simp: dom_def)

lemma dom_index_tables: "dom (index_tables n ts m) = dom m \<union> (\<Union>t \<in> set ts. set (lt_Addresses t))"
  by (induction n ts m rule: index_tables.induct) (auto simp: dom_index_table)

lemma routed_iff:
  "routed (index_tables 0 tables Map.empty) sgs k \<longleftrightarrow> (\<exists>t \<in> set tables. k \<in> set (lt_Addresses t)) \<and> k \<notin> sgs"
  using dom_index_tables [of 0 tables Map.empty] by (auto simp: routed_def dom_def set_eq_iff)

definition v0_table_uses :: "PublicKey \<Rightarrow> Instruction option list \<Rightarrow> LoadedAddressLookupTable list \<Rightarrow> account_use list" where
  "v0_table_uses payer ixs tables =
     concat (map (table_uses (index_tables 0 tables Map.empty) (signer_set payer ixs) \<circ> the) ixs)"

lemma table_uses_keys: "fst ` set (v0_table_uses payer ixs tables) = table_accounts payer ixs tables"
  by (force simp: v0_table_uses_def table_uses_def uses_of_metas_def routed_iff table_accounts_def meta_keys_def)

lemma static_uses_keys: "set (static_keys (v0_uses payer ixs tables)) = static_accounts payer ixs tables"
proof -
  have "fst ` set (static_uses (index_tables 0 tables Map.empty) (signer_set payer ixs) x) =
      insert (ix_ProgramID x) (am_PublicKey ` {m \<in> set (metas x). \<not> routed (index_tables 0 tables Map.empty) (signer_set payer ixs) (am_PublicKey m)})" for x
    by (force simp: static_uses_def uses_of_metas_def)
  then show ?thesis
    by (auto simp: v0_uses_def image_UN static_accounts_def table_accounts_def meta_keys_def routed_iff)
qed

lemma apply_table_uses_distinct:
  assumes "\<And>u. u \<in> set us \<Longrightarrow> \<exists>ti si. tix (fst u) = Some (ti, si) \<and> ti < n" and "ti < n"
  shows "distinct (map fst (apply_table_uses tix us (replicate n []) ! ti))"
  using assms(1)
proof (induction us rule: rev_induct)
  case (snoc u us)
  let ?tabs = "apply_table_uses tix us (replicate n [])"
  obtain k sg wr where u: "u = (k, sg, wr)" by (cases u)
  from snoc.prems [of u] u obtain t si where t: "tix k = Some (t, si)" "t < n" by auto
  have len: "length ?tabs = n" using apply_table_uses_slots [of us tix n] snoc.prems by simp
  have step: "apply_table_uses tix (us @ [u]) (replicate n []) = addOrUpdateTable (t, si) wr ?tabs"
    by (simp add: apply_table_uses_def u t)
  show ?case
    unfolding step using snoc len t assms(2) by (auto simp: addOrUpdateTable_def nth_list_update distinct_update)
qed (use assms(2) in \<open>simp add: apply_table_uses_def\<close>)

lemma length_slot_keys:
  assumes "reorders ord" and "length tabs = length tables"
  shows "length (slot_keys ts_writable (emitted_tables ord tables tabs)) +
    length (slot_keys ts_readonly (emitted_tables ord tables tabs)) = sum_list (map length tabs)"
proof -
  have one: "length (ts_writable (table_slots ord t slots)) + length (ts_readonly (table_slots ord t slots)) = length slots" for t slots
  proof -
    have "length (filter snd (ord slots)) + length (filter (\<lambda>p. \<not> snd p) (ord slots)) = length (ord slots)"
      by (rule sum_length_filter_compl)
    also have "\<dots> = length slots" using reordersD [OF assms(1)] by (metis size_mset)
    finally show ?thesis by (simp add: table_slots_def)
  qed
  show ?thesis
    using assms(2)
  proof (induction tabs arbitrary: tables)
    case (Cons slots tabs)
    then obtain t ts where t: "tables = t # ts" "length tabs = length ts" by (cases tables) auto
    have "slot_keys sel (emitted_tables ord tables (slots # tabs)) =
        (if slots = [] then [] else map (\<lambda>s. lt_Addresses t ! s) (sel (table_slots ord t slots))) @ slot_keys sel (emitted_tables ord ts tabs)" for sel
      by (simp add: t emitted_tables_def slot_keys_def) (simp add: table_slots_def)
    with Cons.IH [OF t(2)] one [of t slots] show ?case by auto
  qed (simp add: emitted_tables_def slot_keys_def)
qed

lemma table_keys_count:
  assumes "reorders ordt"
  shows "length (slot_keys ts_writable (v0_tables ordt payer ixs tables)) +
    length (slot_keys ts_readonly (v0_tables ordt payer ixs tables)) = card (table_accounts payer ixs tables)"
proof -
  let ?tix = "index_tables 0 tables Map.empty" and ?n = "length tables"
  let ?us = "v0_table_uses payer ixs tables"
  let ?tabs = "apply_table_uses ?tix ?us (replicate ?n [])"
  let ?slots = "\<lambda>ti. {si. \<exists>u \<in> set ?us. ?tix (fst u) = Some (ti, si)}"
  have us: "\<exists>ti si. ?tix (fst u) = Some (ti, si) \<and> ti < ?n" if "u \<in> set ?us" for u
    using that table_index_sound [of tables "fst u"] by (fastforce simp: v0_table_uses_def table_uses_def routed_def)
  note slots = apply_table_uses_slots [of ?us ?tix ?n, OF us]
  have "length (?tabs ! ti) = card (?slots ti)" if "ti < ?n" for ti
  proof -
    have "length (?tabs ! ti) = card (set (map fst (?tabs ! ti)))"
      using distinct_card [OF apply_table_uses_distinct [of ?us ?tix ?n ti, OF us that]] by simp
    then show ?thesis using slots that by simp
  qed
  then have "sum_list (map length ?tabs) = (\<Sum>ti < ?n. card (?slots ti))"
    using slots by (simp add: sum_list_sum_nth atLeast0LessThan)
  also have "\<dots> = card (SIGMA ti : {..<?n}. ?slots ti)"
  proof (rule card_SigmaI [symmetric])
    have "?slots ti \<subseteq> (\<lambda>u. snd (the (?tix (fst u)))) ` set ?us" for ti by force
    then show "\<forall>ti \<in> {..<?n}. finite (?slots ti)" by (meson finite_imageI finite_set finite_subset)
  qed simp
  also have "(SIGMA ti : {..<?n}. ?slots ti) = (\<lambda>k. the (?tix k)) ` fst ` set ?us"
    using us by (force simp: image_iff)
  also have "card \<dots> = card (fst ` set ?us)"
  proof (rule card_image, rule inj_onI)
    fix k l assume "k \<in> fst ` set ?us" "l \<in> fst ` set ?us" and eq: "the (?tix k) = the (?tix l)"
    then have "?tix k \<noteq> None" "?tix l \<noteq> None" using us by fastforce+
    with eq obtain ti si where "?tix k = Some (ti, si)" "?tix l = Some (ti, si)" by (metis option.collapse prod.exhaust)
    then show "k = l" using table_index_sound by blast
  qed
  finally show ?thesis
    using length_slot_keys [OF assms, of ?tabs tables] slots
    unfolding v0_tables_def v0_table_uses_def [symmetric] table_uses_keys by simp
qed

lemma length_v0_keys:
  assumes "reorders ordt"
  shows "length (v0_keys ordt payer ixs tables) = card (static_accounts payer ixs tables) + card (table_accounts payer ixs tables)"
  using table_keys_count [OF assms, of payer ixs tables] static_uses_keys [of payer ixs tables]
    distinct_card [OF distinct_static_keys [of "v0_uses payer ixs tables"]]
  by (simp add: v0_keys_def)

lemma set_slot_keys:
  assumes "reorders ordt"
  shows "set (slot_keys ts_writable (v0_tables ordt payer ixs tables)) \<union>
    set (slot_keys ts_readonly (v0_tables ordt payer ixs tables)) = table_accounts payer ixs tables" (is "?K = _")
proof (rule card_seteq [symmetric])
  show "finite ?K" by simp
  have "table_accounts payer ixs tables \<subseteq> ?K"
  proof
    fix k assume k: "k \<in> table_accounts payer ixs tables"
    then obtain ix m where "ix \<in> set ixs" "m \<in> set (metas (the ix))" "k = am_PublicKey m"
      by (auto simp: table_accounts_def meta_keys_def)
    then show "k \<in> ?K"
      using v0_routed_in_tables [OF assms] k by (auto simp: v0_routed_def routed_iff table_accounts_def)
  qed
  then show "table_accounts payer ixs tables \<subseteq> ?K" .
  have "card ?K \<le> length (slot_keys ts_writable (v0_tables ordt payer ixs tables) @ slot_keys ts_readonly (v0_tables ordt payer ixs tables))"
    by (metis card_length set_append)
  then show "card ?K \<le> card (table_accounts payer ixs tables)" using table_keys_count [OF assms, of payer ixs tables] by simp
qed

lemma index_keys_other: "k \<notin> set ls \<Longrightarrow> index_keys n ls m k = m k"
  by (induction n ls m rule: index_keys.induct) auto

lemma index_keys_tail:
  assumes "k \<in> set ks"
  shows "index_keys 0 (ks @ ls) Map.empty k = Some i \<Longrightarrow> length ks \<le> i \<longleftrightarrow> k \<in> set ls"
proof -
  assume i: "index_keys 0 (ks @ ls) Map.empty k = Some i"
  obtain j where j: "index_keys 0 ks Map.empty k = Some j" "j < length ks"
    using assms ki.complete ki.sound by blast
  have last: "index_keys (length ks) ls (index_keys 0 ks Map.empty) k = Some i" using i by (simp add: index_keys_append)
  show ?thesis
  proof (cases "k \<in> set ls")
    case True
    then show ?thesis using index_keys_law [OF last] by auto
  next
    case False
    then have "index_keys 0 ks Map.empty k = Some i" using last index_keys_other [OF False] by simp
    then have "i < length ks" using ki.sound [of ks k i] by blast
    then show ?thesis using False by simp
  qed
qed

lemma compileInstructions_program:
  "compileInstructions ixs idx fnName = Inr cs \<Longrightarrow> j < length ixs \<Longrightarrow>
   \<exists>i. idx (ix_ProgramID (the (ixs ! j))) = Some i \<and> ProgramIDIndex (cs ! j) = of_nat i"
proof (induction ixs arbitrary: cs j)
  case (Cons ix ixs)
  from Cons.prems(1) obtain x c cs' where x: "ix = Some x" "cs = c # cs'" "compileInstructions ixs idx fnName = Inr cs'"
    "compile_instruction fnName idx x = Inr c"
    by (cases ix) (auto simp: res_bind_Inr_iff)
  from x(4) obtain i where "idx (ix_ProgramID x) = Some i" "ProgramIDIndex c = of_nat i"
    unfolding compile_instruction_Inr by force
  with x Cons.IH [OF x(3)] Cons.prems(2) show ?case by (cases j) simp_all
qed simp

section \<open>A sample message\<close>

text \<open>One instruction whose program is also a read-only account held by a table.\<close>

definition table_instruction :: Instruction where
  "table_instruction = NewInstruction (replicate 32 9) [Some (Meta (replicate 32 9))] []"

definition sample_table :: LoadedAddressLookupTable where
  "sample_table = \<lparr>lt_AccountKey = replicate 32 5, lt_Addresses = [replicate 32 9]\<rparr>"

definition table_message :: Message where
  "table_message =
     \<lparr>Version = MessageVersion0,
      Header = \<lparr>NumRequiredSignatures = 1, NumReadonlySignedAccounts = 0, NumReadonlyUnsignedAccounts = 1\<rparr>,
      AccountKeys = [replicate 32 1, replicate 32 9], RecentBlockhash = replicate 32 4,
      Instructions = [\<lparr>ProgramIDIndex = 2, ci_Accounts = [2], ci_Data = []\<rparr>],
      AddressTableLookups = [\<lparr>lk_AccountKey = replicate 32 5, WritableIndexes = [], ReadonlyIndexes = [0]\<rparr>],
      TxConfig = None\<rparr>"

lemma NewMessageV0_table_message:
  "NewMessageV0 (\<lambda>es. es) (\<lambda>s. s) (replicate 32 1) [Some table_instruction] (replicate 32 4) [sample_table] =
     Inr table_message"
  by (simp add: NewMessageV0_def NewInstruction_def Meta_def addOrUpdate_def newStaticEntries_def
      bucketAndOrder_def bucket_def bucketOf_def emitted_tables_def table_slots_def addOrUpdateTable_def
      lookup_of_def compile_instruction_def Let_def table_instruction_def sample_table_def table_message_def)

section \<open>Properties of NewMessageV0\<close>

text \<open>
  C3: A compiled v0 message resolves to the accounts its instructions name.  Given the tables
  it was built with (each known to the resolver and of at most 256 addresses, the on-chain
  limit), \<open>ResolvedAccountKeys\<close> succeeds on the message and every instruction's program and
  account indices point, in the resolved list, at the keys of the original instruction:
  the index layout of the builder and of the resolver agree.
\<close>

theorem NewMessageV0_resolves:
  assumes "reorders ord" and "reorders ordt" and "NewMessageV0 ord ordt payer ixs bh tables = Inr m"
    and "\<And>t. t \<in> set tables \<Longrightarrow> alts (lt_AccountKey t) = Some (lt_Addresses t) \<and> length (lt_Addresses t) \<le> 256"
  shows "\<exists>keys. ResolvedAccountKeys m alts = Inr keys \<and> length keys \<le> 256 \<and>
    list_all2 (resolves keys) ixs (Instructions m)"
proof -
  let ?keys = "v0_keys ordt payer ixs tables"
  from assms(3) have "AddressTableLookups m = map lookup_of (v0_tables ordt payer ixs tables)"
      "AccountKeys m = static_keys (v0_uses payer ixs tables)" and len: "length ?keys \<le> 256"
      and c: "compileInstructions ixs (index_keys 0 ?keys Map.empty) ''NewMessageV0'' = Inr (Instructions m)"
    by (auto simp: NewMessageV0_law [OF assms(1)])
  then have "ResolvedAccountKeys m alts = Inr ?keys" using v0_resolved [OF assms(2,4)] by blast
  with len ki.compileInstructions_resolves [OF c len] show ?thesis by blast
qed

text \<open>
  C34: \<open>NewMessageV0\<close> returns a message exactly when there is an instruction, no instruction or account
  meta is nil, every instruction's data is available, and the static accounts and the accounts that
  come from tables are together at most 256.  Both are counted as sets of keys, from the instructions
  and the tables alone.
\<close>

theorem NewMessageV0_succeeds_iff:
  assumes "reorders ord" and "reorders ordt"
  shows "(\<exists>m. NewMessageV0 ord ordt payer ixs bh tables = Inr m) \<longleftrightarrow>
    ixs \<noteq> [] \<and> no_nil ixs \<and> data_ok ixs \<and>
    card (static_accounts payer ixs tables) + card (table_accounts payer ixs tables) \<le> 256"
  using ki.compileInstructions_total [of ixs "v0_keys ordt payer ixs tables"] v0_keys_cover [OF assms(2), of ixs]
    ki.compileInstructions_data unfolding NewMessageV0_law [OF assms(1)] length_v0_keys [OF assms(2)] by blast

text \<open>
  C40: The comment in the code says that program ids are always static.  They are in the static key
  list of every compiled message, but the index map is overwritten by the table entries: an
  instruction's program index points past the static keys exactly when its program is also named as
  an account that nobody signs for and that a table holds.
\<close>

theorem NewMessageV0_program_index_not_static:
  assumes "reorders ord" and "reorders ordt" and "NewMessageV0 ord ordt payer ixs bh tables = Inr m" and "j < length ixs"
  shows "ix_ProgramID (the (ixs ! j)) \<in> set (AccountKeys m) \<and>
    (length (AccountKeys m) \<le> unat (ProgramIDIndex (Instructions m ! j)) \<longleftrightarrow>
       ix_ProgramID (the (ixs ! j)) \<in> table_accounts payer ixs tables)"
proof -
  let ?k = "ix_ProgramID (the (ixs ! j))" and ?keys = "v0_keys ordt payer ixs tables"
  let ?st = "static_keys (v0_uses payer ixs tables)"
  let ?tk = "slot_keys ts_writable (v0_tables ordt payer ixs tables) @ slot_keys ts_readonly (v0_tables ordt payer ixs tables)"
  from assms(3) have m: "AccountKeys m = ?st" and len: "length ?keys \<le> 256"
    and c: "compileInstructions ixs (index_keys 0 ?keys Map.empty) ''NewMessageV0'' = Inr (Instructions m)"
    by (auto simp: NewMessageV0_law [OF assms(1)])
  obtain i where i: "index_keys 0 ?keys Map.empty ?k = Some i" "ProgramIDIndex (Instructions m ! j) = of_nat i"
    using compileInstructions_program [OF c assms(4)] by blast
  have "i < 256" using ki.sound [OF i(1)] len by simp
  then have word: "unat (ProgramIDIndex (Instructions m ! j)) = i" by (simp add: i(2) unat_of_nat)
  have "?k \<in> static_accounts payer ixs tables" using assms(4) by (auto simp: static_accounts_def)
  then have st: "?k \<in> set ?st" by (simp only: static_uses_keys)
  have "length ?st \<le> i \<longleftrightarrow> ?k \<in> set ?tk"
    using i(1) by (intro index_keys_tail [OF st]) (simp add: v0_keys_def)
  also have "\<dots> \<longleftrightarrow> ?k \<in> table_accounts payer ixs tables"
    unfolding set_append set_slot_keys [OF assms(2)] ..
  finally show ?thesis using st word by (simp add: m)
qed

theorem NewMessageV0_resolves_witness:
  "\<exists>keys. ResolvedAccountKeys table_message [replicate 32 5 \<mapsto> [replicate 32 9]] = Inr keys \<and>
     length keys \<le> 256 \<and> list_all2 (resolves keys) [Some table_instruction] (Instructions table_message)"
  by (rule NewMessageV0_resolves [OF reorders_id(1) reorders_id(1) NewMessageV0_table_message])
     (simp add: sample_table_def)

lemma table_instruction_accounts:
  "signer_set (replicate 32 1) [Some table_instruction] = {replicate 32 1}"
  "meta_keys [Some table_instruction] = {replicate 32 9}"
  "table_accounts (replicate 32 1) [Some table_instruction] [sample_table] = {replicate 32 9}"
  "static_accounts (replicate 32 1) [Some table_instruction] [sample_table] = {replicate 32 1, replicate 32 9}"
  by (auto simp: signer_set_def meta_keys_def table_accounts_def static_accounts_def metas_def table_instruction_def
      sample_table_def NewInstruction_def Meta_def)

theorem NewMessageV0_succeeds_iff_witness:
  "(\<exists>m. NewMessageV0 rev (\<lambda>s. s) (replicate 32 1) [Some table_instruction] (replicate 32 4) [sample_table] = Inr m) \<and>
   \<not> (\<exists>m. NewMessageV0 rev (\<lambda>s. s) (replicate 32 1) [Some table_instruction, None] (replicate 32 4) [sample_table] = Inr m)"
proof -
  have "no_nil [Some table_instruction]" "data_ok [Some table_instruction]" "\<not> no_nil [Some table_instruction, None]"
    by (auto simp: no_nil_def data_ok_def table_instruction_def NewInstruction_def)
  then show ?thesis
    unfolding NewMessageV0_succeeds_iff [OF reorders_id(2) reorders_id(1)] by (simp add: table_instruction_accounts)
qed

theorem NewMessageV0_program_index_not_static_witness:
  "length (AccountKeys table_message) \<le> unat (ProgramIDIndex (Instructions table_message ! 0)) \<and>
   replicate 32 9 \<in> set (AccountKeys table_message)"
  using NewMessageV0_program_index_not_static [OF reorders_id(1) reorders_id(1) NewMessageV0_table_message, of 0]
  by (simp add: table_instruction_accounts) (simp add: table_instruction_def NewInstruction_def)

end
