(* ===== verification/Transaction.thy ===== *)
theory Transaction
  imports Builder_V0
begin

text \<open>
  Transactions (\<open>transaction.go\<close>) and signers (\<open>signer.go\<close>): construction, signing,
  the two wire layouts, and signature verification.  The Ed25519 primitives of the Go
  standard library are parameters: \<open>ed_public\<close> (public key of a seed), \<open>ed_sign\<close> and
  \<open>ed_verify\<close>.
\<close>

section \<open>Signers\<close>

text \<open>The \<open>Signer\<close> interface: its key and its signing function under the caller's context.\<close>

record Signer =
  sg_PublicKey :: PublicKey
  sg_Sign :: "bytes \<Rightarrow> Signature result"

record Ed25519Keypair =
  kp_public :: PublicKey
  kp_private :: bytes

definition SeedSize :: nat where "SeedSize = 32"
definition PrivateKeySize :: nat where "PrivateKeySize = 64"

text \<open>\<open>ed25519.NewKeyFromSeed\<close> appends the public key to the seed; \<open>Public\<close> reads it back.\<close>

definition NewKeyFromSeed :: "(bytes \<Rightarrow> bytes) \<Rightarrow> bytes \<Rightarrow> bytes" where
  "NewKeyFromSeed ed_public seed = seed @ ed_public seed"

definition priv_Public :: "bytes \<Rightarrow> bytes" where
  "priv_Public priv = drop 32 priv"

text \<open>\<open>generate\<close> is what \<open>ed25519.GenerateKey\<close> drew from the random source.\<close>

definition NewEd25519Keypair :: "(PublicKey \<times> bytes) result \<Rightarrow> Ed25519Keypair result" where
  "NewEd25519Keypair generate =
     (case generate of
        Inl e \<Rightarrow> Inl (Wrapf ''solana: ed25519 keypair: %w'' [] e)
      | Inr (pub, priv) \<Rightarrow> Inr \<lparr>kp_public = pub, kp_private = priv\<rparr>)"

definition keypair_PrivateKey :: "Ed25519Keypair \<Rightarrow> bytes" where
  "keypair_PrivateKey k = kp_private k"

definition Ed25519KeypairFromSeed :: "(bytes \<Rightarrow> bytes) \<Rightarrow> bytes \<Rightarrow> Ed25519Keypair result" where
  "Ed25519KeypairFromSeed ed_public seed =
     (if length seed \<noteq> SeedSize
      then Inl (Wrapf ''solana: ed25519 seed: %w: got %d, want %d'' [int (length seed), int SeedSize] ErrInvalidLength)
      else let priv = NewKeyFromSeed ed_public seed
           in Inr \<lparr>kp_public = priv_Public priv, kp_private = priv\<rparr>)"

definition Ed25519KeypairFromPrivateKey :: "bytes \<Rightarrow> Ed25519Keypair result" where
  "Ed25519KeypairFromPrivateKey priv =
     (if length priv \<noteq> PrivateKeySize
      then Inl (Wrapf ''solana: ed25519 private key: %w: got %d, want %d''
             [int (length priv), int PrivateKeySize] ErrInvalidLength)
      else Inr \<lparr>kp_public = priv_Public priv, kp_private = priv\<rparr>)"

definition Ed25519KeypairFromBase58Key ::
    "(bytes \<Rightarrow> bytes) \<Rightarrow> b58decoder \<Rightarrow> string \<Rightarrow> Ed25519Keypair result" where
  "Ed25519KeypairFromBase58Key ed_public b58dec key =
     (if key = [] then Inl (Errorf ''solana: ed25519 keypair: empty key'' [])
      else case b58dec key of
        None \<Rightarrow> Inl (Errorf ''solana: ed25519 keypair: %w'' [])
      | Some b \<Rightarrow>
          if length b = PrivateKeySize then Ed25519KeypairFromPrivateKey b
          else if length b = SeedSize then Ed25519KeypairFromSeed ed_public b
          else Inl (Wrapf ''solana: ed25519 keypair: %w: got %d, want %d or %d''
                 [int (length b), int PrivateKeySize, int SeedSize] ErrInvalidLength))"

definition keypair_signer :: "(bytes \<Rightarrow> bytes \<Rightarrow> Signature) \<Rightarrow> Ed25519Keypair \<Rightarrow> Signer" where
  "keypair_signer ed_sign k =
     \<lparr>sg_PublicKey = kp_public k, sg_Sign = (\<lambda>message. Inr (ed_sign (kp_private k) message))\<rparr>"

definition NewRemoteSigner :: "PublicKey \<Rightarrow> (bytes \<Rightarrow> Signature result) option \<Rightarrow> Signer result" where
  "NewRemoteSigner pk fn =
     (case fn of
        None \<Rightarrow> Inl (Errorf ''solana: remote signer: nil sign function'' [])
      | Some f \<Rightarrow> Inr \<lparr>sg_PublicKey = pk, sg_Sign = f\<rparr>)"

section \<open>Transactions\<close>

record Transaction =
  Signatures :: "Signature list"
  tx_Message :: Message

definition NewTransaction :: "Message \<Rightarrow> Transaction" where
  "NewTransaction message =
     \<lparr>Signatures = replicate (unat (NumRequiredSignatures (Header message))) (zero_array SignatureSize),
      tx_Message = message\<rparr>"

definition tx_SerializedSize :: "Transaction \<Rightarrow> nat" where
  "tx_SerializedSize tx =
     (let n = length (Signatures tx) in
      if Version (tx_Message tx) = MessageVersion1 then SerializedSize (tx_Message tx) + n * SignatureSize
      else let svLen = (if n \<ge> 128 then 2 else 1)
           in svLen + n * SignatureSize + SerializedSize (tx_Message tx))"

definition MessageBytes :: "Transaction \<Rightarrow> bytes result" where
  "MessageBytes tx = Marshal (tx_Message tx)"

subsection \<open>Signing\<close>

fun signer_slots :: "(PublicKey \<rightharpoonup> nat) \<Rightarrow> Signer list \<Rightarrow> nat list result" where
  "signer_slots index [] = Inr []"
| "signer_slots index (s # ss) =
     (case index (sg_PublicKey s) of
        None \<Rightarrow> Inl (Errorf ''solana: transaction: signer %s is not a required signer'' [])
      | Some slot \<Rightarrow> res_bind (signer_slots index ss) (\<lambda>slots. Inr (slot # slots)))"

fun fill_slots :: "bytes \<Rightarrow> (Signer \<times> nat) list \<Rightarrow> Transaction \<Rightarrow> go_error option \<times> Transaction" where
  "fill_slots msgBytes [] tx = (None, tx)"
| "fill_slots msgBytes ((s, slot) # rest) tx =
     (case sg_Sign s msgBytes of
        Inl err \<Rightarrow> (Some (Wrapf ''solana: transaction: signer %s: %w'' [] err), tx)
      | Inr sig \<Rightarrow> fill_slots msgBytes rest (tx\<lparr>Signatures := (Signatures tx)[slot := sig]\<rparr>))"

definition grow_signatures :: "nat \<Rightarrow> Transaction \<Rightarrow> Transaction" where
  "grow_signatures numReq tx =
     (if length (Signatures tx) < numReq
      then tx\<lparr>Signatures := Signatures tx @ replicate (numReq - length (Signatures tx)) (zero_array SignatureSize)\<rparr>
      else tx)"

definition Sign :: "Signer list \<Rightarrow> Transaction \<Rightarrow> go_error option \<times> Transaction" where
  "Sign signers tx =
     (let numReq = unat (NumRequiredSignatures (Header (tx_Message tx))) in
      if numReq = 0 then (Some (Errorf ''solana: transaction: message requires zero signatures'' []), tx)
      else if length (AccountKeys (tx_Message tx)) < numReq
      then (Some (Errorf ''solana: transaction: message has %d account keys but header requires %d signatures''
              [int (length (AccountKeys (tx_Message tx))), int numReq]), tx)
      else
        let tx = grow_signatures numReq tx;
            index = index_keys 0 (take numReq (AccountKeys (tx_Message tx))) Map.empty
        in
        case signer_slots index signers of
          Inl err \<Rightarrow> (Some err, tx)
        | Inr slots \<Rightarrow>
            (case Marshal (tx_Message tx) of
               Inl err \<Rightarrow> (Some (Wrapf ''solana: transaction: marshal message: %w'' [] err), tx)
             | Inr msgBytes \<Rightarrow> fill_slots msgBytes (zip signers slots) tx))"

subsection \<open>Wire format\<close>

definition tx_Marshal :: "Transaction \<Rightarrow> bytes result" where
  "tx_Marshal tx =
     (if length (Signatures tx) > 0xFFFF
      then Inl (Errorf ''solana: transaction: too many signatures: %d'' [int (length (Signatures tx))])
      else case validate (tx_Message tx) of
        Some err \<Rightarrow> Inl err
      | None \<Rightarrow>
          if length (Signatures tx) \<noteq> unat (NumRequiredSignatures (Header (tx_Message tx)))
          then Inl (Errorf ''solana: transaction: %d signatures for %d required signers''
                 [int (length (Signatures tx)), uint (NumRequiredSignatures (Header (tx_Message tx)))])
          else
            let e = NewEncoder (tx_SerializedSize tx) in
            if Version (tx_Message tx) = MessageVersion1
            then res_bind (marshalInto (tx_Message tx) e) (\<lambda>e. Inr (enc_Bytes (fold WriteBytes (Signatures tx) e)))
            else
              let e = chain [WriteShortvec (of_nat (length (Signatures tx))), fold WriteBytes (Signatures tx)] e
              in res_bind (marshalInto (tx_Message tx) e) (\<lambda>e. Inr (enc_Bytes e)))"

definition read_signature :: "nat \<Rightarrow> Signature decm" where
  "read_signature i = wrapr ''solana: transaction: signature %d: %w'' [int i] (ReadBytes (int SignatureSize))"

definition DecodeTransaction :: "Transaction decm" where
  "DecodeTransaction =
     rbind (wrapr ''solana: transaction: version byte: %w'' [] PeekUint8) (\<lambda>first.
     if first = versionPrefixMask OR MessageVersion1 then
       rbind (wrapr ''solana: transaction: message: %w'' [] DecodeMessage) (\<lambda>msg.
       rbind (read_loop read_signature 0 (unat (NumRequiredSignatures (Header msg)))) (\<lambda>sigs.
       rreturn \<lparr>Signatures = sigs, tx_Message = msg\<rparr>))
     else
       rbind (wrapr ''solana: transaction: signatures count: %w'' [] ReadShortvec) (\<lambda>sigCount.
       rbind (read_loop read_signature 0 (unat sigCount)) (\<lambda>sigs.
       rbind (wrapr ''solana: transaction: message: %w'' [] DecodeMessage) (\<lambda>msg.
       rreturn \<lparr>Signatures = sigs, tx_Message = msg\<rparr>))))"

definition tx_UnmarshalFromDecoder :: "Transaction \<Rightarrow> decoder \<Rightarrow> (go_error option \<times> Transaction) \<times> decoder" where
  "tx_UnmarshalFromDecoder tx d = (case DecodeTransaction d of (r, d) \<Rightarrow> (store r tx, d))"

definition tx_UnmarshalBinary :: "bytes \<Rightarrow> Transaction result" where
  "tx_UnmarshalBinary data =
     (if data = [] then Inl (Errorf ''solana: transaction: empty input'' [])
      else case DecodeTransaction (NewDecoder data) of
        (Inl err, d) \<Rightarrow> Inl err
      | (Inr decoded, d) \<Rightarrow>
          if Remaining d \<noteq> 0 then Inl (Errorf ''solana: transaction: %d trailing bytes'' [Remaining d])
          else Inr decoded)"

definition NewTransactionFromInstructions ::
    "staticEntry map_order \<Rightarrow> Instruction option list \<Rightarrow> Hash \<Rightarrow> PublicKey \<Rightarrow> Transaction result" where
  "NewTransactionFromInstructions ord instructions recentBlockhash payer =
     res_bind (NewMessage ord payer instructions recentBlockhash) (\<lambda>msg. Inr (NewTransaction msg))"

definition NewTransactionFromInstructionsV0 ::
    "staticEntry map_order \<Rightarrow> (nat \<times> bool) map_order \<Rightarrow> Instruction option list \<Rightarrow> Hash \<Rightarrow> PublicKey \<Rightarrow>
     LoadedAddressLookupTable list \<Rightarrow> Transaction result" where
  "NewTransactionFromInstructionsV0 ord ordt instructions recentBlockhash payer tables =
     res_bind (NewMessageV0 ord ordt payer instructions recentBlockhash tables) (\<lambda>msg. Inr (NewTransaction msg))"

definition ToBase64 :: "(bytes \<Rightarrow> string) \<Rightarrow> Transaction \<Rightarrow> string result" where
  "ToBase64 b64enc tx = res_bind (tx_Marshal tx) (\<lambda>data. Inr (b64enc data))"

definition ToBase58 :: "b58encoder \<Rightarrow> Transaction \<Rightarrow> string result" where
  "ToBase58 b58enc tx = res_bind (tx_Marshal tx) (\<lambda>data. Inr (b58enc data))"

subsection \<open>Verification\<close>

fun verify_slots ::
    "(PublicKey \<Rightarrow> bytes \<Rightarrow> Signature \<Rightarrow> bool) \<Rightarrow> bytes \<Rightarrow> nat \<Rightarrow> (PublicKey \<times> Signature) list \<Rightarrow> go_error option" where
  "verify_slots ed_verify msgBytes i [] = None"
| "verify_slots ed_verify msgBytes i ((pub, sig) # rest) =
     (if sig_IsZero sig then verify_slots ed_verify msgBytes (Suc i) rest
      else if \<not> ed_verify pub msgBytes sig
      then Some (Errorf ''solana: transaction: signature at slot %d for %s does not verify'' [int i])
      else verify_slots ed_verify msgBytes (Suc i) rest)"

definition VerifySignatures ::
    "(PublicKey \<Rightarrow> bytes \<Rightarrow> Signature \<Rightarrow> bool) \<Rightarrow> Transaction \<Rightarrow> go_error option" where
  "VerifySignatures ed_verify tx =
     (let numReq = unat (NumRequiredSignatures (Header (tx_Message tx))) in
      if length (Signatures tx) < numReq
      then Some (Errorf ''solana: transaction: only %d signature slots for %d required signers''
             [int (length (Signatures tx)), int numReq])
      else if length (AccountKeys (tx_Message tx)) < numReq
      then Some (Errorf ''solana: transaction: only %d account keys for %d required signers''
             [int (length (AccountKeys (tx_Message tx))), int numReq])
      else case Marshal (tx_Message tx) of
        Inl err \<Rightarrow> Some err
      | Inr msgBytes \<Rightarrow>
          verify_slots ed_verify msgBytes 0
            (zip (take numReq (AccountKeys (tx_Message tx))) (take numReq (Signatures tx))))"

end
