(* ===== verification/Transaction_Laws.thy ===== *)
theory Transaction_Laws
  imports Transaction
begin

text \<open>
  Correctness of transactions: the two wire layouts and what the decoder accepts, the size
  computation, and the effect of \<open>Sign\<close> on the signature slots.
\<close>

section \<open>Wire layouts\<close>

definition sigs_ok :: "Transaction \<Rightarrow> bool" where
  "sigs_ok tx \<longleftrightarrow> (\<forall>s \<in> set (Signatures tx). length s = SignatureSize)"

definition trailing_layout :: "Transaction \<Rightarrow> bytes" where
  "trailing_layout tx = message_bytes (tx_Message tx) @ concat (Signatures tx)"

definition prefixed_layout :: "Transaction \<Rightarrow> bytes" where
  "prefixed_layout tx =
     shortvec (of_nat (length (Signatures tx))) @ concat (Signatures tx) @ message_bytes (tx_Message tx)"

definition tx_bytes :: "Transaction \<Rightarrow> bytes" where
  "tx_bytes tx = (if Version (tx_Message tx) = MessageVersion1 then trailing_layout tx else prefixed_layout tx)"

definition sigs_match :: "Transaction \<Rightarrow> bool" where
  "sigs_match tx \<longleftrightarrow> length (Signatures tx) = unat (NumRequiredSignatures (Header (tx_Message tx)))"

lemma signature_loop_law:
  "wf_decoder d \<Longrightarrow> read_loop read_signature i n d = (Inr sigs, d') \<longleftrightarrow>
     length sigs = n \<and> (\<forall>s \<in> set sigs. length s = SignatureSize) \<and> reads d (concat sigs) d'"
  using read_loop_law [of read_signature "\<lambda>s. length s = SignatureSize" "\<lambda>s. s"]
  by (simp add: read_signature_def wrapr_Inr ReadBytes_law)

lemma message_v1_first:
  assumes "message_ok m"
  shows "hd (message_bytes m) = 0x81 \<longleftrightarrow> Version m = MessageVersion1"
  using assms by (auto simp: message_ok_def message_bytes_def body_bytes_def header_bytes_def version_defs)

lemma reads_hd: "reads d [b] d1 \<Longrightarrow> reads d xs d' \<Longrightarrow> xs \<noteq> [] \<Longrightarrow> hd xs = b"
  using reads_Cons [of d "hd xs" "tl xs" d'] by (cases xs) (auto dest: reads_byte_unique)

definition clash :: "nat \<Rightarrow> bool" where
  "clash n \<longleftrightarrow> hd (shortvec (of_nat n)) = 0x81"

lemma DecodeTransaction_law:
  "DecodeTransaction d = (Inr tx, d') \<longleftrightarrow>
     message_ok (tx_Message tx) \<and> sigs_ok tx \<and>
     (Version (tx_Message tx) = MessageVersion1 \<and> sigs_match tx \<and> reads d (trailing_layout tx) d' \<or>
      length (Signatures tx) \<le> 0xFFFF \<and> \<not> clash (length (Signatures tx)) \<and> reads d (prefixed_layout tx) d')"
proof (cases "\<exists>b d1. reads d [b] d1")
  case False
  then have "\<not> reads d (trailing_layout tx) d'" "\<not> reads d (prefixed_layout tx) d'"
    using reads_first [of d "trailing_layout tx" d'] reads_first [of d "prefixed_layout tx" d']
    by (auto simp: trailing_layout_def prefixed_layout_def)
  with False show ?thesis
    by (simp add: DecodeTransaction_def rbind_Inr wrapr_Inr PeekUint8_law)
next
  case True
  then obtain b d1 where b: "reads d [b] d1" by blast
  have u: "(\<exists>d1. reads d [x] d1) \<longleftrightarrow> x = b" for x using b reads_byte_unique [OF b] by blast
  have pick: "DecodeTransaction d = (Inr tx, d') \<longleftrightarrow>
    (if b = 0x81 then
       \<exists>msg d2 sigs. DecodeMessage d = (Inr msg, d2) \<and>
         read_loop read_signature 0 (unat (NumRequiredSignatures (Header msg))) d2 = (Inr sigs, d') \<and>
         tx = \<lparr>Signatures = sigs, tx_Message = msg\<rparr>
     else
       \<exists>n d2 sigs d3 msg. ReadShortvec d = (Inr n, d2) \<and> read_loop read_signature 0 (unat n) d2 = (Inr sigs, d3) \<and>
         DecodeMessage d3 = (Inr msg, d') \<and> tx = \<lparr>Signatures = sigs, tx_Message = msg\<rparr>)"
    by (auto simp: DecodeTransaction_def rbind_Inr wrapr_Inr rreturn_Inr PeekUint8_law u version_defs)
  have hd_trail: "b = 0x81" if "reads d (trailing_layout tx) d'" "message_ok (tx_Message tx)"
      "Version (tx_Message tx) = MessageVersion1"
    using that reads_hd [OF b that(1)] message_v1_first [OF that(2)] by (simp add: trailing_layout_def)
  have hd_pre: "clash (length (Signatures tx)) \<longleftrightarrow> b = 0x81" if "reads d (prefixed_layout tx) d'"
    using that reads_hd [OF b that] by (auto simp: prefixed_layout_def clash_def)
  have v1: "Version msg = MessageVersion1" if "message_ok msg" "reads d (message_bytes msg) d2" "b = 0x81" for msg d2
    using that reads_hd [OF b that(2)] message_v1_first by simp
  show ?thesis
  proof (cases "b = 0x81")
    case True
    with hd_pre show ?thesis unfolding pick
      by (cases tx) (auto simp: DecodeMessage_law signature_loop_law trailing_layout_def reads_append
          sigs_ok_def sigs_match_def v1 cong: conj_cong)
  next
    case False
    with hd_trail hd_pre show ?thesis unfolding pick
      by (cases tx) (auto simp: DecodeMessage_law signature_loop_law prefixed_layout_def reads_append base_laws
          count_laws sigs_ok_def cong: conj_cong; blast)
  qed
qed

lemma clash_small: "n \<le> 255 \<Longrightarrow> clash n \<longleftrightarrow> n = 129"
proof -
  assume "n \<le> 255"
  then have n: "unat (of_nat n :: u16) = n" by (simp add: unat_of_nat)
  have "clash n \<longleftrightarrow> unat (hd (shortvec (of_nat n))) = 129"
    by (simp add: clash_def word_unat_eq_iff)
  also have "unat (hd (shortvec (of_nat n))) = hd (map unat (shortvec (of_nat n)))"
    by (simp add: hd_map)
  also have "hd (map unat (shortvec (of_nat n))) = (if n < 128 then n else 128 + n mod 128)"
    unfolding shortvec_unat n using \<open>n \<le> 255\<close> by simp
  finally have "clash n \<longleftrightarrow> (if n < 128 then n else 128 + n mod 128) = 129" .
  moreover have "n mod 128 = n - 128" if "128 \<le> n"
    using that \<open>n \<le> 255\<close> by (simp add: mod_if [of n 128])
  ultimately show ?thesis by auto
qed

lemma tx_Marshal_law:
  "tx_Marshal tx = Inr bs \<longleftrightarrow> sigs_match tx \<and> marshal_ok (tx_Message tx) \<and> bs = tx_bytes tx"
proof -
  have n: "unat (NumRequiredSignatures h) \<le> 255" for h
    using unsigned_less [where ?'a = nat, of "NumRequiredSignatures h"] by simp
  have ok: "marshal_ok (tx_Message tx) \<longleftrightarrow> validate (tx_Message tx) = None \<and>
    (if Version (tx_Message tx) = MessageVersion1 then marshal_ok (tx_Message tx\<lparr>AddressTableLookups := []\<rparr>)
      else marshal_ok (if Version (tx_Message tx) = MessageVersion0 then tx_Message tx
             else tx_Message tx\<lparr>AddressTableLookups := [], Version := MessageVersionLegacy\<rparr>))"
    by (auto simp: validate_def marshal_ok_def version_defs split: if_splits)
  have some: "\<exists>e :: encoder. e_buf e = x" for x by (metis encoder.select_convs(1))
  have ex: "(\<exists>e'. P \<and> e_buf e' = x \<and> bs = enc_Bytes (f e')) \<longleftrightarrow> P \<and> bs = enc_Bytes (f \<lparr>e_buf = x\<rparr>)"
    for P x and f :: "encoder \<Rightarrow> encoder"
    by (metis encoder.select_convs(1) encoder_eq_iff)
  show ?thesis
  proof (cases "validate (tx_Message tx)")
    case (Some e)
    with ok show ?thesis by (simp add: tx_Marshal_def)
  next
    case None
    have sh: "length (Signatures tx) \<le> 0xFFFF" if "sigs_match tx"
      using that n [of "Header (tx_Message tx)"] by (simp add: sigs_match_def)
    show ?thesis
      using None sh unfolding ok
      by (auto simp: tx_Marshal_def sigs_match_def res_bind_Inr_iff marshalInto_law Let_def enc_Bytes_def tx_bytes_def
          trailing_layout_def prefixed_layout_def ex [of _ _ "\<lambda>e. e", unfolded enc_Bytes_def]
          ex [of _ _ "fold WriteBytes _", unfolded enc_Bytes_def] some)
  qed
qed

lemma tx_UnmarshalBinary_law:
  "tx_UnmarshalBinary bs = Inr tx \<longleftrightarrow>
     message_ok (tx_Message tx) \<and> sigs_ok tx \<and>
     (Version (tx_Message tx) = MessageVersion1 \<and> sigs_match tx \<and> bs = trailing_layout tx \<or>
      length (Signatures tx) \<le> 0xFFFF \<and> \<not> clash (length (Signatures tx)) \<and> bs = prefixed_layout tx)"
proof
  assume "tx_UnmarshalBinary bs = Inr tx"
  then obtain d where "DecodeTransaction (NewDecoder bs) = (Inr tx, d)" "Remaining d = 0"
    by (auto simp: tx_UnmarshalBinary_def split: if_splits prod.splits sum.splits)
  then show "message_ok (tx_Message tx) \<and> sigs_ok tx \<and>
     (Version (tx_Message tx) = MessageVersion1 \<and> sigs_match tx \<and> bs = trailing_layout tx \<or>
      length (Signatures tx) \<le> 0xFFFF \<and> \<not> clash (length (Signatures tx)) \<and> bs = prefixed_layout tx)"
    unfolding DecodeTransaction_law using Remaining_reads_NewDecoder by metis
next
  assume a: "message_ok (tx_Message tx) \<and> sigs_ok tx \<and>
     (Version (tx_Message tx) = MessageVersion1 \<and> sigs_match tx \<and> bs = trailing_layout tx \<or>
      length (Signatures tx) \<le> 0xFFFF \<and> \<not> clash (length (Signatures tx)) \<and> bs = prefixed_layout tx)"
  then have "DecodeTransaction (NewDecoder bs) = (Inr tx, (NewDecoder bs)\<lparr>d_pos := length bs\<rparr>)"
    unfolding DecodeTransaction_law by (auto simp: reads_NewDecoder)
  moreover have "bs \<noteq> []" using a by (auto simp: trailing_layout_def prefixed_layout_def)
  ultimately show "tx_UnmarshalBinary bs = Inr tx"
    by (simp add: tx_UnmarshalBinary_def Remaining_def NewDecoder_def)
qed

lemma sigs_match_le: "sigs_match tx \<Longrightarrow> length (Signatures tx) \<le> 255"
  using unsigned_less [where ?'a = nat, of "NumRequiredSignatures (Header (tx_Message tx))"]
  by (simp add: sigs_match_def)

section \<open>Signing\<close>

lemma fill_slots_frame:
  "fill_slots msg zs tx = (e, tx') \<Longrightarrow>
     tx_Message tx' = tx_Message tx \<and> length (Signatures tx') = length (Signatures tx) \<and>
     (\<forall>i. i \<notin> snd ` set zs \<longrightarrow> Signatures tx' ! i = Signatures tx ! i)"
proof (induction msg zs tx rule: fill_slots.induct)
  case (2 msg s slot rest tx)
  then show ?case by (cases "sg_Sign s msg") auto
qed simp

lemma fill_slots_signed:
  assumes "fill_slots msg zs tx = (None, tx')" and "i \<in> snd ` set zs" and "i < length (Signatures tx)"
  shows "\<exists>s. (s, i) \<in> set zs \<and> sg_Sign s msg = Inr (Signatures tx' ! i)"
  using assms
proof (induction msg zs tx rule: fill_slots.induct)
  case (2 msg s slot rest tx)
  from "2.prems"(1) obtain sig where sig: "sg_Sign s msg = Inr sig"
      and rest: "fill_slots msg rest (tx\<lparr>Signatures := (Signatures tx)[slot := sig]\<rparr>) = (None, tx')"
    by (cases "sg_Sign s msg") auto
  show ?case
  proof (cases "i \<in> snd ` set rest")
    case True
    with "2.IH" [OF sig rest] "2.prems"(3) show ?thesis by auto
  next
    case False
    with "2.prems" fill_slots_frame [OF rest] sig show ?thesis by auto
  qed
qed simp

lemma signer_slots_law:
  "signer_slots index ss = Inr slots \<longleftrightarrow> list_all2 (\<lambda>s slot. index (sg_PublicKey s) = Some slot) ss slots"
proof (induction ss arbitrary: slots)
  case (Cons s ss)
  show ?case
    by (cases slots; cases "index (sg_PublicKey s)") (auto simp: res_bind_Inr_iff Cons.IH)
qed auto

lemma grow_signatures_simps [simp]:
  "tx_Message (grow_signatures n tx) = tx_Message tx"
  "length (Signatures (grow_signatures n tx)) = max n (length (Signatures tx))"
  by (auto simp: grow_signatures_def)

definition required_keys :: "Transaction \<Rightarrow> PublicKey list" where
  "required_keys tx = take (unat (NumRequiredSignatures (Header (tx_Message tx)))) (AccountKeys (tx_Message tx))"

definition slot_of :: "Transaction \<Rightarrow> PublicKey \<rightharpoonup> nat" where
  "slot_of tx = index_keys 0 (required_keys tx) Map.empty"

lemma slot_of_Some: "slot_of tx k = Some i \<Longrightarrow> i < length (required_keys tx) \<and> required_keys tx ! i = k"
  unfolding slot_of_def by (rule ki.sound)

lemma Sign_ok:
  "Sign signers tx = (None, tx') \<longleftrightarrow>
    (let n = unat (NumRequiredSignatures (Header (tx_Message tx))) in
     n \<noteq> 0 \<and> n \<le> length (AccountKeys (tx_Message tx)) \<and>
     (\<exists>slots msg. list_all2 (\<lambda>s slot. slot_of tx (sg_PublicKey s) = Some slot) signers slots \<and>
        Marshal (tx_Message tx) = Inr msg \<and>
        fill_slots msg (zip signers slots) (grow_signatures n tx) = (None, tx')))"
  unfolding Sign_def Let_def grow_signatures_simps required_keys_def [symmetric] slot_of_def [symmetric]
  by (auto simp: not_less simp flip: signer_slots_law split: sum.splits)

text \<open>What a successful call does to the slots, as a relation.\<close>

definition sign_effect :: "Signer list \<Rightarrow> Transaction \<Rightarrow> Transaction \<Rightarrow> bytes \<Rightarrow> bool" where
  "sign_effect signers tx tx' msg \<longleftrightarrow>
     (let n = unat (NumRequiredSignatures (Header (tx_Message tx))) in
      Marshal (tx_Message tx) = Inr msg \<and> tx_Message tx' = tx_Message tx \<and>
      length (Signatures tx') = max n (length (Signatures tx)) \<and>
      (\<forall>s \<in> set signers. slot_of tx (sg_PublicKey s) \<noteq> None) \<and>
      (\<forall>i. (\<forall>s \<in> set signers. slot_of tx (sg_PublicKey s) \<noteq> Some i) \<longrightarrow>
         Signatures tx' ! i = Signatures (grow_signatures n tx) ! i) \<and>
      (\<forall>s \<in> set signers. \<forall>i. slot_of tx (sg_PublicKey s) = Some i \<longrightarrow>
         (\<exists>s' \<in> set signers. slot_of tx (sg_PublicKey s') = Some i \<and> sg_Sign s' msg = Inr (Signatures tx' ! i))))"

lemma Sign_effect:
  assumes "Sign signers tx = (None, tx')"
  shows "\<exists>msg. sign_effect signers tx tx' msg"
proof -
  let ?n = "unat (NumRequiredSignatures (Header (tx_Message tx)))"
  from assms obtain slots msg where sl: "list_all2 (\<lambda>s slot. slot_of tx (sg_PublicKey s) = Some slot) signers slots"
      and msg: "Marshal (tx_Message tx) = Inr msg"
      and fill: "fill_slots msg (zip signers slots) (grow_signatures ?n tx) = (None, tx')"
    by (auto simp: Sign_ok Let_def)
  note fr = fill_slots_frame [OF fill]
  have zip: "(s, i) \<in> set (zip signers slots) \<longrightarrow> s \<in> set signers \<and> slot_of tx (sg_PublicKey s) = Some i" for s i
    using sl by (auto simp: list_all2_iff dest: set_zip_leftD)
  have ex: "\<exists>i. (s, i) \<in> set (zip signers slots)" if "s \<in> set signers" for s
    using that list_all2_lengthD [OF sl] by (metis in_set_impl_in_set_zip1)
  have "slot_of tx (sg_PublicKey s) \<noteq> None" if "s \<in> set signers" for s
    using ex [OF that] zip by force
  moreover have "Signatures tx' ! i = Signatures (grow_signatures ?n tx) ! i"
    if "\<forall>s \<in> set signers. slot_of tx (sg_PublicKey s) \<noteq> Some i" for i
    using fr that zip by (metis (no_types, lifting) imageE prod.collapse)
  moreover have "\<exists>s' \<in> set signers. slot_of tx (sg_PublicKey s') = Some i \<and> sg_Sign s' msg = Inr (Signatures tx' ! i)"
    if s: "s \<in> set signers" "slot_of tx (sg_PublicKey s) = Some i" for s i
  proof -
    from ex [OF s(1)] zip s(2) have "i \<in> snd ` set (zip signers slots)" by force
    moreover have "i < length (Signatures (grow_signatures ?n tx))"
      using slot_of_Some [OF s(2)] by (auto simp: required_keys_def)
    ultimately show ?thesis using fill_slots_signed [OF fill] zip by blast
  qed
  ultimately have "sign_effect signers tx tx' msg"
    unfolding sign_effect_def Let_def using msg fr by simp
  then show ?thesis ..
qed

lemma set_zip_nth:
  "n \<le> length xs \<Longrightarrow> n \<le> length ys \<Longrightarrow>
     (\<forall>(x, y) \<in> set (zip (take n xs) (take n ys)). P x y) \<longleftrightarrow> (\<forall>i < n. P (xs ! i) (ys ! i))"
  by (fastforce simp: set_zip)

lemma verify_slots_None:
  "verify_slots ed_verify msg i zs = None \<longleftrightarrow> (\<forall>(pub, sig) \<in> set zs. sig_IsZero sig \<or> ed_verify pub msg sig)"
  by (induction ed_verify msg i zs rule: verify_slots.induct) auto

lemma VerifySignatures_None:
  "VerifySignatures ed_verify tx = None \<longleftrightarrow>
    (let n = unat (NumRequiredSignatures (Header (tx_Message tx))) in
     n \<le> length (Signatures tx) \<and> n \<le> length (AccountKeys (tx_Message tx)) \<and>
     (\<exists>msg. Marshal (tx_Message tx) = Inr msg \<and>
       (\<forall>i < n. sig_IsZero (Signatures tx ! i) \<or> ed_verify (AccountKeys (tx_Message tx) ! i) msg (Signatures tx ! i))))"
  by (auto simp: VerifySignatures_def Let_def verify_slots_None set_zip_nth not_less split: sum.splits)

section \<open>Properties\<close>

text \<open>
  C30: The round trip of a transaction.  When \<open>Marshal\<close> encodes a transaction with a decodable
  message, decoding the bytes gives the transaction back, except for exactly one signature
  count: a v0 transaction with 129 signatures, whose shortvec count begins with the byte
  0x81 that the decoder takes for the v1 version byte.
\<close>

theorem tx_roundtrip_iff:
  assumes "message_ok (tx_Message tx)" and "sigs_ok tx" and "tx_Marshal tx = Inr bs"
  shows "tx_UnmarshalBinary bs = Inr tx \<longleftrightarrow>
    Version (tx_Message tx) = MessageVersion1 \<or> length (Signatures tx) \<noteq> 129"
proof -
  from assms(3) have m: "sigs_match tx" and bs: "bs = tx_bytes tx" by (auto simp: tx_Marshal_law)
  from sigs_match_le [OF m] have "length (Signatures tx) \<le> 0xFFFF"
    and "clash (length (Signatures tx)) \<longleftrightarrow> length (Signatures tx) = 129"
    by (simp_all add: clash_small)
  with assms(1,2) m show ?thesis
    unfolding tx_UnmarshalBinary_law bs by (auto simp: tx_bytes_def)
qed

text \<open>
  Decoding is canonical for legacy and v0 transactions: accepted bytes whose signature count
  matches the header are exactly what \<open>Marshal\<close> produces from the decoded transaction.
\<close>

theorem tx_decode_canonical:
  assumes "tx_UnmarshalBinary bs = Inr tx" and "sigs_match tx"
    and "Version (tx_Message tx) \<noteq> MessageVersion1"
  shows "tx_Marshal tx = Inr bs"
  using assms by (auto simp: tx_UnmarshalBinary_law tx_Marshal_law tx_bytes_def message_ok_marshal_ok)

text \<open>
  For v1 decoding is not canonical: besides the documented layout (signatures after the
  message, no count) the decoder accepts the count-prefixed layout around a v1 message, and
  decodes both to the same transaction.
\<close>

theorem tx_v1_two_layouts:
  assumes "message_ok (tx_Message tx)" and "sigs_ok tx" and "sigs_match tx"
    and "Version (tx_Message tx) = MessageVersion1" and "length (Signatures tx) \<noteq> 129"
  shows "tx_UnmarshalBinary (trailing_layout tx) = Inr tx \<and> tx_UnmarshalBinary (prefixed_layout tx) = Inr tx \<and>
    tx_Marshal tx = Inr (trailing_layout tx) \<and> trailing_layout tx \<noteq> prefixed_layout tx"
proof -
  from sigs_match_le [OF assms(3)] assms(5) have n: "length (Signatures tx) \<le> 0xFFFF" "\<not> clash (length (Signatures tx))"
    by (simp_all add: clash_small)
  have "hd (prefixed_layout tx) \<noteq> 0x81" using n(2) by (simp add: prefixed_layout_def clash_def)
  moreover have "hd (trailing_layout tx) = 0x81"
    using message_v1_first [OF assms(1)] assms(4) by (simp add: trailing_layout_def)
  ultimately have "trailing_layout tx \<noteq> prefixed_layout tx" by metis
  with n assms show ?thesis
    by (simp add: tx_UnmarshalBinary_law tx_Marshal_law tx_bytes_def message_ok_marshal_ok)
qed

text \<open>
  \<open>SerializedSize\<close> of a transaction is the length of what \<open>Marshal\<close> returns.
\<close>

theorem tx_SerializedSize_Marshal:
  assumes "arrays_ok (tx_Message tx)" and "sigs_ok tx" and "tx_Marshal tx = Inr bs"
  shows "length bs = tx_SerializedSize tx"
proof -
  from assms(3) have m: "sigs_match tx" "marshal_ok (tx_Message tx)" and bs: "bs = tx_bytes tx"
    by (auto simp: tx_Marshal_law)
  have "length (concat (Signatures tx)) = length (Signatures tx) * SignatureSize"
    using assms(2) by (intro length_concat_const) (simp add: sigs_ok_def)
  moreover have "length (shortvec (of_nat (length (Signatures tx)))) = (if length (Signatures tx) < 128 then 1 else 2)"
    using sigs_match_le [OF m(1)] by (simp add: length_shortvec unat_of_nat)
  ultimately show ?thesis
    using length_message_bytes [OF m(2) assms(1)]
    by (simp add: bs tx_bytes_def trailing_layout_def prefixed_layout_def tx_SerializedSize_def Let_def)
qed

text \<open>
  C7: A successful \<open>Sign\<close> leaves the message alone, has a slot for every required signature, finds
  a slot among the required signers for every signer, fills each such slot with a signature over
  the marshalled message by a signer of that slot, keeps every other slot that existed, and leaves
  every other slot that it added empty (all zero).
\<close>

theorem Sign_fills_slots:
  assumes "Sign signers tx = (None, tx')"
  shows "tx_Message tx' = tx_Message tx \<and>
    length (Signatures tx') =
      max (unat (NumRequiredSignatures (Header (tx_Message tx)))) (length (Signatures tx)) \<and>
    (\<exists>msg. Marshal (tx_Message tx) = Inr msg \<and>
      (\<forall>s \<in> set signers. \<exists>i s'. slot_of tx (sg_PublicKey s) = Some i \<and> required_keys tx ! i = sg_PublicKey s \<and>
         s' \<in> set signers \<and> sg_PublicKey s' = sg_PublicKey s \<and> sg_Sign s' msg = Inr (Signatures tx' ! i)) \<and>
      (\<forall>i < length (Signatures tx'). (\<forall>s \<in> set signers. slot_of tx (sg_PublicKey s) \<noteq> Some i) \<longrightarrow>
         Signatures tx' ! i = (if i < length (Signatures tx) then Signatures tx ! i else zero_array SignatureSize)))"
proof -
  let ?n = "unat (NumRequiredSignatures (Header (tx_Message tx)))"
  from Sign_effect [OF assms] obtain msg where E: "sign_effect signers tx tx' msg" ..
  have len: "length (Signatures tx') = max ?n (length (Signatures tx))"
    and msg: "Marshal (tx_Message tx) = Inr msg" "tx_Message tx' = tx_Message tx"
    using E by (simp_all add: sign_effect_def Let_def)
  have grow: "Signatures (grow_signatures ?n tx) ! i =
      (if i < length (Signatures tx) then Signatures tx ! i else zero_array SignatureSize)"
    if "i < length (Signatures tx')" for i
    using that len by (auto simp: grow_signatures_def nth_append)
  have "\<exists>i s'. slot_of tx (sg_PublicKey s) = Some i \<and> required_keys tx ! i = sg_PublicKey s \<and>
         s' \<in> set signers \<and> sg_PublicKey s' = sg_PublicKey s \<and> sg_Sign s' msg = Inr (Signatures tx' ! i)"
    if s: "s \<in> set signers" for s
  proof -
    from E s obtain i where i: "slot_of tx (sg_PublicKey s) = Some i" by (auto simp: sign_effect_def Let_def)
    with E s obtain s' where "s' \<in> set signers" "slot_of tx (sg_PublicKey s') = Some i" "sg_Sign s' msg = Inr (Signatures tx' ! i)"
      unfolding sign_effect_def Let_def by blast
    with i slot_of_Some show ?thesis by metis
  qed
  moreover have "Signatures tx' ! i = (if i < length (Signatures tx) then Signatures tx ! i else zero_array SignatureSize)"
    if "i < length (Signatures tx')" "\<forall>s \<in> set signers. slot_of tx (sg_PublicKey s) \<noteq> Some i" for i
    using E that(2) grow [OF that(1)] unfolding sign_effect_def Let_def by metis
  ultimately show ?thesis using len msg by blast
qed

text \<open>
  C6: Incremental signing keeps a transaction verifiable.  If the filled slots of a transaction
  verify and \<open>Sign\<close> succeeds with signers whose signatures verify under their keys, then
  \<open>VerifySignatures\<close> accepts the result.
\<close>

theorem Sign_then_Verify:
  assumes "VerifySignatures ed_verify tx = None" and "Sign signers tx = (None, tx')"
    and honest: "\<And>s msg sig. s \<in> set signers \<Longrightarrow> sg_Sign s msg = Inr sig \<Longrightarrow> ed_verify (sg_PublicKey s) msg sig"
  shows "VerifySignatures ed_verify tx' = None"
proof -
  let ?n = "unat (NumRequiredSignatures (Header (tx_Message tx)))"
  from Sign_effect [OF assms(2)] obtain msg where E: "sign_effect signers tx tx' msg" ..
  then have M: "Marshal (tx_Message tx) = Inr msg" "tx_Message tx' = tx_Message tx"
    "length (Signatures tx') = max ?n (length (Signatures tx))" by (simp_all add: sign_effect_def Let_def)
  from assms(1) M(1) have V: "?n \<le> length (Signatures tx)" "?n \<le> length (AccountKeys (tx_Message tx))"
      and old: "\<And>i. i < ?n \<Longrightarrow> sig_IsZero (Signatures tx ! i) \<or> ed_verify (AccountKeys (tx_Message tx) ! i) msg (Signatures tx ! i)"
    by (auto simp: VerifySignatures_None Let_def)
  have "sig_IsZero (Signatures tx' ! i) \<or> ed_verify (AccountKeys (tx_Message tx) ! i) msg (Signatures tx' ! i)"
    if i: "i < ?n" for i
  proof (cases "\<exists>s \<in> set signers. slot_of tx (sg_PublicKey s) = Some i")
    case True
    then obtain s' where s': "s' \<in> set signers" "slot_of tx (sg_PublicKey s') = Some i" "sg_Sign s' msg = Inr (Signatures tx' ! i)"
      using E unfolding sign_effect_def Let_def by blast
    from slot_of_Some [OF s'(2)] i have "AccountKeys (tx_Message tx) ! i = sg_PublicKey s'"
      by (simp add: required_keys_def)
    with honest [OF s'(1,3)] show ?thesis by simp
  next
    case False
    then have "Signatures tx' ! i = Signatures (grow_signatures ?n tx) ! i" using E unfolding sign_effect_def Let_def by blast
    with old [OF i] V(1) show ?thesis by (simp add: grow_signatures_def)
  qed
  with M V show ?thesis by (auto simp: VerifySignatures_None Let_def)
qed

text \<open>
  The comment on \<open>Sign\<close> says that an unknown signer is rejected without mutating any state.
  The slots that exist keep their values, but a transaction decoded or built with fewer slots
  is grown before the signers are checked.
\<close>

theorem Sign_rejects_unknown_signer:
  assumes "0 < unat (NumRequiredSignatures (Header (tx_Message tx)))"
    and "unat (NumRequiredSignatures (Header (tx_Message tx))) \<le> length (AccountKeys (tx_Message tx))"
    and "s \<in> set signers" and "sg_PublicKey s \<notin> set (required_keys tx)"
  shows "\<exists>err. Sign signers tx = (Some err, grow_signatures (unat (NumRequiredSignatures (Header (tx_Message tx)))) tx)"
proof -
  have "slot_of tx (sg_PublicKey s) = None"
    using assms(4) slot_of_Some by (metis nth_mem option.exhaust)
  then have "\<nexists>slots. signer_slots (slot_of tx) signers = Inr slots"
    using assms(3) by (auto simp: signer_slots_law list_all2_conv_all_nth in_set_conv_nth)
  then obtain err where "signer_slots (slot_of tx) signers = Inl err"
    by (cases "signer_slots (slot_of tx) signers") auto
  with assms(1,2) show ?thesis
    by (simp add: Sign_def Let_def slot_of_def required_keys_def)
qed

section \<open>Sample transactions\<close>

definition sample_tx :: Transaction where
  "sample_tx = \<lparr>Signatures = [replicate 64 3], tx_Message = sample_message\<rparr>"

definition crowded_tx :: Transaction where
  "crowded_tx = \<lparr>Signatures = replicate 129 (replicate 64 3),
     tx_Message = sample_message\<lparr>Header := \<lparr>NumRequiredSignatures = 129,
       NumReadonlySignedAccounts = 0, NumReadonlyUnsignedAccounts = 0\<rparr>\<rparr>\<rparr>"

definition sample_v1_tx :: Transaction where
  "sample_v1_tx = \<lparr>Signatures = [replicate 64 3],
     tx_Message = sample_message\<lparr>Version := MessageVersion1, AddressTableLookups := [],
       TxConfig := Some \<lparr>PriorityFee = Some 5000, ComputeUnitLimit = None,
         LoadedAccountsDataSizeLimit = None, HeapSize = None\<rparr>\<rparr>\<rparr>"

definition sample_signer :: Signer where
  "sample_signer = \<lparr>sg_PublicKey = replicate 32 1, sg_Sign = (\<lambda>msg. Inr (replicate 64 3))\<rparr>"

lemma sample_message_sel:
  "Header sample_message = \<lparr>NumRequiredSignatures = 1, NumReadonlySignedAccounts = 0, NumReadonlyUnsignedAccounts = 1\<rparr>"
  "AccountKeys sample_message = [replicate 32 1, replicate 32 2]"
  by (simp_all add: sample_message_def)

lemma sample_tx_ok:
  "message_ok (tx_Message sample_tx)" "arrays_ok (tx_Message sample_tx)" "sigs_ok sample_tx"
  "tx_Marshal sample_tx = Inr (tx_bytes sample_tx)"
  using sample_message_ok
  by (simp_all add: sample_tx_def sigs_ok_def SignatureSize_def tx_Marshal_law sigs_match_def message_ok_marshal_ok)
     (simp add: sample_message_def)

lemma crowded_tx_ok:
  "message_ok (tx_Message crowded_tx)" "sigs_ok crowded_tx" "tx_Marshal crowded_tx = Inr (tx_bytes crowded_tx)"
proof -
  show ok: "message_ok (tx_Message crowded_tx)"
    by (simp add: crowded_tx_def message_ok_def body_ok_def instr_ok_def lookup_ok_def sample_message_def
        PublicKeySize_def HashSize_def version_defs)
  show "sigs_ok crowded_tx" by (simp add: crowded_tx_def sigs_ok_def SignatureSize_def)
  show "tx_Marshal crowded_tx = Inr (tx_bytes crowded_tx)"
    using message_ok_marshal_ok [OF ok] by (simp add: tx_Marshal_law sigs_match_def crowded_tx_def)
qed

lemma sample_v1_tx_ok:
  "message_ok (tx_Message sample_v1_tx)" "sigs_ok sample_v1_tx" "sigs_match sample_v1_tx"
  "Version (tx_Message sample_v1_tx) = MessageVersion1" "length (Signatures sample_v1_tx) \<noteq> 129"
  by (simp_all add: sample_v1_tx_def sample_message_def message_ok_def v1_ok_def v1_instruction_ok_def
      sigs_ok_def sigs_match_def SignatureSize_def PublicKeySize_def HashSize_def)

lemma sample_Sign: "Sign [sample_signer] (NewTransaction sample_message) = (None, sample_tx)"
  by (simp add: Sign_def NewTransaction_def sample_signer_def grow_signatures_def sample_message_Marshal
      sample_tx_def sample_message_sel Let_def)

theorem tx_roundtrip_iff_witness:
  "tx_UnmarshalBinary (tx_bytes sample_tx) = Inr sample_tx \<and>
   tx_UnmarshalBinary (tx_bytes crowded_tx) \<noteq> Inr crowded_tx"
  unfolding tx_roundtrip_iff [OF sample_tx_ok(1,3,4)] tx_roundtrip_iff [OF crowded_tx_ok]
  by (simp add: sample_tx_def crowded_tx_def sample_message_def version_defs)

theorem tx_decode_canonical_witness: "tx_Marshal sample_tx = Inr (tx_bytes sample_tx)"
proof (rule tx_decode_canonical)
  show "tx_UnmarshalBinary (tx_bytes sample_tx) = Inr sample_tx"
    using sample_tx_ok by (auto simp: tx_UnmarshalBinary_law tx_bytes_def clash_small sample_tx_def sample_message_def version_defs)
  show "sigs_match sample_tx" and "Version (tx_Message sample_tx) \<noteq> MessageVersion1"
    by (simp_all add: sigs_match_def sample_tx_def sample_message_def version_defs)
qed

theorem tx_v1_two_layouts_witness:
  "tx_UnmarshalBinary (prefixed_layout sample_v1_tx) = Inr sample_v1_tx \<and>
   tx_Marshal sample_v1_tx \<noteq> Inr (prefixed_layout sample_v1_tx)"
  using tx_v1_two_layouts [OF sample_v1_tx_ok] by auto

theorem tx_SerializedSize_Marshal_witness: "length (tx_bytes sample_tx) = 211"
  using tx_SerializedSize_Marshal [OF sample_tx_ok(2-4)] sample_message_size
  by (simp add: tx_SerializedSize_def sample_tx_def sample_message_def SignatureSize_def version_defs)

text \<open>A message with two required signers, signed by the second of them only.\<close>

definition cosigned_tx :: Transaction where
  "cosigned_tx = \<lparr>Signatures = [], tx_Message = sample_message\<lparr>Header := \<lparr>NumRequiredSignatures = 2,
     NumReadonlySignedAccounts = 0, NumReadonlyUnsignedAccounts = 0\<rparr>\<rparr>\<rparr>"

definition second_signer :: Signer where
  "second_signer = \<lparr>sg_PublicKey = replicate 32 2, sg_Sign = (\<lambda>msg. Inr (replicate 64 3))\<rparr>"

lemma cosigned_Sign:
  "Sign [second_signer] cosigned_tx = (None, cosigned_tx\<lparr>Signatures := [zero_array SignatureSize, replicate 64 3]\<rparr>)"
proof -
  have "message_ok (tx_Message cosigned_tx)"
    by (simp add: cosigned_tx_def message_ok_def body_ok_def instr_ok_def lookup_ok_def sample_message_def
        PublicKeySize_def HashSize_def version_defs)
  then obtain msg where "Marshal (tx_Message cosigned_tx) = Inr msg" by (auto simp: Marshal_law message_ok_marshal_ok)
  moreover have "replicate 2 (zero_array SignatureSize) = [zero_array SignatureSize, zero_array SignatureSize]"
    by (simp add: numeral_2_eq_2)
  ultimately show ?thesis
    by (simp add: Sign_def cosigned_tx_def second_signer_def grow_signatures_def sample_message_sel Let_def)
qed

theorem Sign_fills_slots_witness:
  "\<exists>sigs. Sign [second_signer] cosigned_tx = (None, cosigned_tx\<lparr>Signatures := sigs\<rparr>) \<and>
     length sigs = 2 \<and> sigs ! 0 = zero_array SignatureSize \<and> sigs ! 1 = replicate 64 3"
proof -
  let ?sigs = "[zero_array SignatureSize, replicate 64 3]"
  have slots: "slot_of cosigned_tx (sg_PublicKey second_signer) = Some 1"
    by (simp add: slot_of_def required_keys_def cosigned_tx_def second_signer_def sample_message_sel)
  note T = Sign_fills_slots [OF cosigned_Sign]
  have "length ?sigs = 2" using T by (simp add: cosigned_tx_def)
  moreover have "?sigs ! 0 = zero_array SignatureSize \<and> ?sigs ! 1 = replicate 64 3"
    using T slots by (auto simp: second_signer_def cosigned_tx_def)
  ultimately show ?thesis using cosigned_Sign by blast
qed

theorem Sign_then_Verify_witness:
  "VerifySignatures (\<lambda>pk msg sig. sig = replicate 64 3) sample_tx = None"
proof (rule Sign_then_Verify [OF _ sample_Sign])
  show "VerifySignatures (\<lambda>pk msg sig. sig = replicate 64 3) (NewTransaction sample_message) = None"
    using sample_message_Marshal
    by (simp add: VerifySignatures_None Let_def NewTransaction_def sig_IsZero_def sample_message_sel)
qed (simp add: sample_signer_def)

theorem Sign_rejects_unknown_signer_witness:
  "\<exists>err tx'. Sign [sample_signer\<lparr>sg_PublicKey := replicate 32 8\<rparr>] (sample_tx\<lparr>Signatures := []\<rparr>) = (Some err, tx') \<and>
     tx' \<noteq> sample_tx\<lparr>Signatures := []\<rparr>"
proof -
  have "\<exists>err. Sign [sample_signer\<lparr>sg_PublicKey := replicate 32 8\<rparr>] (sample_tx\<lparr>Signatures := []\<rparr>) =
      (Some err, grow_signatures (unat (NumRequiredSignatures (Header (tx_Message (sample_tx\<lparr>Signatures := []\<rparr>)))))
        (sample_tx\<lparr>Signatures := []\<rparr>))"
    by (rule Sign_rejects_unknown_signer [where s = "sample_signer\<lparr>sg_PublicKey := replicate 32 8\<rparr>"])
       (simp_all add: sample_tx_def sample_message_def required_keys_def)
  then show ?thesis by (auto simp: sample_tx_def sample_message_def grow_signatures_def)
qed

end
