(* ===== verification/Entry.thy ===== *)
theory Entry
  imports Transaction_Laws
begin

text \<open>
  Proof-of-History entries (\<open>entry.go\<close>): the bounded decoder of a \<open>Vec<Entry>\<close> buffer.
\<close>

definition maxEntriesPerDecode :: nat where "maxEntriesPerDecode = 1000000"
definition maxTxPerEntry :: nat where "maxTxPerEntry = 10000"

record Entry =
  NumHashes :: u64
  en_Hash :: Hash
  Transactions :: "Transaction list"

definition decodeEntryInto :: "Entry decm" where
  "decodeEntryInto =
     rbind (wrapr ''num_hashes: %w'' [] ReadUint64) (\<lambda>n.
     rbind (wrapr ''hash: %w'' [] (ReadBytes (int HashSize))) (\<lambda>hb.
     rbind (wrapr ''tx count: %w'' [] ReadUint64) (\<lambda>txCount.
     if unat txCount > maxTxPerEntry
     then rfail (Errorf ''tx count %d exceeds limit %d'' [uint txCount, int maxTxPerEntry])
     else
       rbind (read_loop (\<lambda>j. wrapr ''tx %d: %w'' [int j] DecodeTransaction) 0 (unat txCount)) (\<lambda>txs.
       rreturn \<lparr>NumHashes = n, en_Hash = hb, Transactions = txs\<rparr>))))"

definition DecodeEntry :: "Entry decm" where
  "DecodeEntry = decodeEntryInto"

definition DecodeEntries :: "bytes \<Rightarrow> Entry list result" where
  "DecodeEntries data =
     (case rbind (wrapr ''solana: entries: count: %w'' [] ReadUint64) (\<lambda>entryCount.
           if unat entryCount > maxEntriesPerDecode
           then rfail (Errorf ''solana: entries: count %d exceeds limit %d''
                  [uint entryCount, int maxEntriesPerDecode])
           else read_loop (\<lambda>i. wrapr ''solana: entries: entry %d: %w'' [int i] decodeEntryInto) 0 (unat entryCount))
         (NewDecoder data) of
        (Inl err, d) \<Rightarrow> Inl err
      | (Inr entries, d) \<Rightarrow>
          if Remaining d \<noteq> 0 then Inl (Errorf ''solana: entries: %d trailing bytes'' [Remaining d])
          else Inr entries)"

section \<open>Laws\<close>

definition tx_codable :: "Transaction \<Rightarrow> bool" where
  "tx_codable tx \<longleftrightarrow> message_ok (tx_Message tx) \<and> sigs_ok tx \<and> sigs_match tx \<and>
     (Version (tx_Message tx) = MessageVersion1 \<or> length (Signatures tx) \<noteq> 129)"

definition entry_bytes :: "Entry \<Rightarrow> bytes" where
  "entry_bytes en = le_bytes 8 (NumHashes en) @ en_Hash en @
     le_bytes 8 (of_nat (length (Transactions en)) :: u64) @ concat (map tx_bytes (Transactions en))"

definition entry_ok :: "Entry \<Rightarrow> bool" where
  "entry_ok en \<longleftrightarrow> length (en_Hash en) = HashSize \<and> length (Transactions en) \<le> maxTxPerEntry \<and>
     (\<forall>tx \<in> set (Transactions en). tx_codable tx)"

lemma DecodeTransaction_codable:
  assumes "tx_codable tx" and "reads d (tx_bytes tx) d'"
  shows "DecodeTransaction d = (Inr tx, d')"
  using assms sigs_match_le [of tx]
  by (auto simp: DecodeTransaction_law tx_codable_def tx_bytes_def clash_small split: if_splits)

lemma read_loop_forward:
  assumes "\<And>i x d d'. x \<in> set xs \<Longrightarrow> reads d (enc x) d' \<Longrightarrow> f i d = (Inr x, d')"
    and "reads d (concat (map enc xs)) d'"
  shows "read_loop f i (length xs) d = (Inr xs, d')"
  using assms
proof (induction xs arbitrary: i d)
  case Nil
  then show ?case by (simp add: rreturn_def)
next
  case (Cons x xs)
  from Cons.prems(2) obtain d1 where "reads d (enc x) d1" "reads d1 (concat (map enc xs)) d'"
    by (auto simp: reads_append)
  then have "f i d = (Inr x, d1)" "read_loop f (Suc i) (length xs) d1 = (Inr xs, d')"
    using Cons by simp_all
  then show ?case by (simp add: rbind_def rreturn_def)
qed

lemma u64_count: "n < 2 ^ 64 \<Longrightarrow> unat (of_nat n :: u64) = n"
  by (simp add: unat_of_nat)

lemma decodeEntryInto_forward:
  assumes "entry_ok en" and "reads d (entry_bytes en) d'"
  shows "decodeEntryInto d = (Inr en, d')"
proof -
  from assms(2) obtain d1 d2 d3 where r: "reads d (le_bytes 8 (NumHashes en)) d1" "reads d1 (en_Hash en) d2"
      "reads d2 (le_bytes 8 (of_nat (length (Transactions en)) :: u64)) d3"
      "reads d3 (concat (map tx_bytes (Transactions en))) d'"
    by (auto simp: entry_bytes_def reads_append)
  have n: "unat (of_nat (length (Transactions en)) :: u64) = length (Transactions en)"
    using assms(1) by (intro u64_count) (simp add: entry_ok_def maxTxPerEntry_def)
  have "read_loop (\<lambda>j. wrapr ''tx %d: %w'' [int j] DecodeTransaction) 0 (length (Transactions en)) d3 =
      (Inr (Transactions en), d')"
    using assms(1) r(4)
    by (intro read_loop_forward [where enc = tx_bytes])
       (auto simp: wrapr_Inr entry_ok_def intro: DecodeTransaction_codable)
  moreover have "length (en_Hash en) = HashSize" "\<not> length (Transactions en) > maxTxPerEntry"
    using assms(1) by (simp_all add: entry_ok_def)
  ultimately show ?thesis
    unfolding decodeEntryInto_def rbind_Inr wrapr_Inr base_laws guard_Inr rreturn_Inr
    using r n by (intro exI conjI) (assumption | simp)+
qed

section \<open>Properties\<close>

text \<open>
  C35: \<open>DecodeEntries\<close> recovers every entry batch within the limits: for at most a million
  entries of at most ten thousand codable transactions each, decoding the count-prefixed
  concatenation of the entry encodings returns exactly these entries.
\<close>

theorem DecodeEntries_roundtrip:
  assumes "length ens \<le> maxEntriesPerDecode" and "\<And>en. en \<in> set ens \<Longrightarrow> entry_ok en"
  shows "DecodeEntries (le_bytes 8 (of_nat (length ens) :: u64) @ concat (map entry_bytes ens)) = Inr ens"
proof -
  let ?bs = "le_bytes 8 (of_nat (length ens) :: u64) @ concat (map entry_bytes ens)"
  let ?d' = "(NewDecoder ?bs)\<lparr>d_pos := length ?bs\<rparr>"
  have "reads (NewDecoder ?bs) ?bs ?d'" by (simp add: reads_NewDecoder)
  then obtain d1 where r: "reads (NewDecoder ?bs) (le_bytes 8 (of_nat (length ens) :: u64)) d1"
      "reads d1 (concat (map entry_bytes ens)) ?d'" unfolding reads_append by blast
  have n: "unat (of_nat (length ens) :: u64) = length ens"
    using assms(1) by (intro u64_count) (simp add: maxEntriesPerDecode_def)
  have "read_loop (\<lambda>i. wrapr ''solana: entries: entry %d: %w'' [int i] decodeEntryInto) 0 (length ens) d1 =
      (Inr ens, ?d')"
    using assms(2) r(2)
    by (intro read_loop_forward [where enc = entry_bytes]) (auto simp: wrapr_Inr intro: decodeEntryInto_forward)
  then have "rbind (wrapr ''solana: entries: count: %w'' [] ReadUint64) (\<lambda>entryCount.
           if unat entryCount > maxEntriesPerDecode
           then rfail (Errorf ''solana: entries: count %d exceeds limit %d''
                  [uint entryCount, int maxEntriesPerDecode])
           else read_loop (\<lambda>i. wrapr ''solana: entries: entry %d: %w'' [int i] decodeEntryInto) 0 (unat entryCount))
         (NewDecoder ?bs) = (Inr ens, ?d')"
    unfolding rbind_Inr wrapr_Inr base_laws guard_Inr using r(1) n assms(1)
    by (intro exI [of _ "of_nat (length ens)"] exI [of _ d1]) simp
  then show ?thesis by (simp add: DecodeEntries_def Remaining_def NewDecoder_def)
qed

definition sample_entry :: Entry where
  "sample_entry = \<lparr>NumHashes = 12, en_Hash = replicate 32 6, Transactions = [sample_tx, sample_v1_tx]\<rparr>"

theorem DecodeEntries_roundtrip_witness:
  "DecodeEntries (le_bytes 8 (2 :: u64) @ entry_bytes sample_entry @ entry_bytes sample_entry) =
     Inr [sample_entry, sample_entry]"
proof -
  have "tx_codable sample_tx" "tx_codable sample_v1_tx"
    using sample_tx_ok sample_v1_tx_ok by (auto simp: tx_codable_def tx_Marshal_law sample_tx_def)
  then have "entry_ok sample_entry"
    by (simp add: entry_ok_def sample_entry_def HashSize_def maxTxPerEntry_def)
  then show ?thesis
    using DecodeEntries_roundtrip [of "[sample_entry, sample_entry]"]
    by (simp add: maxEntriesPerDecode_def)
qed

end
