(* ===== verification/Reader.thy ===== *)
theory Reader
  imports Bincode Primitives
begin

text \<open>
  The chainable writer of \<open>encoding/builder.go\<close>, the sticky-error \<open>Reader\<close> of
  \<open>encoding/reader.go\<close>, the 128- and 256-bit integers of \<open>encoding/u128.go\<close>, and
  \<open>ReadOptionalPubkey\<close> of \<open>solana.go\<close>.  The locale \<open>sticky_read\<close> is the contract of
  a Reader call: it behaves as a decoder read until the first error and does nothing
  after it.  Every Reader method satisfies it and sequencing preserves it, so a decoder
  written with the Reader and one final \<open>Err\<close> check equals the decoder that checks after
  every read.
\<close>

section \<open>Chainable writers\<close>

definition U8 :: "u8 \<Rightarrow> encoder \<Rightarrow> encoder" where "U8 v = WriteUint8 v"
definition U16 :: "u16 \<Rightarrow> encoder \<Rightarrow> encoder" where "U16 v = WriteUint16 v"
definition U32 :: "u32 \<Rightarrow> encoder \<Rightarrow> encoder" where "U32 v = WriteUint32 v"
definition U64 :: "u64 \<Rightarrow> encoder \<Rightarrow> encoder" where "U64 v = WriteUint64 v"
definition I8 :: "int \<Rightarrow> encoder \<Rightarrow> encoder" where "I8 v = WriteInt8 v"
definition I16 :: "int \<Rightarrow> encoder \<Rightarrow> encoder" where "I16 v = WriteInt16 v"
definition I32 :: "int \<Rightarrow> encoder \<Rightarrow> encoder" where "I32 v = WriteInt32 v"
definition I64 :: "int \<Rightarrow> encoder \<Rightarrow> encoder" where "I64 v = WriteInt64 v"

definition enc_Bool :: "bool \<Rightarrow> encoder \<Rightarrow> encoder" where
  "enc_Bool v e = (if v then WriteUint8 1 e else WriteUint8 0 e)"

definition Raw :: "bytes \<Rightarrow> encoder \<Rightarrow> encoder" where "Raw b = WriteBytes b"

definition enc_StrU64 :: "bytes \<Rightarrow> encoder \<Rightarrow> encoder" where
  "enc_StrU64 s e = WriteBytes s (WriteUint64 (of_nat (length s)) e)"

definition OptU8 :: "u8 option \<Rightarrow> encoder \<Rightarrow> encoder" where
  "OptU8 v e = (case v of None \<Rightarrow> U8 0 e | Some x \<Rightarrow> chain [U8 1, U8 x] e)"

definition OptU32 :: "u32 option \<Rightarrow> encoder \<Rightarrow> encoder" where
  "OptU32 v e = (case v of None \<Rightarrow> U8 0 e | Some x \<Rightarrow> chain [U8 1, U32 x] e)"

definition OptU64 :: "u64 option \<Rightarrow> encoder \<Rightarrow> encoder" where
  "OptU64 v e = (case v of None \<Rightarrow> U8 0 e | Some x \<Rightarrow> chain [U8 1, U64 x] e)"

definition OptI64 :: "int option \<Rightarrow> encoder \<Rightarrow> encoder" where
  "OptI64 v e = (case v of None \<Rightarrow> U8 0 e | Some x \<Rightarrow> chain [U8 1, I64 x] e)"

definition OptBool :: "bool option \<Rightarrow> encoder \<Rightarrow> encoder" where
  "OptBool v e = (case v of None \<Rightarrow> U8 0 e | Some x \<Rightarrow> chain [U8 1, enc_Bool x] e)"

definition OptRaw :: "bytes option \<Rightarrow> encoder \<Rightarrow> encoder" where
  "OptRaw b e = (case b of None \<Rightarrow> U8 0 e | Some x \<Rightarrow> chain [U8 1, Raw x] e)"

lemma e_buf_chainable [simp]:
  "e_buf (U8 a e) = e_buf e @ [a]"
  "e_buf (U16 b e) = e_buf e @ le_bytes 2 b"
  "e_buf (U32 c e) = e_buf e @ le_bytes 4 c"
  "e_buf (U64 d e) = e_buf e @ le_bytes 8 d"
  "e_buf (I64 i e) = e_buf e @ le_bytes 8 (word_of_int i :: u64)"
  "e_buf (Raw bs e) = e_buf e @ bs"
  "e_buf (enc_Bool x e) = e_buf e @ [if x then 1 else 0]"
  by (simp_all add: U8_def U16_def U32_def U64_def I64_def WriteInt64_def Raw_def enc_Bool_def)

section \<open>128- and 256-bit integers\<close>

type_synonym U128 = bytes
type_synonym U256 = bytes

definition le64 :: "bytes \<Rightarrow> nat \<Rightarrow> u64" where
  "le64 u off = ucast (u ! off) OR push_bit 8 (ucast (u ! (off + 1))) OR push_bit 16 (ucast (u ! (off + 2))) OR
     push_bit 24 (ucast (u ! (off + 3))) OR push_bit 32 (ucast (u ! (off + 4))) OR
     push_bit 40 (ucast (u ! (off + 5))) OR push_bit 48 (ucast (u ! (off + 6))) OR
     push_bit 56 (ucast (u ! (off + 7)))"

definition put64 :: "nat \<Rightarrow> u64 \<Rightarrow> bytes \<Rightarrow> bytes" where
  "put64 off v u = u[off := ucast v, off + 1 := ucast (drop_bit 8 v), off + 2 := ucast (drop_bit 16 v),
     off + 3 := ucast (drop_bit 24 v), off + 4 := ucast (drop_bit 32 v), off + 5 := ucast (drop_bit 40 v),
     off + 6 := ucast (drop_bit 48 v), off + 7 := ucast (drop_bit 56 v)]"

definition Lo :: "U128 \<Rightarrow> u64" where "Lo u = le64 u 0"
definition Hi :: "U128 \<Rightarrow> u64" where "Hi u = le64 u 8"

definition u128_SetUint64 :: "u64 \<Rightarrow> U128" where
  "u128_SetUint64 v = put64 0 v (zero_array 16)"

definition SetLoHi :: "u64 \<Rightarrow> u64 \<Rightarrow> U128 \<Rightarrow> U128" where
  "SetLoHi lo hi u = put64 8 hi (put64 0 lo u)"

definition u128_IsZero :: "U128 \<Rightarrow> bool" where
  "u128_IsZero u \<longleftrightarrow> Lo u OR Hi u = 0"

text \<open>\<open>Word\<close> and \<open>SetWord\<close> panic on an index outside 0..3: \<open>None\<close>.\<close>

definition u256_Word :: "U256 \<Rightarrow> int \<Rightarrow> u64 option" where
  "u256_Word u i = (if i < 0 \<or> i \<ge> 4 then None else Some (le64 u (nat i * 8)))"

definition u256_SetWord :: "int \<Rightarrow> u64 \<Rightarrow> U256 \<Rightarrow> U256 option" where
  "u256_SetWord i v u = (if i < 0 \<or> i \<ge> 4 then None else Some (put64 (nat i * 8) v u))"

definition u256_IsZero :: "U256 \<Rightarrow> bool" where
  "u256_IsZero u \<longleftrightarrow> le64 u 0 OR le64 u 8 OR le64 u 16 OR le64 u 24 = 0"

text \<open>
  \<open>math/big\<close>: \<open>SetBytes\<close> reads a big-endian byte string, \<open>Bytes\<close> is the big-endian
  form without leading zeros, \<open>BitLen\<close> the number of bits of the absolute value.
\<close>

fun be_nat :: "bytes \<Rightarrow> nat" where
  "be_nat [] = 0"
| "be_nat (b # bs) = unat b * 256 ^ length bs + be_nat bs"

function nat_bytes :: "nat \<Rightarrow> bytes" where
  "nat_bytes n = (if n = 0 then [] else nat_bytes (n div 256) @ [of_nat (n mod 256)])"
  by pat_completeness auto

termination by (relation "measure id") auto

declare nat_bytes.simps [simp del]

function BitLen :: "nat \<Rightarrow> nat" where
  "BitLen n = (if n = 0 then 0 else Suc (BitLen (n div 2)))"
  by pat_completeness auto

termination by (relation "measure id") auto

declare BitLen.simps [simp del]

definition bytes_BigInt :: "bytes \<Rightarrow> int" where
  "bytes_BigInt u = int (be_nat (rev u))"

definition set_big_int :: "string \<Rightarrow> nat \<Rightarrow> int \<Rightarrow> bytes result" where
  "set_big_int ty k x =
     (if x < 0 then Inl (Errorf (''solana/encoding: '' @ ty @ ''.SetBigInt: negative value'') [])
      else if BitLen (nat x) > 8 * k
      then Inl (Errorf (''solana/encoding: '' @ ty @ ''.SetBigInt: overflow (%d bits)'') [int (BitLen (nat x))])
      else let be = nat_bytes (nat x) in Inr (rev be @ zero_array (k - length be)))"

definition u128_SetBigInt :: "int \<Rightarrow> U128 result" where "u128_SetBigInt x = set_big_int ''U128'' 16 x"
definition u256_SetBigInt :: "int \<Rightarrow> U256 result" where "u256_SetBigInt x = set_big_int ''U256'' 32 x"

definition WriteU128 :: "U128 \<Rightarrow> encoder \<Rightarrow> encoder" where "WriteU128 u e = e\<lparr>e_buf := e_buf e @ u\<rparr>"
definition WriteU256 :: "U256 \<Rightarrow> encoder \<Rightarrow> encoder" where "WriteU256 u e = e\<lparr>e_buf := e_buf e @ u\<rparr>"
definition ReadU128 :: "U128 decm" where "ReadU128 = ReadBytes 16"
definition ReadU256 :: "U256 decm" where "ReadU256 = ReadBytes 32"

section \<open>The sticky-error reader\<close>

record reader =
  r_d :: decoder
  r_err :: "go_error option"

type_synonym 'a readm = "reader \<Rightarrow> 'a \<times> reader"

definition NewReader :: "bytes \<Rightarrow> reader" where
  "NewReader b = \<lparr>r_d = NewDecoder b, r_err = None\<rparr>"

definition Err :: "reader \<Rightarrow> go_error option" where
  "Err r = r_err r"

definition rd_Done :: "reader \<Rightarrow> go_error option" where
  "rd_Done r =
     (case r_err r of
        Some e \<Rightarrow> Some e
      | None \<Rightarrow> if Remaining (r_d r) \<noteq> 0 then Some (TrailingBytesError (nat (Remaining (r_d r)))) else None)"

definition sticky :: "'a \<Rightarrow> 'a decm \<Rightarrow> 'a readm" where
  "sticky zero m r =
     (case r_err r of
        Some _ \<Rightarrow> (zero, r)
      | None \<Rightarrow>
          (case m (r_d r) of
             (Inl e, d) \<Rightarrow> (zero, \<lparr>r_d = d, r_err = Some e\<rparr>)
           | (Inr v, d) \<Rightarrow> (v, \<lparr>r_d = d, r_err = None\<rparr>)))"

definition rd_U8 :: "u8 readm" where "rd_U8 = sticky 0 ReadUint8"
definition rd_U16 :: "u16 readm" where "rd_U16 = sticky 0 ReadUint16"
definition rd_U32 :: "u32 readm" where "rd_U32 = sticky 0 ReadUint32"
definition rd_U64 :: "u64 readm" where "rd_U64 = sticky 0 ReadUint64"
definition rd_U128 :: "U128 readm" where "rd_U128 = sticky (zero_array 16) ReadU128"
definition rd_U256 :: "U256 readm" where "rd_U256 = sticky (zero_array 32) ReadU256"

text \<open>Sequencing of Reader calls: evaluation order, no error check.\<close>

definition rd_bind :: "'a readm \<Rightarrow> ('a \<Rightarrow> 'b readm) \<Rightarrow> 'b readm" where
  "rd_bind m f r = (case m r of (x, r') \<Rightarrow> f x r')"

definition rd_return :: "'a \<Rightarrow> 'a readm" where
  "rd_return x r = (x, r)"

definition rd_map :: "('a \<Rightarrow> 'b) \<Rightarrow> 'a readm \<Rightarrow> 'b readm" where
  "rd_map f m = rd_bind m (\<lambda>x. rd_return (f x))"

definition rd_I8 :: "int readm" where "rd_I8 = rd_map sint rd_U8"
definition rd_I16 :: "int readm" where "rd_I16 = rd_map sint rd_U16"
definition rd_I32 :: "int readm" where "rd_I32 = rd_map sint rd_U32"
definition rd_I64 :: "int readm" where "rd_I64 = rd_map sint rd_U64"
definition rd_Bool :: "bool readm" where "rd_Bool = rd_map (\<lambda>v. v \<noteq> 0) rd_U8"

text \<open>\<open>Read\<close> fills the caller's slice \<open>out\<close>, which keeps its contents on an error.\<close>

definition rd_Read :: "bytes \<Rightarrow> bytes readm" where
  "rd_Read out = sticky out (ReadBytes (int (length out)))"

definition Bytes32 :: "bytes readm" where "Bytes32 = rd_Read (zero_array 32)"
definition Bytes64 :: "bytes readm" where "Bytes64 = rd_Read (zero_array 64)"

text \<open>\<open>make([]byte, n)\<close> panics for a negative \<open>n\<close>: \<open>None\<close>.\<close>

definition rd_Bytes :: "int \<Rightarrow> bytes readm option" where
  "rd_Bytes n = (if n < 0 then None else Some (rd_Read (zero_array (nat n))))"

definition Skip :: "int \<Rightarrow> unit readm" where
  "Skip n = sticky () (map_decm (\<lambda>_. ()) (ReadBytes n))"

definition rd_StrU64 :: "bytes readm" where
  "rd_StrU64 = rd_bind rd_U64 (\<lambda>n r.
     if r_err r \<noteq> None then ([], r) else sticky [] (ReadBytes (sint n)) r)"

definition ReadOptionalPubkey :: "PublicKey option readm" where
  "ReadOptionalPubkey =
     rd_bind rd_U32 (\<lambda>tag.
     rd_bind Bytes32 (\<lambda>pk.
     rd_return (if tag = 1 then Some pk else None)))"

section \<open>Laws of the 128- and 256-bit integers\<close>

lemma BitLen_le_iff: "BitLen n \<le> k \<longleftrightarrow> n < 2 ^ k"
proof (induction n arbitrary: k rule: BitLen.induct)
  case (1 n)
  show ?case
  proof (cases "n = 0")
    case False
    with 1 show ?thesis
      by (cases k) (auto simp: BitLen.simps [of n] div_less_iff_less_mult mult.commute)
  qed (simp add: BitLen.simps)
qed

lemma be_nat_append: "be_nat (xs @ ys) = be_nat xs * 256 ^ length ys + be_nat ys"
  by (induction xs) (simp_all add: algebra_simps power_add)

lemma be_nat_nat_bytes [simp]: "be_nat (nat_bytes n) = n"
proof (induction n rule: nat_bytes.induct)
  case (1 n)
  then show ?case
    by (subst nat_bytes.simps) (auto simp: be_nat_append unat_of_nat)
qed

lemma nat_bytes_length: "length (nat_bytes n) \<le> k \<longleftrightarrow> n < 256 ^ k"
proof (induction n arbitrary: k rule: nat_bytes.induct)
  case (1 n)
  show ?case
  proof (cases "n = 0")
    case False
    with 1 show ?thesis
      by (cases k) (auto simp: nat_bytes.simps [of n] div_less_iff_less_mult mult.commute)
  qed (simp add: nat_bytes.simps)
qed

lemma be_nat_zeros [simp]: "be_nat (replicate k 0 @ bs) = be_nat bs"
  by (induction k) simp_all

lemma be_nat_less: "be_nat bs < 256 ^ length bs"
proof (induction bs)
  case (Cons b bs)
  have "be_nat (b # bs) < Suc (unat b) * 256 ^ length bs" using Cons by simp
  also have "\<dots> \<le> 256 * 256 ^ length bs"
    using unsigned_less [where ?'a = nat, of b] by (intro mult_right_mono) simp_all
  finally show ?case by simp
qed simp

lemma digit_unique:
  fixes a b m r s :: nat
  assumes "a * m + r = b * m + s" and "r < m" and "s < m"
  shows "a = b \<and> r = s"
proof -
  from assms(2) have "a = (a * m + r) div m" by simp
  moreover from assms(3) have "b = (b * m + s) div m" by simp
  ultimately have "a = b" using assms(1) by metis
  with assms(1) show ?thesis by simp
qed

lemma be_nat_inj: "be_nat xs = be_nat ys \<Longrightarrow> length xs = length ys \<Longrightarrow> xs = ys"
proof (induction xs ys rule: list_induct2')
  case (4 x xs y ys)
  then have len: "length xs = length ys" by simp
  have "unat x * 256 ^ length ys + be_nat xs = unat y * 256 ^ length ys + be_nat ys"
    using "4.prems" len by simp
  then have "unat x = unat y \<and> be_nat xs = be_nat ys"
    by (rule digit_unique) (use be_nat_less [of xs] be_nat_less [of ys] len in simp_all)
  with 4 len show ?case by (simp add: word_unat_eq_iff)
qed simp_all

lemma set_big_int_law:
  "set_big_int ty k x = Inr u \<longleftrightarrow> length u = k \<and> x = bytes_BigInt u"
proof -
  have pow: "(2::nat) ^ (8 * k) = 256 ^ k" by (simp add: power_mult)
  have ok: "bytes_BigInt (rev (nat_bytes n) @ zero_array (k - length (nat_bytes n))) = int n" for n
    by (simp add: bytes_BigInt_def zero_array_def)
  show ?thesis
  proof (cases "0 \<le> x \<and> nat x < 256 ^ k")
    case True
    then have len: "length (nat_bytes (nat x)) \<le> k" by (simp add: nat_bytes_length)
    have "set_big_int ty k x = Inr (rev (nat_bytes (nat x)) @ zero_array (k - length (nat_bytes (nat x))))"
      using True by (simp add: set_big_int_def not_less BitLen_le_iff pow Let_def)
    moreover have "u = rev (nat_bytes (nat x)) @ zero_array (k - length (nat_bytes (nat x)))"
      if "length u = k" "x = bytes_BigInt u"
    proof -
      have "be_nat (rev u) = be_nat (rev (rev (nat_bytes (nat x)) @ zero_array (k - length (nat_bytes (nat x)))))"
        using that by (simp add: bytes_BigInt_def zero_array_def)
      from be_nat_inj [OF this] that len show ?thesis by (simp add: zero_array_def) (metis rev_rev_ident rev_append rev_replicate)
    qed
    ultimately show ?thesis using ok [of "nat x"] True len by (auto simp: zero_array_def)
  next
    case False
    then have "\<not> (length u = k \<and> x = bytes_BigInt u)"
      using be_nat_less [of "rev u"] by (auto simp: bytes_BigInt_def)
    moreover have "\<nexists>u. set_big_int ty k x = Inr u"
      using False BitLen_le_iff [of "nat x" "8 * k"] by (auto simp: set_big_int_def pow not_less)
    ultimately show ?thesis by blast
  qed
qed

section \<open>The contract of a Reader call\<close>

locale sticky_read =
  fixes rd :: "'a readm" and dec :: "'a decm"
  assumes silent: "r_err r = Some e \<Longrightarrow> snd (rd r) = r"
    and reads_ok: "r_err r = None \<Longrightarrow> dec (r_d r) = (Inr x, d') \<Longrightarrow> rd r = (x, \<lparr>r_d = d', r_err = None\<rparr>)"
    and reads_err: "r_err r = None \<Longrightarrow> dec (r_d r) = (Inl e, d') \<Longrightarrow> snd (rd r) = \<lparr>r_d = d', r_err = Some e\<rparr>"
begin

lemma final_check:
  "(case rd (NewReader b) of (x, r) \<Rightarrow> case Err r of Some e \<Rightarrow> Inl e | None \<Rightarrow> Inr x) = fst (dec (NewDecoder b))"
proof (cases "dec (NewDecoder b)")
  case (Pair res d')
  show ?thesis
  proof (cases res)
    case (Inl e)
    with Pair reads_err [of "NewReader b" e d'] show ?thesis
      by (auto simp: NewReader_def Err_def split: prod.splits)
  next
    case (Inr x)
    with Pair reads_ok [of "NewReader b" x d'] show ?thesis
      by (simp add: NewReader_def Err_def)
  qed
qed

lemma final_wrap:
  "(case rd (NewReader b) of (x, r) \<Rightarrow> case Err r of Some e \<Rightarrow> Inl (f e) | None \<Rightarrow> Inr x) =
   (case fst (dec (NewDecoder b)) of Inl e \<Rightarrow> Inl (f e) | Inr x \<Rightarrow> Inr x)"
  unfolding final_check [symmetric] by (simp split: prod.splits option.splits)

lemma first_error_kept: "r_err r = Some e \<Longrightarrow> r_err (snd (rd r)) = Some e \<and> r_d (snd (rd r)) = r_d r"
  using silent by simp

end

lemma sticky_read_sticky: "sticky_read (sticky z m) m"
  by unfold_locales (auto simp: sticky_def)

lemma sticky_read_return: "sticky_read (rd_return x) (rreturn x)"
  by unfold_locales (auto simp: rd_return_def rreturn_def)

lemma sticky_read_bind:
  assumes "sticky_read m m'" and "\<And>x. sticky_read (f x) (f' x)"
  shows "sticky_read (rd_bind m f) (rbind m' f')"
proof
  fix r :: reader and e assume "r_err r = Some e"
  then show "snd (rd_bind m f r) = r"
    using sticky_read.silent [OF assms(1)] sticky_read.silent [OF assms(2)]
    by (metis (no_types, lifting) rd_bind_def case_prod_beta)
next
  fix r :: reader and x d' assume r: "r_err r = None" and "rbind m' f' (r_d r) = (Inr x, d')"
  then obtain y d1 where y: "m' (r_d r) = (Inr y, d1)" "f' y d1 = (Inr x, d')" by (auto simp: rbind_Inr)
  from sticky_read.reads_ok [OF assms(1) r y(1)] sticky_read.reads_ok [OF assms(2), of "\<lparr>r_d = d1, r_err = None\<rparr>" y x d'] y(2)
  show "rd_bind m f r = (x, \<lparr>r_d = d', r_err = None\<rparr>)" by (simp add: rd_bind_def)
next
  fix r :: reader and e d' assume r: "r_err r = None" and b: "rbind m' f' (r_d r) = (Inl e, d')"
  show "snd (rd_bind m f r) = \<lparr>r_d = d', r_err = Some e\<rparr>"
  proof (cases "m' (r_d r)")
    case (Pair res d1)
    show ?thesis
    proof (cases res)
      case (Inl e1)
      with b Pair have e1: "e1 = e" "d1 = d'" by (auto simp: rbind_def)
      with sticky_read.reads_err [OF assms(1) r] Inl Pair
      have "snd (m r) = \<lparr>r_d = d', r_err = Some e\<rparr>" by blast
      then show ?thesis
        using sticky_read.silent [OF assms(2)] by (auto simp: rd_bind_def case_prod_beta)
    next
      case (Inr y)
      with b Pair have "f' y d1 = (Inl e, d')" by (auto simp: rbind_def)
      with sticky_read.reads_ok [OF assms(1) r] Inr Pair
        sticky_read.reads_err [OF assms(2), of "\<lparr>r_d = d1, r_err = None\<rparr>" y e d']
      show ?thesis by (simp add: rd_bind_def)
    qed
  qed
qed

lemma sticky_read_map: "sticky_read m m' \<Longrightarrow> sticky_read (rd_map f m) (map_decm f m')"
  unfolding rd_map_def map_decm_def by (intro sticky_read_bind sticky_read_return)

lemmas sticky_intros = sticky_read_sticky sticky_read_return sticky_read_bind sticky_read_map

interpretation sU8: sticky_read rd_U8 ReadUint8 unfolding rd_U8_def by (rule sticky_read_sticky)
interpretation sU16: sticky_read rd_U16 ReadUint16 unfolding rd_U16_def by (rule sticky_read_sticky)
interpretation sU32: sticky_read rd_U32 ReadUint32 unfolding rd_U32_def by (rule sticky_read_sticky)
interpretation sU64: sticky_read rd_U64 ReadUint64 unfolding rd_U64_def by (rule sticky_read_sticky)
interpretation sBool: sticky_read rd_Bool "map_decm (\<lambda>v. v \<noteq> 0) ReadUint8"
  unfolding rd_Bool_def rd_U8_def by (intro sticky_intros)
interpretation sRead: sticky_read "rd_Read out" "ReadBytes (int (length out))" for out
  unfolding rd_Read_def by (rule sticky_read_sticky)

lemma sticky_bytes32: "sticky_read Bytes32 (ReadBytes 32)"
  using sRead.sticky_read_axioms [of "zero_array 32"] by (simp add: Bytes32_def zero_array_def)

lemma sticky_skip: "sticky_read (Skip n) (map_decm (\<lambda>_. ()) (ReadBytes n))"
  unfolding Skip_def by (rule sticky_read_sticky)

text \<open>The decoder that \<open>ReadOptionalPubkey\<close> stands for.\<close>

definition opt_pubkey_dec :: "PublicKey option decm" where
  "opt_pubkey_dec = rbind ReadUint32 (\<lambda>tag. rbind (ReadBytes 32) (\<lambda>pk. rreturn (if tag = 1 then Some pk else None)))"

lemma sticky_opt_pubkey: "sticky_read ReadOptionalPubkey opt_pubkey_dec"
  unfolding ReadOptionalPubkey_def opt_pubkey_dec_def
  by (intro sticky_read_bind sticky_read_return sU32.sticky_read_axioms sticky_bytes32)

lemmas sticky_reads = sU8.sticky_read_axioms sU16.sticky_read_axioms sU32.sticky_read_axioms
  sU64.sticky_read_axioms sBool.sticky_read_axioms sRead.sticky_read_axioms sticky_bytes32 sticky_skip
  sticky_opt_pubkey

end
