(* ===== verification/Token_State.thy ===== *)
theory Token_State
  imports Reader "HOL-Library.AList" "HOL-Library.Multiset"
begin

text \<open>
  Decoders of on-chain account state: SPL Token mints and accounts
  (\<open>programs/token/state.go\<close>), Token-2022 with its TLV extensions
  (\<open>programs/token2022/state.go\<close>) and address lookup tables
  (\<open>programs/address-lookup-table/state.go\<close>).
\<close>

section \<open>SPL Token\<close>

record MintState =
  MintAuthority :: "PublicKey option"
  Supply :: u64
  Decimals :: u8
  IsInitialized :: bool
  FreezeAuthority :: "PublicKey option"

definition read_mint :: "MintState readm" where
  "read_mint =
     rd_bind ReadOptionalPubkey (\<lambda>ma.
     rd_bind rd_U64 (\<lambda>supply.
     rd_bind rd_U8 (\<lambda>dec.
     rd_bind rd_Bool (\<lambda>init.
     rd_bind ReadOptionalPubkey (\<lambda>fa.
     rd_return \<lparr>MintAuthority = ma, Supply = supply, Decimals = dec, IsInitialized = init, FreezeAuthority = fa\<rparr>)))))"

definition DecodeMintState :: "bytes \<Rightarrow> MintState result" where
  "DecodeMintState data =
     (if length data < 82
      then Inl (Errorf ''token: DecodeMintState: data too short (%d < 82 bytes)'' [int (length data)])
      else case read_mint (NewReader (take 82 data)) of (m, r) \<Rightarrow>
        (case Err r of
           Some err \<Rightarrow> Inl (Wrapf ''token: DecodeMintState: %w'' [] err)
         | None \<Rightarrow> Inr m))"

record AccountState =
  as_Mint :: PublicKey
  as_Owner :: PublicKey
  Amount :: u64
  Delegate :: "PublicKey option"
  as_State :: u8
  IsNative :: "u64 option"
  DelegatedAmount :: u64
  CloseAuthority :: "PublicKey option"

definition read_account :: "AccountState readm" where
  "read_account =
     rd_bind Bytes32 (\<lambda>mint.
     rd_bind Bytes32 (\<lambda>owner.
     rd_bind rd_U64 (\<lambda>amount.
     rd_bind ReadOptionalPubkey (\<lambda>delegate.
     rd_bind rd_U8 (\<lambda>state.
     rd_bind rd_U32 (\<lambda>isNativeTag.
     rd_bind rd_U64 (\<lambda>isNativeVal.
     rd_bind rd_U64 (\<lambda>delegated.
     rd_bind ReadOptionalPubkey (\<lambda>close.
     rd_return \<lparr>as_Mint = mint, as_Owner = owner, Amount = amount, Delegate = delegate, as_State = state,
       IsNative = (if isNativeTag = 1 then Some isNativeVal else None),
       DelegatedAmount = delegated, CloseAuthority = close\<rparr>)))))))))"

definition DecodeAccountState :: "bytes \<Rightarrow> AccountState result" where
  "DecodeAccountState data =
     (if length data < 165
      then Inl (Errorf ''token: DecodeAccountState: data too short (%d < 165 bytes)'' [int (length data)])
      else case read_account (NewReader (take 165 data)) of (a, r) \<Rightarrow>
        (case Err r of
           Some err \<Rightarrow> Inl (Wrapf ''token: DecodeAccountState: %w'' [] err)
         | None \<Rightarrow> Inr a))"

section \<open>Address lookup tables\<close>

definition LookupTableMetaSize :: nat where "LookupTableMetaSize = 56"

record TableState =
  DeactivationSlot :: u64
  LastExtendedSlot :: u64
  LastExtendedSlotStartIndex :: u8
  Authority :: "PublicKey option"
  Addresses :: "PublicKey list"

definition IsActive :: "TableState \<Rightarrow> bool" where
  "IsActive t \<longleftrightarrow> DeactivationSlot t = 0xFFFFFFFFFFFFFFFF"

definition read_table_meta :: "(u64 \<times> u64 \<times> u8 \<times> PublicKey option) readm" where
  "read_table_meta =
     rd_bind rd_U64 (\<lambda>deact.
     rd_bind rd_U64 (\<lambda>lastExt.
     rd_bind rd_U8 (\<lambda>start.
     rd_bind rd_U8 (\<lambda>authTag.
     rd_bind Bytes32 (\<lambda>authority.
     rd_bind (Skip 2) (\<lambda>_.
     rd_return (deact, lastExt, start, if authTag = 1 then Some authority else None)))))))"

definition DecodeTableState :: "bytes \<Rightarrow> TableState result" where
  "DecodeTableState data =
     (if length data < LookupTableMetaSize
      then Inl (Errorf ''addresslookuptable: data too short (%d < %d)'' [int (length data), int LookupTableMetaSize])
      else case rd_U32 (NewReader (take LookupTableMetaSize data)) of (disc, r) \<Rightarrow>
        if disc \<noteq> 1
        then Inl (Errorf ''addresslookuptable: unexpected discriminant %d (want 1)'' [uint disc])
        else case read_table_meta r of ((deact, lastExt, start, auth), r) \<Rightarrow>
          (case Err r of
             Some err \<Rightarrow> Inl (Wrapf ''addresslookuptable: %w'' [] err)
           | None \<Rightarrow>
               let tail = drop LookupTableMetaSize data in
               if length tail mod PublicKeySize \<noteq> 0
               then Inl (Errorf ''addresslookuptable: address section length %d not a multiple of %d''
                      [int (length tail), int PublicKeySize])
               else Inr \<lparr>DeactivationSlot = deact, LastExtendedSlot = lastExt, LastExtendedSlotStartIndex = start,
                         Authority = auth,
                         Addresses = map (\<lambda>i. take PublicKeySize (drop (i * PublicKeySize) tail))
                           [0..<length tail div PublicKeySize]\<rparr>))"

section \<open>Token-2022 extensions\<close>

definition ExtTransferFeeConfig :: u16 where "ExtTransferFeeConfig = 1"
definition ExtTransferFeeAmount :: u16 where "ExtTransferFeeAmount = 2"
definition ExtMintCloseAuthority :: u16 where "ExtMintCloseAuthority = 3"
definition ExtDefaultAccountState :: u16 where "ExtDefaultAccountState = 6"
definition ExtImmutableOwner :: u16 where "ExtImmutableOwner = 7"
definition ExtMemoTransfer :: u16 where "ExtMemoTransfer = 8"
definition ExtNonTransferable :: u16 where "ExtNonTransferable = 9"
definition ExtInterestBearingConfig :: u16 where "ExtInterestBearingConfig = 10"
definition ExtCpiGuard :: u16 where "ExtCpiGuard = 11"
definition ExtPermanentDelegate :: u16 where "ExtPermanentDelegate = 12"
definition ExtMetadataPointer :: u16 where "ExtMetadataPointer = 16"
definition ExtTransferHook :: u16 where "ExtTransferHook = 18"

lemmas ext_defs = ExtTransferFeeConfig_def ExtTransferFeeAmount_def ExtMintCloseAuthority_def
  ExtDefaultAccountState_def ExtImmutableOwner_def ExtMemoTransfer_def ExtNonTransferable_def
  ExtInterestBearingConfig_def ExtCpiGuard_def ExtPermanentDelegate_def ExtMetadataPointer_def
  ExtTransferHook_def

record TransferFee =
  tf_Epoch :: u64
  MaximumFee :: u64
  TransferFeeBasisPoints :: u16

record TransferFeeConfig =
  TransferFeeConfigAuthority :: "PublicKey option"
  WithdrawWithheldAuthority :: "PublicKey option"
  tc_WithheldAmount :: u64
  OlderTransferFee :: TransferFee
  NewerTransferFee :: TransferFee

record InterestBearingConfig =
  RateAuthority :: "PublicKey option"
  InitializationTimestamp :: int
  PreUpdateAverageRate :: int
  LastUpdateTimestamp :: int
  CurrentRate :: int

record MetadataPointerConfig =
  mp_Authority :: "PublicKey option"
  MetadataAddress :: "PublicKey option"

record TransferHookConfig =
  th_Authority :: "PublicKey option"
  th_ProgramID :: "PublicKey option"

record MintExtensions =
  me_CloseAuthority :: "PublicKey option"
  DefaultState :: "u8 option"
  NonTransferable :: bool
  PermanentDelegate :: "PublicKey option"
  me_TransferFeeConfig :: "TransferFeeConfig option"
  InterestBearing :: "InterestBearingConfig option"
  MetadataPointer :: "MetadataPointerConfig option"
  TransferHook :: "TransferHookConfig option"

record AccountExtensions =
  ae_WithheldAmount :: "u64 option"
  MemoTransfer :: "bool option"
  ImmutableOwner :: bool
  CpiGuard :: "bool option"

text \<open>\<open>b[lo:hi]\<close>, for \<open>lo \<le> hi \<le> len(b)\<close>.\<close>

definition subslice :: "nat \<Rightarrow> nat \<Rightarrow> bytes \<Rightarrow> bytes" where
  "subslice lo hi b = take (hi - lo) (drop lo b)"

text \<open>
  \<open>parseTLV\<close>: the map from extension type to payload, as an association list; a
  repeated type overwrites its entry.
\<close>

function parse_tlv :: "(u16 \<times> bytes) list \<Rightarrow> bytes \<Rightarrow> (u16 \<times> bytes) list" where
  "parse_tlv acc data =
     (if length data < 4 then acc
      else
        let extType = le_word (subslice 0 2 data);
            extLen = unat (le_word (subslice 2 4 data) :: u16)
        in if extType = 0 \<or> 4 + extLen > length data then acc
           else parse_tlv (AList.update extType (subslice 4 (4 + extLen) data) acc) (drop (4 + extLen) data))"
  by pat_completeness auto

termination
  by (relation "measure (\<lambda>(acc, data). length data)") auto

declare parse_tlv.simps [simp del]

definition parseTLV :: "bytes \<Rightarrow> (u16 \<times> bytes) list" where
  "parseTLV data = parse_tlv [] data"

definition optPubkey :: "bytes \<Rightarrow> PublicKey option" where
  "optPubkey b =
     (if length b < PublicKeySize then None
      else if take PublicKeySize b = zero_array PublicKeySize then None
      else Some (take PublicKeySize b))"

definition decodeMintExt :: "u16 \<times> bytes \<Rightarrow> MintExtensions \<Rightarrow> MintExtensions" where
  "decodeMintExt ext x =
     (let (t, raw) = ext in
      if t = ExtMintCloseAuthority then
        (if length raw \<ge> PublicKeySize then x\<lparr>me_CloseAuthority := optPubkey raw\<rparr> else x)
      else if t = ExtDefaultAccountState then
        (if length raw \<ge> 1 then x\<lparr>DefaultState := Some (raw ! 0)\<rparr> else x)
      else if t = ExtNonTransferable then x\<lparr>NonTransferable := True\<rparr>
      else if t = ExtPermanentDelegate then
        (if length raw \<ge> PublicKeySize then x\<lparr>PermanentDelegate := optPubkey raw\<rparr> else x)
      else if t = ExtTransferFeeConfig then
        (if length raw \<ge> 108 then
           x\<lparr>me_TransferFeeConfig := Some
              \<lparr>TransferFeeConfigAuthority = optPubkey (subslice 0 32 raw),
               WithdrawWithheldAuthority = optPubkey (subslice 32 64 raw),
               tc_WithheldAmount = le_word (subslice 64 72 raw),
               OlderTransferFee = \<lparr>tf_Epoch = le_word (subslice 72 80 raw), MaximumFee = le_word (subslice 80 88 raw),
                 TransferFeeBasisPoints = le_word (subslice 88 90 raw)\<rparr>,
               NewerTransferFee = \<lparr>tf_Epoch = le_word (subslice 90 98 raw), MaximumFee = le_word (subslice 98 106 raw),
                 TransferFeeBasisPoints = le_word (subslice 106 108 raw)\<rparr>\<rparr>\<rparr>
         else x)
      else if t = ExtInterestBearingConfig then
        (if length raw \<ge> 52 then
           x\<lparr>InterestBearing := Some
              \<lparr>RateAuthority = optPubkey (subslice 0 32 raw),
               InitializationTimestamp = sint (le_word (subslice 32 40 raw) :: u64),
               PreUpdateAverageRate = sint (le_word (subslice 40 42 raw) :: u16),
               LastUpdateTimestamp = sint (le_word (subslice 42 50 raw) :: u64),
               CurrentRate = sint (le_word (subslice 50 52 raw) :: u16)\<rparr>\<rparr>
         else x)
      else if t = ExtMetadataPointer then
        (if length raw \<ge> 64 then
           x\<lparr>MetadataPointer := Some \<lparr>mp_Authority = optPubkey (subslice 0 32 raw),
              MetadataAddress = optPubkey (subslice 32 64 raw)\<rparr>\<rparr>
         else x)
      else if t = ExtTransferHook then
        (if length raw \<ge> 64 then
           x\<lparr>TransferHook := Some \<lparr>th_Authority = optPubkey (subslice 0 32 raw),
              th_ProgramID = optPubkey (subslice 32 64 raw)\<rparr>\<rparr>
         else x)
      else x)"

definition decodeAccountExt :: "u16 \<times> bytes \<Rightarrow> AccountExtensions \<Rightarrow> AccountExtensions" where
  "decodeAccountExt ext x =
     (let (t, raw) = ext in
      if t = ExtTransferFeeAmount then
        (if length raw \<ge> 8 then x\<lparr>ae_WithheldAmount := Some (le_word (subslice 0 8 raw))\<rparr> else x)
      else if t = ExtMemoTransfer then
        (if length raw \<ge> 1 then x\<lparr>MemoTransfer := Some (raw ! 0 \<noteq> 0)\<rparr> else x)
      else if t = ExtImmutableOwner then x\<lparr>ImmutableOwner := True\<rparr>
      else if t = ExtCpiGuard then
        (if length raw \<ge> 1 then x\<lparr>CpiGuard := Some (raw ! 0 \<noteq> 0)\<rparr> else x)
      else x)"

definition no_mint_extensions :: MintExtensions where
  "no_mint_extensions = \<lparr>me_CloseAuthority = None, DefaultState = None, NonTransferable = False,
     PermanentDelegate = None, me_TransferFeeConfig = None, InterestBearing = None,
     MetadataPointer = None, TransferHook = None\<rparr>"

definition no_account_extensions :: AccountExtensions where
  "no_account_extensions = \<lparr>ae_WithheldAmount = None, MemoTransfer = None, ImmutableOwner = False, CpiGuard = None\<rparr>"

text \<open>
  The base fields are those of the classic layout, so a decoded Token-2022 state is the
  classic state with its extensions; \<open>ord\<close> is the order in which \<open>range\<close> visits the
  extension map.
\<close>

definition token2022_DecodeMintState ::
    "((u16 \<times> bytes) list \<Rightarrow> (u16 \<times> bytes) list) \<Rightarrow> bytes \<Rightarrow> (MintState \<times> MintExtensions) result" where
  "token2022_DecodeMintState ord data =
     (case DecodeMintState data of
        Inl err \<Rightarrow> Inl (Wrapf ''token2022: DecodeMintState: %w'' [] err)
      | Inr base \<Rightarrow>
          Inr (base, if length data > 166 then fold decodeMintExt (ord (parseTLV (drop 166 data))) no_mint_extensions
                     else no_mint_extensions))"

definition token2022_DecodeAccount ::
    "((u16 \<times> bytes) list \<Rightarrow> (u16 \<times> bytes) list) \<Rightarrow> bytes \<Rightarrow> (AccountState \<times> AccountExtensions) result" where
  "token2022_DecodeAccount ord data =
     (case DecodeAccountState data of
        Inl err \<Rightarrow> Inl (Wrapf ''token2022: DecodeAccount: %w'' [] err)
      | Inr base \<Rightarrow>
          Inr (base, if length data > 166 then fold decodeAccountExt (ord (parseTLV (drop 166 data))) no_account_extensions
                     else no_account_extensions))"

section \<open>Field offsets\<close>

definition coption :: "u32 \<Rightarrow> 'a \<Rightarrow> 'a option" where
  "coption tag v = (if tag = 1 then Some v else None)"

lemma reads_at:
  "d_pos d + n \<le> length (d_buf d) \<Longrightarrow>
     reads d (subslice (d_pos d) (d_pos d + n) (d_buf d)) (d\<lparr>d_pos := d_pos d + n\<rparr>)"
  by (simp add: reads_def subslice_def)

text \<open>Each read at a position inside the buffer returns the bytes that stand there.\<close>

lemma read_at:
  "d_pos d + 1 \<le> length (d_buf d) \<Longrightarrow> ReadUint8 d = (Inr (d_buf d ! d_pos d), d\<lparr>d_pos := d_pos d + 1\<rparr>)"
  "d_pos d + 4 \<le> length (d_buf d) \<Longrightarrow>
     ReadUint32 d = (Inr (le_word (subslice (d_pos d) (d_pos d + 4) (d_buf d))), d\<lparr>d_pos := d_pos d + 4\<rparr>)"
  "d_pos d + 8 \<le> length (d_buf d) \<Longrightarrow>
     ReadUint64 d = (Inr (le_word (subslice (d_pos d) (d_pos d + 8) (d_buf d))), d\<lparr>d_pos := d_pos d + 8\<rparr>)"
  "d_pos d + n \<le> length (d_buf d) \<Longrightarrow>
     ReadBytes (int n) d = (Inr (subslice (d_pos d) (d_pos d + n) (d_buf d)), d\<lparr>d_pos := d_pos d + n\<rparr>)"
  by (simp_all add: ReadUint8_def ReadUint32_def ReadUint64_def ReadBytes_def Remaining_def subslice_def
      le_word_take4 le_word_take8)

lemma opt_pubkey_at:
  assumes "d_pos d + 36 \<le> length (d_buf d)"
  shows "opt_pubkey_dec d =
    (Inr (coption (le_word (subslice (d_pos d) (d_pos d + 4) (d_buf d))) (subslice (d_pos d + 4) (d_pos d + 36) (d_buf d))),
     d\<lparr>d_pos := d_pos d + 36\<rparr>)"
  using assms read_at(4) [where n = 32]
  by (simp add: opt_pubkey_dec_def rbind_def rreturn_def read_at(2) coption_def add.assoc)

lemma subslice_take: "hi \<le> n \<Longrightarrow> subslice lo hi (take n b) = subslice lo hi b"
  by (simp add: subslice_def drop_take min_def)

text \<open>The checked decoders the Reader-based ones stand for.\<close>

definition mint_dec :: "MintState decm" where
  "mint_dec =
     rbind opt_pubkey_dec (\<lambda>ma.
     rbind ReadUint64 (\<lambda>supply.
     rbind ReadUint8 (\<lambda>dec.
     rbind (map_decm (\<lambda>v. v \<noteq> 0) ReadUint8) (\<lambda>init.
     rbind opt_pubkey_dec (\<lambda>fa.
     rreturn \<lparr>MintAuthority = ma, Supply = supply, Decimals = dec, IsInitialized = init, FreezeAuthority = fa\<rparr>)))))"

definition account_dec :: "AccountState decm" where
  "account_dec =
     rbind (ReadBytes 32) (\<lambda>mint.
     rbind (ReadBytes 32) (\<lambda>owner.
     rbind ReadUint64 (\<lambda>amount.
     rbind opt_pubkey_dec (\<lambda>delegate.
     rbind ReadUint8 (\<lambda>state.
     rbind ReadUint32 (\<lambda>isNativeTag.
     rbind ReadUint64 (\<lambda>isNativeVal.
     rbind ReadUint64 (\<lambda>delegated.
     rbind opt_pubkey_dec (\<lambda>close.
     rreturn \<lparr>as_Mint = mint, as_Owner = owner, Amount = amount, Delegate = delegate, as_State = state,
       IsNative = (if isNativeTag = 1 then Some isNativeVal else None),
       DelegatedAmount = delegated, CloseAuthority = close\<rparr>)))))))))"

interpretation mint: sticky_read read_mint mint_dec
  unfolding read_mint_def mint_dec_def by (intro sticky_read_bind sticky_read_return sticky_reads)

interpretation account: sticky_read read_account account_dec
  unfolding read_account_def account_dec_def by (intro sticky_read_bind sticky_read_return sticky_reads)

lemma read_at_bytes32:
  "d_pos d + 32 \<le> length (d_buf d) \<Longrightarrow>
     ReadBytes 32 d = (Inr (subslice (d_pos d) (d_pos d + 32) (d_buf d)), d\<lparr>d_pos := d_pos d + 32\<rparr>)"
  using read_at(4) [where n = 32] by simp

lemmas field_reads = rbind_def rreturn_def map_decm_def read_at(1-3) read_at_bytes32 opt_pubkey_at NewDecoder_def

lemma le_word_zeros: "le_word (replicate n 0) = 0"
  by (induction n) simp_all

section \<open>Extensions\<close>


text \<open>An extension sets at most the one field that belongs to its type.\<close>

definition mint_field :: "u16 \<Rightarrow> nat" where
  "mint_field t =
     (if t = ExtMintCloseAuthority then 1 else if t = ExtDefaultAccountState then 2
      else if t = ExtNonTransferable then 3 else if t = ExtPermanentDelegate then 4
      else if t = ExtTransferFeeConfig then 5 else if t = ExtInterestBearingConfig then 6
      else if t = ExtMetadataPointer then 7 else if t = ExtTransferHook then 8 else 0)"

lemma decodeMintExt_field:
  "(mint_field (fst a) = 1 \<and> (\<exists>v. decodeMintExt a = me_CloseAuthority_update v)) \<or>
   (mint_field (fst a) = 2 \<and> (\<exists>v. decodeMintExt a = DefaultState_update v)) \<or>
   (mint_field (fst a) = 3 \<and> (\<exists>v. decodeMintExt a = NonTransferable_update v)) \<or>
   (mint_field (fst a) = 4 \<and> (\<exists>v. decodeMintExt a = PermanentDelegate_update v)) \<or>
   (mint_field (fst a) = 5 \<and> (\<exists>v. decodeMintExt a = me_TransferFeeConfig_update v)) \<or>
   (mint_field (fst a) = 6 \<and> (\<exists>v. decodeMintExt a = InterestBearing_update v)) \<or>
   (mint_field (fst a) = 7 \<and> (\<exists>v. decodeMintExt a = MetadataPointer_update v)) \<or>
   (mint_field (fst a) = 8 \<and> (\<exists>v. decodeMintExt a = TransferHook_update v)) \<or>
   (mint_field (fst a) = 0 \<and> decodeMintExt a = (\<lambda>x. x))"
proof -
  obtain t raw where a: "a = (t, raw)" by (cases a)
  have id: "x = me_CloseAuthority_update (\<lambda>v. v) x" "x = DefaultState_update (\<lambda>v. v) x"
    "x = PermanentDelegate_update (\<lambda>v. v) x" "x = me_TransferFeeConfig_update (\<lambda>v. v) x"
    "x = InterestBearing_update (\<lambda>v. v) x" "x = MetadataPointer_update (\<lambda>v. v) x"
    "x = TransferHook_update (\<lambda>v. v) x" for x :: MintExtensions by simp_all
  consider "t = ExtMintCloseAuthority" | "t = ExtDefaultAccountState" | "t = ExtNonTransferable"
    | "t = ExtPermanentDelegate" | "t = ExtTransferFeeConfig" | "t = ExtInterestBearingConfig"
    | "t = ExtMetadataPointer" | "t = ExtTransferHook" | "t \<notin> {ExtMintCloseAuthority, ExtDefaultAccountState, ExtNonTransferable, ExtPermanentDelegate,
        ExtTransferFeeConfig, ExtInterestBearingConfig, ExtMetadataPointer, ExtTransferHook}"
    by blast
  then show ?thesis
  proof cases
    case 9
    then show ?thesis by (simp add: a decodeMintExt_def mint_field_def fun_eq_iff)
  qed (simp_all add: a decodeMintExt_def mint_field_def ext_defs fun_eq_iff, (use id in metis)+)
qed

lemma mint_field_inj: "mint_field s = mint_field t \<Longrightarrow> mint_field s \<noteq> 0 \<Longrightarrow> s = t"
  by (auto simp: mint_field_def split: if_splits)

lemma decodeMintExt_commute:
  assumes "fst a \<noteq> fst b"
  shows "decodeMintExt a (decodeMintExt b x) = decodeMintExt b (decodeMintExt a x)"
proof (cases "mint_field (fst a) = mint_field (fst b)")
  case True
  with assms mint_field_inj have "mint_field (fst a) = 0" "mint_field (fst b) = 0" by force+
  with decodeMintExt_field [of a] decodeMintExt_field [of b] show ?thesis by simp
next
  case False
  from decodeMintExt_field [of a] decodeMintExt_field [of b] show ?thesis
    by (elim disjE conjE exE) (use False in simp_all)
qed

lemma decodeAccountExt_commute:
  "fst a \<noteq> fst b \<Longrightarrow> decodeAccountExt a (decodeAccountExt b x) = decodeAccountExt b (decodeAccountExt a x)"
  by (cases a; cases b; cases x) (auto simp: decodeAccountExt_def Let_def ext_defs)

lemma fold_commute_order:
  assumes "distinct (map fst xs)" and "mset ys = mset xs"
    and "\<And>a b x. fst a \<noteq> fst b \<Longrightarrow> f a (f b x) = f b (f a x)"
  shows "fold f ys = fold f xs"
proof (rule fold_multiset_equiv)
  show "mset ys = mset xs" by (rule assms)
  fix a b assume "a \<in> set ys" and "b \<in> set ys"
  then have "a \<in> set xs" "b \<in> set xs" using assms(2) by (metis mset_eq_setD)+
  then have "a = b \<or> fst a \<noteq> fst b" using assms(1) by (metis eq_key_imp_eq_value prod.collapse)
  then show "f a \<circ> f b = f b \<circ> f a" using assms(3) [of a b] by (metis comp_apply ext)
qed

lemma parse_tlv_distinct: "distinct (map fst acc) \<Longrightarrow> distinct (map fst (parse_tlv acc data))"
proof (induction acc data rule: parse_tlv.induct)
  case (1 acc data)
  then show ?case
    by (subst parse_tlv.simps) (auto simp: Let_def distinct_update)
qed

definition tlv :: "u16 \<times> bytes \<Rightarrow> bytes" where
  "tlv e = le_bytes 2 (fst e) @ le_bytes 2 (of_nat (length (snd e)) :: u16) @ snd e"

definition tlv_ok :: "u16 \<times> bytes \<Rightarrow> bool" where
  "tlv_ok e \<longleftrightarrow> fst e \<noteq> 0 \<and> length (snd e) \<le> 0xFFFF"

lemma parse_tlv_step:
  assumes "tlv_ok e"
  shows "parse_tlv acc (tlv e @ rest) = parse_tlv (AList.update (fst e) (snd e) acc) rest"
proof -
  have "subslice 0 2 (tlv e @ rest) = le_bytes 2 (fst e)"
    "subslice 2 4 (tlv e @ rest) = le_bytes 2 (of_nat (length (snd e)) :: u16)"
    by (simp_all add: subslice_def tlv_def)
  moreover have "unat (of_nat (length (snd e)) :: u16) = length (snd e)"
    using assms by (simp add: tlv_ok_def unat_of_nat)
  moreover have "subslice 4 (4 + length (snd e)) (tlv e @ rest) = snd e" "drop (4 + length (snd e)) (tlv e @ rest) = rest"
    by (simp_all add: subslice_def tlv_def)
  moreover have "length (tlv e @ rest) = 4 + length (snd e) + length rest" by (simp add: tlv_def)
  ultimately show ?thesis
    using assms by (subst parse_tlv.simps) (simp add: Let_def tlv_ok_def le_word_le_bytes)
qed

definition tlv_stop :: "bytes \<Rightarrow> bool" where
  "tlv_stop rest \<longleftrightarrow> length rest < 4 \<or> take 2 rest = [0, 0]"

lemma parse_tlv_stop: "tlv_stop rest \<Longrightarrow> parse_tlv acc rest = acc"
  by (subst parse_tlv.simps) (auto simp: tlv_stop_def subslice_def Let_def)

lemma AList_update_fresh: "k \<notin> fst ` set xs \<Longrightarrow> AList.update k v xs = xs @ [(k, v)]"
  by (induction xs) auto

lemma parse_tlv_list:
  assumes "list_all tlv_ok es" and "distinct (map fst (acc @ es))" and "tlv_stop rest"
  shows "parse_tlv acc (concat (map tlv es) @ rest) = acc @ es"
  using assms
proof (induction es arbitrary: acc)
  case Nil
  then show ?case by (simp add: parse_tlv_stop)
next
  case (Cons e es)
  have "parse_tlv acc (concat (map tlv (e # es)) @ rest) =
      parse_tlv (AList.update (fst e) (snd e) acc) (concat (map tlv es) @ rest)"
    using Cons.prems parse_tlv_step [of e acc "concat (map tlv es) @ rest"] by simp
  also have "AList.update (fst e) (snd e) acc = acc @ [e]"
    using Cons.prems by (subst AList_update_fresh) auto
  also have "parse_tlv (acc @ [e]) (concat (map tlv es) @ rest) = (acc @ [e]) @ es"
    using Cons.prems by (intro Cons.IH) auto
  finally show ?case by simp
qed

section \<open>Properties\<close>

text \<open>
  \<open>DecodeMintState\<close> fails exactly on buffers shorter than 82 bytes; otherwise every field is
  read from its offset in the SPL layout (authority tag 0, supply 36, decimals 44, flag 45,
  freeze tag 46), an authority being present exactly when its tag is 1.
\<close>

theorem DecodeMintState_layout:
  assumes "82 \<le> length data"
  shows "DecodeMintState data = Inr
    \<lparr>MintAuthority = coption (le_word (subslice 0 4 data)) (subslice 4 36 data),
     Supply = le_word (subslice 36 44 data), Decimals = data ! 44, IsInitialized = (data ! 45 \<noteq> 0),
     FreezeAuthority = coption (le_word (subslice 46 50 data)) (subslice 50 82 data)\<rparr>"
proof -
  have "fst (mint_dec (NewDecoder (take 82 data))) = Inr
    \<lparr>MintAuthority = coption (le_word (subslice 0 4 data)) (subslice 4 36 data),
     Supply = le_word (subslice 36 44 data), Decimals = data ! 44, IsInitialized = (data ! 45 \<noteq> 0),
     FreezeAuthority = coption (le_word (subslice 46 50 data)) (subslice 50 82 data)\<rparr>"
    using assms by (simp add: mint_dec_def field_reads subslice_take)
  with assms show ?thesis
    unfolding DecodeMintState_def mint.final_wrap by simp
qed

text \<open>
  \<open>DecodeAccountState\<close> reads every field of a token account of at least 165 bytes from its
  offset in the SPL layout.
\<close>

theorem DecodeAccountState_layout:
  assumes "165 \<le> length data"
  shows "DecodeAccountState data = Inr
    \<lparr>as_Mint = subslice 0 32 data, as_Owner = subslice 32 64 data, Amount = le_word (subslice 64 72 data),
     Delegate = coption (le_word (subslice 72 76 data)) (subslice 76 108 data), as_State = data ! 108,
     IsNative = coption (le_word (subslice 109 113 data)) (le_word (subslice 113 121 data)),
     DelegatedAmount = le_word (subslice 121 129 data),
     CloseAuthority = coption (le_word (subslice 129 133 data)) (subslice 133 165 data)\<rparr>"
proof -
  have "fst (account_dec (NewDecoder (take 165 data))) = Inr
    \<lparr>as_Mint = subslice 0 32 data, as_Owner = subslice 32 64 data, Amount = le_word (subslice 64 72 data),
     Delegate = coption (le_word (subslice 72 76 data)) (subslice 76 108 data), as_State = data ! 108,
     IsNative = coption (le_word (subslice 109 113 data)) (le_word (subslice 113 121 data)),
     DelegatedAmount = le_word (subslice 121 129 data),
     CloseAuthority = coption (le_word (subslice 129 133 data)) (subslice 133 165 data)\<rparr>"
    using assms by (simp add: account_dec_def field_reads subslice_take) (simp add: coption_def)
  with assms show ?thesis
    unfolding DecodeAccountState_def account.final_wrap by simp
qed

text \<open>
  \<open>DecodeTableState\<close> accepts exactly the buffers with a complete header, discriminant 1
  and an address section of whole keys, and returns all of these keys in order.
\<close>

theorem DecodeTableState_iff:
  "DecodeTableState data = Inr t \<longleftrightarrow>
     56 \<le> length data \<and> (le_word (subslice 0 4 data) :: u32) = 1 \<and> (length data - 56) mod 32 = 0 \<and>
     t = \<lparr>DeactivationSlot = le_word (subslice 4 12 data), LastExtendedSlot = le_word (subslice 12 20 data),
          LastExtendedSlotStartIndex = data ! 20,
          Authority = (if data ! 21 = 1 then Some (subslice 22 54 data) else None),
          Addresses = map (\<lambda>i. subslice (56 + 32 * i) (56 + 32 * i + 32) data) [0..<(length data - 56) div 32]\<rparr>"
proof (cases "length data < 56")
  case True
  then show ?thesis by (simp add: DecodeTableState_def LookupTableMetaSize_def)
next
  case False
  let ?d = "NewDecoder (take 56 data)"
  have u32: "rd_U32 (NewReader (take 56 data)) =
      (le_word (subslice 0 4 data), \<lparr>r_d = ?d\<lparr>d_pos := 4\<rparr>, r_err = None\<rparr>)"
    using False by (simp add: rd_U32_def sticky_def NewReader_def read_at NewDecoder_def subslice_take)
  have meta: "read_table_meta \<lparr>r_d = ?d\<lparr>d_pos := 4\<rparr>, r_err = None\<rparr> =
      ((le_word (subslice 4 12 data), le_word (subslice 12 20 data), data ! 20,
        if data ! 21 = 1 then Some (subslice 22 54 data) else None), \<lparr>r_d = ?d\<lparr>d_pos := 56\<rparr>, r_err = None\<rparr>)"
    using False read_at(4) [where n = 2]
    by (simp add: read_table_meta_def rd_bind_def rd_return_def rd_U64_def rd_U8_def Bytes32_def rd_Read_def Skip_def
        sticky_def field_reads subslice_take)
  have addrs: "take 32 (drop (i * 32 + 56) data) = subslice (56 + 32 * i) (88 + 32 * i) data" for i
    by (simp add: subslice_def algebra_simps)
  show ?thesis
    using False by (auto simp: DecodeTableState_def LookupTableMetaSize_def u32 meta Err_def Let_def PublicKeySize_def addrs)
qed

theorem DecodeMintState_layout_witness: "\<exists>m. DecodeMintState (replicate 82 0) = Inr m \<and> MintAuthority m = None"
  using DecodeMintState_layout [of "replicate 82 0"] by (simp add: subslice_def coption_def le_word_zeros)

theorem DecodeAccountState_layout_witness: "\<exists>a. DecodeAccountState (replicate 200 1) = Inr a \<and> as_State a = 1"
  using DecodeAccountState_layout [of "replicate 200 1"] by simp

text \<open>
  \<open>parseTLV\<close> inverts the TLV encoding: for extension entries with pairwise distinct non-zero
  types, followed by anything that ends the list (a zero type or fewer than four bytes), it
  returns exactly these entries.
\<close>

theorem parseTLV_roundtrip:
  assumes "list_all tlv_ok es" and "distinct (map fst es)" and "tlv_stop rest"
  shows "parseTLV (concat (map tlv es) @ rest) = es"
  using parse_tlv_list [of es "[]" rest] assms by (simp add: parseTLV_def)

text \<open>
  C36: The decoded Token-2022 states do not depend on the order in which Go iterates the
  extension map, because no two extension types write the same field.
\<close>

theorem token2022_order_independent:
  assumes "\<And>xs. mset (ord xs) = mset xs"
  shows "token2022_DecodeMintState ord data = token2022_DecodeMintState (\<lambda>xs. xs) data \<and>
    token2022_DecodeAccount ord data = token2022_DecodeAccount (\<lambda>xs. xs) data"
proof -
  have d: "distinct (map fst (parseTLV bs))" for bs
    unfolding parseTLV_def by (rule parse_tlv_distinct) simp
  have "fold decodeMintExt (ord (parseTLV bs)) = fold decodeMintExt (parseTLV bs)"
    "fold decodeAccountExt (ord (parseTLV bs)) = fold decodeAccountExt (parseTLV bs)" for bs
    by (rule fold_commute_order [OF d assms]; rule decodeMintExt_commute decodeAccountExt_commute; assumption)+
  then show ?thesis
    by (simp add: token2022_DecodeMintState_def token2022_DecodeAccount_def split: sum.splits)
qed

theorem parseTLV_roundtrip_witness:
  "parseTLV (tlv (ExtNonTransferable, []) @ tlv (ExtDefaultAccountState, [2]) @ [0, 0, 9, 9, 9]) =
     [(ExtNonTransferable, []), (ExtDefaultAccountState, [2])]"
  using parseTLV_roundtrip [of "[(ExtNonTransferable, []), (ExtDefaultAccountState, [2])]" "[0, 0, 9, 9, 9]"]
  by (simp add: tlv_ok_def tlv_stop_def ext_defs)

text \<open>A mint and an account, each with two extensions behind the 166 bytes of its base state.\<close>

definition sample_mint_exts :: "(u16 \<times> bytes) list" where
  "sample_mint_exts = [(ExtNonTransferable, []), (ExtDefaultAccountState, [2])]"

definition sample_account_exts :: "(u16 \<times> bytes) list" where
  "sample_account_exts = [(ExtImmutableOwner, []), (ExtMemoTransfer, [1])]"

definition extended :: "(u16 \<times> bytes) list \<Rightarrow> bytes" where
  "extended es = replicate 166 0 @ concat (map tlv es)"

lemma extended_parse:
  "parseTLV (drop 166 (extended sample_mint_exts)) = sample_mint_exts"
  "parseTLV (drop 166 (extended sample_account_exts)) = sample_account_exts"
  using parse_tlv_list [of sample_mint_exts "[]" "[]"] parse_tlv_list [of sample_account_exts "[]" "[]"]
  by (simp_all add: parseTLV_def extended_def tlv_ok_def tlv_stop_def sample_mint_exts_def sample_account_exts_def ext_defs)

lemma extended_length:
  "166 < length (extended sample_mint_exts)" "166 < length (extended sample_account_exts)"
  by (simp_all add: extended_def sample_mint_exts_def sample_account_exts_def tlv_def)

theorem token2022_order_independent_witness:
  "rev sample_mint_exts \<noteq> sample_mint_exts \<and> rev sample_account_exts \<noteq> sample_account_exts \<and>
   (\<exists>base. token2022_DecodeMintState rev (extended sample_mint_exts) =
      Inr (base, no_mint_extensions\<lparr>NonTransferable := True, DefaultState := Some 2\<rparr>)) \<and>
   (\<exists>base. token2022_DecodeAccount rev (extended sample_account_exts) =
      Inr (base, no_account_extensions\<lparr>ImmutableOwner := True, MemoTransfer := Some True\<rparr>))"
proof -
  have order: "token2022_DecodeMintState rev d = token2022_DecodeMintState (\<lambda>xs. xs) d"
    "token2022_DecodeAccount rev d = token2022_DecodeAccount (\<lambda>xs. xs) d" for d
    using token2022_order_independent [of rev d] by simp_all
  obtain m a where "DecodeMintState (extended sample_mint_exts) = Inr m" "DecodeAccountState (extended sample_account_exts) = Inr a"
    using DecodeMintState_layout [of "extended sample_mint_exts"] DecodeAccountState_layout [of "extended sample_account_exts"]
      extended_length by simp
  then show ?thesis
    unfolding order using extended_length
    by (simp add: token2022_DecodeMintState_def token2022_DecodeAccount_def extended_parse)
      (simp add: sample_mint_exts_def sample_account_exts_def decodeMintExt_def decodeAccountExt_def ext_defs
        no_mint_extensions_def no_account_extensions_def)
qed

end
