(* ===== verification/Pda.thy ===== *)
theory Pda
  imports Primitives
begin

text \<open>
  Program-derived addresses (\<open>pda.go\<close>) and the Anchor discriminators
  (\<open>anchor/anchor.go\<close>).  The hash function \<open>sha256\<close> of the standard library and the
  point decoding of \<open>filippo.io/edwards25519\<close> are parameters: a function from bytes to the
  digest and the predicate that \<open>Point.SetBytes\<close> accepts a 32-byte string.
\<close>

type_synonym hash_fn = "bytes \<Rightarrow> bytes"
type_synonym point_check = "bytes \<Rightarrow> bool"

text \<open>\<open>copy(dst[:], src)\<close> into a fresh array of \<open>n\<close> zero bytes.\<close>

definition copy_array :: "nat \<Rightarrow> bytes \<Rightarrow> bytes" where
  "copy_array n src = take n src @ drop (length src) (zero_array n)"

definition string_bytes :: "string \<Rightarrow> bytes" where
  "string_bytes s = map (\<lambda>c. of_nat (of_char c)) s"

definition MaxPDASeeds :: nat where "MaxPDASeeds = 16"
definition MaxPDASeedLength :: nat where "MaxPDASeedLength = 32"

definition pdaMarker :: bytes where
  "pdaMarker = string_bytes ''ProgramDerivedAddress''"

definition isOnCurve :: "point_check \<Rightarrow> bytes \<Rightarrow> bool" where
  "isOnCurve point data \<longleftrightarrow> (if length data \<noteq> PublicKeySize then False else point data)"

text \<open>The loop over the seeds: the input written to the hasher so far is the accumulator.\<close>

fun hash_seeds :: "nat \<Rightarrow> bytes list \<Rightarrow> bytes \<Rightarrow> bytes result" where
  "hash_seeds i [] h = Inr h"
| "hash_seeds i (seed # seeds) h =
     (if length seed > MaxPDASeedLength
      then Inl (Errorf ''solana: CreateProgramAddress: seed %d is %d bytes, max %d''
             [int i, int (length seed), int MaxPDASeedLength])
      else hash_seeds (Suc i) seeds (h @ seed))"

definition CreateProgramAddress ::
    "hash_fn \<Rightarrow> point_check \<Rightarrow> bytes list \<Rightarrow> PublicKey \<Rightarrow> PublicKey result" where
  "CreateProgramAddress sha256 point seeds programID =
     (if length seeds > MaxPDASeeds
      then Inl (Errorf ''solana: CreateProgramAddress: max %d seeds, got %d'' [int MaxPDASeeds, int (length seeds)])
      else
        res_bind (hash_seeds 0 seeds []) (\<lambda>h.
        let pk = copy_array PublicKeySize (sha256 (h @ programID @ pdaMarker)) in
        if isOnCurve point pk
        then Inl (Errorf ''solana: CreateProgramAddress: invalid seeds, produced on-curve point'' [])
        else Inr pk))"

text \<open>\<open>for bump := 255; bump >= 0; bump--\<close>: the argument is one more than the next bump.\<close>

fun find_bump ::
    "hash_fn \<Rightarrow> point_check \<Rightarrow> bytes list \<Rightarrow> PublicKey \<Rightarrow> nat \<Rightarrow> (PublicKey \<times> u8) result" where
  "find_bump sha256 point seeds programID 0 =
     Inl (Errorf ''solana: FindProgramAddress: no off-curve PDA found for any bump (statistically impossible)'' [])"
| "find_bump sha256 point seeds programID (Suc bump) =
     (case CreateProgramAddress sha256 point (seeds @ [[of_nat bump]]) programID of
        Inr pk \<Rightarrow> Inr (pk, of_nat bump)
      | Inl err \<Rightarrow> find_bump sha256 point seeds programID bump)"

definition FindProgramAddress ::
    "hash_fn \<Rightarrow> point_check \<Rightarrow> bytes list \<Rightarrow> PublicKey \<Rightarrow> (PublicKey \<times> u8) result" where
  "FindProgramAddress sha256 point seeds programID =
     (if length seeds \<ge> MaxPDASeeds
      then Inl (Errorf ''solana: FindProgramAddress: seeds would exceed max after adding bump'' [])
      else find_bump sha256 point seeds programID 256)"

definition Sighash :: "hash_fn \<Rightarrow> string \<Rightarrow> string \<Rightarrow> bytes" where
  "Sighash sha256 namespace name =
     copy_array 8 (take 8 (sha256 (string_bytes namespace @ string_bytes '':'' @ string_bytes name)))"

definition MethodDisc :: "hash_fn \<Rightarrow> string \<Rightarrow> bytes" where
  "MethodDisc sha256 name = Sighash sha256 ''global'' name"

definition AccountDisc :: "hash_fn \<Rightarrow> string \<Rightarrow> bytes" where
  "AccountDisc sha256 name = Sighash sha256 ''account'' name"

section \<open>Laws\<close>

lemma length_copy_array [simp]: "length (copy_array n b) = n"
  by (simp add: copy_array_def)

lemma hash_seeds_law:
  "hash_seeds i seeds h = Inr h' \<longleftrightarrow> list_all (\<lambda>s. length s \<le> MaxPDASeedLength) seeds \<and> h' = h @ concat seeds"
  by (induction i seeds h rule: hash_seeds.induct) auto

text \<open>The address that seeds hash to, and when the derivation accepts it.\<close>

definition pda_digest :: "hash_fn \<Rightarrow> bytes list \<Rightarrow> PublicKey \<Rightarrow> PublicKey" where
  "pda_digest sha256 seeds programID = copy_array PublicKeySize (sha256 (concat seeds @ programID @ pdaMarker))"

definition seeds_ok :: "bytes list \<Rightarrow> bool" where
  "seeds_ok seeds \<longleftrightarrow> length seeds \<le> MaxPDASeeds \<and> list_all (\<lambda>s. length s \<le> MaxPDASeedLength) seeds"

lemma CreateProgramAddress_law:
  "CreateProgramAddress sha256 point seeds pid = Inr pk \<longleftrightarrow>
     seeds_ok seeds \<and> \<not> point pk \<and> pk = pda_digest sha256 seeds pid"
  by (auto simp: CreateProgramAddress_def res_bind_Inr_iff hash_seeds_law seeds_ok_def pda_digest_def
      isOnCurve_def Let_def)

lemma CreateProgramAddress_error:
  "(\<exists>e. CreateProgramAddress sha256 point seeds pid = Inl e) \<longleftrightarrow>
     \<not> seeds_ok seeds \<or> point (pda_digest sha256 seeds pid)"
  by (metis CreateProgramAddress_law Inl_Inr_False old.sum.exhaust)

lemma find_bump_law:
  assumes "n \<le> 256"
  shows "find_bump sha256 point seeds pid n = Inr (pk, b) \<longleftrightarrow>
    unat b < n \<and> CreateProgramAddress sha256 point (seeds @ [[b]]) pid = Inr pk \<and>
    (\<forall>b'. unat b < unat b' \<and> unat b' < n \<longrightarrow> (\<exists>e. CreateProgramAddress sha256 point (seeds @ [[b']]) pid = Inl e))"
  using assms
proof (induction n)
  case (Suc n)
  let ?C = "\<lambda>b. CreateProgramAddress sha256 point (seeds @ [[b]]) pid"
  have n: "unat (of_nat n :: byte) = n" using Suc.prems by (simp add: unat_of_nat)
  have last: "unat b' < Suc n \<longleftrightarrow> unat b' < n \<or> b' = of_nat n" for b' :: byte
    using n by (metis less_Suc_eq word_unat_eq_iff)
  show ?case
  proof (cases "?C (of_nat n)")
    case (Inl e)
    with Suc n show ?thesis unfolding last by (auto simp del: of_nat_Suc)
  next
    case (Inr pk')
    with n show ?thesis
      unfolding last by (auto simp del: of_nat_Suc) (metis Inl_Inr_False less_irrefl)+
  qed
qed simp

lemma find_bump_total:
  assumes "n \<le> 256"
  shows "(\<exists>r. find_bump sha256 point seeds pid n = Inr r) \<longleftrightarrow>
    (\<exists>b. unat b < n \<and> (\<exists>pk. CreateProgramAddress sha256 point (seeds @ [[b]]) pid = Inr pk))"
  using assms
proof (induction n)
  case (Suc n)
  have n: "unat (of_nat n :: byte) = n" using Suc.prems by (simp add: unat_of_nat)
  have last: "unat b' < Suc n \<longleftrightarrow> unat b' < n \<or> b' = of_nat n" for b' :: byte
    using n by (metis less_Suc_eq word_unat_eq_iff)
  with Suc show ?case by (auto split: sum.splits)
qed simp

lemma unat_byte_256: "unat (b :: byte) < 256"
  using unsigned_less [where ?'a = nat, of b] by simp

section \<open>Properties\<close>

text \<open>
  C37: \<open>FindProgramAddress\<close> returns exactly the canonical address: the digest of the seeds
  with the largest bump byte that lands off the curve, every larger bump hashing to a curve point,
  for fewer than 16 seeds of at most 32 bytes each.
\<close>

theorem FindProgramAddress_largest_bump:
  "FindProgramAddress sha256 point seeds pid = Inr (pk, b) \<longleftrightarrow>
     length seeds < MaxPDASeeds \<and> list_all (\<lambda>s. length s \<le> MaxPDASeedLength) seeds \<and>
     pk = pda_digest sha256 (seeds @ [[b]]) pid \<and> \<not> point pk \<and>
     (\<forall>b'. b < b' \<longrightarrow> point (pda_digest sha256 (seeds @ [[b']]) pid))"
  unfolding FindProgramAddress_def
  by (auto simp: find_bump_law CreateProgramAddress_law CreateProgramAddress_error seeds_ok_def unat_byte_256
      word_less_nat_alt MaxPDASeedLength_def)

text \<open>
  The search fails exactly when there is no room for the bump, a seed is too long, or all
  256 bumps hash to a curve point.  (The comment names the last case only; a seed of more than
  32 bytes is reported with the message of that case.)
\<close>

theorem FindProgramAddress_error_iff:
  "(\<exists>e. FindProgramAddress sha256 point seeds pid = Inl e) \<longleftrightarrow>
     MaxPDASeeds \<le> length seeds \<or> (\<exists>s \<in> set seeds. MaxPDASeedLength < length s) \<or>
     (\<forall>b. point (pda_digest sha256 (seeds @ [[b]]) pid))"
proof (cases "length seeds < MaxPDASeeds")
  case True
  have "(\<exists>e. find_bump sha256 point seeds pid 256 = Inl e) \<longleftrightarrow> \<not> (\<exists>r. find_bump sha256 point seeds pid 256 = Inr r)"
    by (cases "find_bump sha256 point seeds pid 256") auto
  also have "\<dots> \<longleftrightarrow> (\<forall>b. \<not> seeds_ok (seeds @ [[b]]) \<or> point (pda_digest sha256 (seeds @ [[b]]) pid))"
    unfolding find_bump_total [OF order_refl] CreateProgramAddress_law using unat_byte_256 by blast
  finally show ?thesis
    using True by (fastforce simp: FindProgramAddress_def seeds_ok_def MaxPDASeedLength_def list_all_iff not_less)
qed (simp add: FindProgramAddress_def)

text \<open>
  A digest that starts with the bump byte, and a curve that holds exactly the points starting
  with 255: the search skips bump 255 and stops at 254.
\<close>

theorem FindProgramAddress_largest_bump_witness:
  "FindProgramAddress (take 32) (\<lambda>d. d ! 0 = 255) [] (replicate 32 1) = Inr (254 # replicate 31 1, 254)"
proof -
  have "b < b' \<Longrightarrow> b' = 255" if "b = (254 :: byte)" for b b'
  proof -
    assume "b < b'"
    with that have "254 < unat b'" by (simp add: word_less_nat_alt)
    with unat_byte_256 [of b'] have "unat b' = 255" by simp
    then show "b' = 255" by (simp add: word_unat_eq_iff)
  qed
  then show ?thesis
    unfolding FindProgramAddress_largest_bump
    by (auto simp: pda_digest_def copy_array_def MaxPDASeeds_def PublicKeySize_def zero_array_def
        take_Cons' nth_append)
qed

theorem FindProgramAddress_error_iff_witness:
  "\<exists>e. FindProgramAddress (take 32) (\<lambda>d. False) [replicate 33 0] (replicate 32 1) = Inl e"
  unfolding FindProgramAddress_error_iff by (simp add: MaxPDASeedLength_def)

end
