(* ===== verification/Programs.thy ===== *)
theory Programs
  imports Pda Reader Message_Builder
begin

text \<open>
  Typed instruction builders of the packages under \<open>programs/\<close> for the system,
  compute-budget, memo, associated-token-account and address-lookup-table programs, and
  the well-known keys of \<open>constants.go\<close> and the \<open>program.go\<close> files.

  The well-known keys are Go package variables, initialised by \<open>MustPublicKey\<close> from
  base58 strings.  They are the fields of the record \<open>well_known\<close>, the first argument of
  the builders that read them; \<open>package_init\<close> is their initialisation, which panics
  (\<open>None\<close>) when a string does not decode to 32 bytes.
\<close>

section \<open>Package variables\<close>

definition LAMPORTS_PER_SOL :: u64 where "LAMPORTS_PER_SOL = 1000000000"

text \<open>The variables of \<open>constants.go\<close>.\<close>

record solana_vars =
  SystemProgramID :: PublicKey
  TokenProgramID :: PublicKey
  Token2022ProgramID :: PublicKey
  AssociatedTokenProgramID :: PublicKey
  ComputeBudgetProgramID :: PublicKey
  SysvarRentPubkey :: PublicKey
  SysvarClockPubkey :: PublicKey
  SysvarRecentBlockhashesPubkey :: PublicKey
  SysvarSlotHashesPubkey :: PublicKey
  SysvarSlotHistoryPubkey :: PublicKey
  SysvarStakeHistoryPubkey :: PublicKey
  SysvarEpochSchedulePubkey :: PublicKey
  SysvarInstructionsPubkey :: PublicKey
  SysvarEpochRewardsPubkey :: PublicKey

text \<open>The \<open>ProgramID\<close> of each program package, and the addresses of the stake package.\<close>

record well_known = solana_vars +
  token_ProgramID :: PublicKey
  token2022_ProgramID :: PublicKey
  ata_ProgramID :: PublicKey
  computebudget_ProgramID :: PublicKey
  memo_ProgramID :: PublicKey
  alt_ProgramID :: PublicKey
  stake_ProgramID :: PublicKey
  vote_ProgramID :: PublicKey
  ed25519_ProgramID :: PublicKey
  secp256k1_ProgramID :: PublicKey
  stake_sysvarRent :: PublicKey
  stake_sysvarClock :: PublicKey
  sysvarStakeHistory :: PublicKey
  stakeConfig :: PublicKey

text \<open>\<open>system.ProgramID\<close> is the zero value \<open>solana.PublicKey{}\<close>.\<close>

definition system_ProgramID :: PublicKey where
  "system_ProgramID = zero_array PublicKeySize"

definition solana_addresses :: "string list" where
  "solana_addresses =
     [''11111111111111111111111111111111'', ''TokenkegQfeZyiNwAJbNbGKPFXCWuBvf9Ss623VQ5DA'',
      ''TokenzQdBNbLqP5VEhdkAS6EPFLC1PHnBqCXEpPxuEb'', ''ATokenGPvbdGVxr1b2hvZbsiqW5xWH25efTNsLJe1bRS'',
      ''ComputeBudget111111111111111111111111111111'', ''SysvarRent111111111111111111111111111111111'',
      ''SysvarC1ock11111111111111111111111111111111'', ''SysvarRecentB1ockHashes11111111111111111111'',
      ''SysvarS1otHashes111111111111111111111111111'', ''SysvarS1otHistory11111111111111111111111111'',
      ''SysvarStakeHistory1111111111111111111111111'', ''SysvarEpochSchedu1e111111111111111111111111'',
      ''Sysvar1nstructions1111111111111111111111111'', ''SysvarEpochRewards1111111111111111111111111'']"

definition program_addresses :: "string list" where
  "program_addresses =
     [''TokenkegQfeZyiNwAJbNbGKPFXCWuBvf9Ss623VQ5DA'', ''TokenzQdBNbLqP5VEhdkAS6EPFLC1PHnBqCXEpPxuEb'',
      ''ATokenGPvbdGVxr1b2hvZbsiqW5xWH25efTNsLJA8knL'', ''ComputeBudget111111111111111111111111111111'',
      ''MemoSq4gqABAXKb96qnH8TysNcWxMyWCqXgDLGmfcHr'', ''AddressLookupTab1e1111111111111111111111111'',
      ''Stake11111111111111111111111111111111111111'', ''Vote11111111111111111111111111111111111111h'',
      ''Ed25519SigVerify111111111111111111111111111'', ''KeccakSecp256k11111111111111111111111111111'']"

definition stake_addresses :: "string list" where
  "stake_addresses =
     [''SysvarRent111111111111111111111111111111111'', ''SysvarC1ock11111111111111111111111111111111'',
      ''SysvarStakeHistory1111111111111111111111111'', ''StakeConfig11111111111111111111111111111111'']"

definition package_init :: "b58decoder \<Rightarrow> well_known option" where
  "package_init b58dec =
     (case those (map (MustPublicKey b58dec) (solana_addresses @ program_addresses @ stake_addresses)) of
        Some [sys, tok, tok22, ata, cb, rent, clock, rbh, sha, shi, sth, es, ins, er,
              ptok, ptok22, pata, pcb, memo, alt, stk, vte, ed, secp, srent, sclock, shist, sc] \<Rightarrow>
          Some \<lparr>SystemProgramID = sys, TokenProgramID = tok, Token2022ProgramID = tok22,
            AssociatedTokenProgramID = ata, ComputeBudgetProgramID = cb, SysvarRentPubkey = rent,
            SysvarClockPubkey = clock, SysvarRecentBlockhashesPubkey = rbh, SysvarSlotHashesPubkey = sha,
            SysvarSlotHistoryPubkey = shi, SysvarStakeHistoryPubkey = sth, SysvarEpochSchedulePubkey = es,
            SysvarInstructionsPubkey = ins, SysvarEpochRewardsPubkey = er, token_ProgramID = ptok,
            token2022_ProgramID = ptok22, ata_ProgramID = pata, computebudget_ProgramID = pcb,
            memo_ProgramID = memo, alt_ProgramID = alt, stake_ProgramID = stk, vote_ProgramID = vte,
            ed25519_ProgramID = ed, secp256k1_ProgramID = secp, stake_sysvarRent = srent,
            stake_sysvarClock = sclock, sysvarStakeHistory = shist, stakeConfig = sc\<rparr>
      | _ \<Rightarrow> None)"

section \<open>System program\<close>

definition system_tagCreateAccount :: u32 where "system_tagCreateAccount = 0"
definition system_tagAssign :: u32 where "system_tagAssign = 1"
definition system_tagTransfer :: u32 where "system_tagTransfer = 2"
definition system_tagCreateAccountWithSeed :: u32 where "system_tagCreateAccountWithSeed = 3"
definition system_tagAdvanceNonceAccount :: u32 where "system_tagAdvanceNonceAccount = 4"
definition system_tagWithdrawNonceAccount :: u32 where "system_tagWithdrawNonceAccount = 5"
definition system_tagInitializeNonceAccount :: u32 where "system_tagInitializeNonceAccount = 6"
definition system_tagAuthorizeNonceAccount :: u32 where "system_tagAuthorizeNonceAccount = 7"
definition system_tagAllocate :: u32 where "system_tagAllocate = 8"
definition system_tagTransferWithSeed :: u32 where "system_tagTransferWithSeed = 11"

definition system_NewTransfer :: "PublicKey \<Rightarrow> PublicKey \<Rightarrow> u64 \<Rightarrow> Instruction" where
  "system_NewTransfer src dst lamports =
     NewInstruction system_ProgramID
       (map Some [NewAccountMeta src True True, NewAccountMeta dst False True])
       (enc_Bytes (chain [U32 system_tagTransfer, U64 lamports] (NewEncoder 12)))"

definition system_NewCreateAccount :: "PublicKey \<Rightarrow> PublicKey \<Rightarrow> u64 \<Rightarrow> u64 \<Rightarrow> PublicKey \<Rightarrow> Instruction" where
  "system_NewCreateAccount src newAccount lamports space owner =
     NewInstruction system_ProgramID
       (map Some [NewAccountMeta src True True, NewAccountMeta newAccount True True])
       (enc_Bytes (chain [U32 system_tagCreateAccount, U64 lamports, U64 space, Raw owner] (NewEncoder 52)))"

definition system_NewAssign :: "PublicKey \<Rightarrow> PublicKey \<Rightarrow> Instruction" where
  "system_NewAssign account owner =
     NewInstruction system_ProgramID
       (map Some [NewAccountMeta account True True])
       (enc_Bytes (chain [U32 system_tagAssign, Raw owner] (NewEncoder 36)))"

definition system_NewAllocate :: "PublicKey \<Rightarrow> u64 \<Rightarrow> Instruction" where
  "system_NewAllocate account space =
     NewInstruction system_ProgramID
       (map Some [NewAccountMeta account True True])
       (enc_Bytes (chain [U32 system_tagAllocate, U64 space] (NewEncoder 12)))"

definition system_NewAdvanceNonceAccount :: "well_known \<Rightarrow> PublicKey \<Rightarrow> PublicKey \<Rightarrow> Instruction" where
  "system_NewAdvanceNonceAccount wk nonce authority =
     NewInstruction system_ProgramID
       (map Some [NewAccountMeta nonce False True, NewAccountMeta (SysvarRecentBlockhashesPubkey wk) False False,
          NewAccountMeta authority True False])
       (enc_Bytes (chain [U32 system_tagAdvanceNonceAccount] (NewEncoder 4)))"

definition system_NewWithdrawNonceAccount ::
    "well_known \<Rightarrow> PublicKey \<Rightarrow> PublicKey \<Rightarrow> PublicKey \<Rightarrow> u64 \<Rightarrow> Instruction" where
  "system_NewWithdrawNonceAccount wk nonce authority dst lamports =
     NewInstruction system_ProgramID
       (map Some [NewAccountMeta nonce False True, NewAccountMeta dst False True,
          NewAccountMeta (SysvarRecentBlockhashesPubkey wk) False False,
          NewAccountMeta (SysvarRentPubkey wk) False False, NewAccountMeta authority True False])
       (enc_Bytes (chain [U32 system_tagWithdrawNonceAccount, U64 lamports] (NewEncoder 12)))"

definition system_NewInitializeNonceAccount :: "well_known \<Rightarrow> PublicKey \<Rightarrow> PublicKey \<Rightarrow> Instruction" where
  "system_NewInitializeNonceAccount wk nonce authority =
     NewInstruction system_ProgramID
       (map Some [NewAccountMeta nonce False True, NewAccountMeta (SysvarRecentBlockhashesPubkey wk) False False,
          NewAccountMeta (SysvarRentPubkey wk) False False])
       (enc_Bytes (chain [U32 system_tagInitializeNonceAccount, Raw authority] (NewEncoder 36)))"

definition system_NewAuthorizeNonceAccount :: "PublicKey \<Rightarrow> PublicKey \<Rightarrow> PublicKey \<Rightarrow> Instruction" where
  "system_NewAuthorizeNonceAccount nonce authority newAuthority =
     NewInstruction system_ProgramID
       (map Some [NewAccountMeta nonce False True, NewAccountMeta authority True False])
       (enc_Bytes (chain [U32 system_tagAuthorizeNonceAccount, Raw newAuthority] (NewEncoder 36)))"

definition system_NewCreateAccountWithSeed ::
    "PublicKey \<Rightarrow> PublicKey \<Rightarrow> PublicKey \<Rightarrow> bytes \<Rightarrow> u64 \<Rightarrow> u64 \<Rightarrow> PublicKey \<Rightarrow> Instruction" where
  "system_NewCreateAccountWithSeed src newAccount base seed lamports space owner =
     (let data = enc_Bytes (chain [U32 system_tagCreateAccountWithSeed, Raw base, enc_StrU64 seed, U64 lamports,
                   U64 space, Raw owner]
                   (NewEncoder (4 + PublicKeySize + 8 + length seed + 8 + 8 + PublicKeySize)));
          accounts = [NewAccountMeta src True True, NewAccountMeta newAccount False True];
          accounts = (if base \<noteq> src then accounts @ [NewAccountMeta base True False] else accounts)
      in NewInstruction system_ProgramID (map Some accounts) data)"

definition system_NewTransferWithSeed ::
    "PublicKey \<Rightarrow> PublicKey \<Rightarrow> PublicKey \<Rightarrow> u64 \<Rightarrow> bytes \<Rightarrow> PublicKey \<Rightarrow> Instruction" where
  "system_NewTransferWithSeed src base dst lamports seed programID =
     NewInstruction system_ProgramID
       (map Some [NewAccountMeta src False True, NewAccountMeta base True False, NewAccountMeta dst False True])
       (enc_Bytes (chain [U32 system_tagTransferWithSeed, U64 lamports, enc_StrU64 seed, Raw programID]
          (NewEncoder (4 + 8 + 8 + length seed + PublicKeySize))))"

section \<open>Compute budget and memo\<close>

definition tagRequestHeapFrame :: u8 where "tagRequestHeapFrame = 1"
definition tagSetComputeUnitLimit :: u8 where "tagSetComputeUnitLimit = 2"
definition tagSetComputeUnitPrice :: u8 where "tagSetComputeUnitPrice = 3"

definition NewSetComputeUnitLimit :: "well_known \<Rightarrow> u32 \<Rightarrow> Instruction" where
  "NewSetComputeUnitLimit wk units = NewInstruction (computebudget_ProgramID wk) []
     (enc_Bytes (chain [U8 tagSetComputeUnitLimit, U32 units] (NewEncoder 5)))"

definition NewSetComputeUnitPrice :: "well_known \<Rightarrow> u64 \<Rightarrow> Instruction" where
  "NewSetComputeUnitPrice wk microLamports = NewInstruction (computebudget_ProgramID wk) []
     (enc_Bytes (chain [U8 tagSetComputeUnitPrice, U64 microLamports] (NewEncoder 9)))"

definition NewRequestHeapFrame :: "well_known \<Rightarrow> u32 \<Rightarrow> Instruction" where
  "NewRequestHeapFrame wk n = NewInstruction (computebudget_ProgramID wk) []
     (enc_Bytes (chain [U8 tagRequestHeapFrame, U32 n] (NewEncoder 5)))"

definition memo_Log :: "well_known \<Rightarrow> bytes \<Rightarrow> AccountMeta option list \<Rightarrow> Instruction" where
  "memo_Log wk memo signers = NewInstruction (memo_ProgramID wk) signers memo"

section \<open>Associated token accounts\<close>

definition FindAssociatedTokenAddress ::
    "hash_fn \<Rightarrow> point_check \<Rightarrow> well_known \<Rightarrow> PublicKey \<Rightarrow> PublicKey \<Rightarrow> PublicKey \<Rightarrow> (PublicKey \<times> u8) result" where
  "FindAssociatedTokenAddress sha256 point wk wallet mint tokenProgram =
     FindProgramAddress sha256 point [wallet, tokenProgram, mint] (ata_ProgramID wk)"

definition buildAccountMetas ::
    "hash_fn \<Rightarrow> point_check \<Rightarrow> well_known \<Rightarrow> PublicKey \<Rightarrow> PublicKey \<Rightarrow> PublicKey \<Rightarrow> PublicKey \<Rightarrow>
     AccountMeta option list result" where
  "buildAccountMetas sha256 point wk payer wallet mint tokenProgram =
     res_bind (FindAssociatedTokenAddress sha256 point wk wallet mint tokenProgram) (\<lambda>(ata, _).
     Inr (map Some [NewAccountMeta payer True True, NewAccountMeta ata False True,
       NewAccountMeta wallet False False, NewAccountMeta mint False False,
       NewAccountMeta system_ProgramID False False, NewAccountMeta tokenProgram False False]))"

definition ata_NewCreate ::
    "hash_fn \<Rightarrow> point_check \<Rightarrow> well_known \<Rightarrow> PublicKey \<Rightarrow> PublicKey \<Rightarrow> PublicKey \<Rightarrow> PublicKey \<Rightarrow> Instruction result" where
  "ata_NewCreate sha256 point wk payer wallet mint tokenProgram =
     res_bind (buildAccountMetas sha256 point wk payer wallet mint tokenProgram) (\<lambda>accs.
     Inr (NewInstruction (ata_ProgramID wk) accs []))"

definition ata_NewCreateIdempotent ::
    "hash_fn \<Rightarrow> point_check \<Rightarrow> well_known \<Rightarrow> PublicKey \<Rightarrow> PublicKey \<Rightarrow> PublicKey \<Rightarrow> PublicKey \<Rightarrow> Instruction result" where
  "ata_NewCreateIdempotent sha256 point wk payer wallet mint tokenProgram =
     res_bind (buildAccountMetas sha256 point wk payer wallet mint tokenProgram) (\<lambda>accs.
     Inr (NewInstruction (ata_ProgramID wk) accs [1]))"

section \<open>Address lookup tables\<close>

definition tagCreateLookupTable :: u32 where "tagCreateLookupTable = 0"
definition tagFreezeLookupTable :: u32 where "tagFreezeLookupTable = 1"
definition tagExtendLookupTable :: u32 where "tagExtendLookupTable = 2"
definition tagDeactivateLookupTable :: u32 where "tagDeactivateLookupTable = 3"
definition tagCloseLookupTable :: u32 where "tagCloseLookupTable = 4"

definition DeriveLookupTableAddress ::
    "hash_fn \<Rightarrow> point_check \<Rightarrow> well_known \<Rightarrow> PublicKey \<Rightarrow> u64 \<Rightarrow> (PublicKey \<times> u8) result" where
  "DeriveLookupTableAddress sha256 point wk authority recentSlot =
     FindProgramAddress sha256 point [authority, le_bytes 8 recentSlot] (alt_ProgramID wk)"

definition NewCreateLookupTable ::
    "hash_fn \<Rightarrow> point_check \<Rightarrow> well_known \<Rightarrow> PublicKey \<Rightarrow> PublicKey \<Rightarrow> u64 \<Rightarrow> (Instruction \<times> PublicKey) result" where
  "NewCreateLookupTable sha256 point wk authority payer recentSlot =
     (case DeriveLookupTableAddress sha256 point wk authority recentSlot of
        Inl err \<Rightarrow> Inl (Wrapf ''alt: CreateLookupTable: derive address: %w'' [] err)
      | Inr (table, bump) \<Rightarrow>
          Inr (NewInstruction (alt_ProgramID wk)
                 (map Some [NewAccountMeta table False True, NewAccountMeta authority True False,
                    NewAccountMeta payer True True, NewAccountMeta system_ProgramID False False])
                 (enc_Bytes (chain [U32 tagCreateLookupTable, U64 recentSlot, U8 bump] (NewEncoder 13))),
               table))"

definition NewFreezeLookupTable :: "well_known \<Rightarrow> PublicKey \<Rightarrow> PublicKey \<Rightarrow> Instruction" where
  "NewFreezeLookupTable wk lookupTable authority =
     NewInstruction (alt_ProgramID wk)
       (map Some [NewAccountMeta lookupTable False True, NewAccountMeta authority True False])
       (enc_Bytes (chain [U32 tagFreezeLookupTable] (NewEncoder 4)))"

definition NewExtendLookupTable ::
    "well_known \<Rightarrow> PublicKey \<Rightarrow> PublicKey \<Rightarrow> PublicKey \<Rightarrow> PublicKey list \<Rightarrow> Instruction" where
  "NewExtendLookupTable wk lookupTable authority payer newAddresses =
     (let e = chain [U32 tagExtendLookupTable, U64 (of_nat (length newAddresses))]
                (NewEncoder (4 + 8 + PublicKeySize * length newAddresses));
          e = fold Raw newAddresses e
      in NewInstruction (alt_ProgramID wk)
           (map Some [NewAccountMeta lookupTable False True, NewAccountMeta authority True False,
              NewAccountMeta payer True True, NewAccountMeta system_ProgramID False False])
           (enc_Bytes e))"

definition NewDeactivateLookupTable :: "well_known \<Rightarrow> PublicKey \<Rightarrow> PublicKey \<Rightarrow> Instruction" where
  "NewDeactivateLookupTable wk lookupTable authority =
     NewInstruction (alt_ProgramID wk)
       (map Some [NewAccountMeta lookupTable False True, NewAccountMeta authority True False])
       (enc_Bytes (chain [U32 tagDeactivateLookupTable] (NewEncoder 4)))"

definition NewCloseLookupTable :: "well_known \<Rightarrow> PublicKey \<Rightarrow> PublicKey \<Rightarrow> PublicKey \<Rightarrow> Instruction" where
  "NewCloseLookupTable wk lookupTable authority recipient =
     NewInstruction (alt_ProgramID wk)
       (map Some [NewAccountMeta lookupTable False True, NewAccountMeta authority True False,
          NewAccountMeta recipient False True])
       (enc_Bytes (chain [U32 tagCloseLookupTable] (NewEncoder 4)))"

end
