(* ===== verification/Token_Programs.thy ===== *)
theory Token_Programs
  imports Programs
begin

text \<open>
  The instruction builders of \<open>programs/token/instructions.go\<close> and
  \<open>programs/token2022/instructions.go\<close>.
\<close>

section \<open>SPL Token\<close>

definition tok_tagInitializeMint :: u8 where "tok_tagInitializeMint = 0"
definition tok_tagInitializeAccount :: u8 where "tok_tagInitializeAccount = 1"
definition tok_tagInitializeMultisig :: u8 where "tok_tagInitializeMultisig = 2"
definition tok_tagTransfer :: u8 where "tok_tagTransfer = 3"
definition tok_tagApprove :: u8 where "tok_tagApprove = 4"
definition tok_tagRevoke :: u8 where "tok_tagRevoke = 5"
definition tok_tagSetAuthority :: u8 where "tok_tagSetAuthority = 6"
definition tok_tagMintTo :: u8 where "tok_tagMintTo = 7"
definition tok_tagBurn :: u8 where "tok_tagBurn = 8"
definition tok_tagCloseAccount :: u8 where "tok_tagCloseAccount = 9"
definition tok_tagFreezeAccount :: u8 where "tok_tagFreezeAccount = 10"
definition tok_tagThawAccount :: u8 where "tok_tagThawAccount = 11"
definition tok_tagTransferChecked :: u8 where "tok_tagTransferChecked = 12"
definition tok_tagApproveChecked :: u8 where "tok_tagApproveChecked = 13"
definition tok_tagMintToChecked :: u8 where "tok_tagMintToChecked = 14"
definition tok_tagBurnChecked :: u8 where "tok_tagBurnChecked = 15"
definition tok_tagSyncNative :: u8 where "tok_tagSyncNative = 17"
definition tok_tagInitializeAccount3 :: u8 where "tok_tagInitializeAccount3 = 18"
definition tok_tagInitializeMint2 :: u8 where "tok_tagInitializeMint2 = 20"

text \<open>\<open>AuthorityType\<close> is a byte with four named values.\<close>

type_synonym AuthorityType = u8

definition AuthorityMintTokens :: AuthorityType where "AuthorityMintTokens = 0"
definition AuthorityFreezeAccount :: AuthorityType where "AuthorityFreezeAccount = 1"
definition AuthorityAccountOwner :: AuthorityType where "AuthorityAccountOwner = 2"
definition AuthorityCloseAccount :: AuthorityType where "AuthorityCloseAccount = 3"

definition initMintData :: "u8 \<Rightarrow> u8 \<Rightarrow> PublicKey \<Rightarrow> PublicKey option \<Rightarrow> bytes" where
  "initMintData tag decimals mintAuthority freezeAuthority =
     (let capacity = 1 + 1 + PublicKeySize + 1;
          capacity = (if freezeAuthority \<noteq> None then capacity + PublicKeySize else capacity);
          e = chain [U8 tag, U8 decimals, Raw mintAuthority] (NewEncoder capacity);
          e = (case freezeAuthority of Some fa \<Rightarrow> chain [U8 1, Raw fa] e | None \<Rightarrow> U8 0 e)
      in enc_Bytes e)"

definition token_NewInitializeMint ::
    "well_known \<Rightarrow> PublicKey \<Rightarrow> u8 \<Rightarrow> PublicKey \<Rightarrow> PublicKey option \<Rightarrow> Instruction" where
  "token_NewInitializeMint wk mint decimals mintAuthority freezeAuthority =
     NewInstruction (token_ProgramID wk)
       (map Some [NewAccountMeta mint False True, NewAccountMeta (SysvarRentPubkey wk) False False])
       (initMintData tok_tagInitializeMint decimals mintAuthority freezeAuthority)"

definition token_NewInitializeAccount ::
    "well_known \<Rightarrow> PublicKey \<Rightarrow> PublicKey \<Rightarrow> PublicKey \<Rightarrow> Instruction" where
  "token_NewInitializeAccount wk account mint owner =
     NewInstruction (token_ProgramID wk)
       (map Some [NewAccountMeta account False True, NewAccountMeta mint False False, NewAccountMeta owner False False,
          NewAccountMeta (SysvarRentPubkey wk) False False])
       [tok_tagInitializeAccount]"

definition token_NewInitializeMultisig ::
    "well_known \<Rightarrow> PublicKey \<Rightarrow> u8 \<Rightarrow> PublicKey list \<Rightarrow> Instruction" where
  "token_NewInitializeMultisig wk multisig m signers =
     NewInstruction (token_ProgramID wk)
       (map Some ([NewAccountMeta multisig False True, NewAccountMeta (SysvarRentPubkey wk) False False] @
          map (\<lambda>s. NewAccountMeta s False False) signers))
       [tok_tagInitializeMultisig, m]"

definition token_NewTransfer ::
    "well_known \<Rightarrow> PublicKey \<Rightarrow> PublicKey \<Rightarrow> PublicKey \<Rightarrow> u64 \<Rightarrow> Instruction" where
  "token_NewTransfer wk source destination authority amount =
     NewInstruction (token_ProgramID wk)
       (map Some [NewAccountMeta source False True, NewAccountMeta destination False True,
          NewAccountMeta authority True False])
       (enc_Bytes (chain [U8 tok_tagTransfer, U64 amount] (NewEncoder 9)))"

definition token_NewTransferChecked ::
    "well_known \<Rightarrow> PublicKey \<Rightarrow> PublicKey \<Rightarrow> PublicKey \<Rightarrow> PublicKey \<Rightarrow> u64 \<Rightarrow> u8 \<Rightarrow> Instruction" where
  "token_NewTransferChecked wk source mint destination authority amount decimals =
     NewInstruction (token_ProgramID wk)
       (map Some [NewAccountMeta source False True, NewAccountMeta mint False False,
          NewAccountMeta destination False True, NewAccountMeta authority True False])
       (enc_Bytes (chain [U8 tok_tagTransferChecked, U64 amount, U8 decimals] (NewEncoder 10)))"

definition token_NewMintTo ::
    "well_known \<Rightarrow> PublicKey \<Rightarrow> PublicKey \<Rightarrow> PublicKey \<Rightarrow> u64 \<Rightarrow> Instruction" where
  "token_NewMintTo wk mint destination authority amount =
     NewInstruction (token_ProgramID wk)
       (map Some [NewAccountMeta mint False True, NewAccountMeta destination False True,
          NewAccountMeta authority True False])
       (enc_Bytes (chain [U8 tok_tagMintTo, U64 amount] (NewEncoder 9)))"

definition token_NewBurn ::
    "well_known \<Rightarrow> PublicKey \<Rightarrow> PublicKey \<Rightarrow> PublicKey \<Rightarrow> u64 \<Rightarrow> Instruction" where
  "token_NewBurn wk account mint authority amount =
     NewInstruction (token_ProgramID wk)
       (map Some [NewAccountMeta account False True, NewAccountMeta mint False True, NewAccountMeta authority True False])
       (enc_Bytes (chain [U8 tok_tagBurn, U64 amount] (NewEncoder 9)))"

definition token_NewCloseAccount ::
    "well_known \<Rightarrow> PublicKey \<Rightarrow> PublicKey \<Rightarrow> PublicKey \<Rightarrow> Instruction" where
  "token_NewCloseAccount wk account destination authority =
     NewInstruction (token_ProgramID wk)
       (map Some [NewAccountMeta account False True, NewAccountMeta destination False True,
          NewAccountMeta authority True False])
       [tok_tagCloseAccount]"

definition token_NewInitializeMint2 ::
    "well_known \<Rightarrow> PublicKey \<Rightarrow> u8 \<Rightarrow> PublicKey \<Rightarrow> PublicKey \<Rightarrow> Instruction" where
  "token_NewInitializeMint2 wk mint decimals mintAuthority freezeAuthority =
     (let fa = (if \<not> pk_IsZero freezeAuthority then Some freezeAuthority else None)
      in NewInstruction (token_ProgramID wk)
           (map Some [NewAccountMeta mint False True])
           (initMintData tok_tagInitializeMint2 decimals mintAuthority fa))"

definition token_NewInitializeAccount3 ::
    "well_known \<Rightarrow> PublicKey \<Rightarrow> PublicKey \<Rightarrow> PublicKey \<Rightarrow> Instruction" where
  "token_NewInitializeAccount3 wk account mint owner =
     NewInstruction (token_ProgramID wk)
       (map Some [NewAccountMeta account False True, NewAccountMeta mint False False])
       (enc_Bytes (chain [U8 tok_tagInitializeAccount3, Raw owner] (NewEncoder 33)))"

definition token_NewApprove ::
    "well_known \<Rightarrow> PublicKey \<Rightarrow> PublicKey \<Rightarrow> PublicKey \<Rightarrow> u64 \<Rightarrow> Instruction" where
  "token_NewApprove wk source delegate owner amount =
     NewInstruction (token_ProgramID wk)
       (map Some [NewAccountMeta source False True, NewAccountMeta delegate False False, NewAccountMeta owner True False])
       (enc_Bytes (chain [U8 tok_tagApprove, U64 amount] (NewEncoder 9)))"

definition token_NewApproveChecked ::
    "well_known \<Rightarrow> PublicKey \<Rightarrow> PublicKey \<Rightarrow> PublicKey \<Rightarrow> PublicKey \<Rightarrow> u64 \<Rightarrow> u8 \<Rightarrow> Instruction" where
  "token_NewApproveChecked wk source mint delegate owner amount decimals =
     NewInstruction (token_ProgramID wk)
       (map Some [NewAccountMeta source False True, NewAccountMeta mint False False,
          NewAccountMeta delegate False False, NewAccountMeta owner True False])
       (enc_Bytes (chain [U8 tok_tagApproveChecked, U64 amount, U8 decimals] (NewEncoder 10)))"

definition token_NewRevoke ::
    "well_known \<Rightarrow> PublicKey \<Rightarrow> PublicKey \<Rightarrow> Instruction" where
  "token_NewRevoke wk source owner =
     NewInstruction (token_ProgramID wk)
       (map Some [NewAccountMeta source False True, NewAccountMeta owner True False])
       [tok_tagRevoke]"

definition token_NewSetAuthority ::
    "well_known \<Rightarrow> PublicKey \<Rightarrow> PublicKey \<Rightarrow> PublicKey option \<Rightarrow> AuthorityType \<Rightarrow> Instruction" where
  "token_NewSetAuthority wk account currentAuthority newAuthority authType =
     (let capacity = 1 + 1 + 1;
          capacity = (if newAuthority \<noteq> None then capacity + 32 else capacity);
          e = chain [U8 tok_tagSetAuthority, U8 authType] (NewEncoder capacity);
          e = (case newAuthority of Some na \<Rightarrow> chain [U8 1, Raw na] e | None \<Rightarrow> U8 0 e)
      in NewInstruction (token_ProgramID wk)
           (map Some [NewAccountMeta account False True, NewAccountMeta currentAuthority True False])
           (enc_Bytes e))"

definition token_NewFreezeAccount ::
    "well_known \<Rightarrow> PublicKey \<Rightarrow> PublicKey \<Rightarrow> PublicKey \<Rightarrow> Instruction" where
  "token_NewFreezeAccount wk account mint freezeAuthority =
     NewInstruction (token_ProgramID wk)
       (map Some [NewAccountMeta account False True, NewAccountMeta mint False False,
          NewAccountMeta freezeAuthority True False])
       [tok_tagFreezeAccount]"

definition token_NewThawAccount ::
    "well_known \<Rightarrow> PublicKey \<Rightarrow> PublicKey \<Rightarrow> PublicKey \<Rightarrow> Instruction" where
  "token_NewThawAccount wk account mint freezeAuthority =
     NewInstruction (token_ProgramID wk)
       (map Some [NewAccountMeta account False True, NewAccountMeta mint False False,
          NewAccountMeta freezeAuthority True False])
       [tok_tagThawAccount]"

definition token_NewMintToChecked ::
    "well_known \<Rightarrow> PublicKey \<Rightarrow> PublicKey \<Rightarrow> PublicKey \<Rightarrow> u64 \<Rightarrow> u8 \<Rightarrow> Instruction" where
  "token_NewMintToChecked wk mint destination authority amount decimals =
     NewInstruction (token_ProgramID wk)
       (map Some [NewAccountMeta mint False True, NewAccountMeta destination False True,
          NewAccountMeta authority True False])
       (enc_Bytes (chain [U8 tok_tagMintToChecked, U64 amount, U8 decimals] (NewEncoder 10)))"

definition token_NewBurnChecked ::
    "well_known \<Rightarrow> PublicKey \<Rightarrow> PublicKey \<Rightarrow> PublicKey \<Rightarrow> u64 \<Rightarrow> u8 \<Rightarrow> Instruction" where
  "token_NewBurnChecked wk account mint authority amount decimals =
     NewInstruction (token_ProgramID wk)
       (map Some [NewAccountMeta account False True, NewAccountMeta mint False True, NewAccountMeta authority True False])
       (enc_Bytes (chain [U8 tok_tagBurnChecked, U64 amount, U8 decimals] (NewEncoder 10)))"

definition token_NewSyncNative :: "well_known \<Rightarrow> PublicKey \<Rightarrow> Instruction" where
  "token_NewSyncNative wk account =
     NewInstruction (token_ProgramID wk)
       (map Some [NewAccountMeta account False True])
       [tok_tagSyncNative]"

section \<open>Token-2022\<close>

text \<open>\<open>wrapped\<close> forwards the accounts and the data and replaces the program id.\<close>

definition Wrap :: "well_known \<Rightarrow> Instruction \<Rightarrow> Instruction" where
  "Wrap wk ix = ix\<lparr>ix_ProgramID := token2022_ProgramID wk\<rparr>"

definition t22_NewTransfer ::
    "well_known \<Rightarrow> PublicKey \<Rightarrow> PublicKey \<Rightarrow> PublicKey \<Rightarrow> u64 \<Rightarrow> Instruction" where
  "t22_NewTransfer wk source destination authority amount =
     Wrap wk (token_NewTransfer wk source destination authority amount)"

definition t22_NewTransferChecked ::
    "well_known \<Rightarrow> PublicKey \<Rightarrow> PublicKey \<Rightarrow> PublicKey \<Rightarrow> PublicKey \<Rightarrow> u64 \<Rightarrow> u8 \<Rightarrow> Instruction" where
  "t22_NewTransferChecked wk source mint destination authority amount decimals =
     Wrap wk (token_NewTransferChecked wk source mint destination authority amount decimals)"

definition t22_NewMintTo ::
    "well_known \<Rightarrow> PublicKey \<Rightarrow> PublicKey \<Rightarrow> PublicKey \<Rightarrow> u64 \<Rightarrow> Instruction" where
  "t22_NewMintTo wk mint destination authority amount =
     Wrap wk (token_NewMintTo wk mint destination authority amount)"

definition t22_NewBurn ::
    "well_known \<Rightarrow> PublicKey \<Rightarrow> PublicKey \<Rightarrow> PublicKey \<Rightarrow> u64 \<Rightarrow> Instruction" where
  "t22_NewBurn wk account mint authority amount =
     Wrap wk (token_NewBurn wk account mint authority amount)"

definition t22_NewCloseAccount ::
    "well_known \<Rightarrow> PublicKey \<Rightarrow> PublicKey \<Rightarrow> PublicKey \<Rightarrow> Instruction" where
  "t22_NewCloseAccount wk account destination authority =
     Wrap wk (token_NewCloseAccount wk account destination authority)"

definition t22_NewInitializeMint2 ::
    "well_known \<Rightarrow> PublicKey \<Rightarrow> u8 \<Rightarrow> PublicKey \<Rightarrow> PublicKey \<Rightarrow> Instruction" where
  "t22_NewInitializeMint2 wk mint decimals mintAuthority freezeAuthority =
     Wrap wk (token_NewInitializeMint2 wk mint decimals mintAuthority freezeAuthority)"

definition t22_NewInitializeAccount3 ::
    "well_known \<Rightarrow> PublicKey \<Rightarrow> PublicKey \<Rightarrow> PublicKey \<Rightarrow> Instruction" where
  "t22_NewInitializeAccount3 wk account mint owner =
     Wrap wk (token_NewInitializeAccount3 wk account mint owner)"

definition optNonZeroKey :: "PublicKey option \<Rightarrow> bytes" where
  "optNonZeroKey p = (case p of None \<Rightarrow> zero_array PublicKeySize | Some k \<Rightarrow> k)"

text \<open>The states of a token account (\<open>AccountState\<close>) are bytes.\<close>

definition AccountStateUninitialized :: u8 where "AccountStateUninitialized = 0"
definition AccountStateInitialized :: u8 where "AccountStateInitialized = 1"
definition AccountStateFrozen :: u8 where "AccountStateFrozen = 2"

definition NewInitializeMintCloseAuthority ::
    "well_known \<Rightarrow> PublicKey \<Rightarrow> PublicKey option \<Rightarrow> Instruction" where
  "NewInitializeMintCloseAuthority wk mint closeAuth =
     NewInstruction (token2022_ProgramID wk)
       (map Some [NewAccountMeta mint False True])
       (enc_Bytes (chain [U8 25, Raw (optNonZeroKey closeAuth)] (New)))"

definition NewInitializeNonTransferableMint :: "well_known \<Rightarrow> PublicKey \<Rightarrow> Instruction" where
  "NewInitializeNonTransferableMint wk mint =
     NewInstruction (token2022_ProgramID wk)
       (map Some [NewAccountMeta mint False True])
       [32]"

definition NewInitializePermanentDelegate ::
    "well_known \<Rightarrow> PublicKey \<Rightarrow> PublicKey \<Rightarrow> Instruction" where
  "NewInitializePermanentDelegate wk mint delegate =
     NewInstruction (token2022_ProgramID wk)
       (map Some [NewAccountMeta mint False True])
       (enc_Bytes (chain [U8 35, Raw delegate] (New)))"

definition NewInitializeDefaultAccountState ::
    "well_known \<Rightarrow> PublicKey \<Rightarrow> u8 \<Rightarrow> Instruction" where
  "NewInitializeDefaultAccountState wk mint state =
     NewInstruction (token2022_ProgramID wk)
       (map Some [NewAccountMeta mint False True])
       [28, 0, state]"

definition NewUpdateDefaultAccountState ::
    "well_known \<Rightarrow> PublicKey \<Rightarrow> PublicKey \<Rightarrow> u8 \<Rightarrow> Instruction" where
  "NewUpdateDefaultAccountState wk mint freezeAuthority state =
     NewInstruction (token2022_ProgramID wk)
       (map Some [NewAccountMeta mint False True, NewAccountMeta freezeAuthority True False])
       [28, 1, state]"

definition NewInitializeTransferFeeConfig ::
    "well_known \<Rightarrow> PublicKey \<Rightarrow> PublicKey option \<Rightarrow> PublicKey option \<Rightarrow> u16 \<Rightarrow> u64 \<Rightarrow> Instruction" where
  "NewInitializeTransferFeeConfig wk mint transferFeeAuthority withdrawWithheldAuthority feeBasisPoints maximumFee =
     NewInstruction (token2022_ProgramID wk)
       (map Some [NewAccountMeta mint False True])
       (enc_Bytes (chain [U8 26, U8 0, Raw (optNonZeroKey transferFeeAuthority),
            Raw (optNonZeroKey withdrawWithheldAuthority), U16 feeBasisPoints, U64 maximumFee] (New)))"

definition NewSetTransferFee ::
    "well_known \<Rightarrow> PublicKey \<Rightarrow> PublicKey \<Rightarrow> u16 \<Rightarrow> u64 \<Rightarrow> Instruction" where
  "NewSetTransferFee wk mint authority feeBasisPoints maximumFee =
     NewInstruction (token2022_ProgramID wk)
       (map Some [NewAccountMeta mint False True, NewAccountMeta authority True False])
       (enc_Bytes (chain [U8 26, U8 5, U16 feeBasisPoints, U64 maximumFee] (New)))"

definition NewWithdrawWithheldTokensFromMint ::
    "well_known \<Rightarrow> PublicKey \<Rightarrow> PublicKey \<Rightarrow> PublicKey \<Rightarrow> Instruction" where
  "NewWithdrawWithheldTokensFromMint wk mint destination withdrawAuthority =
     NewInstruction (token2022_ProgramID wk)
       (map Some [NewAccountMeta mint False True, NewAccountMeta destination False True,
          NewAccountMeta withdrawAuthority True False])
       [26, 2]"

definition NewWithdrawWithheldTokensFromAccounts ::
    "well_known \<Rightarrow> PublicKey \<Rightarrow> PublicKey \<Rightarrow> PublicKey \<Rightarrow> PublicKey list \<Rightarrow> Instruction" where
  "NewWithdrawWithheldTokensFromAccounts wk mint destination withdrawAuthority sources =
     NewInstruction (token2022_ProgramID wk)
       (map Some ([NewAccountMeta mint False True, NewAccountMeta destination False True,
          NewAccountMeta withdrawAuthority True False] @ map (\<lambda>s. NewAccountMeta s False True) sources))
       [26, 3, of_nat (length sources)]"

definition NewHarvestWithheldTokensToMint ::
    "well_known \<Rightarrow> PublicKey \<Rightarrow> PublicKey list \<Rightarrow> Instruction" where
  "NewHarvestWithheldTokensToMint wk mint sources =
     NewInstruction (token2022_ProgramID wk)
       (map Some ([NewAccountMeta mint False True] @ map (\<lambda>s. NewAccountMeta s False True) sources))
       [26, 4]"

definition NewInitializeInterestBearingMint ::
    "well_known \<Rightarrow> PublicKey \<Rightarrow> PublicKey option \<Rightarrow> int \<Rightarrow> Instruction" where
  "NewInitializeInterestBearingMint wk mint rateAuthority rate =
     NewInstruction (token2022_ProgramID wk)
       (map Some [NewAccountMeta mint False True])
       (enc_Bytes (chain [U8 33, U8 0, Raw (optNonZeroKey rateAuthority), I16 rate] (New)))"

definition NewUpdateInterestBearingMintRate ::
    "well_known \<Rightarrow> PublicKey \<Rightarrow> PublicKey \<Rightarrow> int \<Rightarrow> Instruction" where
  "NewUpdateInterestBearingMintRate wk mint rateAuthority rate =
     NewInstruction (token2022_ProgramID wk)
       (map Some [NewAccountMeta mint False True, NewAccountMeta rateAuthority True False])
       (enc_Bytes (chain [U8 33, U8 1, I16 rate] (New)))"

definition NewInitializeMetadataPointer ::
    "well_known \<Rightarrow> PublicKey \<Rightarrow> PublicKey option \<Rightarrow> PublicKey option \<Rightarrow> Instruction" where
  "NewInitializeMetadataPointer wk mint authority metadataAddress =
     NewInstruction (token2022_ProgramID wk)
       (map Some [NewAccountMeta mint False True])
       (enc_Bytes (chain [U8 39, U8 0, Raw (optNonZeroKey authority), Raw (optNonZeroKey metadataAddress)] (New)))"

definition NewUpdateMetadataPointer ::
    "well_known \<Rightarrow> PublicKey \<Rightarrow> PublicKey \<Rightarrow> PublicKey option \<Rightarrow> Instruction" where
  "NewUpdateMetadataPointer wk mint authority metadataAddress =
     NewInstruction (token2022_ProgramID wk)
       (map Some [NewAccountMeta mint False True, NewAccountMeta authority True False])
       (enc_Bytes (chain [U8 39, U8 1, Raw (optNonZeroKey metadataAddress)] (New)))"

definition NewInitializeTransferHook ::
    "well_known \<Rightarrow> PublicKey \<Rightarrow> PublicKey option \<Rightarrow> PublicKey option \<Rightarrow> Instruction" where
  "NewInitializeTransferHook wk mint authority programId =
     NewInstruction (token2022_ProgramID wk)
       (map Some [NewAccountMeta mint False True])
       (enc_Bytes (chain [U8 36, U8 0, Raw (optNonZeroKey authority), Raw (optNonZeroKey programId)] (New)))"

definition NewUpdateTransferHook ::
    "well_known \<Rightarrow> PublicKey \<Rightarrow> PublicKey \<Rightarrow> PublicKey option \<Rightarrow> Instruction" where
  "NewUpdateTransferHook wk mint authority programId =
     NewInstruction (token2022_ProgramID wk)
       (map Some [NewAccountMeta mint False True, NewAccountMeta authority True False])
       (enc_Bytes (chain [U8 36, U8 1, Raw (optNonZeroKey programId)] (New)))"

definition NewEnableRequiredMemoTransfers ::
    "well_known \<Rightarrow> PublicKey \<Rightarrow> PublicKey \<Rightarrow> Instruction" where
  "NewEnableRequiredMemoTransfers wk account owner =
     NewInstruction (token2022_ProgramID wk)
       (map Some [NewAccountMeta account False True, NewAccountMeta owner True False])
       [30, 0]"

definition NewDisableRequiredMemoTransfers ::
    "well_known \<Rightarrow> PublicKey \<Rightarrow> PublicKey \<Rightarrow> Instruction" where
  "NewDisableRequiredMemoTransfers wk account owner =
     NewInstruction (token2022_ProgramID wk)
       (map Some [NewAccountMeta account False True, NewAccountMeta owner True False])
       [30, 1]"

definition NewEnableCpiGuard ::
    "well_known \<Rightarrow> PublicKey \<Rightarrow> PublicKey \<Rightarrow> Instruction" where
  "NewEnableCpiGuard wk account owner =
     NewInstruction (token2022_ProgramID wk)
       (map Some [NewAccountMeta account False True, NewAccountMeta owner True False])
       [34, 0]"

definition NewDisableCpiGuard ::
    "well_known \<Rightarrow> PublicKey \<Rightarrow> PublicKey \<Rightarrow> Instruction" where
  "NewDisableCpiGuard wk account owner =
     NewInstruction (token2022_ProgramID wk)
       (map Some [NewAccountMeta account False True, NewAccountMeta owner True False])
       [34, 1]"

end
