(* ===== verification/Stake_Vote_Programs.thy ===== *)
theory Stake_Vote_Programs
  imports Programs
begin

text \<open>
  The instruction builders of the stake and vote programs and of the ed25519 and
  secp256k1 signature precompiles.
\<close>

section \<open>Stake program\<close>

definition stake_tagInitialize :: u32 where "stake_tagInitialize = 0"
definition stake_tagAuthorize :: u32 where "stake_tagAuthorize = 1"
definition stake_tagDelegate :: u32 where "stake_tagDelegate = 2"
definition stake_tagSplit :: u32 where "stake_tagSplit = 3"
definition stake_tagWithdraw :: u32 where "stake_tagWithdraw = 4"
definition stake_tagDeactivate :: u32 where "stake_tagDeactivate = 5"
definition stake_tagSetLockup :: u32 where "stake_tagSetLockup = 6"
definition stake_tagMerge :: u32 where "stake_tagMerge = 7"
definition stake_tagInitializeChecked :: u32 where "stake_tagInitializeChecked = 9"
definition stake_tagAuthorizeChecked :: u32 where "stake_tagAuthorizeChecked = 10"

text \<open>\<open>StakeAuthorize\<close> is a \<open>uint32\<close> with two named values.\<close>

type_synonym StakeAuthorize = u32

definition AuthorizeStaker :: StakeAuthorize where "AuthorizeStaker = 0"
definition AuthorizeWithdrawer :: StakeAuthorize where "AuthorizeWithdrawer = 1"

record Authorized =
  Staker :: PublicKey
  Withdrawer :: PublicKey

record Lockup =
  UnixTimestamp :: int
  lk_Epoch :: u64
  Custodian :: PublicKey

text \<open>\<open>if custodian != nil { accounts = append(accounts, ...) }\<close>\<close>

definition custodian_meta :: "PublicKey option \<Rightarrow> AccountMeta list" where
  "custodian_meta custodian = (case custodian of Some c \<Rightarrow> [NewAccountMeta c True False] | None \<Rightarrow> [])"

definition stake_Initialize ::
    "well_known \<Rightarrow> PublicKey \<Rightarrow> Authorized \<Rightarrow> Lockup \<Rightarrow> Instruction" where
  "stake_Initialize wk stakeAccount authorized lockup =
     NewInstruction (stake_ProgramID wk)
       (map Some [NewAccountMeta stakeAccount False True, NewAccountMeta (stake_sysvarRent wk) False False])
       (enc_Bytes (chain [U32 stake_tagInitialize, Raw (Staker authorized), Raw (Withdrawer authorized),
            I64 (UnixTimestamp lockup), U64 (lk_Epoch lockup), Raw (Custodian lockup)] (NewEncoder 116)))"

definition stake_Delegate ::
    "well_known \<Rightarrow> PublicKey \<Rightarrow> PublicKey \<Rightarrow> PublicKey \<Rightarrow> Instruction" where
  "stake_Delegate wk stakeAccount voteAccount staker =
     NewInstruction (stake_ProgramID wk)
       (map Some [NewAccountMeta stakeAccount False True, NewAccountMeta voteAccount False False,
          NewAccountMeta (stake_sysvarClock wk) False False, NewAccountMeta (sysvarStakeHistory wk) False False,
          NewAccountMeta (stakeConfig wk) False False, NewAccountMeta staker True False])
       (enc_Bytes (chain [U32 stake_tagDelegate] (NewEncoder 4)))"

definition stake_Deactivate ::
    "well_known \<Rightarrow> PublicKey \<Rightarrow> PublicKey \<Rightarrow> Instruction" where
  "stake_Deactivate wk stakeAccount staker =
     NewInstruction (stake_ProgramID wk)
       (map Some [NewAccountMeta stakeAccount False True, NewAccountMeta (stake_sysvarClock wk) False False,
          NewAccountMeta staker True False])
       (enc_Bytes (chain [U32 stake_tagDeactivate] (NewEncoder 4)))"

definition stake_Withdraw ::
    "well_known \<Rightarrow> PublicKey \<Rightarrow> PublicKey \<Rightarrow> PublicKey \<Rightarrow> u64 \<Rightarrow> PublicKey option \<Rightarrow> Instruction" where
  "stake_Withdraw wk stakeAccount destination withdrawer lamports custodian =
     NewInstruction (stake_ProgramID wk)
       (map Some ([NewAccountMeta stakeAccount False True, NewAccountMeta destination False True,
          NewAccountMeta (stake_sysvarClock wk) False False, NewAccountMeta (sysvarStakeHistory wk) False False,
          NewAccountMeta withdrawer True False] @
          custodian_meta custodian))
       (enc_Bytes (chain [U32 stake_tagWithdraw, U64 lamports] (NewEncoder 12)))"

definition stake_Split ::
    "well_known \<Rightarrow> PublicKey \<Rightarrow> PublicKey \<Rightarrow> PublicKey \<Rightarrow> u64 \<Rightarrow> Instruction" where
  "stake_Split wk stakeAccount splitStake staker lamports =
     NewInstruction (stake_ProgramID wk)
       (map Some [NewAccountMeta stakeAccount False True, NewAccountMeta splitStake False True,
          NewAccountMeta staker True False])
       (enc_Bytes (chain [U32 stake_tagSplit, U64 lamports] (NewEncoder 12)))"

definition stake_Merge ::
    "well_known \<Rightarrow> PublicKey \<Rightarrow> PublicKey \<Rightarrow> PublicKey \<Rightarrow> Instruction" where
  "stake_Merge wk destination source staker =
     NewInstruction (stake_ProgramID wk)
       (map Some [NewAccountMeta destination False True, NewAccountMeta source False True,
          NewAccountMeta (stake_sysvarClock wk) False False, NewAccountMeta (sysvarStakeHistory wk) False False,
          NewAccountMeta staker True False])
       (enc_Bytes (chain [U32 stake_tagMerge] (NewEncoder 4)))"

definition stake_Authorize ::
    "well_known \<Rightarrow> PublicKey \<Rightarrow> PublicKey \<Rightarrow> PublicKey \<Rightarrow> u32 \<Rightarrow> PublicKey option \<Rightarrow> Instruction" where
  "stake_Authorize wk stakeAccount authority newAuthority authType custodian =
     NewInstruction (stake_ProgramID wk)
       (map Some ([NewAccountMeta stakeAccount False True, NewAccountMeta (stake_sysvarClock wk) False False,
          NewAccountMeta authority True False] @
          custodian_meta custodian))
       (enc_Bytes (chain [U32 stake_tagAuthorize, Raw newAuthority, U32 authType] (NewEncoder 40)))"

definition stake_AuthorizeChecked ::
    "well_known \<Rightarrow> PublicKey \<Rightarrow> PublicKey \<Rightarrow> PublicKey \<Rightarrow> u32 \<Rightarrow> PublicKey option \<Rightarrow> Instruction" where
  "stake_AuthorizeChecked wk stakeAccount authority newAuthority authType custodian =
     NewInstruction (stake_ProgramID wk)
       (map Some ([NewAccountMeta stakeAccount False True, NewAccountMeta (stake_sysvarClock wk) False False,
          NewAccountMeta authority True False, NewAccountMeta newAuthority True False] @
          custodian_meta custodian))
       (enc_Bytes (chain [U32 stake_tagAuthorizeChecked, U32 authType] (NewEncoder 8)))"

definition stake_InitializeChecked ::
    "well_known \<Rightarrow> PublicKey \<Rightarrow> PublicKey \<Rightarrow> PublicKey \<Rightarrow> Instruction" where
  "stake_InitializeChecked wk stakeAccount staker withdrawer =
     NewInstruction (stake_ProgramID wk)
       (map Some [NewAccountMeta stakeAccount False True, NewAccountMeta (stake_sysvarRent wk) False False,
          NewAccountMeta staker False False, NewAccountMeta withdrawer True False])
       (enc_Bytes (chain [U32 stake_tagInitializeChecked] (NewEncoder 4)))"

definition stake_SetLockup ::
    "well_known \<Rightarrow> PublicKey \<Rightarrow> PublicKey \<Rightarrow> int option \<Rightarrow> u64 option \<Rightarrow> PublicKey option \<Rightarrow> Instruction" where
  "stake_SetLockup wk stakeAccount authority unixTimestamp epoch custodian =
     (let e = chain [U32 stake_tagSetLockup, OptI64 unixTimestamp, OptU64 epoch] (NewEncoder 64);
          e = (case custodian of Some c \<Rightarrow> chain [U8 1, Raw c] e | None \<Rightarrow> U8 0 e)
      in NewInstruction (stake_ProgramID wk)
           (map Some [NewAccountMeta stakeAccount False True, NewAccountMeta authority True False])
           (enc_Bytes e))"

section \<open>Vote program\<close>

definition vote_tagInitializeAccount :: u32 where "vote_tagInitializeAccount = 0"
definition vote_tagAuthorize :: u32 where "vote_tagAuthorize = 1"
definition vote_tagWithdraw :: u32 where "vote_tagWithdraw = 3"
definition vote_tagUpdateValidatorIdentity :: u32 where "vote_tagUpdateValidatorIdentity = 4"
definition vote_tagUpdateCommission :: u32 where "vote_tagUpdateCommission = 5"
definition vote_tagAuthorizeChecked :: u32 where "vote_tagAuthorizeChecked = 7"

text \<open>\<open>VoteAuthorize\<close> is a \<open>uint32\<close> with two named values.\<close>

type_synonym VoteAuthorize = u32

definition VoteAuthorizeVoter :: VoteAuthorize where "VoteAuthorizeVoter = 0"
definition VoteAuthorizeWithdrawer :: VoteAuthorize where "VoteAuthorizeWithdrawer = 1"

definition vote_NewInitializeAccount ::
    "well_known \<Rightarrow> PublicKey \<Rightarrow> PublicKey \<Rightarrow> PublicKey \<Rightarrow> PublicKey \<Rightarrow> u8 \<Rightarrow> Instruction" where
  "vote_NewInitializeAccount wk vote nodePubkey authorizedVoter authorizedWithdrawer commission =
     NewInstruction (vote_ProgramID wk)
       (map Some [NewAccountMeta vote False True, NewAccountMeta (SysvarRentPubkey wk) False False,
          NewAccountMeta (SysvarClockPubkey wk) False False, NewAccountMeta nodePubkey True False])
       (enc_Bytes (chain [U32 vote_tagInitializeAccount, Raw nodePubkey, Raw authorizedVoter, Raw authorizedWithdrawer,
            U8 commission] (NewEncoder 101)))"

definition vote_NewAuthorize ::
    "well_known \<Rightarrow> PublicKey \<Rightarrow> PublicKey \<Rightarrow> PublicKey \<Rightarrow> u32 \<Rightarrow> Instruction" where
  "vote_NewAuthorize wk vote authority newAuthority authType =
     NewInstruction (vote_ProgramID wk)
       (map Some [NewAccountMeta vote False True, NewAccountMeta (SysvarClockPubkey wk) False False,
          NewAccountMeta authority True False])
       (enc_Bytes (chain [U32 vote_tagAuthorize, Raw newAuthority, U32 authType] (NewEncoder 40)))"

definition vote_NewWithdraw ::
    "well_known \<Rightarrow> PublicKey \<Rightarrow> PublicKey \<Rightarrow> PublicKey \<Rightarrow> u64 \<Rightarrow> Instruction" where
  "vote_NewWithdraw wk vote withdrawAuthority recipient lamports =
     NewInstruction (vote_ProgramID wk)
       (map Some [NewAccountMeta vote False True, NewAccountMeta recipient False True,
          NewAccountMeta withdrawAuthority True False])
       (enc_Bytes (chain [U32 vote_tagWithdraw, U64 lamports] (NewEncoder 12)))"

definition vote_NewUpdateValidatorIdentity ::
    "well_known \<Rightarrow> PublicKey \<Rightarrow> PublicKey \<Rightarrow> PublicKey \<Rightarrow> Instruction" where
  "vote_NewUpdateValidatorIdentity wk vote newIdentity withdrawAuthority =
     NewInstruction (vote_ProgramID wk)
       (map Some [NewAccountMeta vote False True, NewAccountMeta newIdentity True False,
          NewAccountMeta withdrawAuthority True False])
       (enc_Bytes (chain [U32 vote_tagUpdateValidatorIdentity] (NewEncoder 4)))"

definition vote_NewAuthorizeChecked ::
    "well_known \<Rightarrow> PublicKey \<Rightarrow> PublicKey \<Rightarrow> PublicKey \<Rightarrow> u32 \<Rightarrow> Instruction" where
  "vote_NewAuthorizeChecked wk vote authority newAuthority authType =
     NewInstruction (vote_ProgramID wk)
       (map Some [NewAccountMeta vote False True, NewAccountMeta (SysvarClockPubkey wk) False False,
          NewAccountMeta authority True False, NewAccountMeta newAuthority True False])
       (enc_Bytes (chain [U32 vote_tagAuthorizeChecked, U32 authType] (NewEncoder 8)))"

definition vote_NewUpdateCommission ::
    "well_known \<Rightarrow> PublicKey \<Rightarrow> PublicKey \<Rightarrow> u8 \<Rightarrow> Instruction" where
  "vote_NewUpdateCommission wk vote withdrawAuthority commission =
     NewInstruction (vote_ProgramID wk)
       (map Some [NewAccountMeta vote False True, NewAccountMeta withdrawAuthority True False])
       (enc_Bytes (chain [U32 vote_tagUpdateCommission, U8 commission] (NewEncoder 5)))"

section \<open>Signature precompiles\<close>

record Ed25519SignatureOffsets =
  ed_SignatureOffset :: u16
  ed_SignatureInstructionIndex :: u16
  PublicKeyOffset :: u16
  PublicKeyInstructionIndex :: u16
  ed_MessageDataOffset :: u16
  ed_MessageDataSize :: u16
  ed_MessageInstructionIndex :: u16

definition ed25519_NewRawInstruction :: "well_known \<Rightarrow> bytes \<Rightarrow> Instruction" where
  "ed25519_NewRawInstruction wk data = NewInstruction (ed25519_ProgramID wk) [] data"

definition ed25519_NewInstruction :: "well_known \<Rightarrow> bytes \<Rightarrow> Instruction" where
  "ed25519_NewInstruction wk data = ed25519_NewRawInstruction wk data"

definition NewVerifySignature :: "well_known \<Rightarrow> bytes \<Rightarrow> bytes \<Rightarrow> bytes \<Rightarrow> Instruction result" where
  "NewVerifySignature wk publicKey signature message =
     (if length message > 0xFFFF
      then Inl (Errorf ''ed25519: message length %d exceeds uint16 max (%d)'' [int (length message), 0xFFFF])
      else
        let pubkeyOffset = 16; sigOffset = 48; msgOffset = 112; selfIx = 0xFFFF;
            data = enc_Bytes (chain
              [U8 1, U8 0, U16 sigOffset, U16 selfIx, U16 pubkeyOffset, U16 selfIx, U16 msgOffset,
               U16 (of_nat (length message)), U16 selfIx, Raw publicKey, Raw signature, Raw message]
              (NewEncoder (unat msgOffset + length message)))
        in Inr (NewInstruction (ed25519_ProgramID wk) [] data))"

definition write_ed_offsets :: "Ed25519SignatureOffsets \<Rightarrow> encoder \<Rightarrow> encoder" where
  "write_ed_offsets sig =
     chain [U16 (ed_SignatureOffset sig), U16 (ed_SignatureInstructionIndex sig), U16 (PublicKeyOffset sig),
       U16 (PublicKeyInstructionIndex sig), U16 (ed_MessageDataOffset sig), U16 (ed_MessageDataSize sig),
       U16 (ed_MessageInstructionIndex sig)]"

definition ed25519_NewSignatureVerifyInstruction ::
    "well_known \<Rightarrow> Ed25519SignatureOffsets list \<Rightarrow> Instruction result" where
  "ed25519_NewSignatureVerifyInstruction wk signatures =
     (if length signatures > 255
      then Inl (Errorf ''ed25519: signature count %d exceeds uint8 max (%d)'' [int (length signatures), 255])
      else
        let e = chain [U8 (of_nat (length signatures)), U8 0] (NewEncoder (2 + length signatures * 14));
            e = fold write_ed_offsets signatures e
        in Inr (NewInstruction (ed25519_ProgramID wk) [] (enc_Bytes e)))"

record Secp256k1SignatureOffsets =
  secp_SignatureOffset :: u16
  secp_SignatureInstructionIndex :: u8
  EthAddressOffset :: u16
  EthAddressInstructionIndex :: u8
  secp_MessageDataOffset :: u16
  secp_MessageDataSize :: u16
  secp_MessageInstructionIndex :: u8

definition secp256k1_NewRawInstruction :: "well_known \<Rightarrow> bytes \<Rightarrow> Instruction" where
  "secp256k1_NewRawInstruction wk data = NewInstruction (secp256k1_ProgramID wk) [] data"

definition secp256k1_NewInstruction :: "well_known \<Rightarrow> bytes \<Rightarrow> Instruction" where
  "secp256k1_NewInstruction wk data = secp256k1_NewRawInstruction wk data"

definition NewVerifyEthSignature :: "well_known \<Rightarrow> bytes \<Rightarrow> bytes \<Rightarrow> u8 \<Rightarrow> bytes \<Rightarrow> Instruction result" where
  "NewVerifyEthSignature wk ethAddress signature recoveryID message =
     (if length message > 0xFFFF
      then Inl (Errorf ''secp256k1: message length %d exceeds uint16 max (%d)'' [int (length message), 0xFFFF])
      else
        let sigOffset = 12; ethOffset = 77; msgOffset = 97; selfIx = 0xff;
            data = enc_Bytes (chain
              [U8 1, U16 sigOffset, U8 selfIx, U16 ethOffset, U8 selfIx, U16 msgOffset,
               U16 (of_nat (length message)), U8 selfIx, Raw signature, U8 recoveryID, Raw ethAddress, Raw message]
              (NewEncoder (unat msgOffset + length message)))
        in Inr (NewInstruction (secp256k1_ProgramID wk) [] data))"

definition write_secp_offsets :: "Secp256k1SignatureOffsets \<Rightarrow> encoder \<Rightarrow> encoder" where
  "write_secp_offsets sig =
     chain [U16 (secp_SignatureOffset sig), U8 (secp_SignatureInstructionIndex sig), U16 (EthAddressOffset sig),
       U8 (EthAddressInstructionIndex sig), U16 (secp_MessageDataOffset sig), U16 (secp_MessageDataSize sig),
       U8 (secp_MessageInstructionIndex sig)]"

definition secp256k1_NewSignatureVerifyInstruction ::
    "well_known \<Rightarrow> Secp256k1SignatureOffsets list \<Rightarrow> Instruction result" where
  "secp256k1_NewSignatureVerifyInstruction wk signatures =
     (if length signatures > 255
      then Inl (Errorf ''secp256k1: signature count %d exceeds uint8 max (%d)'' [int (length signatures), 255])
      else
        let e = chain [U8 (of_nat (length signatures))] (NewEncoder (1 + length signatures * 11));
            e = fold write_secp_offsets signatures e
        in Inr (NewInstruction (secp256k1_ProgramID wk) [] (enc_Bytes e)))"

end
