(* ===== verification/Program_Specs.thy ===== *)
theory Program_Specs
  imports Token_Programs Stake_Vote_Programs Builder_Laws
begin

text \<open>
  What the instruction builders promise.  A program sees an instruction as its account keys and
  its data; a view is the program's reading of these two, written from the documented layout of
  the program and independent of the builders.  The locale \<open>instruction_codec\<close> is the contract
  between a family of builders and the view: the view recovers the call with all its
  arguments, and exactly the documented authorities are marked as signers.  Its lemmas carry
  the calls through message compilation.  The token, Token-2022 and system builders are its
  instances.
\<close>

section \<open>The contract\<close>

text \<open>A compiled instruction as its program sees it, its account indices resolved in a key list.\<close>

definition call_of :: "(PublicKey list \<Rightarrow> bytes \<Rightarrow> 'c option) \<Rightarrow> PublicKey list \<Rightarrow> CompiledInstruction \<Rightarrow> 'c option" where
  "call_of view keys ci = view (map (\<lambda>i. keys ! unat i) (ci_Accounts ci)) (ci_Data ci)"

locale instruction_codec =
  fixes build :: "'c \<Rightarrow> Instruction"
    and view :: "PublicKey list \<Rightarrow> bytes \<Rightarrow> 'c option"
    and ok :: "'c \<Rightarrow> bool"
    and signs :: "'c \<Rightarrow> PublicKey list"
  assumes no_nil_meta: "None \<notin> set (ix_Accounts (build c))"
    and has_data: "ok c \<Longrightarrow> \<exists>d. ix_Data (build c) = Inr d \<and> view (map am_PublicKey (metas (build c))) d = Some c"
    and signers: "map am_PublicKey (filter IsSigner (metas (build c))) = signs c"
begin

lemma build_inject: "ok c \<Longrightarrow> ok c' \<Longrightarrow> build c = build c' \<Longrightarrow> c = c'"
  using has_data by (metis old.sum.inject(2) option.inject)

lemma resolves_call_of:
  assumes "ok c" and "resolves keys (Some (build c)) ci"
  shows "call_of view keys ci = Some c"
proof -
  have "list_all2 (\<lambda>i m. unat i < length keys \<and> keys ! unat i = am_PublicKey m) (ci_Accounts ci) (metas (build c))"
    using assms(2) by (simp add: resolves_def)
  then have "map (\<lambda>i. keys ! unat i) (ci_Accounts ci) = map am_PublicKey (metas (build c))"
    by induction auto
  moreover from has_data [OF assms(1)] obtain d where
    d: "ix_Data (build c) = Inr d" "view (map am_PublicKey (metas (build c))) d = Some c" by blast
  ultimately show ?thesis using assms(2) by (simp add: call_of_def resolves_def)
qed

lemma message_calls:
  assumes "reorders ord" and "NewMessage ord payer (map (\<lambda>c. Some (build c)) cs) bh = Inr m" and "list_all ok cs"
  shows "map (call_of view (AccountKeys m)) (Instructions m) = map Some cs"
proof -
  have "list_all2 (resolves (AccountKeys m)) (map (\<lambda>c. Some (build c)) cs) (Instructions m)"
    using NewMessage_resolves [OF assms(1,2)] by blast
  then have "list_all2 (\<lambda>c ci. resolves (AccountKeys m) (Some (build c)) ci) cs (Instructions m)"
    by (simp add: list_all2_conv_all_nth)
  then show ?thesis
    using assms(3) by induction (auto intro: resolves_call_of)
qed

lemma message_built:
  assumes "reorders ord" and "list_all ok cs" and "cs \<noteq> []"
    and "card (fst ` set (uses payer (map (\<lambda>c. Some (build c)) cs))) \<le> 256"
  shows "\<exists>m. NewMessage ord payer (map (\<lambda>c. Some (build c)) cs) bh = Inr m"
  unfolding NewMessage_success [OF assms(1)]
  using assms no_nil_meta has_data by (auto simp: no_nil_def data_ok_def list_all_iff) blast

lemma signs_in_uses:
  assumes "c \<in> set cs" and "k \<in> set (signs c)"
  shows "use_signs (uses payer (map (\<lambda>c. Some (build c)) cs)) k"
proof -
  from assms(2) signers [of c, symmetric] obtain mt where "mt \<in> set (metas (build c))" "IsSigner mt" "am_PublicKey mt = k"
    by auto
  then have "(k, True, IsWritable mt) \<in> set (uses_of (build c))"
    by (force simp: uses_of_def uses_of_metas_def)
  with assms(1) show ?thesis by (auto simp: use_signs_def uses_def)
qed

end

section \<open>Reading instruction data\<close>

definition as_unit :: "bytes \<Rightarrow> unit option" where
  "as_unit p = (if p = [] then Some () else None)"

definition as_u64 :: "bytes \<Rightarrow> u64 option" where
  "as_u64 p = (if length p = 8 then Some (le_word p) else None)"

definition as_checked :: "bytes \<Rightarrow> (u64 \<times> u8) option" where
  "as_checked p = (if length p = 9 then Some (le_word (take 8 p), p ! 8) else None)"

definition as_key :: "bytes \<Rightarrow> PublicKey option" where
  "as_key p = (if length p = 32 then Some p else None)"

fun as_opt_key :: "bytes \<Rightarrow> PublicKey option option" where
  "as_opt_key [] = None"
| "as_opt_key (f # k) =
     (if f = 0 \<and> k = [] then Some None else if f = 1 \<and> length k = 32 then Some (Some k) else None)"

definition as_mint :: "bytes \<Rightarrow> (u8 \<times> PublicKey \<times> PublicKey option) option" where
  "as_mint p = (if length p < 33 then None
     else map_option (\<lambda>fa. (p ! 0, take 32 (drop 1 p), fa)) (as_opt_key (drop 33 p)))"

definition zero_key :: "PublicKey option \<Rightarrow> PublicKey" where
  "zero_key fa = (case fa of None \<Rightarrow> zero_array PublicKeySize | Some k \<Rightarrow> k)"

lemmas as_defs = as_unit_def as_u64_def as_checked_def as_key_def as_mint_def

lemma le_word_bytes [simp]:
  "le_word (le_bytes 2 a) = (a :: u16)" "le_word (le_bytes 4 b) = (b :: u32)" "le_word (le_bytes 8 c) = (c :: u64)"
  by (simp_all add: le_word_le_bytes)

lemma enc_Bytes_eval [simp]:
  "enc_Bytes e = e_buf e" "e_buf (NewEncoder n) = []" "e_buf New = []"
  by (simp_all add: enc_Bytes_def NewEncoder_def New_def)

section \<open>SPL Token\<close>

datatype token_call =
    InitializeMint PublicKey u8 PublicKey "PublicKey option"
  | InitializeAccount PublicKey PublicKey PublicKey
  | InitializeMultisig PublicKey u8 "PublicKey list"
  | Transfer PublicKey PublicKey PublicKey u64
  | TransferChecked PublicKey PublicKey PublicKey PublicKey u64 u8
  | MintTo PublicKey PublicKey PublicKey u64
  | Burn PublicKey PublicKey PublicKey u64
  | CloseAccount PublicKey PublicKey PublicKey
  | InitializeMint2 PublicKey u8 PublicKey PublicKey
  | InitializeAccount3 PublicKey PublicKey PublicKey
  | Approve PublicKey PublicKey PublicKey u64
  | ApproveChecked PublicKey PublicKey PublicKey PublicKey u64 u8
  | Revoke PublicKey PublicKey
  | SetAuthority PublicKey PublicKey "PublicKey option" u8
  | FreezeAccount PublicKey PublicKey PublicKey
  | ThawAccount PublicKey PublicKey PublicKey
  | MintToChecked PublicKey PublicKey PublicKey u64 u8
  | BurnChecked PublicKey PublicKey PublicKey u64 u8
  | SyncNative PublicKey

fun token_build :: "well_known \<Rightarrow> token_call \<Rightarrow> Instruction" where
  "token_build wk (InitializeMint a b c d) = token_NewInitializeMint wk a b c d"
| "token_build wk (InitializeAccount a b c) = token_NewInitializeAccount wk a b c"
| "token_build wk (InitializeMultisig a b c) = token_NewInitializeMultisig wk a b c"
| "token_build wk (Transfer a b c d) = token_NewTransfer wk a b c d"
| "token_build wk (TransferChecked a b c d e f) = token_NewTransferChecked wk a b c d e f"
| "token_build wk (MintTo a b c d) = token_NewMintTo wk a b c d"
| "token_build wk (Burn a b c d) = token_NewBurn wk a b c d"
| "token_build wk (CloseAccount a b c) = token_NewCloseAccount wk a b c"
| "token_build wk (InitializeMint2 a b c d) = token_NewInitializeMint2 wk a b c d"
| "token_build wk (InitializeAccount3 a b c) = token_NewInitializeAccount3 wk a b c"
| "token_build wk (Approve a b c d) = token_NewApprove wk a b c d"
| "token_build wk (ApproveChecked a b c d e f) = token_NewApproveChecked wk a b c d e f"
| "token_build wk (Revoke a b) = token_NewRevoke wk a b"
| "token_build wk (SetAuthority a b c d) = token_NewSetAuthority wk a b c d"
| "token_build wk (FreezeAccount a b c) = token_NewFreezeAccount wk a b c"
| "token_build wk (ThawAccount a b c) = token_NewThawAccount wk a b c"
| "token_build wk (MintToChecked a b c d e) = token_NewMintToChecked wk a b c d e"
| "token_build wk (BurnChecked a b c d e) = token_NewBurnChecked wk a b c d e"
| "token_build wk (SyncNative a) = token_NewSyncNative wk a"

text \<open>The Token program's reading of an instruction: tag byte, payload, positional accounts.\<close>

definition token_payload :: "PublicKey list \<Rightarrow> u8 \<Rightarrow> bytes \<Rightarrow> token_call option" where
  "token_payload ks t p =
     (case ks of
        [a] \<Rightarrow>
          if t = 17 then map_option (\<lambda>_. SyncNative a) (as_unit p)
          else if t = 20 then map_option (\<lambda>(d, ma, fa). InitializeMint2 a d ma (zero_key fa)) (as_mint p)
          else None
      | [a, b] \<Rightarrow>
          if t = 0 then map_option (\<lambda>(d, ma, fa). InitializeMint a d ma fa) (as_mint p)
          else if t = 5 then map_option (\<lambda>_. Revoke a b) (as_unit p)
          else if t = 6 then (case p of [] \<Rightarrow> None | ty # q \<Rightarrow> map_option (\<lambda>na. SetAuthority a b na ty) (as_opt_key q))
          else if t = 18 then map_option (InitializeAccount3 a b) (as_key p)
          else None
      | [a, b, c] \<Rightarrow>
          if t = 3 then map_option (Transfer a b c) (as_u64 p)
          else if t = 4 then map_option (Approve a b c) (as_u64 p)
          else if t = 7 then map_option (MintTo a b c) (as_u64 p)
          else if t = 8 then map_option (Burn a b c) (as_u64 p)
          else if t = 9 then map_option (\<lambda>_. CloseAccount a b c) (as_unit p)
          else if t = 10 then map_option (\<lambda>_. FreezeAccount a b c) (as_unit p)
          else if t = 11 then map_option (\<lambda>_. ThawAccount a b c) (as_unit p)
          else if t = 14 then map_option (\<lambda>(x, d). MintToChecked a b c x d) (as_checked p)
          else if t = 15 then map_option (\<lambda>(x, d). BurnChecked a b c x d) (as_checked p)
          else None
      | [a, b, c, e] \<Rightarrow>
          if t = 1 then map_option (\<lambda>_. InitializeAccount a b c) (as_unit p)
          else if t = 12 then map_option (\<lambda>(x, d). TransferChecked a b c e x d) (as_checked p)
          else if t = 13 then map_option (\<lambda>(x, d). ApproveChecked a b c e x d) (as_checked p)
          else None
      | _ \<Rightarrow> None)"

definition token_view :: "PublicKey list \<Rightarrow> bytes \<Rightarrow> token_call option" where
  "token_view ks data =
     (case data of
        [] \<Rightarrow> None
      | t # p \<Rightarrow>
          if t = 2 then
            (case ks of a # rent # ss \<Rightarrow> (case p of [m] \<Rightarrow> Some (InitializeMultisig a m ss) | _ \<Rightarrow> None) | _ \<Rightarrow> None)
          else token_payload ks t p)"

fun token_call_ok :: "token_call \<Rightarrow> bool" where
  "token_call_ok (InitializeMint a b c d) \<longleftrightarrow> length c = 32 \<and> (\<forall>k. d = Some k \<longrightarrow> length k = 32)"
| "token_call_ok (InitializeMint2 a b c d) \<longleftrightarrow> length c = 32 \<and> length d = 32"
| "token_call_ok (InitializeAccount3 a b c) \<longleftrightarrow> length c = 32"
| "token_call_ok (SetAuthority a b c d) \<longleftrightarrow> (\<forall>k. c = Some k \<longrightarrow> length k = 32)"
| "token_call_ok _ \<longleftrightarrow> True"

fun token_signs :: "token_call \<Rightarrow> PublicKey list" where
  "token_signs (Transfer s d auth x) = [auth]"
| "token_signs (TransferChecked s mn d auth x dec) = [auth]"
| "token_signs (MintTo mn d auth x) = [auth]"
| "token_signs (Burn a mn auth x) = [auth]"
| "token_signs (CloseAccount a d auth) = [auth]"
| "token_signs (Approve s d ownr x) = [ownr]"
| "token_signs (ApproveChecked s mn d ownr x dec) = [ownr]"
| "token_signs (Revoke s ownr) = [ownr]"
| "token_signs (SetAuthority a cur na ty) = [cur]"
| "token_signs (FreezeAccount a mn auth) = [auth]"
| "token_signs (ThawAccount a mn auth) = [auth]"
| "token_signs (MintToChecked mn d auth x dec) = [auth]"
| "token_signs (BurnChecked a mn auth x dec) = [auth]"
| "token_signs _ = []"

lemmas token_builder_defs =
  token_NewInitializeMint_def token_NewInitializeAccount_def token_NewInitializeMultisig_def token_NewTransfer_def
  token_NewTransferChecked_def token_NewMintTo_def token_NewBurn_def token_NewCloseAccount_def
  token_NewInitializeMint2_def token_NewInitializeAccount3_def token_NewApprove_def token_NewApproveChecked_def
  token_NewRevoke_def token_NewSetAuthority_def token_NewFreezeAccount_def token_NewThawAccount_def
  token_NewMintToChecked_def token_NewBurnChecked_def token_NewSyncNative_def

lemmas token_tag_defs =
  tok_tagInitializeMint_def tok_tagInitializeAccount_def tok_tagInitializeMultisig_def tok_tagTransfer_def
  tok_tagApprove_def tok_tagRevoke_def tok_tagSetAuthority_def tok_tagMintTo_def tok_tagBurn_def
  tok_tagCloseAccount_def tok_tagFreezeAccount_def tok_tagThawAccount_def tok_tagTransferChecked_def
  tok_tagApproveChecked_def tok_tagMintToChecked_def tok_tagBurnChecked_def tok_tagSyncNative_def
  tok_tagInitializeAccount3_def tok_tagInitializeMint2_def

lemmas instruction_defs = NewInstruction_def NewAccountMeta_def metas_def

interpretation token: instruction_codec "token_build wk" token_view token_call_ok token_signs for wk
proof
  fix c
  show "None \<notin> set (ix_Accounts (token_build wk c))"
    by (cases c) (auto simp: token_builder_defs instruction_defs Let_def)
  show "map am_PublicKey (filter IsSigner (metas (token_build wk c))) = token_signs c"
    by (cases c) (auto simp: token_builder_defs instruction_defs Let_def filter_map comp_def filter_False)
  assume "token_call_ok c"
  then show "\<exists>d. ix_Data (token_build wk c) = Inr d \<and> token_view (map am_PublicKey (metas (token_build wk c))) d = Some c"
    by (cases c) (auto simp: token_builder_defs token_tag_defs instruction_defs Let_def token_view_def token_payload_def
        as_defs initMintData_def zero_key_def pk_IsZero_def nth_append comp_def PublicKeySize_def split: option.splits)
qed

end
