(* ===== verification/Program_Views.thy ===== *)
theory Program_Views
  imports Program_Specs Token_State
begin

text \<open>
  The instruction contracts of the system program, of the Token-2022 extensions and of the
  stake program, and the self-contained signature-verification instructions of the
  precompiles.
\<close>

section \<open>System program\<close>

datatype system_call =
    SysTransfer PublicKey PublicKey u64
  | SysCreateAccount PublicKey PublicKey u64 u64 PublicKey
  | SysAssign PublicKey PublicKey
  | SysAllocate PublicKey u64
  | SysAdvanceNonce PublicKey PublicKey
  | SysWithdrawNonce PublicKey PublicKey PublicKey u64
  | SysInitializeNonce PublicKey PublicKey
  | SysAuthorizeNonce PublicKey PublicKey PublicKey
  | SysCreateAccountWithSeed PublicKey PublicKey PublicKey bytes u64 u64 PublicKey
  | SysTransferWithSeed PublicKey PublicKey PublicKey u64 bytes PublicKey

fun system_build :: "well_known \<Rightarrow> system_call \<Rightarrow> Instruction" where
  "system_build wk (SysTransfer a b c) = system_NewTransfer a b c"
| "system_build wk (SysCreateAccount a b c d e) = system_NewCreateAccount a b c d e"
| "system_build wk (SysAssign a b) = system_NewAssign a b"
| "system_build wk (SysAllocate a b) = system_NewAllocate a b"
| "system_build wk (SysAdvanceNonce a b) = system_NewAdvanceNonceAccount wk a b"
| "system_build wk (SysWithdrawNonce a b c d) = system_NewWithdrawNonceAccount wk a b c d"
| "system_build wk (SysInitializeNonce a b) = system_NewInitializeNonceAccount wk a b"
| "system_build wk (SysAuthorizeNonce a b c) = system_NewAuthorizeNonceAccount a b c"
| "system_build wk (SysCreateAccountWithSeed a b c d e f g) = system_NewCreateAccountWithSeed a b c d e f g"
| "system_build wk (SysTransferWithSeed a b c d e f) = system_NewTransferWithSeed a b c d e f"

text \<open>A bincode string: its length as a u64, then the bytes; with what follows it.\<close>

definition as_string :: "bytes \<Rightarrow> (bytes \<times> bytes) option" where
  "as_string p =
     (let n = unat (le_word (take 8 p) :: u64)
      in if length p < 8 \<or> length p < 8 + n then None else Some (take n (drop 8 p), drop (8 + n) p))"

definition as_space :: "bytes \<Rightarrow> (u64 \<times> u64 \<times> PublicKey) option" where
  "as_space p = (if length p = 48 then Some (le_word (take 8 p), le_word (take 8 (drop 8 p)), drop 16 p) else None)"

definition as_seeded :: "bytes \<Rightarrow> (PublicKey \<times> bytes \<times> u64 \<times> u64 \<times> PublicKey) option" where
  "as_seeded p =
     (if length p < 32 then None
      else case as_string (drop 32 p) of
        None \<Rightarrow> None
      | Some (seed, r) \<Rightarrow> map_option (\<lambda>(l, s, ow). (take 32 p, seed, l, s, ow)) (as_space r))"

definition as_seeded_transfer :: "bytes \<Rightarrow> (u64 \<times> bytes \<times> PublicKey) option" where
  "as_seeded_transfer p =
     (if length p < 8 then None
      else case as_string (drop 8 p) of
        None \<Rightarrow> None
      | Some (seed, r) \<Rightarrow> map_option (\<lambda>ow. (le_word (take 8 p), seed, ow)) (as_key r))"

definition system_payload :: "PublicKey list \<Rightarrow> u32 \<Rightarrow> bytes \<Rightarrow> system_call option" where
  "system_payload ks t p =
     (case ks of
        [a] \<Rightarrow>
          if t = 1 then map_option (SysAssign a) (as_key p)
          else if t = 8 then map_option (SysAllocate a) (as_u64 p)
          else None
      | [a, b] \<Rightarrow>
          if t = 2 then map_option (SysTransfer a b) (as_u64 p)
          else if t = 0 then map_option (\<lambda>(l, s, ow). SysCreateAccount a b l s ow) (as_space p)
          else if t = 7 then map_option (SysAuthorizeNonce a b) (as_key p)
          else if t = 3 then map_option (\<lambda>(bs, sd, l, s, ow). SysCreateAccountWithSeed a b bs sd l s ow) (as_seeded p)
          else None
      | [a, b, c] \<Rightarrow>
          if t = 4 then map_option (\<lambda>_. SysAdvanceNonce a c) (as_unit p)
          else if t = 6 then map_option (SysInitializeNonce a) (as_key p)
          else if t = 3 then map_option (\<lambda>(bs, sd, l, s, ow). SysCreateAccountWithSeed a b bs sd l s ow) (as_seeded p)
          else if t = 11 then map_option (\<lambda>(l, sd, ow). SysTransferWithSeed a b c l sd ow) (as_seeded_transfer p)
          else None
      | [a, b, c, d, e] \<Rightarrow>
          if t = 5 then map_option (SysWithdrawNonce a e b) (as_u64 p) else None
      | _ \<Rightarrow> None)"

definition tagged_view :: "(PublicKey list \<Rightarrow> u32 \<Rightarrow> bytes \<Rightarrow> 'c option) \<Rightarrow> PublicKey list \<Rightarrow> bytes \<Rightarrow> 'c option" where
  "tagged_view payload ks data =
     (if length data < 4 then None else payload ks (le_word (take 4 data)) (drop 4 data))"

definition system_view :: "PublicKey list \<Rightarrow> bytes \<Rightarrow> system_call option" where
  "system_view = tagged_view system_payload"

fun system_call_ok :: "system_call \<Rightarrow> bool" where
  "system_call_ok (SysCreateAccount a b c d e) \<longleftrightarrow> length e = 32"
| "system_call_ok (SysAssign a b) \<longleftrightarrow> length b = 32"
| "system_call_ok (SysInitializeNonce a b) \<longleftrightarrow> length b = 32"
| "system_call_ok (SysAuthorizeNonce a b c) \<longleftrightarrow> length c = 32"
| "system_call_ok (SysCreateAccountWithSeed a b c d e f g) \<longleftrightarrow> length c = 32 \<and> length d < 2 ^ 64 \<and> length g = 32"
| "system_call_ok (SysTransferWithSeed a b c d e f) \<longleftrightarrow> length e < 2 ^ 64 \<and> length f = 32"
| "system_call_ok _ \<longleftrightarrow> True"

fun system_signs :: "system_call \<Rightarrow> PublicKey list" where
  "system_signs (SysTransfer src dst l) = [src]"
| "system_signs (SysCreateAccount src new l s ow) = [src, new]"
| "system_signs (SysAssign a ow) = [a]"
| "system_signs (SysAllocate a s) = [a]"
| "system_signs (SysAdvanceNonce n auth) = [auth]"
| "system_signs (SysWithdrawNonce n auth dst l) = [auth]"
| "system_signs (SysInitializeNonce n auth) = []"
| "system_signs (SysAuthorizeNonce n auth new) = [auth]"
| "system_signs (SysCreateAccountWithSeed src new base sd l s ow) = (if base = src then [src] else [src, base])"
| "system_signs (SysTransferWithSeed src base dst l sd ow) = [base]"

lemmas system_builder_defs =
  system_NewTransfer_def system_NewCreateAccount_def system_NewAssign_def system_NewAllocate_def
  system_NewAdvanceNonceAccount_def system_NewWithdrawNonceAccount_def system_NewInitializeNonceAccount_def
  system_NewAuthorizeNonceAccount_def system_NewCreateAccountWithSeed_def system_NewTransferWithSeed_def

lemmas system_tag_defs =
  system_tagCreateAccount_def system_tagAssign_def system_tagTransfer_def system_tagCreateAccountWithSeed_def
  system_tagAdvanceNonceAccount_def system_tagWithdrawNonceAccount_def system_tagInitializeNonceAccount_def
  system_tagAuthorizeNonceAccount_def system_tagAllocate_def system_tagTransferWithSeed_def

lemma e_buf_StrU64 [simp]: "e_buf (enc_StrU64 s e) = e_buf e @ le_bytes 8 (of_nat (length s) :: u64) @ s"
  by (simp add: enc_StrU64_def WriteBytes_def)

lemma as_string_app [simp]:
  "length s < 2 ^ 64 \<Longrightarrow> as_string (le_bytes 8 (of_nat (length s) :: u64) @ s @ r) = Some (s, r)"
  by (simp add: as_string_def unat_of_nat)

lemmas system_as_defs = as_defs as_space_def as_seeded_def as_seeded_transfer_def

interpretation system: instruction_codec "system_build wk" system_view system_call_ok system_signs for wk
proof
  fix c
  show "None \<notin> set (ix_Accounts (system_build wk c))"
    by (cases c) (auto simp: system_builder_defs instruction_defs Let_def)
  show "map am_PublicKey (filter IsSigner (metas (system_build wk c))) = system_signs c"
    by (cases c) (auto simp: system_builder_defs instruction_defs Let_def)
  assume "system_call_ok c"
  then show "\<exists>d. ix_Data (system_build wk c) = Inr d \<and> system_view (map am_PublicKey (metas (system_build wk c))) d = Some c"
    by (cases c) (auto simp: system_builder_defs system_tag_defs instruction_defs Let_def system_view_def tagged_view_def
        system_payload_def system_as_defs)
qed

section \<open>Token-2022 extensions\<close>

text \<open>
  The instructions whose optional keys are \<open>OptionalNonZeroPubkey\<close> fields, and those without optional
  keys.  \<open>InitializeMintCloseAuthority\<close> and \<open>InitializeTransferFeeConfig\<close> are not among them: there the
  program reads a tag byte before an optional key, which the builders do not write
  (\<open>optional_keys_untagged\<close>).
\<close>

datatype ext_call =
    InitNonTransferableMint PublicKey
  | InitPermanentDelegate PublicKey PublicKey
  | InitDefaultAccountState PublicKey u8
  | UpdateDefaultAccountState PublicKey PublicKey u8
  | SetTransferFee PublicKey PublicKey u16 u64
  | WithdrawWithheldFromMint PublicKey PublicKey PublicKey
  | WithdrawWithheldFromAccounts PublicKey PublicKey PublicKey "PublicKey list"
  | HarvestWithheldToMint PublicKey "PublicKey list"
  | InitInterestBearingMint PublicKey "PublicKey option" int
  | UpdateInterestBearingRate PublicKey PublicKey int
  | InitMetadataPointer PublicKey "PublicKey option" "PublicKey option"
  | UpdateMetadataPointer PublicKey PublicKey "PublicKey option"
  | InitTransferHook PublicKey "PublicKey option" "PublicKey option"
  | UpdateTransferHook PublicKey PublicKey "PublicKey option"
  | EnableMemoTransfers PublicKey PublicKey
  | DisableMemoTransfers PublicKey PublicKey
  | EnableCpiGuard PublicKey PublicKey
  | DisableCpiGuard PublicKey PublicKey

fun ext_build :: "well_known \<Rightarrow> ext_call \<Rightarrow> Instruction" where
  "ext_build wk (InitNonTransferableMint a) = NewInitializeNonTransferableMint wk a"
| "ext_build wk (InitPermanentDelegate a b) = NewInitializePermanentDelegate wk a b"
| "ext_build wk (InitDefaultAccountState a b) = NewInitializeDefaultAccountState wk a b"
| "ext_build wk (UpdateDefaultAccountState a b c) = NewUpdateDefaultAccountState wk a b c"
| "ext_build wk (SetTransferFee a b c d) = NewSetTransferFee wk a b c d"
| "ext_build wk (WithdrawWithheldFromMint a b c) = NewWithdrawWithheldTokensFromMint wk a b c"
| "ext_build wk (WithdrawWithheldFromAccounts a b c d) = NewWithdrawWithheldTokensFromAccounts wk a b c d"
| "ext_build wk (HarvestWithheldToMint a b) = NewHarvestWithheldTokensToMint wk a b"
| "ext_build wk (InitInterestBearingMint a b c) = NewInitializeInterestBearingMint wk a b c"
| "ext_build wk (UpdateInterestBearingRate a b c) = NewUpdateInterestBearingMintRate wk a b c"
| "ext_build wk (InitMetadataPointer a b c) = NewInitializeMetadataPointer wk a b c"
| "ext_build wk (UpdateMetadataPointer a b c) = NewUpdateMetadataPointer wk a b c"
| "ext_build wk (InitTransferHook a b c) = NewInitializeTransferHook wk a b c"
| "ext_build wk (UpdateTransferHook a b c) = NewUpdateTransferHook wk a b c"
| "ext_build wk (EnableMemoTransfers a b) = NewEnableRequiredMemoTransfers wk a b"
| "ext_build wk (DisableMemoTransfers a b) = NewDisableRequiredMemoTransfers wk a b"
| "ext_build wk (EnableCpiGuard a b) = NewEnableCpiGuard wk a b"
| "ext_build wk (DisableCpiGuard a b) = NewDisableCpiGuard wk a b"

text \<open>An \<open>OptionalNonZeroPubkey\<close> field: 32 bytes, all zero for none.\<close>

definition nz_key :: "bytes \<Rightarrow> PublicKey option" where
  "nz_key k = (if k = zero_array 32 then None else Some k)"

definition as_nz :: "bytes \<Rightarrow> PublicKey option option" where
  "as_nz p = (if length p = 32 then Some (nz_key p) else None)"

definition as_nz2 :: "bytes \<Rightarrow> (PublicKey option \<times> PublicKey option) option" where
  "as_nz2 p = (if length p = 64 then Some (nz_key (take 32 p), nz_key (drop 32 p)) else None)"

definition as_fee :: "bytes \<Rightarrow> (u16 \<times> u64) option" where
  "as_fee p = (if length p = 10 then Some (le_word (take 2 p), le_word (drop 2 p)) else None)"

definition as_rate :: "bytes \<Rightarrow> int option" where
  "as_rate p = (if length p = 2 then Some (sint (le_word p :: u16)) else None)"

definition as_byte :: "bytes \<Rightarrow> u8 option" where
  "as_byte p = (case p of [b] \<Rightarrow> Some b | _ \<Rightarrow> None)"

definition ext_payload :: "PublicKey list \<Rightarrow> u8 \<Rightarrow> u8 \<Rightarrow> bytes \<Rightarrow> ext_call option" where
  "ext_payload ks t s p =
     (if t = 26 \<and> s = 4 then
        (case ks of m # ss \<Rightarrow> map_option (\<lambda>_. HarvestWithheldToMint m ss) (as_unit p) | _ \<Rightarrow> None)
      else if t = 26 \<and> s = 3 then
        (case ks of
           m # d # w # ss \<Rightarrow>
             Option.bind (as_byte p) (\<lambda>n. if unat n = length ss then Some (WithdrawWithheldFromAccounts m d w ss) else None)
         | _ \<Rightarrow> None)
      else
        (case ks of
           [a] \<Rightarrow>
             if t = 28 \<and> s = 0 then map_option (InitDefaultAccountState a) (as_byte p)
             else if t = 33 \<and> s = 0 then
               Option.bind (as_nz (take 32 p)) (\<lambda>x. map_option (InitInterestBearingMint a x) (as_rate (drop 32 p)))
             else if t = 39 \<and> s = 0 then map_option (\<lambda>(x, y). InitMetadataPointer a x y) (as_nz2 p)
             else if t = 36 \<and> s = 0 then map_option (\<lambda>(x, y). InitTransferHook a x y) (as_nz2 p)
             else None
         | [a, b] \<Rightarrow>
             if t = 28 \<and> s = 1 then map_option (UpdateDefaultAccountState a b) (as_byte p)
             else if t = 26 \<and> s = 5 then map_option (\<lambda>(f, g). SetTransferFee a b f g) (as_fee p)
             else if t = 33 \<and> s = 1 then map_option (UpdateInterestBearingRate a b) (as_rate p)
             else if t = 39 \<and> s = 1 then map_option (UpdateMetadataPointer a b) (as_nz p)
             else if t = 36 \<and> s = 1 then map_option (UpdateTransferHook a b) (as_nz p)
             else if t = 30 \<and> s = 0 then map_option (\<lambda>_. EnableMemoTransfers a b) (as_unit p)
             else if t = 30 \<and> s = 1 then map_option (\<lambda>_. DisableMemoTransfers a b) (as_unit p)
             else if t = 34 \<and> s = 0 then map_option (\<lambda>_. EnableCpiGuard a b) (as_unit p)
             else if t = 34 \<and> s = 1 then map_option (\<lambda>_. DisableCpiGuard a b) (as_unit p)
             else None
         | [a, b, c] \<Rightarrow>
             if t = 26 \<and> s = 2 then map_option (\<lambda>_. WithdrawWithheldFromMint a b c) (as_unit p) else None
         | _ \<Rightarrow> None))"

definition ext_view :: "PublicKey list \<Rightarrow> bytes \<Rightarrow> ext_call option" where
  "ext_view ks data =
     (case data of
        [] \<Rightarrow> None
      | t # p \<Rightarrow>
          if t = 32 then (case ks of [a] \<Rightarrow> map_option (\<lambda>_. InitNonTransferableMint a) (as_unit p) | _ \<Rightarrow> None)
          else if t = 35 then (case ks of [a] \<Rightarrow> map_option (InitPermanentDelegate a) (as_key p) | _ \<Rightarrow> None)
          else (case p of [] \<Rightarrow> None | s # q \<Rightarrow> ext_payload ks t s q))"

definition nz_ok :: "PublicKey option \<Rightarrow> bool" where
  "nz_ok k \<longleftrightarrow> (\<forall>x. k = Some x \<longrightarrow> length x = 32 \<and> x \<noteq> zero_array 32)"

fun ext_call_ok :: "ext_call \<Rightarrow> bool" where
  "ext_call_ok (InitPermanentDelegate a b) \<longleftrightarrow> length b = 32"
| "ext_call_ok (WithdrawWithheldFromAccounts a b c d) \<longleftrightarrow> length d \<le> 255"
| "ext_call_ok (InitInterestBearingMint a b c) \<longleftrightarrow> nz_ok b \<and> fits_signed 16 c"
| "ext_call_ok (UpdateInterestBearingRate a b c) \<longleftrightarrow> fits_signed 16 c"
| "ext_call_ok (InitMetadataPointer a b c) \<longleftrightarrow> nz_ok b \<and> nz_ok c"
| "ext_call_ok (UpdateMetadataPointer a b c) \<longleftrightarrow> nz_ok c"
| "ext_call_ok (InitTransferHook a b c) \<longleftrightarrow> nz_ok b \<and> nz_ok c"
| "ext_call_ok (UpdateTransferHook a b c) \<longleftrightarrow> nz_ok c"
| "ext_call_ok _ \<longleftrightarrow> True"

fun ext_signs :: "ext_call \<Rightarrow> PublicKey list" where
  "ext_signs (UpdateDefaultAccountState m auth s) = [auth]"
| "ext_signs (SetTransferFee m auth f g) = [auth]"
| "ext_signs (WithdrawWithheldFromMint m d auth) = [auth]"
| "ext_signs (WithdrawWithheldFromAccounts m d auth ss) = [auth]"
| "ext_signs (UpdateInterestBearingRate m auth r) = [auth]"
| "ext_signs (UpdateMetadataPointer m auth p) = [auth]"
| "ext_signs (UpdateTransferHook m auth p) = [auth]"
| "ext_signs (EnableMemoTransfers a ownr) = [ownr]"
| "ext_signs (DisableMemoTransfers a ownr) = [ownr]"
| "ext_signs (EnableCpiGuard a ownr) = [ownr]"
| "ext_signs (DisableCpiGuard a ownr) = [ownr]"
| "ext_signs _ = []"

lemmas ext_builder_defs =
  NewInitializeNonTransferableMint_def NewInitializePermanentDelegate_def
  NewInitializeDefaultAccountState_def NewUpdateDefaultAccountState_def
  NewSetTransferFee_def NewWithdrawWithheldTokensFromMint_def NewWithdrawWithheldTokensFromAccounts_def
  NewHarvestWithheldTokensToMint_def NewInitializeInterestBearingMint_def NewUpdateInterestBearingMintRate_def
  NewInitializeMetadataPointer_def NewUpdateMetadataPointer_def NewInitializeTransferHook_def
  NewUpdateTransferHook_def NewEnableRequiredMemoTransfers_def NewDisableRequiredMemoTransfers_def
  NewEnableCpiGuard_def NewDisableCpiGuard_def

lemma optNonZeroKey_ok [simp]:
  assumes "nz_ok k"
  shows "length (optNonZeroKey k) = 32" and "nz_key (optNonZeroKey k) = k"
  using assms by (auto simp: nz_ok_def nz_key_def optNonZeroKey_def PublicKeySize_def split: option.splits)

lemma e_buf_I16 [simp]: "e_buf (I16 v e) = e_buf e @ le_bytes 2 (word_of_int v :: u16)"
  by (simp add: I16_def WriteInt16_def flip: U16_def)

lemma sint_word16: "fits_signed 16 v \<Longrightarrow> sint (word_of_int v :: u16) = v"
  by (simp add: fits_signed_def signed_take_bit_int_eq_self sint_sbintrunc')

lemmas ext_as_defs = as_defs as_nz_def as_nz2_def as_fee_def as_rate_def as_byte_def

interpretation ext: instruction_codec "ext_build wk" ext_view ext_call_ok ext_signs for wk
proof
  fix c
  show "None \<notin> set (ix_Accounts (ext_build wk c))"
    by (cases c) (auto simp: ext_builder_defs instruction_defs)
  show "map am_PublicKey (filter IsSigner (metas (ext_build wk c))) = ext_signs c"
    by (cases c) (auto simp: ext_builder_defs instruction_defs comp_def filter_map filter_False)
  assume "ext_call_ok c"
  then show "\<exists>d. ix_Data (ext_build wk c) = Inr d \<and> ext_view (map am_PublicKey (metas (ext_build wk c))) d = Some c"
    by (cases c) (auto simp: ext_builder_defs instruction_defs ext_view_def ext_payload_def ext_as_defs
        sint_word16 comp_def unat_of_nat)
qed

text \<open>
  An optional key as a tag byte, with the key when the tag is 1, and what follows it.  The builders of
  the mint close authority (tag 25) and of the transfer fee config (tag 26, 0) write 32 raw bytes
  instead: the close authority is never read back, and the fee config is never two optional keys
  followed by the ten bytes of the fee.
\<close>

definition as_tagged_key :: "bytes \<Rightarrow> (PublicKey option \<times> bytes) option" where
  "as_tagged_key p =
     (case p of
        [] \<Rightarrow> None
      | f # q \<Rightarrow> if f = 0 then Some (None, q)
                else if f = 1 \<and> 32 \<le> length q then Some (Some (take 32 q), drop 32 q) else None)"

lemma as_tagged_key_length:
  "as_tagged_key p = Some (k, r) \<Longrightarrow> length p = length r + (case k of None \<Rightarrow> 1 | Some _ \<Rightarrow> 33)"
  by (auto simp: as_tagged_key_def split: list.splits if_splits)

lemma optional_keys_untagged:
  "nz_ok (Some k) \<Longrightarrow> \<exists>p. ix_Data (NewInitializeMintCloseAuthority wk mint (Some k)) = Inr (25 # p) \<and>
     (\<forall>r. as_tagged_key p \<noteq> Some (Some k, r))"
  "nz_ok a \<Longrightarrow> nz_ok b \<Longrightarrow> \<exists>p. ix_Data (NewInitializeTransferFeeConfig wk mint a b fee most) = Inr (26 # 0 # p) \<and>
     (\<forall>x y q r. as_tagged_key p = Some (x, q) \<longrightarrow> as_tagged_key q = Some (y, r) \<longrightarrow> length r \<noteq> 10)"
proof -
  assume "nz_ok (Some k)"
  then show "\<exists>p. ix_Data (NewInitializeMintCloseAuthority wk mint (Some k)) = Inr (25 # p) \<and>
      (\<forall>r. as_tagged_key p \<noteq> Some (Some k, r))"
    by (auto simp: NewInitializeMintCloseAuthority_def instruction_defs dest!: as_tagged_key_length)
next
  assume ok: "nz_ok a" "nz_ok b"
  let ?p = "optNonZeroKey a @ optNonZeroKey b @ le_bytes 2 fee @ le_bytes 8 most"
  have "length ?p = 74" using ok by simp
  then have "length r \<noteq> 10" if "as_tagged_key ?p = Some (x, q)" "as_tagged_key q = Some (y, r)" for x y q r
    using as_tagged_key_length [OF that(1)] as_tagged_key_length [OF that(2)] by (simp split: option.splits)
  then show "\<exists>p. ix_Data (NewInitializeTransferFeeConfig wk mint a b fee most) = Inr (26 # 0 # p) \<and>
      (\<forall>x y q r. as_tagged_key p = Some (x, q) \<longrightarrow> as_tagged_key q = Some (y, r) \<longrightarrow> length r \<noteq> 10)"
    by (intro exI [of _ ?p]) (auto simp: NewInitializeTransferFeeConfig_def instruction_defs)
qed

section \<open>Stake program\<close>

datatype stake_call =
    StakeInitialize PublicKey PublicKey PublicKey int u64 PublicKey
  | StakeDelegate PublicKey PublicKey PublicKey
  | StakeDeactivate PublicKey PublicKey
  | StakeWithdraw PublicKey PublicKey PublicKey u64 "PublicKey option"
  | StakeSplit PublicKey PublicKey PublicKey u64
  | StakeMerge PublicKey PublicKey PublicKey
  | StakeAuthorize PublicKey PublicKey PublicKey u32 "PublicKey option"
  | StakeAuthorizeChecked PublicKey PublicKey PublicKey u32 "PublicKey option"
  | StakeInitializeChecked PublicKey PublicKey PublicKey
  | StakeSetLockup PublicKey PublicKey "int option" "u64 option" "PublicKey option"

fun stake_build :: "well_known \<Rightarrow> stake_call \<Rightarrow> Instruction" where
  "stake_build wk (StakeInitialize a st wd ts ep cu) =
     stake_Initialize wk a \<lparr>Staker = st, Withdrawer = wd\<rparr> \<lparr>UnixTimestamp = ts, lk_Epoch = ep, Custodian = cu\<rparr>"
| "stake_build wk (StakeDelegate a b c) = stake_Delegate wk a b c"
| "stake_build wk (StakeDeactivate a b) = stake_Deactivate wk a b"
| "stake_build wk (StakeWithdraw a b c d e) = stake_Withdraw wk a b c d e"
| "stake_build wk (StakeSplit a b c d) = stake_Split wk a b c d"
| "stake_build wk (StakeMerge a b c) = stake_Merge wk a b c"
| "stake_build wk (StakeAuthorize a b c d e) = stake_Authorize wk a b c d e"
| "stake_build wk (StakeAuthorizeChecked a b c d e) = stake_AuthorizeChecked wk a b c d e"
| "stake_build wk (StakeInitializeChecked a b c) = stake_InitializeChecked wk a b c"
| "stake_build wk (StakeSetLockup a b c d e) = stake_SetLockup wk a b c d e"

text \<open>The optional custodian is a trailing account.\<close>

definition as_custodian :: "PublicKey list \<Rightarrow> PublicKey option option" where
  "as_custodian ks = (case ks of [] \<Rightarrow> Some None | [k] \<Rightarrow> Some (Some k) | _ \<Rightarrow> None)"

definition as_opt_u64 :: "bytes \<Rightarrow> (u64 option \<times> bytes) option" where
  "as_opt_u64 p =
     (case p of
        [] \<Rightarrow> None
      | f # q \<Rightarrow> if f = 0 then Some (None, q) else if length q < 8 then None
                else Some (Some (le_word (take 8 q)), drop 8 q))"

definition as_lockup :: "bytes \<Rightarrow> (int option \<times> u64 option \<times> PublicKey option) option" where
  "as_lockup p =
     Option.bind (as_opt_u64 p) (\<lambda>(ts, q).
     Option.bind (as_opt_u64 q) (\<lambda>(ep, r).
     map_option (\<lambda>cu. (map_option sint ts, ep, cu)) (as_opt_key r)))"

definition as_key_u32 :: "bytes \<Rightarrow> (PublicKey \<times> u32) option" where
  "as_key_u32 p = (if length p = 36 then Some (take 32 p, le_word (drop 32 p)) else None)"

definition as_u32 :: "bytes \<Rightarrow> u32 option" where
  "as_u32 p = (if length p = 4 then Some (le_word p) else None)"

definition as_stake_init :: "bytes \<Rightarrow> (PublicKey \<times> PublicKey \<times> int \<times> u64 \<times> PublicKey) option" where
  "as_stake_init p = (if length p = 112
     then Some (take 32 p, take 32 (drop 32 p), sint (le_word (take 8 (drop 64 p)) :: u64),
            le_word (take 8 (drop 72 p)), drop 80 p)
     else None)"

definition stake_payload :: "PublicKey list \<Rightarrow> u32 \<Rightarrow> bytes \<Rightarrow> stake_call option" where
  "stake_payload ks t p =
     (if t = 0 then
        (case ks of
           [a, rent] \<Rightarrow> map_option (\<lambda>(st, wd, ts, ep, cu). StakeInitialize a st wd ts ep cu) (as_stake_init p)
         | _ \<Rightarrow> None)
      else if t = 1 then
        (case ks of
           a # clock # b # cs \<Rightarrow>
             Option.bind (as_custodian cs) (\<lambda>cu. map_option (\<lambda>(k, ty). StakeAuthorize a b k ty cu) (as_key_u32 p))
         | _ \<Rightarrow> None)
      else if t = 2 then
        (case ks of
           [a, b, clock, hist, cfg, c] \<Rightarrow> map_option (\<lambda>_. StakeDelegate a b c) (as_unit p)
         | _ \<Rightarrow> None)
      else if t = 3 then (case ks of [a, b, c] \<Rightarrow> map_option (StakeSplit a b c) (as_u64 p) | _ \<Rightarrow> None)
      else if t = 4 then
        (case ks of
           a # b # clock # hist # c # cs \<Rightarrow>
             Option.bind (as_custodian cs) (\<lambda>cu. map_option (\<lambda>l. StakeWithdraw a b c l cu) (as_u64 p))
         | _ \<Rightarrow> None)
      else if t = 5 then (case ks of [a, clock, b] \<Rightarrow> map_option (\<lambda>_. StakeDeactivate a b) (as_unit p) | _ \<Rightarrow> None)
      else if t = 6 then
        (case ks of [a, b] \<Rightarrow> map_option (\<lambda>(ts, ep, cu). StakeSetLockup a b ts ep cu) (as_lockup p) | _ \<Rightarrow> None)
      else if t = 7 then
        (case ks of [a, b, clock, hist, c] \<Rightarrow> map_option (\<lambda>_. StakeMerge a b c) (as_unit p) | _ \<Rightarrow> None)
      else if t = 9 then
        (case ks of [a, rent, b, c] \<Rightarrow> map_option (\<lambda>_. StakeInitializeChecked a b c) (as_unit p) | _ \<Rightarrow> None)
      else if t = 10 then
        (case ks of
           a # clock # b # c # cs \<Rightarrow>
             Option.bind (as_custodian cs) (\<lambda>cu. map_option (\<lambda>ty. StakeAuthorizeChecked a b c ty cu) (as_u32 p))
         | _ \<Rightarrow> None)
      else None)"

definition stake_view :: "PublicKey list \<Rightarrow> bytes \<Rightarrow> stake_call option" where
  "stake_view = tagged_view stake_payload"

fun stake_call_ok :: "stake_call \<Rightarrow> bool" where
  "stake_call_ok (StakeInitialize a st wd ts ep cu) \<longleftrightarrow>
     length st = 32 \<and> length wd = 32 \<and> fits_signed 64 ts \<and> length cu = 32"
| "stake_call_ok (StakeAuthorize a b c d e) \<longleftrightarrow> length c = 32"
| "stake_call_ok (StakeSetLockup a b c d e) \<longleftrightarrow>
     (\<forall>v. c = Some v \<longrightarrow> fits_signed 64 v) \<and> (\<forall>k. e = Some k \<longrightarrow> length k = 32)"
| "stake_call_ok _ \<longleftrightarrow> True"

fun stake_signs :: "stake_call \<Rightarrow> PublicKey list" where
  "stake_signs (StakeInitialize a st wd ts ep cu) = []"
| "stake_signs (StakeDelegate a v st) = [st]"
| "stake_signs (StakeDeactivate a st) = [st]"
| "stake_signs (StakeWithdraw a d wd l cu) = wd # (case cu of None \<Rightarrow> [] | Some c \<Rightarrow> [c])"
| "stake_signs (StakeSplit a b st l) = [st]"
| "stake_signs (StakeMerge a b st) = [st]"
| "stake_signs (StakeAuthorize a auth new ty cu) = auth # (case cu of None \<Rightarrow> [] | Some c \<Rightarrow> [c])"
| "stake_signs (StakeAuthorizeChecked a auth new ty cu) = auth # new # (case cu of None \<Rightarrow> [] | Some c \<Rightarrow> [c])"
| "stake_signs (StakeInitializeChecked a st wd) = [wd]"
| "stake_signs (StakeSetLockup a auth ts ep cu) = [auth]"

lemmas stake_builder_defs =
  stake_Initialize_def stake_Delegate_def stake_Deactivate_def stake_Withdraw_def stake_Split_def stake_Merge_def
  stake_Authorize_def stake_AuthorizeChecked_def stake_InitializeChecked_def stake_SetLockup_def

lemmas stake_tag_defs =
  stake_tagInitialize_def stake_tagAuthorize_def stake_tagDelegate_def stake_tagSplit_def stake_tagWithdraw_def
  stake_tagDeactivate_def stake_tagSetLockup_def stake_tagMerge_def stake_tagInitializeChecked_def
  stake_tagAuthorizeChecked_def

lemma sint_word64: "fits_signed 64 v \<Longrightarrow> sint (word_of_int v :: u64) = v"
  by (simp add: fits_signed_def signed_take_bit_int_eq_self sint_sbintrunc')

lemma as_opt_u64_app [simp]:
  "as_opt_u64 (0 # q) = Some (None, q)"
  "as_opt_u64 (1 # le_bytes 8 (v :: u64) @ q) = Some (Some v, q)"
  by (simp_all add: as_opt_u64_def)

lemmas stake_as_defs = as_defs as_custodian_def as_key_u32_def as_u32_def as_stake_init_def

interpretation stake: instruction_codec "stake_build wk" stake_view stake_call_ok stake_signs for wk
proof
  fix c
  show "None \<notin> set (ix_Accounts (stake_build wk c))"
    by (cases c) (auto simp: stake_builder_defs instruction_defs Let_def)
  show "map am_PublicKey (filter IsSigner (metas (stake_build wk c))) = stake_signs c"
    by (cases c) (auto simp: stake_builder_defs instruction_defs custodian_meta_def Let_def split: option.splits)
  assume ok: "stake_call_ok c"
  show "\<exists>d. ix_Data (stake_build wk c) = Inr d \<and> stake_view (map am_PublicKey (metas (stake_build wk c))) d = Some c"
  proof (cases "\<exists>a b ts ep cu. c = StakeSetLockup a b ts ep cu")
    case True
    then obtain a b ts ep cu where c: "c = StakeSetLockup a b ts ep cu" by blast
    with ok show ?thesis
      by (cases ts; cases ep; cases cu)
        (auto simp: stake_builder_defs stake_tag_defs instruction_defs stake_view_def tagged_view_def
          stake_payload_def OptI64_def OptU64_def as_lockup_def sint_word64)
  next
    case False
    with ok show ?thesis
      by (cases c) (auto simp: stake_builder_defs stake_tag_defs instruction_defs Let_def stake_view_def tagged_view_def
          stake_payload_def stake_as_defs custodian_meta_def sint_word64 split: option.splits)
  qed
qed

section \<open>Signature precompiles\<close>

text \<open>The u16 at an offset of the data, as an offset.\<close>

definition u16_at :: "bytes \<Rightarrow> nat \<Rightarrow> nat" where
  "u16_at d k = unat (le_word (subslice k (k + 2) d) :: u16)"

section \<open>Properties\<close>

text \<open>
  C38: The Token builders say what was asked: the program's reading of the accounts and data of a
  built instruction is the call with all its arguments, and exactly the documented authority
  is marked as signer.
\<close>

theorem token_builders_faithful:
  assumes "token_call_ok c"
  shows "(\<exists>d. ix_Data (token_build wk c) = Inr d \<and>
      token_view (map am_PublicKey (metas (token_build wk c))) d = Some c) \<and>
    map am_PublicKey (filter IsSigner (metas (token_build wk c))) = token_signs c"
  using token.has_data [OF assms] token.signers by blast

text \<open>
  The system program's reading of a built instruction is the call with all its arguments
  (seeds included), and exactly the documented accounts are marked as signers.
\<close>

theorem system_builders_faithful:
  assumes "system_call_ok c"
  shows "(\<exists>d. ix_Data (system_build wk c) = Inr d \<and>
      system_view (map am_PublicKey (metas (system_build wk c))) d = Some c) \<and>
    map am_PublicKey (filter IsSigner (metas (system_build wk c))) = system_signs c"
  using system.has_data [OF assms] system.signers by blast

text \<open>
  C39: A reader of the Token-2022 extension instructions with the layouts of the program (fixed
  fields, optional keys as 32 bytes with zero for none) recovers from a built instruction the call
  with all its arguments, and its signers are the call's authority.  It covers the 18 extension
  instructions other than \<open>InitializeMintCloseAuthority\<close> and \<open>InitializeTransferFeeConfig\<close>, for optional
  keys that are not the zero key and at most 255 source accounts (the count is written as one byte).
\<close>

theorem token2022_builders_faithful:
  assumes "ext_call_ok c"
  shows "(\<exists>d. ix_Data (ext_build wk c) = Inr d \<and>
      ext_view (map am_PublicKey (metas (ext_build wk c))) d = Some c) \<and>
    map am_PublicKey (filter IsSigner (metas (ext_build wk c))) = ext_signs c"
  using ext.has_data [OF assms] ext.signers by blast

text \<open>
  The stake program's reading of a built instruction is the call with all its arguments, the
  optional custodian included.
\<close>

theorem stake_builders_faithful:
  assumes "stake_call_ok c"
  shows "(\<exists>d. ix_Data (stake_build wk c) = Inr d \<and>
      stake_view (map am_PublicKey (metas (stake_build wk c))) d = Some c) \<and>
    map am_PublicKey (filter IsSigner (metas (stake_build wk c))) = stake_signs c"
  using stake.has_data [OF assms] stake.signers by blast

text \<open>
  The self-contained signature-verification instructions describe themselves: for a message of
  at most 65535 bytes both builders succeed, and the offsets in the descriptor address the
  signature, the key or Ethereum address, and the message inside the same instruction data.
\<close>

theorem precompile_offsets:
  assumes "length msg \<le> 0xFFFF" and "length pk = 32" and "length sig = 64" and "length eth = 20"
  shows "(\<exists>ix d. NewVerifySignature wk pk sig msg = Inr ix \<and> ix_Data ix = Inr d \<and> d ! 0 = 1 \<and>
      subslice (u16_at d 2) (u16_at d 2 + 64) d = sig \<and> u16_at d 4 = 0xFFFF \<and>
      subslice (u16_at d 6) (u16_at d 6 + 32) d = pk \<and> u16_at d 8 = 0xFFFF \<and>
      subslice (u16_at d 10) (u16_at d 10 + u16_at d 12) d = msg \<and> u16_at d 14 = 0xFFFF) \<and>
    (\<exists>ix d. NewVerifyEthSignature wk eth sig rid msg = Inr ix \<and> ix_Data ix = Inr d \<and> d ! 0 = 1 \<and>
      subslice (u16_at d 1) (u16_at d 1 + 65) d = sig @ [rid] \<and> d ! 3 = 0xff \<and>
      subslice (u16_at d 4) (u16_at d 4 + 20) d = eth \<and> d ! 6 = 0xff \<and>
      subslice (u16_at d 7) (u16_at d 7 + u16_at d 9) d = msg \<and> d ! 11 = 0xff)"
  using assms
  by (auto simp: NewVerifySignature_def NewVerifyEthSignature_def NewInstruction_def Let_def u16_at_def subslice_def
      nth_append unat_of_nat)

section \<open>Witnesses\<close>

definition sample_keys :: well_known where
  "sample_keys = \<lparr>SystemProgramID = replicate 32 0, TokenProgramID = replicate 32 100, Token2022ProgramID = replicate 32 101,
     AssociatedTokenProgramID = replicate 32 102, ComputeBudgetProgramID = replicate 32 103,
     SysvarRentPubkey = replicate 32 110, SysvarClockPubkey = replicate 32 111,
     SysvarRecentBlockhashesPubkey = replicate 32 112, SysvarSlotHashesPubkey = replicate 32 113,
     SysvarSlotHistoryPubkey = replicate 32 114, SysvarStakeHistoryPubkey = replicate 32 115,
     SysvarEpochSchedulePubkey = replicate 32 116, SysvarInstructionsPubkey = replicate 32 117,
     SysvarEpochRewardsPubkey = replicate 32 118, token_ProgramID = replicate 32 100,
     token2022_ProgramID = replicate 32 101, ata_ProgramID = replicate 32 102,
     computebudget_ProgramID = replicate 32 103, memo_ProgramID = replicate 32 104, alt_ProgramID = replicate 32 105,
     stake_ProgramID = replicate 32 106, vote_ProgramID = replicate 32 107, ed25519_ProgramID = replicate 32 108,
     secp256k1_ProgramID = replicate 32 109, stake_sysvarRent = replicate 32 110, stake_sysvarClock = replicate 32 111,
     sysvarStakeHistory = replicate 32 115, stakeConfig = replicate 32 119\<rparr>"

theorem token_builders_faithful_witness:
  "\<exists>d. ix_Data (token_build sample_keys (SetAuthority (replicate 32 1) (replicate 32 2) (Some (replicate 32 3)) 2)) = Inr d \<and>
     token_view (map am_PublicKey (metas (token_build sample_keys
       (SetAuthority (replicate 32 1) (replicate 32 2) (Some (replicate 32 3)) 2)))) d =
     Some (SetAuthority (replicate 32 1) (replicate 32 2) (Some (replicate 32 3)) 2)"
  using token_builders_faithful [of "SetAuthority (replicate 32 1) (replicate 32 2) (Some (replicate 32 3)) 2" sample_keys]
  by simp

theorem system_builders_faithful_witness:
  "map am_PublicKey (filter IsSigner (metas (system_build sample_keys
     (SysCreateAccountWithSeed (replicate 32 1) (replicate 32 2) (replicate 32 3) [104, 105] 5 6 (replicate 32 7))))) =
   [replicate 32 1, replicate 32 3]"
  using system_builders_faithful
    [of "SysCreateAccountWithSeed (replicate 32 1) (replicate 32 2) (replicate 32 3) [104, 105] 5 6 (replicate 32 7)" sample_keys]
  by (simp add: replicate_eq_replicate)

theorem token2022_builders_faithful_witness:
  "\<exists>d. ix_Data (ext_build sample_keys (InitInterestBearingMint (replicate 32 1) (Some (replicate 32 2)) (- 5))) = Inr d \<and>
     ext_view (map am_PublicKey (metas (ext_build sample_keys
       (InitInterestBearingMint (replicate 32 1) (Some (replicate 32 2)) (- 5))))) d =
     Some (InitInterestBearingMint (replicate 32 1) (Some (replicate 32 2)) (- 5))"
  using token2022_builders_faithful [of "InitInterestBearingMint (replicate 32 1) (Some (replicate 32 2)) (- 5)" sample_keys]
  by (simp add: nz_ok_def fits_signed_def zero_array_def replicate_eq_replicate)

theorem stake_builders_faithful_witness:
  "\<exists>d. ix_Data (stake_build sample_keys (StakeSetLockup (replicate 32 1) (replicate 32 2) (Some (- 1)) None (Some (replicate 32 3)))) = Inr d \<and>
     stake_view (map am_PublicKey (metas (stake_build sample_keys
       (StakeSetLockup (replicate 32 1) (replicate 32 2) (Some (- 1)) None (Some (replicate 32 3)))))) d =
     Some (StakeSetLockup (replicate 32 1) (replicate 32 2) (Some (- 1)) None (Some (replicate 32 3)))"
  using stake_builders_faithful
    [of "StakeSetLockup (replicate 32 1) (replicate 32 2) (Some (- 1)) None (Some (replicate 32 3))" sample_keys]
  by (simp add: fits_signed_def)

theorem precompile_offsets_witness:
  "\<exists>ix d. NewVerifySignature sample_keys (replicate 32 1) (replicate 64 2) [3, 4] = Inr ix \<and> ix_Data ix = Inr d \<and>
     subslice (u16_at d 10) (u16_at d 10 + u16_at d 12) d = [3, 4]"
  using precompile_offsets [of "[3, 4]" "replicate 32 1" "replicate 64 2" "replicate 20 5" sample_keys 0] by auto

end
