(* ===== verification/Pipeline.thy ===== *)
theory Pipeline
  imports Program_Views Transaction_Laws
begin

text \<open>
  The path of a typed call from its builder to the wire and back: instruction, message,
  transaction, signatures, bytes, and what a reader of the bytes recovers.
\<close>

lemma fill_slots_sigs_ok:
  assumes "\<forall>(s, slot) \<in> set sl. \<forall>sig. sg_Sign s msg = Inr sig \<longrightarrow> length sig = SignatureSize"
    and "sigs_ok tx" and "fill_slots msg sl tx = (None, tx')"
  shows "sigs_ok tx'"
  using assms
proof (induction msg sl tx rule: fill_slots.induct)
  case (2 msg s slot rest tx)
  then obtain sig where sig: "sg_Sign s msg = Inr sig" by (auto split: sum.splits)
  with 2 have "sigs_ok (tx\<lparr>Signatures := (Signatures tx)[slot := sig]\<rparr>)"
    using set_update_subset_insert [of "Signatures tx" slot sig] by (auto simp: sigs_ok_def)
  with 2 sig show ?case by auto
qed simp

lemma sigs_ok_grow: "sigs_ok tx \<Longrightarrow> sigs_ok (grow_signatures n tx)"
  by (auto simp: sigs_ok_def grow_signatures_def)

lemma Sign_sigs_ok:
  assumes "\<forall>s \<in> set signers. \<forall>m sig. sg_Sign s m = Inr sig \<longrightarrow> length sig = SignatureSize"
    and "sigs_ok tx" and "Sign signers tx = (None, tx')"
  shows "sigs_ok tx'"
proof -
  from assms(3) obtain slots msg n where "fill_slots msg (zip signers slots) (grow_signatures n tx) = (None, tx')"
    by (auto simp: Sign_ok Let_def)
  from fill_slots_sigs_ok [OF _ sigs_ok_grow [OF assms(2)] this] assms(1) show ?thesis
    by (auto dest: set_zip_leftD)
qed

lemma sigs_ok_NewTransaction: "sigs_ok (NewTransaction m)"
  by (simp add: sigs_ok_def NewTransaction_def)

lemma Sign_message: "Sign signers tx = (None, tx') \<Longrightarrow> tx_Message tx' = tx_Message tx"
  using Sign_effect by (metis sign_effect_def)

text \<open>A compiled legacy message that can be encoded can be decoded, given well-formed keys.\<close>

lemma NewMessage_message_ok:
  assumes "reorders ord" and "NewMessage ord payer ixs bh = Inr m" and "marshal_ok m"
    and "\<forall>k \<in> fst ` set (uses payer ixs). length k = PublicKeySize" and "length bh = HashSize"
    and "unat (NumRequiredSignatures (Header m)) < 128"
  shows "message_ok m"
proof -
  have "NumRequiredSignatures (Header m) < versionPrefixMask"
    using assms(6) by (simp add: word_less_nat_alt versionPrefixMask_def)
  with assms(2-5) show ?thesis
    by (auto simp: NewMessage_law [OF assms(1)] message_ok_def marshal_ok_def body_ok_def version_defs)
qed

lemma signed_transaction_roundtrip:
  assumes "reorders ord" and "NewTransactionFromInstructions ord ixs bh payer = Inr tx"
    and "Sign signers tx = (None, tx')" and "tx_Marshal tx' = Inr bs"
    and "\<forall>k \<in> fst ` set (uses payer ixs). length k = PublicKeySize" and "length bh = HashSize"
    and "\<forall>s \<in> set signers. \<forall>m sig. sg_Sign s m = Inr sig \<longrightarrow> length sig = SignatureSize"
    and "unat (NumRequiredSignatures (Header (tx_Message tx))) < 128"
  shows "tx_UnmarshalBinary bs = Inr tx' \<and> NewMessage ord payer ixs bh = Inr (tx_Message tx')"
proof -
  from assms(2) obtain m where m: "NewMessage ord payer ixs bh = Inr m" and tx: "tx = NewTransaction m"
    by (auto simp: NewTransactionFromInstructions_def res_bind_Inr_iff)
  have m': "tx_Message tx' = m" using Sign_message [OF assms(3)] by (simp add: tx NewTransaction_def)
  from assms(4) have mo: "marshal_ok m" and sm: "sigs_match tx'" and bs: "bs = tx_bytes tx'"
    by (simp_all add: tx_Marshal_law m')
  have "message_ok m"
    by (rule NewMessage_message_ok [OF assms(1) m mo assms(5,6)]) (use assms(8) tx in \<open>simp add: NewTransaction_def\<close>)
  moreover have "sigs_ok tx'" using Sign_sigs_ok [OF assms(7) _ assms(3)] by (simp add: tx sigs_ok_NewTransaction)
  moreover have "Version m \<noteq> MessageVersion1"
    using m by (auto simp: NewMessage_law [OF assms(1)] version_defs)
  moreover have "length (Signatures tx') < 128"
    using sm assms(8) by (simp add: sigs_match_def m' tx NewTransaction_def)
  ultimately show ?thesis
    unfolding tx_UnmarshalBinary_law bs m' by (simp add: tx_bytes_def m' m clash_small)
qed

text \<open>A transfer from the payer's token account.\<close>

definition sample_call :: token_call where
  "sample_call = Transfer (replicate 32 2) (replicate 32 3) (replicate 32 1) 5"

definition unsigned_transfer :: Transaction where
  "unsigned_transfer = \<lparr>Signatures = [replicate 64 0],
     tx_Message = \<lparr>Version = MessageVersionLegacy,
       Header = \<lparr>NumRequiredSignatures = 1, NumReadonlySignedAccounts = 0, NumReadonlyUnsignedAccounts = 1\<rparr>,
       AccountKeys = [replicate 32 1, replicate 32 2, replicate 32 3, replicate 32 100], RecentBlockhash = replicate 32 4,
       Instructions = [\<lparr>ProgramIDIndex = 3, ci_Accounts = [1, 2, 0], ci_Data = [3, 5, 0, 0, 0, 0, 0, 0, 0]\<rparr>],
       AddressTableLookups = [], TxConfig = None\<rparr>\<rparr>"

lemma sample_tx_built:
  "NewTransactionFromInstructions rev [Some (token_build sample_keys sample_call)] (replicate 32 4) (replicate 32 1) =
   Inr unsigned_transfer"
  "unat (NumRequiredSignatures (Header (tx_Message unsigned_transfer))) < 128"
  by code_simp+

lemma sample_tx_signed:
  "Sign [sample_signer] unsigned_transfer = (None, unsigned_transfer\<lparr>Signatures := [replicate 64 3]\<rparr>)"
  "\<exists>bs. tx_Marshal (unsigned_transfer\<lparr>Signatures := [replicate 64 3]\<rparr>) = Inr bs"
proof -
  have "marshal_ok (tx_Message unsigned_transfer)"
    by (simp add: unsigned_transfer_def marshal_ok_def instr_ok_def version_defs)
  then obtain msg where "Marshal (tx_Message unsigned_transfer) = Inr msg" by (auto simp: Marshal_law)
  then show "Sign [sample_signer] unsigned_transfer = (None, unsigned_transfer\<lparr>Signatures := [replicate 64 3]\<rparr>)"
    by (simp add: Sign_def sample_signer_def grow_signatures_def unsigned_transfer_def Let_def)
  show "\<exists>bs. tx_Marshal (unsigned_transfer\<lparr>Signatures := [replicate 64 3]\<rparr>) = Inr bs"
    by (simp add: tx_Marshal_law unsigned_transfer_def sigs_match_def marshal_ok_def instr_ok_def version_defs)
qed

lemma sample_uses_ok:
  "\<forall>k \<in> fst ` set (uses (replicate 32 1) [Some (token_build sample_keys sample_call)]). length k = PublicKeySize"
  by (simp add: uses_def uses_of_def uses_of_metas_def sample_call_def sample_keys_def token_builder_defs instruction_defs
      PublicKeySize_def)

end
