(* ===== verification/Decimal.thy ===== *)
theory Decimal
  imports Prelude
begin

text \<open>Decimal text of integers, as \<open>strconv\<close> and \<open>math/big\<close> print and parse it.\<close>

section \<open>Printing and parsing\<close>

fun digits :: "nat \<Rightarrow> string" where
  "digits n = (if n < 10 then [char_of (48 + n)] else digits (n div 10) @ [char_of (48 + n mod 10)])"

declare digits.simps [simp del]

definition itoa :: "int \<Rightarrow> string" where
  "itoa i = (if i < 0 then CHR ''-'' # digits (nat (- i)) else digits (nat i))"

definition is_digit :: "char \<Rightarrow> bool" where
  "is_digit c \<longleftrightarrow> 48 \<le> (of_char c :: nat) \<and> (of_char c :: nat) \<le> 57"

definition decimal :: "string \<Rightarrow> nat" where
  "decimal s = foldl (\<lambda>n c. 10 * n + (of_char c - 48)) 0 s"

text \<open>\<open>big.Int.SetString(s, 10)\<close>: an optional sign and at least one digit.\<close>

definition SetString10 :: "string \<Rightarrow> int option" where
  "SetString10 s =
     (let (neg, ds) = (case s of [] \<Rightarrow> (False, []) | c # cs \<Rightarrow>
            if c = CHR ''-'' then (True, cs) else if c = CHR ''+'' then (False, cs) else (False, s))
      in if ds = [] \<or> \<not> list_all is_digit ds then None
         else Some (if neg then - int (decimal ds) else int (decimal ds)))"

section \<open>Laws\<close>

lemma digit_char:
  assumes "n < 10"
  shows "is_digit (char_of (48 + n :: nat))" and "of_char (char_of (48 + n :: nat)) - (48::nat) = n"
  using assms by (auto simp: is_digit_def)

lemma decimal_append: "decimal (s @ [c]) = 10 * decimal s + (of_char c - 48)"
  by (simp add: decimal_def)

lemma digits_digits: "list_all is_digit (digits n) \<and> digits n \<noteq> [] \<and> decimal (digits n) = n"
proof (induction n rule: digits.induct)
  case (1 n)
  show ?case
  proof (cases "n < 10")
    case True
    then show ?thesis using digit_char [of n] by (simp add: digits.simps [of n] decimal_def)
  next
    case False
    then show ?thesis using 1 digit_char [of "n mod 10"] by (simp add: digits.simps [of n] decimal_append)
  qed
qed

lemma digit_not_sign: "is_digit c \<Longrightarrow> c \<noteq> CHR ''-'' \<and> c \<noteq> CHR ''+''"
  by (auto simp: is_digit_def)

lemma SetString10_digits [simp]: "SetString10 (digits n) = Some (int n)"
proof -
  obtain c cs where c: "digits n = c # cs" using digits_digits [of n] by (cases "digits n") auto
  then have "is_digit c" using digits_digits [of n] by simp
  then show ?thesis using digit_not_sign [of c] digits_digits [of n] c by (auto simp: SetString10_def)
qed

lemma SetString10_itoa: "SetString10 (itoa i) = Some i"
  using digits_digits [of "nat (- i)"] by (auto simp: itoa_def SetString10_def [of "_ # _"])

end
