(* ===== verification/Jsonrpc_Errors.thy ===== *)
theory Jsonrpc_Errors
  imports Decimal
begin

text \<open>
  Errors of the JSON-RPC client (\<open>jsonrpc/errors.go\<close>), their classification
  (\<open>jsonrpc/classify.go\<close>) and the retry policy (\<open>jsonrpc/retry.go\<close>).
\<close>

section \<open>Text\<close>

text \<open>\<open>string(b)\<close> and \<open>strings.Contains\<close>.\<close>

definition bytes_string :: "bytes \<Rightarrow> string" where
  "bytes_string b = map (\<lambda>w. char_of (unat w)) b"

fun contains :: "string \<Rightarrow> string \<Rightarrow> bool" where
  "contains [] sub \<longleftrightarrow> sub = []"
| "contains (x # s) sub \<longleftrightarrow> take (length sub) (x # s) = sub \<or> contains s sub"

lemma contains_iff: "contains s sub \<longleftrightarrow> (\<exists>u v. s = u @ sub @ v)"
proof (induction s)
  case (Cons x s)
  have "(\<exists>u v. x # s = u @ sub @ v) \<longleftrightarrow> (\<exists>v. x # s = sub @ v) \<or> (\<exists>u v. s = u @ sub @ v)"
    by (auto simp: Cons_eq_append_conv)
  then show ?case using Cons by (simp add: take_length_append_iff)
qed simp

lemma contains_append: "contains s sub \<Longrightarrow> contains (p @ s) sub"
  by (auto simp: contains_iff) (metis append.assoc)

section \<open>Error values\<close>

record ErrRPC =
  rpc_Method :: string
  rpc_Code :: int
  rpc_Msg :: string
  rpc_Data :: bytes
  rpc_Body :: bytes

text \<open>The package variables that are compared by identity; \<open>errBlockhashExpired\<close> is the one of \<open>rpc/send.go\<close>.\<close>

datatype sentinel =
    ErrBlockhashExpired | ErrInsufficientFunds | ErrRateLimited | ErrNodeBehind | ErrTransactionExpired
  | ErrAccountNotFound | ErrSignatureNotFound | ErrSlotSkipped | ErrBlockCleanedUp | ErrMissingResponse
  | errBlockhashExpired | Canceled | DeadlineExceeded

fun sentinel_text :: "sentinel \<Rightarrow> string" where
  "sentinel_text ErrBlockhashExpired = ''solana: blockhash expired''"
| "sentinel_text ErrInsufficientFunds = ''solana: insufficient funds''"
| "sentinel_text ErrRateLimited = ''solana: rate limited''"
| "sentinel_text ErrNodeBehind = ''solana: node is behind the cluster''"
| "sentinel_text ErrTransactionExpired = ''solana: transaction expired''"
| "sentinel_text ErrAccountNotFound = ''solana: account not found''"
| "sentinel_text ErrSignatureNotFound = ''solana: signature not found''"
| "sentinel_text ErrSlotSkipped = ''solana: slot skipped''"
| "sentinel_text ErrBlockCleanedUp = ''solana: block cleaned up''"
| "sentinel_text ErrMissingResponse = ''no response for batch element''"
| "sentinel_text errBlockhashExpired = ''solana client: blockhash expired''"
| "sentinel_text Canceled = ''context canceled''"
| "sentinel_text DeadlineExceeded = ''context deadline exceeded''"

text \<open>
  An error of the client: a sentinel, the transport's \<open>httpError\<close>, a server error, any other error
  by its text, or a prefix that wraps an error with \<open>%w\<close>.
\<close>

datatype rpc_error =
    Sentinel sentinel
  | HTTPError int bytes
  | RPCError ErrRPC
  | Plain string
  | Wrapped string rpc_error

definition truncate :: "bytes \<Rightarrow> nat \<Rightarrow> string" where
  "truncate b n = (if length b \<le> n then bytes_string b else bytes_string (take n b) @ ''...'')"

definition ErrRPC_Error :: "ErrRPC \<Rightarrow> string" where
  "ErrRPC_Error e = ''solana rpc '' @ rpc_Method e @ '': rpc error '' @ itoa (rpc_Code e) @ '': '' @ rpc_Msg e"

definition httpError_Error :: "int \<Rightarrow> bytes \<Rightarrow> string" where
  "httpError_Error statusCode body = ''http '' @ itoa statusCode @ '': '' @ truncate body 256"

fun err_Error :: "rpc_error \<Rightarrow> string" where
  "err_Error (Sentinel s) = sentinel_text s"
| "err_Error (HTTPError statusCode body) = httpError_Error statusCode body"
| "err_Error (RPCError e) = ErrRPC_Error e"
| "err_Error (Plain msg) = msg"
| "err_Error (Wrapped prefix e) = prefix @ err_Error e"

text \<open>\<open>errors.Is\<close> and \<open>errors.As\<close>, looking through the wrapping.\<close>

fun is_sentinel :: "rpc_error \<Rightarrow> sentinel \<Rightarrow> bool" where
  "is_sentinel (Sentinel s) t \<longleftrightarrow> s = t"
| "is_sentinel (Wrapped prefix e) t \<longleftrightarrow> is_sentinel e t"
| "is_sentinel e t \<longleftrightarrow> False"

fun as_httpError :: "rpc_error \<Rightarrow> (int \<times> bytes) option" where
  "as_httpError (HTTPError statusCode body) = Some (statusCode, body)"
| "as_httpError (Wrapped prefix e) = as_httpError e"
| "as_httpError e = None"

fun as_ErrRPC :: "rpc_error \<Rightarrow> ErrRPC option" where
  "as_ErrRPC (RPCError e) = Some e"
| "as_ErrRPC (Wrapped prefix e) = as_ErrRPC e"
| "as_ErrRPC e = None"

section \<open>Classification\<close>

definition RPCErrCodeBlockCleanedUp :: int where "RPCErrCodeBlockCleanedUp = - 32001"
definition RPCErrCodeNodeUnhealthy :: int where "RPCErrCodeNodeUnhealthy = - 32005"
definition RPCErrCodeSlotSkipped :: int where "RPCErrCodeSlotSkipped = - 32007"
definition RPCErrCodeLongTermStorageSlotSkipped :: int where "RPCErrCodeLongTermStorageSlotSkipped = - 32009"

fun messageContainsAny :: "string \<Rightarrow> string list \<Rightarrow> bool" where
  "messageContainsAny s [] \<longleftrightarrow> False"
| "messageContainsAny s (sub # subs) \<longleftrightarrow> contains s sub \<or> messageContainsAny s subs"

definition has_code :: "rpc_error \<Rightarrow> int list \<Rightarrow> bool" where
  "has_code e codes \<longleftrightarrow> (case as_ErrRPC e of None \<Rightarrow> False | Some r \<Rightarrow> List.member codes (rpc_Code r))"

definition IsBlockhashExpired :: "rpc_error option \<Rightarrow> bool" where
  "IsBlockhashExpired err \<longleftrightarrow>
     (case err of None \<Rightarrow> False
      | Some e \<Rightarrow> is_sentinel e ErrBlockhashExpired \<or>
          messageContainsAny (err_Error e) [''BlockhashNotFound'', ''blockhash not found'', ''Blockhash not found''])"

definition IsInsufficientFunds :: "rpc_error option \<Rightarrow> bool" where
  "IsInsufficientFunds err \<longleftrightarrow>
     (case err of None \<Rightarrow> False
      | Some e \<Rightarrow> is_sentinel e ErrInsufficientFunds \<or>
          messageContainsAny (err_Error e)
            [''InsufficientFundsForFee'', ''InsufficientFundsForRent'', ''insufficient funds'', ''Insufficient funds''])"

definition IsRateLimited :: "rpc_error option \<Rightarrow> bool" where
  "IsRateLimited err \<longleftrightarrow>
     (case err of None \<Rightarrow> False
      | Some e \<Rightarrow> is_sentinel e ErrRateLimited \<or>
          messageContainsAny (err_Error e)
            [''rate limit'', ''Rate limit'', ''too many requests'', ''Too Many Requests'', ''HTTP 429''])"

definition IsNodeBehind :: "rpc_error option \<Rightarrow> bool" where
  "IsNodeBehind err \<longleftrightarrow>
     (case err of None \<Rightarrow> False
      | Some e \<Rightarrow> is_sentinel e ErrNodeBehind \<or> has_code e [RPCErrCodeNodeUnhealthy] \<or>
          messageContainsAny (err_Error e) [''Node is behind'', ''node is behind'', ''NodeUnhealthy''])"

definition IsTransactionExpired :: "rpc_error option \<Rightarrow> bool" where
  "IsTransactionExpired err \<longleftrightarrow>
     (case err of None \<Rightarrow> False
      | Some e \<Rightarrow> is_sentinel e ErrTransactionExpired \<or>
          messageContainsAny (err_Error e) [''TransactionExpired'', ''transaction expired''])"

definition IsAccountNotFound :: "rpc_error option \<Rightarrow> bool" where
  "IsAccountNotFound err \<longleftrightarrow>
     (case err of None \<Rightarrow> False
      | Some e \<Rightarrow> is_sentinel e ErrAccountNotFound \<or>
          messageContainsAny (err_Error e) [''AccountNotFound'', ''account not found''])"

definition IsSignatureNotFound :: "rpc_error option \<Rightarrow> bool" where
  "IsSignatureNotFound err \<longleftrightarrow>
     (case err of None \<Rightarrow> False
      | Some e \<Rightarrow> is_sentinel e ErrSignatureNotFound \<or>
          messageContainsAny (err_Error e) [''SignatureNotFound'', ''signature not found''])"

definition IsSlotSkipped :: "rpc_error option \<Rightarrow> bool" where
  "IsSlotSkipped err \<longleftrightarrow>
     (case err of None \<Rightarrow> False
      | Some e \<Rightarrow> is_sentinel e ErrSlotSkipped \<or>
          has_code e [RPCErrCodeSlotSkipped, RPCErrCodeLongTermStorageSlotSkipped] \<or>
          messageContainsAny (err_Error e) [''SlotSkipped'', ''slot was skipped''])"

definition IsBlockCleanedUp :: "rpc_error option \<Rightarrow> bool" where
  "IsBlockCleanedUp err \<longleftrightarrow>
     (case err of None \<Rightarrow> False
      | Some e \<Rightarrow> is_sentinel e ErrBlockCleanedUp \<or> has_code e [RPCErrCodeBlockCleanedUp] \<or>
          messageContainsAny (err_Error e) [''BlockCleanedUp'', ''block was cleaned up''])"

section \<open>Retry policy\<close>

text \<open>Durations are \<open>int64\<close> nanoseconds, kept by their value; \<open>rand\<close> is \<open>rand.Int64N\<close>.\<close>

record exponentialBackoff =
  MaxAttempts :: int
  Base :: int
  Max :: int

definition DefaultRetryPolicy :: exponentialBackoff where
  "DefaultRetryPolicy = \<lparr>MaxAttempts = 5, Base = 200 * 1000000, Max = 10 * 1000000000\<rparr>"

definition isRetryable :: "rpc_error \<Rightarrow> bool" where
  "isRetryable err \<longleftrightarrow>
     (if is_sentinel err Canceled \<or> is_sentinel err DeadlineExceeded then False
      else case as_httpError err of
             Some (statusCode, body) \<Rightarrow> statusCode \<ge> 500 \<or> statusCode = 429
           | None \<Rightarrow> True)"

text \<open>The backoff before the jitter: a shift on 64 bits, clamped.\<close>

definition backoff_delay :: "exponentialBackoff \<Rightarrow> int \<Rightarrow> int" where
  "backoff_delay e attempt =
     (let shift = nat ((attempt - 1) mod 2 ^ 64);
          shift = (if shift > 10 then 10 else shift);
          delay = sint (push_bit shift (word_of_int (Base e) :: u64))
      in if delay > Max e \<or> delay \<le> 0 then Max e else delay)"

definition ShouldRetry :: "(int \<Rightarrow> int) \<Rightarrow> exponentialBackoff \<Rightarrow> int \<Rightarrow> rpc_error \<Rightarrow> int \<times> bool" where
  "ShouldRetry rand e attempt err =
     (if attempt \<ge> MaxAttempts e then (0, False)
      else if \<not> isRetryable err then (0, False)
      else (rand (backoff_delay e attempt), True))"

text \<open>\<open>rand.Int64N(n)\<close> is in \<open>[0, n)\<close>; it panics for \<open>n \<le> 0\<close>.\<close>

definition int64n :: "(int \<Rightarrow> int) \<Rightarrow> bool" where
  "int64n rand \<longleftrightarrow> (\<forall>n > 0. 0 \<le> rand n \<and> rand n < n)"

section \<open>Laws\<close>

lemma messageContainsAny_iff: "messageContainsAny s subs \<longleftrightarrow> (\<exists>sub \<in> set subs. contains s sub)"
  by (induction subs) auto

lemma messageContainsAny_append: "messageContainsAny s subs \<Longrightarrow> messageContainsAny (p @ s) subs"
  by (auto simp: messageContainsAny_iff intro: contains_append)

lemma has_code_Wrapped [simp]: "has_code (Wrapped p e) codes = has_code e codes"
  by (simp add: has_code_def)

lemmas classifier_defs = IsBlockhashExpired_def IsInsufficientFunds_def IsRateLimited_def IsNodeBehind_def
  IsTransactionExpired_def IsAccountNotFound_def IsSignatureNotFound_def IsSlotSkipped_def IsBlockCleanedUp_def

text \<open>A classification survives every layer of wrapping the client adds.\<close>

lemma classifiers_wrap:
  "IsBlockhashExpired (Some e) \<Longrightarrow> IsBlockhashExpired (Some (Wrapped p e))"
  "IsInsufficientFunds (Some e) \<Longrightarrow> IsInsufficientFunds (Some (Wrapped p e))"
  "IsRateLimited (Some e) \<Longrightarrow> IsRateLimited (Some (Wrapped p e))"
  "IsNodeBehind (Some e) \<Longrightarrow> IsNodeBehind (Some (Wrapped p e))"
  "IsTransactionExpired (Some e) \<Longrightarrow> IsTransactionExpired (Some (Wrapped p e))"
  "IsAccountNotFound (Some e) \<Longrightarrow> IsAccountNotFound (Some (Wrapped p e))"
  "IsSignatureNotFound (Some e) \<Longrightarrow> IsSignatureNotFound (Some (Wrapped p e))"
  "IsSlotSkipped (Some e) \<Longrightarrow> IsSlotSkipped (Some (Wrapped p e))"
  "IsBlockCleanedUp (Some e) \<Longrightarrow> IsBlockCleanedUp (Some (Wrapped p e))"
  by (simp_all only: classifier_defs option.case is_sentinel.simps has_code_Wrapped err_Error.simps)
    (blast intro: messageContainsAny_append)+

lemma isRetryable_Wrapped [simp]: "isRetryable (Wrapped p e) = isRetryable e"
  by (simp add: isRetryable_def)

lemma backoff_delay_bounds: "0 < Max e \<Longrightarrow> 0 < backoff_delay e attempt \<and> backoff_delay e attempt \<le> Max e"
  by (auto simp: backoff_delay_def Let_def)

lemma default_delays:
  "backoff_delay DefaultRetryPolicy 1 = 200000000" "backoff_delay DefaultRetryPolicy 2 = 400000000"
  "backoff_delay DefaultRetryPolicy 3 = 800000000" "backoff_delay DefaultRetryPolicy 4 = 1600000000"
  by code_simp+

lemma default_backoff:
  assumes "1 \<le> attempt" and "attempt < 5"
  shows "backoff_delay DefaultRetryPolicy attempt = 200000000 * 2 ^ nat (attempt - 1)"
proof -
  have "attempt \<in> {1, 2, 3, 4}" using assms by auto
  then show ?thesis using default_delays by auto
qed

end
