(* ===== verification/Jsonrpc.thy ===== *)
theory Jsonrpc
  imports Jsonrpc_Errors
begin

text \<open>
  The JSON-RPC client (\<open>jsonrpc/client.go\<close>, \<open>call_context.go\<close>, \<open>batch.go\<close>,
  \<open>context_headers.go\<close>, \<open>request.go\<close>): construction, request headers, the retry loop, single
  calls and batches.  Parameters stand for what is outside: the HTTP transport, the JSON codec, the
  authentication callback and the retry policy are values of the client, as in the source; the
  transport may answer every attempt differently.
\<close>

section \<open>Headers\<close>

type_synonym header = "string \<rightharpoonup> string list"

text \<open>\<open>http.CanonicalHeaderKey\<close>: a key with a byte that no token has stays as it is.\<close>

definition is_lower :: "char \<Rightarrow> bool" where
  "is_lower c \<longleftrightarrow> 97 \<le> (of_char c :: nat) \<and> (of_char c :: nat) \<le> 122"

definition is_upper :: "char \<Rightarrow> bool" where
  "is_upper c \<longleftrightarrow> 65 \<le> (of_char c :: nat) \<and> (of_char c :: nat) \<le> 90"

definition is_token_char :: "char \<Rightarrow> bool" where
  "is_token_char c \<longleftrightarrow>
     is_lower c \<or> is_upper c \<or> 48 \<le> (of_char c :: nat) \<and> (of_char c :: nat) \<le> 57 \<or>
     List.member [33, 35, 36, 37, 38, 39, 42, 43, 45, 46, 94, 95, 96, 124, 126] (of_char c :: nat)"

fun canonical_chars :: "bool \<Rightarrow> string \<Rightarrow> string" where
  "canonical_chars up [] = []"
| "canonical_chars up (c # cs) =
     (let d = (if up \<and> is_lower c then char_of ((of_char c :: nat) - 32)
               else if \<not> up \<and> is_upper c then char_of ((of_char c :: nat) + 32) else c)
      in d # canonical_chars (c = CHR ''-'') cs)"

definition CanonicalHeaderKey :: "string \<Rightarrow> string" where
  "CanonicalHeaderKey s = (if list_all is_token_char s then canonical_chars True s else s)"

definition header_Set :: "header \<Rightarrow> string \<Rightarrow> string \<Rightarrow> header" where
  "header_Set h key v = h(CanonicalHeaderKey key \<mapsto> [v])"

text \<open>\<open>setHeaders\<close> in the order \<open>ks\<close> in which \<open>range\<close> visits the keys of \<open>src\<close>.\<close>

fun setHeaders :: "string list \<Rightarrow> header \<Rightarrow> header \<Rightarrow> header" where
  "setHeaders [] dst src = dst"
| "setHeaders (k # ks) dst src =
     setHeaders ks (case src k of None \<Rightarrow> dst | Some vs \<Rightarrow> dst(CanonicalHeaderKey k \<mapsto> vs)) src"

text \<open>The headers a context carries, under \<open>mdHeaderKey\<close>.\<close>

definition NewContextWithHeaders :: "string list \<Rightarrow> header option \<Rightarrow> header \<Rightarrow> header option" where
  "NewContextWithHeaders ks ctx h =
     (if h = Map.empty then ctx
      else case ctx of Some prev \<Rightarrow> Some (setHeaders ks prev h) | None \<Rightarrow> Some h)"

definition headersFromContext :: "header option \<Rightarrow> header" where
  "headersFromContext ctx = (case ctx of None \<Rightarrow> Map.empty | Some h \<Rightarrow> h)"

section \<open>The client\<close>

record 'a Request =
  req_Version :: string
  req_ID :: u64
  req_Method :: string
  req_Params :: "'a list"

record rpc_Error =
  err_Code :: int
  err_Message :: string
  err_Data :: bytes

record Response =
  resp_Version :: string
  resp_ID :: u64
  resp_Result :: bytes
  resp_Error :: "rpc_Error option"

record http_request =
  hr_URL :: string
  hr_Header :: header
  hr_Body :: bytes

text \<open>A response: the status, and the body as \<open>io.ReadAll\<close> yields it.\<close>

record http_response =
  StatusCode :: int
  hr_Read :: "rpc_error + bytes"

text \<open>
  The transport: its answer to the request of an attempt.  The codec, at the types the client uses
  it at: decoding into a target gives the target's new value and the error.
\<close>

type_synonym http_client = "int \<Rightarrow> http_request \<Rightarrow> rpc_error + http_response"

record ('a, 'r) Codec =
  marshal_request :: "'a Request \<Rightarrow> rpc_error + bytes"
  marshal_requests :: "'a Request list \<Rightarrow> rpc_error + bytes"
  unmarshal_envelope :: "bytes \<Rightarrow> rpc_error + 'r \<times> rpc_Error option"
  unmarshal_responses :: "bytes \<Rightarrow> rpc_error + Response list"
  unmarshal_result :: "bytes \<Rightarrow> 'r \<Rightarrow> 'r \<times> rpc_error option"

record ('a, 'r) Client =
  endpoint :: string
  httpClient :: "http_client option"
  headers :: "header option"
  httpAuth :: "(header \<Rightarrow> header \<times> rpc_error option) option"
  codec :: "('a, 'r) Codec"
  retry :: "int \<Rightarrow> rpc_error \<Rightarrow> int \<times> bool"
  maxIdleConns :: int
  maxIdleConnsPerHost :: int
  nextID :: u64

record ('a, 'r) Config =
  cfg_HTTPClient :: "http_client option"
  cfg_MaxIdleConns :: int
  cfg_MaxIdleConnsPerHost :: int
  cfg_Codec :: "('a, 'r) Codec option"
  cfg_RetryPolicy :: "(int \<Rightarrow> rpc_error \<Rightarrow> int \<times> bool) option"
  cfg_Headers :: header
  cfg_HTTPAuth :: "(header \<Rightarrow> header \<times> rpc_error option) option"

type_synonym ('a, 'r) ClientOption = "('a, 'r) Client \<Rightarrow> ('a, 'r) Client"

definition DefaultMaxIdleConnsPerHost :: int where "DefaultMaxIdleConnsPerHost = 10"
definition DefaultMaxIdleConns :: int where "DefaultMaxIdleConns = 100"

definition WithHTTPClient :: "http_client option \<Rightarrow> ('a, 'r) ClientOption" where
  "WithHTTPClient hc c = (if hc \<noteq> None then c\<lparr>httpClient := hc\<rparr> else c)"

definition WithMaxIdleConns :: "int \<Rightarrow> ('a, 'r) ClientOption" where
  "WithMaxIdleConns n c = (if n > 0 then c\<lparr>maxIdleConns := n\<rparr> else c)"

definition WithMaxIdleConnsPerHost :: "int \<Rightarrow> ('a, 'r) ClientOption" where
  "WithMaxIdleConnsPerHost n c = (if n > 0 then c\<lparr>maxIdleConnsPerHost := n\<rparr> else c)"

definition WithCodec :: "('a, 'r) Codec option \<Rightarrow> ('a, 'r) ClientOption" where
  "WithCodec cdc c = (case cdc of None \<Rightarrow> c | Some k \<Rightarrow> c\<lparr>codec := k\<rparr>)"

definition WithRetryPolicy :: "(int \<Rightarrow> rpc_error \<Rightarrow> int \<times> bool) option \<Rightarrow> ('a, 'r) ClientOption" where
  "WithRetryPolicy p c = (case p of None \<Rightarrow> c | Some q \<Rightarrow> c\<lparr>retry := q\<rparr>)"

definition make_headers :: "header option \<Rightarrow> header" where
  "make_headers h = (case h of None \<Rightarrow> Map.empty | Some h \<Rightarrow> h)"

definition WithHeader :: "string \<Rightarrow> string \<Rightarrow> ('a, 'r) ClientOption" where
  "WithHeader key v c = c\<lparr>headers := Some (header_Set (make_headers (headers c)) key v)\<rparr>"

definition WithHeaders :: "header \<Rightarrow> ('a, 'r) ClientOption" where
  "WithHeaders hs c = c\<lparr>headers := Some (make_headers (headers c) ++ hs)\<rparr>"

definition WithHTTPAuth :: "(header \<Rightarrow> header \<times> rpc_error option) option \<Rightarrow> ('a, 'r) ClientOption" where
  "WithHTTPAuth a c = c\<lparr>httpAuth := a\<rparr>"

definition SetHeader :: "string \<Rightarrow> string \<Rightarrow> ('a, 'r) Client \<Rightarrow> ('a, 'r) Client" where
  "SetHeader key v c = c\<lparr>headers := Some (header_Set (make_headers (headers c)) key v)\<rparr>"

definition cfg_applyOption :: "('a, 'r) Config \<Rightarrow> ('a, 'r) ClientOption" where
  "cfg_applyOption cfg c =
     chain
       [\<lambda>c. if cfg_HTTPClient cfg \<noteq> None then c\<lparr>httpClient := cfg_HTTPClient cfg\<rparr> else c,
        \<lambda>c. if cfg_MaxIdleConns cfg > 0 then c\<lparr>maxIdleConns := cfg_MaxIdleConns cfg\<rparr> else c,
        \<lambda>c. if cfg_MaxIdleConnsPerHost cfg > 0 then c\<lparr>maxIdleConnsPerHost := cfg_MaxIdleConnsPerHost cfg\<rparr> else c,
        \<lambda>c. case cfg_Codec cfg of None \<Rightarrow> c | Some k \<Rightarrow> c\<lparr>codec := k\<rparr>,
        \<lambda>c. case cfg_RetryPolicy cfg of None \<Rightarrow> c | Some q \<Rightarrow> c\<lparr>retry := q\<rparr>,
        \<lambda>c. if cfg_Headers cfg \<noteq> Map.empty then c\<lparr>headers := Some (make_headers (headers c) ++ cfg_Headers cfg)\<rparr> else c,
        \<lambda>c. if cfg_HTTPAuth cfg \<noteq> None then c\<lparr>httpAuth := cfg_HTTPAuth cfg\<rparr> else c]
       c"

text \<open>
  \<open>newClient\<close>; the default codec, the random source of the default policy and the standard
  transport are parameters.
\<close>

definition newClient ::
  "('a, 'r) Codec \<Rightarrow> (int \<Rightarrow> int) \<Rightarrow> (int \<Rightarrow> int \<Rightarrow> http_client) \<Rightarrow> string \<Rightarrow> ('a, 'r) ClientOption list \<Rightarrow> ('a, 'r) Client" where
  "newClient goJSON rand transport ep opts =
     (let c = chain opts
            \<lparr>endpoint = ep, httpClient = None, headers = None, httpAuth = None, codec = goJSON,
             retry = ShouldRetry rand DefaultRetryPolicy, maxIdleConns = DefaultMaxIdleConns,
             maxIdleConnsPerHost = DefaultMaxIdleConnsPerHost, nextID = 0\<rparr>
      in if httpClient c = None then c\<lparr>httpClient := Some (transport (maxIdleConns c) (maxIdleConnsPerHost c))\<rparr> else c)"

definition NewClient ::
  "('a, 'r) Codec \<Rightarrow> (int \<Rightarrow> int) \<Rightarrow> (int \<Rightarrow> int \<Rightarrow> http_client) \<Rightarrow> string \<Rightarrow> ('a, 'r) Config \<Rightarrow> ('a, 'r) Client" where
  "NewClient goJSON rand transport ep cfg = newClient goJSON rand transport ep [cfg_applyOption cfg]"

definition NewClientWith ::
  "('a, 'r) Codec \<Rightarrow> (int \<Rightarrow> int) \<Rightarrow> (int \<Rightarrow> int \<Rightarrow> http_client) \<Rightarrow> string \<Rightarrow> ('a, 'r) ClientOption list \<Rightarrow> ('a, 'r) Client" where
  "NewClientWith goJSON rand transport ep opts = newClient goJSON rand transport ep opts"

section \<open>One HTTP exchange\<close>

text \<open>The call's surroundings: the context's headers, \<open>http.NewRequestWithContext\<close>'s check of the URL, and when the context ends.\<close>

record call_ctx =
  ctx_headers :: "header option"
  ctx_url_error :: "string \<Rightarrow> rpc_error option"
  ctx_done :: "int \<Rightarrow> rpc_error option"

definition request_headers :: "('a, 'r) Client \<Rightarrow> call_ctx \<Rightarrow> header" where
  "request_headers c ctx =
     (let h = header_Set Map.empty ''Content-Type'' ''application/json'';
          h = header_Set h ''Accept'' ''application/json'';
          h = h ++ make_headers (headers c)
      in h ++ headersFromContext (ctx_headers ctx))"

definition doHTTP :: "('a, 'r) Client \<Rightarrow> call_ctx \<Rightarrow> int \<Rightarrow> bytes \<Rightarrow> rpc_error + bytes" where
  "doHTTP c ctx attempt body =
     (case ctx_url_error ctx (endpoint c) of
        Some e \<Rightarrow> Inl e
      | None \<Rightarrow>
          (case (case httpAuth c of None \<Rightarrow> (request_headers c ctx, None) | Some a \<Rightarrow> a (request_headers c ctx)) of
             (h, Some e) \<Rightarrow> Inl (Wrapped ''auth: '' e)
           | (h, None) \<Rightarrow>
               (case the (httpClient c) attempt \<lparr>hr_URL = endpoint c, hr_Header = h, hr_Body = body\<rparr> of
                  Inl e \<Rightarrow> Inl e
                | Inr resp \<Rightarrow>
                    (case hr_Read resp of
                       Inl e \<Rightarrow> Inl (Wrapped ''read body: '' e)
                     | Inr respBody \<Rightarrow>
                         if StatusCode resp < 200 \<or> StatusCode resp \<ge> 300
                         then Inl (HTTPError (StatusCode resp) respBody)
                         else Inr respBody))))"

section \<open>The retry loop\<close>

text \<open>
  \<open>sendRaw\<close>.  The loop has no bound of its own; its result is \<open>None\<close> when it runs forever.  The
  first component of the result lists the delays it slept.
\<close>

partial_function (option) send_loop ::
  "('a, 'r) Client \<Rightarrow> call_ctx \<Rightarrow> string \<Rightarrow> (int \<Rightarrow> rpc_error + bytes) \<Rightarrow> int \<Rightarrow> int list \<Rightarrow> (int list \<times> (rpc_error + bytes)) option" where
  "send_loop c ctx label build attempt slept =
     (case build attempt of
        Inl e \<Rightarrow> Some (slept, Inl (Wrapped (''solana rpc '' @ label @ '': marshal request: '') e))
      | Inr body \<Rightarrow>
          (case doHTTP c ctx attempt body of
             Inr resp \<Rightarrow> Some (slept, Inr resp)
           | Inl e \<Rightarrow>
               (let (delay, again) = retry c attempt e
                in if \<not> again then Some (slept, Inl (Wrapped (''solana rpc '' @ label @ '': '') e))
                   else case ctx_done ctx attempt of
                          Some ce \<Rightarrow> Some (slept, Inl (Wrapped (''solana rpc '' @ label @ '': '') ce))
                        | None \<Rightarrow> send_loop c ctx label build (attempt + 1) (slept @ [delay]))))"

declare send_loop.simps [code]

definition sendRaw ::
  "('a, 'r) Client \<Rightarrow> call_ctx \<Rightarrow> string \<Rightarrow> (int \<Rightarrow> rpc_error + bytes) \<Rightarrow> (int list \<times> (rpc_error + bytes)) option" where
  "sendRaw c ctx label build = send_loop c ctx label build 1 []"

section \<open>Single calls\<close>

definition jsonrpcVersion :: string where "jsonrpcVersion = ''2.0''"

definition callRaw ::
  "('a, 'r) Client \<Rightarrow> call_ctx \<Rightarrow> string \<Rightarrow> 'a list option \<Rightarrow> ('a, 'r) Client \<times> (int list \<times> (rpc_error + bytes)) option" where
  "callRaw c ctx m args =
     (let params = (case args of None \<Rightarrow> [] | Some a \<Rightarrow> a);
          c = c\<lparr>nextID := nextID c + 1\<rparr>;
          req = \<lparr>req_Version = jsonrpcVersion, req_ID = nextID c, req_Method = m, req_Params = params\<rparr>
      in (c, sendRaw c ctx m (\<lambda>_. marshal_request (codec c) req)))"

definition CallContext ::
  "('a, 'r) Client \<Rightarrow> call_ctx \<Rightarrow> string \<Rightarrow> 'a list option \<Rightarrow> ('a, 'r) Client \<times> (rpc_error + 'r) option" where
  "CallContext c ctx m args =
     (case callRaw c ctx m args of
        (c, None) \<Rightarrow> (c, None)
      | (c, Some (slept, Inl e)) \<Rightarrow> (c, Some (Inl e))
      | (c, Some (slept, Inr body)) \<Rightarrow>
          (case unmarshal_envelope (codec c) body of
             Inl e \<Rightarrow> (c, Some (Inl (Wrapped (''solana rpc '' @ m @ '': decode response: '') e)))
           | Inr (result, Some e) \<Rightarrow>
               (c, Some (Inl (RPCError \<lparr>rpc_Method = m, rpc_Code = err_Code e, rpc_Msg = err_Message e,
                                        rpc_Data = err_Data e, rpc_Body = body\<rparr>)))
           | Inr (result, None) \<Rightarrow> (c, Some (Inr result))))"

section \<open>Batches\<close>

record ('a, 'r) BatchElem =
  be_Method :: string
  be_Args :: "'a list option"
  be_Result :: "'r option"
  be_Error :: "rpc_error option"

text \<open>The requests with fresh ids, and the index of each id.\<close>

fun batch_requests ::
  "u64 \<Rightarrow> nat \<Rightarrow> ('a, 'r) BatchElem list \<Rightarrow> (u64 \<rightharpoonup> nat) \<Rightarrow> u64 \<times> 'a Request list \<times> (u64 \<rightharpoonup> nat)" where
  "batch_requests next i [] idToIdx = (next, [], idToIdx)"
| "batch_requests next i (e # es) idToIdx =
     (let i_d = next + 1;
          r = \<lparr>req_Version = jsonrpcVersion, req_ID = i_d, req_Method = be_Method e,
               req_Params = (case be_Args e of None \<Rightarrow> [] | Some a \<Rightarrow> a)\<rparr>;
          (next', rs, m) = batch_requests i_d (Suc i) es (idToIdx(i_d \<mapsto> i))
      in (next', r # rs, m))"

text \<open>What one response does to the element it is for.\<close>

definition apply_response :: "('a, 'r) Codec \<Rightarrow> Response \<Rightarrow> ('a, 'r) BatchElem \<Rightarrow> ('a, 'r) BatchElem" where
  "apply_response cdc resp elem =
     (case resp_Error resp of
        Some e \<Rightarrow>
          elem\<lparr>be_Error := Some (RPCError \<lparr>rpc_Method = be_Method elem, rpc_Code = err_Code e, rpc_Msg = err_Message e,
                                            rpc_Data = err_Data e, rpc_Body = []\<rparr>)\<rparr>
      | None \<Rightarrow>
          (case be_Result elem of
             None \<Rightarrow> elem
           | Some target \<Rightarrow>
               if resp_Result resp = [] then elem
               else case unmarshal_result cdc (resp_Result resp) target of
                      (v, None) \<Rightarrow> elem\<lparr>be_Result := Some v\<rparr>
                    | (v, Some e) \<Rightarrow>
                        elem\<lparr>be_Result := Some v,
                             be_Error := Some (Wrapped (''solana rpc '' @ be_Method elem @ '': decode result: '') e)\<rparr>))"

fun match_responses ::
  "('a, 'r) Codec \<Rightarrow> (u64 \<rightharpoonup> nat) \<Rightarrow> Response list \<Rightarrow> ('a, 'r) BatchElem list \<times> bool list \<Rightarrow> ('a, 'r) BatchElem list \<times> bool list" where
  "match_responses cdc idToIdx [] s = s"
| "match_responses cdc idToIdx (r # rs) (b, seen) =
     (case idToIdx (resp_ID r) of
        None \<Rightarrow> match_responses cdc idToIdx rs (b, seen)
      | Some i \<Rightarrow> match_responses cdc idToIdx rs (b[i := apply_response cdc r (b ! i)], seen[i := True]))"

definition mark_missing :: "('a, 'r) BatchElem list \<Rightarrow> bool list \<Rightarrow> ('a, 'r) BatchElem list" where
  "mark_missing b seen =
     map (\<lambda>i. if seen ! i then b ! i else (b ! i)\<lparr>be_Error := Some (Sentinel ErrMissingResponse)\<rparr>) [0..<length b]"

fun join_methods :: "nat \<Rightarrow> nat \<Rightarrow> ('a, 'r) BatchElem list \<Rightarrow> string" where
  "join_methods i 0 es = []"
| "join_methods i (Suc n) [] = []"
| "join_methods i (Suc n) (e # es) = (if i = 0 then CHR '' '' else CHR '','') # be_Method e @ join_methods (Suc i) n es"

definition batchLabel :: "('a, 'r) BatchElem list \<Rightarrow> string" where
  "batchLabel b =
     ''batch['' @ itoa (int (length b)) @ '']:'' @ join_methods 0 3 b @ (if length b > 3 then '',...'' else [])"

text \<open>The elements after the call, and the transport-level error.\<close>

definition BatchCallContext ::
  "('a, 'r) Client \<Rightarrow> call_ctx \<Rightarrow> ('a, 'r) BatchElem list \<Rightarrow> ('a, 'r) Client \<times> (('a, 'r) BatchElem list \<times> rpc_error option) option" where
  "BatchCallContext c ctx b =
     (if b = [] then (c, Some (b, None))
      else
        let (next, reqs, idToIdx) = batch_requests (nextID c) 0 b Map.empty;
            c = c\<lparr>nextID := next\<rparr>;
            label = batchLabel b
        in (c, case sendRaw c ctx label (\<lambda>_. marshal_requests (codec c) reqs) of
                 None \<Rightarrow> None
               | Some (slept, Inl e) \<Rightarrow> Some (b, Some e)
               | Some (slept, Inr body) \<Rightarrow>
                   (case unmarshal_responses (codec c) body of
                      Inl e \<Rightarrow> Some (b, Some (Wrapped (''solana rpc '' @ label @ '': decode response array: '') e))
                    | Inr resps \<Rightarrow>
                        let (b, seen) = match_responses (codec c) idToIdx resps (b, replicate (length b) False)
                        in Some (mark_missing b seen, None))))"

end
