(* ===== verification/Jsonrpc_Laws.thy ===== *)
theory Jsonrpc_Laws
  imports Jsonrpc
begin

text \<open>
  Laws of the JSON-RPC client: the retry loop ends under every policy that gives up at some attempt,
  with the delays and the outcome of the attempts it made; batch responses reach the elements whose
  ids they carry; the precedence of request headers.
\<close>

section \<open>The retry loop\<close>

text \<open>Attempt \<open>n\<close> failed, the policy asked for a retry after \<open>d\<close>, and the context outlived the wait.\<close>

definition retried :: "('a, 'r) Client \<Rightarrow> call_ctx \<Rightarrow> (int \<Rightarrow> rpc_error + bytes) \<Rightarrow> int \<Rightarrow> int \<Rightarrow> bool" where
  "retried c ctx build n d \<longleftrightarrow>
     (\<exists>body e. build n = Inr body \<and> doHTTP c ctx n body = Inl e \<and> retry c n e = (d, True) \<and> ctx_done ctx n = None)"

text \<open>Attempt \<open>n\<close> is the last one and yields \<open>r\<close>.\<close>

definition concludes ::
  "('a, 'r) Client \<Rightarrow> call_ctx \<Rightarrow> string \<Rightarrow> (int \<Rightarrow> rpc_error + bytes) \<Rightarrow> int \<Rightarrow> rpc_error + bytes \<Rightarrow> bool" where
  "concludes c ctx label build n r \<longleftrightarrow>
     (\<exists>e. build n = Inl e \<and> r = Inl (Wrapped (''solana rpc '' @ label @ '': marshal request: '') e)) \<or>
     (\<exists>body resp. build n = Inr body \<and> doHTTP c ctx n body = Inr resp \<and> r = Inr resp) \<or>
     (\<exists>body e. build n = Inr body \<and> doHTTP c ctx n body = Inl e \<and> \<not> snd (retry c n e) \<and>
        r = Inl (Wrapped (''solana rpc '' @ label @ '': '') e)) \<or>
     (\<exists>body e ce. build n = Inr body \<and> doHTTP c ctx n body = Inl e \<and> snd (retry c n e) \<and> ctx_done ctx n = Some ce \<and>
        r = Inl (Wrapped (''solana rpc '' @ label @ '': '') ce))"

lemma send_loop_cases:
  obtains (last) r where "send_loop c ctx label build n slept = Some (slept, r)" "concludes c ctx label build n r"
  | (again) d where "retried c ctx build n d"
      "send_loop c ctx label build n slept = send_loop c ctx label build (n + 1) (slept @ [d])"
proof (cases "build n")
  case (Inl e)
  then show ?thesis by (intro last) (auto simp: send_loop.simps concludes_def)
next
  case (Inr body)
  show ?thesis
  proof (cases "doHTTP c ctx n body")
    case http: (Inl e)
    obtain d again where p: "retry c n e = (d, again)" by (cases "retry c n e")
    show ?thesis
    proof (cases "again \<and> ctx_done ctx n = None")
      case True
      with Inr http p show ?thesis by (intro that(2) [of d]) (auto simp: send_loop.simps [of c ctx label build n] retried_def)
    next
      case False
      with Inr http p show ?thesis
        by (cases again; cases "ctx_done ctx n") (auto simp: send_loop.simps concludes_def intro: last)
    qed
  next
    case (Inr resp)
    with \<open>build n = Inr body\<close> show ?thesis by (intro last) (auto simp: send_loop.simps concludes_def)
  qed
qed

locale bounded_retry =
  fixes policy :: "int \<Rightarrow> rpc_error \<Rightarrow> int \<times> bool" and limit :: int
  assumes stops: "limit \<le> n \<Longrightarrow> \<not> snd (policy n e)"
begin

text \<open>A policy that gives up at attempt \<open>limit\<close> makes the loop end by then.\<close>

lemma loop_ends:
  assumes "retry c = policy"
  shows "\<exists>ds r. send_loop c ctx label build n slept = Some (slept @ ds, r) \<and>
     (\<forall>i < length ds. retried c ctx build (n + int i) (ds ! i)) \<and>
     concludes c ctx label build (n + int (length ds)) r \<and> n + int (length ds) \<le> max n limit"
proof (induction "nat (limit - n)" arbitrary: n slept rule: less_induct)
  case less
  show ?case
  proof (cases rule: send_loop_cases [of c ctx label build n slept])
    case (last r)
    then show ?thesis by (intro exI [of _ "[]"] exI [of _ r]) simp
  next
    case (again d)
    then have "n < limit" using stops [of n] assms by (metis linorder_not_le retried_def snd_conv)
    then have "nat (limit - (n + 1)) < nat (limit - n)" by simp
    from less [OF this, of "slept @ [d]"] obtain ds r where
      ds: "send_loop c ctx label build (n + 1) (slept @ [d]) = Some ((slept @ [d]) @ ds, r)"
        "\<forall>i < length ds. retried c ctx build (n + 1 + int i) (ds ! i)"
        "concludes c ctx label build (n + 1 + int (length ds)) r" "n + 1 + int (length ds) \<le> max (n + 1) limit"
      by blast
    have "retried c ctx build (n + int i) ((d # ds) ! i)" if "i < Suc (length ds)" for i
      using that again(1) ds(2) by (cases i) (auto simp: algebra_simps)
    then show ?thesis
      using again(2) ds(1,3,4) \<open>n < limit\<close>
      by (intro exI [of _ "d # ds"] exI [of _ r]) (simp add: algebra_simps)
  qed
qed

end

interpretation default_retry: bounded_retry "ShouldRetry rand DefaultRetryPolicy" 5 for rand
  by unfold_locales (simp add: ShouldRetry_def DefaultRetryPolicy_def)

lemma default_retried:
  assumes "int64n rand" and "retry c = ShouldRetry rand DefaultRetryPolicy" and "retried c ctx build (1 + int i) d"
  shows "0 \<le> d" and "d < 200000000 * 2 ^ i"
    and "\<exists>body e. build (1 + int i) = Inr body \<and> doHTTP c ctx (1 + int i) body = Inl e \<and> isRetryable e"
proof -
  from assms(2,3) obtain body e where e: "build (1 + int i) = Inr body" "doHTTP c ctx (1 + int i) body = Inl e"
    "ShouldRetry rand DefaultRetryPolicy (1 + int i) e = (d, True)" by (auto simp: retried_def)
  then have r: "isRetryable e" "1 + int i < 5" "d = rand (backoff_delay DefaultRetryPolicy (1 + int i))"
    by (auto simp: ShouldRetry_def DefaultRetryPolicy_def split: if_splits)
  then have "d = rand (200000000 * 2 ^ i)" using default_backoff [of "1 + int i"] by simp
  then show "0 \<le> d" and "d < 200000000 * 2 ^ i" using assms(1) by (auto simp: int64n_def)
  show "\<exists>body e. build (1 + int i) = Inr body \<and> doHTTP c ctx (1 + int i) body = Inl e \<and> isRetryable e" using e r by blast
qed

text \<open>
  C13: under the default policy every request ends: whatever the transport answers, \<open>sendRaw\<close>
  returns after at most five attempts; every attempt before the last one failed with a retryable
  error and was followed by a wait below \<open>200ms \<cdot> 2\<^sup>i\<close>; and the result is the body, or the
  error, of the last attempt (or the context's error).
\<close>

theorem sendRaw_terminates:
  assumes "int64n rand" and "retry c = ShouldRetry rand DefaultRetryPolicy"
  shows "\<exists>ds r. sendRaw c ctx label build = Some (ds, r) \<and> length ds \<le> 4 \<and>
     (\<forall>i < length ds. 0 \<le> ds ! i \<and> ds ! i < 200000000 * 2 ^ i \<and>
        (\<exists>body e. build (1 + int i) = Inr body \<and> doHTTP c ctx (1 + int i) body = Inl e \<and> isRetryable e)) \<and>
     concludes c ctx label build (1 + int (length ds)) r"
proof -
  obtain ds r where ds: "sendRaw c ctx label build = Some (ds, r)" "\<forall>i < length ds. retried c ctx build (1 + int i) (ds ! i)"
    "concludes c ctx label build (1 + int (length ds)) r" "1 + int (length ds) \<le> 5"
    using default_retry.loop_ends [OF assms(2), of ctx label build 1 "[]"] by (auto simp: sendRaw_def)
  then show ?thesis using default_retried [OF assms] by (intro exI [of _ ds] exI [of _ r]) fastforce
qed

text \<open>A server that is overloaded once and then answers.\<close>

definition sample_rand :: "int \<Rightarrow> int" where "sample_rand n = n div 2"

definition sample_codec :: "(nat, nat) Codec" where
  "sample_codec = \<lparr>marshal_request = \<lambda>r. Inr [1], marshal_requests = \<lambda>rs. Inr [2], unmarshal_envelope = \<lambda>b. Inr (0, None),
     unmarshal_responses = \<lambda>b. Inr [\<lparr>resp_Version = jsonrpcVersion, resp_ID = 2, resp_Result = [7], resp_Error = None\<rparr>],
     unmarshal_result = \<lambda>b t. (length b, None)\<rparr>"

definition sample_transport :: http_client where
  "sample_transport attempt req =
     (if attempt = 1 then Inr \<lparr>StatusCode = 503, hr_Read = Inr []\<rparr> else Inr \<lparr>StatusCode = 200, hr_Read = Inr [9]\<rparr>)"

definition sample_ctx :: call_ctx where
  "sample_ctx = \<lparr>ctx_headers = None, ctx_url_error = \<lambda>u. None, ctx_done = \<lambda>n. None\<rparr>"

definition sample_client :: "(nat, nat) Client" where
  "sample_client = NewClientWith sample_codec sample_rand (\<lambda>a b. sample_transport) ''http://node'' []"

lemma sample_rand_ok: "int64n sample_rand"
  by (auto simp: int64n_def sample_rand_def)

lemma sample_client_retry: "retry sample_client = ShouldRetry sample_rand DefaultRetryPolicy"
  by (simp add: sample_client_def NewClientWith_def newClient_def)

theorem sendRaw_terminates_witness:
  "\<exists>ds r. sendRaw sample_client sample_ctx ''m'' (\<lambda>_. Inr [1]) = Some (ds, r) \<and> length ds \<le> 4"
  using sendRaw_terminates [OF sample_rand_ok sample_client_retry, of sample_ctx "''m''" "\<lambda>_. Inr [1]"] by blast

section \<open>Batches\<close>

lemma length_match [simp]:
  "length (fst (match_responses cdc m rs (b, seen))) = length b" "length (snd (match_responses cdc m rs (b, seen))) = length seen"
  by (induction rs arbitrary: b seen) (auto split: option.splits)

lemma match_responses_nth:
  assumes "ran m \<subseteq> {..<length b}" and "length seen = length b" and "i < length b"
  shows "fst (match_responses cdc m rs (b, seen)) ! i =
           fold (apply_response cdc) (filter (\<lambda>r. m (resp_ID r) = Some i) rs) (b ! i)"
    and "snd (match_responses cdc m rs (b, seen)) ! i \<longleftrightarrow> seen ! i \<or> filter (\<lambda>r. m (resp_ID r) = Some i) rs \<noteq> []"
  using assms
proof (induction rs arbitrary: b seen)
  case (Cons r rs)
  { case 1
    show ?case
    proof (cases "m (resp_ID r)")
      case (Some j)
      then have "j < length b" using 1 by (auto simp: ran_def)
      then show ?thesis using Some 1 Cons.IH(1) [of "b[j := apply_response cdc r (b ! j)]" "seen[j := True]"]
        by (cases "j = i") auto
    qed (use 1 Cons.IH(1) in auto)
  next
    case 2
    show ?case
    proof (cases "m (resp_ID r)")
      case (Some j)
      then have "j < length b" using 2 by (auto simp: ran_def)
      then show ?thesis using Some 2 Cons.IH(2) [of "b[j := apply_response cdc r (b ! j)]" "seen[j := True]"]
        by (cases "j = i") auto
    qed (use 2 Cons.IH(2) in auto) }
qed simp_all

text \<open>The request of the element at position \<open>i\<close>.\<close>

definition request_of :: "u64 \<Rightarrow> nat \<Rightarrow> ('a, 'r) BatchElem \<Rightarrow> 'a Request" where
  "request_of next i e =
     \<lparr>req_Version = jsonrpcVersion, req_ID = next + of_nat (Suc i), req_Method = be_Method e,
      req_Params = (case be_Args e of None \<Rightarrow> [] | Some a \<Rightarrow> a)\<rparr>"

lemma of_nat_Suc_nonzero:
  assumes "Suc j < 2 ^ 64"
  shows "(of_nat (Suc j) :: u64) \<noteq> 0"
proof
  assume "(of_nat (Suc j) :: u64) = 0"
  then have "unat (of_nat (Suc j) :: u64) = 0" by simp
  then show False using assms by (simp add: unat_of_nat del: of_nat_Suc)
qed

lemma batch_requests_spec:
  assumes "batch_requests next i es m = (next', rs, m')" and "length es < 2 ^ 64"
  shows "next' = next + of_nat (length es) \<and> length rs = length es \<and> (\<forall>j < length es. rs ! j = request_of next j (es ! j)) \<and>
    (\<forall>j < length es. m' (next + of_nat (Suc j)) = Some (i + j)) \<and>
    (\<forall>k. (\<forall>j < length es. k \<noteq> next + of_nat (Suc j)) \<longrightarrow> m' k = m k)"
  using assms
proof (induction es arbitrary: "next" i m next' rs m')
  case (Cons e es)
  obtain n2 rs2 m2 where b: "batch_requests (next + 1) (Suc i) es (m(next + 1 \<mapsto> i)) = (n2, rs2, m2)" by (metis prod_cases3)
  note IH = Cons.IH [OF b]
  have eq: "next' = n2" "rs = request_of next 0 e # rs2" "m' = m2"
    using Cons.prems(1) b by (auto simp: Let_def request_of_def)
  have len: "length es < 2 ^ 64" using Cons.prems(2) by simp
  have shift: "next + 1 + of_nat (Suc j) = next + of_nat (Suc (Suc j))" for j by simp
  have fresh: "next + 1 \<noteq> next + 1 + of_nat (Suc j)" if "j < length es" for j
    using of_nat_Suc_nonzero [of j] that Cons.prems(2) by simp
  have "m2 (next + 1) = Some i" using IH [OF len] fresh by (metis fun_upd_same)
  then have at: "m' (next + of_nat (Suc j)) = Some (i + j)" if "j < length (e # es)" for j
  proof (cases j)
    case (Suc l)
    with that IH [OF len] have "m2 (next + 1 + of_nat (Suc l)) = Some (Suc i + l)" by simp
    then show ?thesis using Suc eq(3) unfolding shift by simp
  qed (use \<open>m2 (next + 1) = Some i\<close> eq(3) in simp)
  have req: "rs ! j = request_of next j ((e # es) ! j)" if "j < length (e # es)" for j
    using that IH [OF len] eq(2) by (cases j) (auto simp: request_of_def add.assoc)
  have other: "m' k = m k" if "\<forall>j < length (e # es). k \<noteq> next + of_nat (Suc j)" for k
  proof -
    have "k \<noteq> next + 1" using that by (metis length_greater_0_conv list.distinct(1) of_nat_1 One_nat_def)
    moreover have "\<forall>j < length es. k \<noteq> next + 1 + of_nat (Suc j)" using that shift by auto
    ultimately show ?thesis using IH [OF len] eq(3) by simp
  qed
  show ?case using IH [OF len] eq at req other by simp
qed simp

text \<open>
  C22: each element of a batch gets the responses that carry its own id, in the order they arrive,
  whatever the order of the others; an element without a response gets \<open>ErrMissingResponse\<close>;
  responses with unknown ids are ignored.  The element at position \<open>i\<close> was sent with the id
  \<open>nextID + i + 1\<close>.
\<close>

theorem BatchCallContext_matches:
  assumes "BatchCallContext c ctx b = (c', Some (b', None))" and "b \<noteq> []" and "length b < 2 ^ 64"
  shows "\<exists>resps body slept.
     sendRaw c' ctx (batchLabel b)
       (\<lambda>_. marshal_requests (codec c) (map (\<lambda>i. request_of (nextID c) i (b ! i)) [0..<length b])) = Some (slept, Inr body) \<and>
     unmarshal_responses (codec c) body = Inr resps \<and> length b' = length b \<and>
     (\<forall>i < length b. b' ! i =
        (let mine = filter (\<lambda>r. resp_ID r = nextID c + of_nat (Suc i)) resps
         in if mine = [] then (b ! i)\<lparr>be_Error := Some (Sentinel ErrMissingResponse)\<rparr>
            else fold (apply_response (codec c)) mine (b ! i)))"
proof -
  obtain n2 rs m where q: "batch_requests (nextID c) 0 b Map.empty = (n2, rs, m)" by (metis prod_cases3)
  note spec = batch_requests_spec [OF q assms(3)]
  have rs: "rs = map (\<lambda>i. request_of (nextID c) i (b ! i)) [0..<length b]"
    using spec by (intro nth_equalityI) auto
  have c': "c' = c\<lparr>nextID := n2\<rparr>" using assms(1,2) by (simp add: BatchCallContext_def q Let_def)
  from assms(1,2) obtain slept body resps where
    s: "sendRaw c' ctx (batchLabel b) (\<lambda>_. marshal_requests (codec c) rs) = Some (slept, Inr body)"
      "unmarshal_responses (codec c) body = Inr resps"
      "b' = (case match_responses (codec c) m resps (b, replicate (length b) False) of (b, seen) \<Rightarrow> mark_missing b seen)"
    by (auto simp: BatchCallContext_def q Let_def split: option.splits sum.splits prod.splits)
  have ran: "ran m \<subseteq> {..<length b}"
  proof
    fix j assume "j \<in> ran m"
    then obtain k where k: "m k = Some j" by (auto simp: ran_def)
    then obtain i where "i < length b" "k = nextID c + of_nat (Suc i)" using spec by (metis option.distinct(1))
    then show "j \<in> {..<length b}" using spec k by auto
  qed
  have mine: "m k = Some i \<longleftrightarrow> k = nextID c + of_nat (Suc i)" if "i < length b" for i k
    using that spec by (metis add_0 option.distinct(1) option.inject)
  let ?M = "match_responses (codec c) m resps (b, replicate (length b) False)"
  have len: "length b' = length b" by (simp add: s(3) mark_missing_def case_prod_beta)
  have "b' ! i = (let mine = filter (\<lambda>r. resp_ID r = nextID c + of_nat (Suc i)) resps
         in if mine = [] then (b ! i)\<lparr>be_Error := Some (Sentinel ErrMissingResponse)\<rparr>
            else fold (apply_response (codec c)) mine (b ! i))" if i: "i < length b" for i
  proof -
    have "b' ! i = (if snd ?M ! i then fst ?M ! i else (fst ?M ! i)\<lparr>be_Error := Some (Sentinel ErrMissingResponse)\<rparr>)"
      using i by (simp add: s(3) mark_missing_def case_prod_beta)
    then show ?thesis
      using match_responses_nth [OF ran _ i, of "replicate (length b) False" "codec c" resps] i
      by (simp add: mine [OF i] Let_def)
  qed
  then show ?thesis using s(1,2) len unfolding rs by blast
qed

text \<open>Two elements, of which the server answers the second.\<close>

definition sample_elems :: "(nat, nat) BatchElem list" where
  "sample_elems = [\<lparr>be_Method = ''a'', be_Args = None, be_Result = Some 0, be_Error = None\<rparr>,
                   \<lparr>be_Method = ''b'', be_Args = Some [3], be_Result = Some 0, be_Error = None\<rparr>]"

definition sample_elems_after :: "(nat, nat) BatchElem list" where
  "sample_elems_after =
     [\<lparr>be_Method = ''a'', be_Args = None, be_Result = Some 0, be_Error = Some (Sentinel ErrMissingResponse)\<rparr>,
      \<lparr>be_Method = ''b'', be_Args = Some [3], be_Result = Some 1, be_Error = None\<rparr>]"

lemma sample_do:
  "doHTTP (sample_client\<lparr>nextID := n\<rparr>) sample_ctx 1 body = Inl (HTTPError 503 [])"
  "doHTTP (sample_client\<lparr>nextID := n\<rparr>) sample_ctx 2 body = Inr [9]"
  by (simp_all add: sample_client_def sample_ctx_def NewClientWith_def newClient_def doHTTP_def Let_def sample_transport_def)

lemma sample_policy: "retry sample_client 1 (HTTPError 503 []) = (100000000, True)"
  using default_delays(1)
  by (simp add: sample_client_retry ShouldRetry_def isRetryable_def sample_rand_def) (simp add: DefaultRetryPolicy_def)

lemma sample_send:
  "sendRaw (sample_client\<lparr>nextID := n\<rparr>) sample_ctx label (\<lambda>_. Inr body) = Some ([100000000], Inr [9])"
proof -
  have "ctx_done sample_ctx 1 = None" by (simp add: sample_ctx_def)
  then show ?thesis
    by (simp add: sendRaw_def send_loop.simps [where attempt = 1] send_loop.simps [where attempt = 2] sample_do sample_policy)
qed

lemma sample_batch:
  "BatchCallContext sample_client sample_ctx sample_elems = (sample_client\<lparr>nextID := 2\<rparr>, Some (sample_elems_after, None))"
proof -
  have "codec sample_client = sample_codec" "nextID sample_client = 0"
    by (simp_all add: sample_client_def NewClientWith_def newClient_def)
  then show ?thesis
    by (simp add: BatchCallContext_def sample_elems_def Let_def sample_codec_def sample_send sample_elems_after_def
        mark_missing_def apply_response_def upt_rec)
qed

theorem BatchCallContext_matches_witness:
  "be_Error (sample_elems_after ! 0) = Some (Sentinel ErrMissingResponse) \<and> be_Result (sample_elems_after ! 1) = Some 1"
proof -
  have init: "nextID sample_client = 0" "codec sample_client = sample_codec"
    by (simp_all add: sample_client_def NewClientWith_def newClient_def)
  have "sample_elems \<noteq> []" "length sample_elems < 2 ^ 64" by (simp_all add: sample_elems_def)
  from BatchCallContext_matches [OF sample_batch this] show ?thesis
    by (auto simp: init sample_codec_def Let_def sample_elems_def apply_response_def less_Suc_eq all_conj_distrib)
qed

section \<open>Construction and headers\<close>

text \<open>Every constructed client has a transport.\<close>

lemma newClient_transport: "httpClient (newClient goJSON rand transport ep opts) \<noteq> None"
  by (simp add: newClient_def Let_def)

text \<open>The context's headers win over the client's, and these over the defaults.\<close>

lemma request_headers_precedence:
  "request_headers c ctx k =
     (case headersFromContext (ctx_headers ctx) k of
        Some vs \<Rightarrow> Some vs
      | None \<Rightarrow>
          (case make_headers (headers c) k of
             Some vs \<Rightarrow> Some vs
           | None \<Rightarrow> if k = ''Content-Type'' \<or> k = ''Accept'' then Some [''application/json''] else None))"
proof -
  have "CanonicalHeaderKey ''Content-Type'' = ''Content-Type''" "CanonicalHeaderKey ''Accept'' = ''Accept''" by code_simp+
  then show ?thesis by (auto simp: request_headers_def header_Set_def Let_def map_add_def split: option.splits)
qed

end
