(* ===== verification/Rpc_Send.thy ===== *)
theory Rpc_Send
  imports Complex_Main Jsonrpc_Errors
begin

text \<open>
  Typed RPC logic above the transport: decoding of transaction errors
  (\<open>rpc/transaction_error.go\<close>), priority fee statistics (\<open>rpc/priorityfee.go\<close>), and sending with
  confirmation and blockhash refresh (\<open>rpc/send.go\<close>).  The JSON decoder, the clock, the context and
  the server's answers are parameters; every answer may differ from poll to poll.
\<close>

section \<open>Transaction errors\<close>

text \<open>
  A decoded JSON value as Go's \<open>any\<close>: \<open>JNum\<close> is a \<open>json.Number\<close>, \<open>JFloat\<close> a float (\<open>None\<close>: NaN or
  infinite), \<open>JInt\<close> and \<open>JUint\<close> the signed and unsigned integer types, \<open>JOther\<close> any other type.  A map
  is the list of its entries.
\<close>

datatype jv =
    JNull | JBool bool | JNum string | JStr string | JArr "jv list" | JObj "(string \<times> jv) list"
  | JFloat "rat option" | JInt int | JUint nat | JOther

datatype raw_arg = RawBytes bytes | RawValue jv

datatype tx_error =
    TransactionError string "jv option"
  | InstructionError int string u32 "jv option"
  | BadShape string

text \<open>
  Decoded errors; \<open>BadShape\<close> is a \<open>fmt.Errorf\<close> message, without the offending value it prints.
  \<open>bytes.TrimSpace\<close>: the UTF-8 encodings of the white-space code points.
\<close>

definition spaces :: "bytes list" where
  "spaces = [[0x09], [0x0A], [0x0B], [0x0C], [0x0D], [0x20], [0xC2, 0x85], [0xC2, 0xA0], [0xE1, 0x9A, 0x80]] @
     map (\<lambda>b. [0xE2, 0x80, b]) [0x80, 0x81, 0x82, 0x83, 0x84, 0x85, 0x86, 0x87, 0x88, 0x89, 0x8A, 0xA8, 0xA9, 0xAF] @
     [[0xE2, 0x81, 0x9F], [0xE3, 0x80, 0x80]]"

lemma spaces_nonempty: "s \<in> set spaces \<Longrightarrow> s \<noteq> []"
  by (auto simp: spaces_def)

fun trim_with :: "nat \<Rightarrow> bytes list \<Rightarrow> bytes \<Rightarrow> bytes" where
  "trim_with 0 sp b = b"
| "trim_with (Suc n) sp b =
     (case filter (\<lambda>s. take (length s) b = s) sp of
        [] \<Rightarrow> b
      | s # _ \<Rightarrow> trim_with n sp (drop (length s) b))"

definition TrimSpace :: "bytes \<Rightarrow> bytes" where
  "TrimSpace b =
     (let b = trim_with (length b) spaces b
      in rev (trim_with (length b) (map rev spaces) (rev b)))"

text \<open>\<open>strconv.ParseUint(s, 10, 64)\<close>\<close>

definition ParseUint :: "string \<Rightarrow> nat option" where
  "ParseUint s = (if s = [] \<or> \<not> list_all is_digit s \<or> decimal s \<ge> 2 ^ 64 then None else Some (decimal s))"

definition below_max :: "nat \<Rightarrow> nat \<Rightarrow> string + nat" where
  "below_max limit v = (if v > limit then Inl ''integer exceeds maximum'' else Inr v)"

fun decodeUnsigned :: "jv \<Rightarrow> nat \<Rightarrow> string + nat" where
  "decodeUnsigned (JNum s) limit =
     (case ParseUint s of None \<Rightarrow> Inl ''expected an unsigned integer'' | Some v \<Rightarrow> below_max limit v)"
| "decodeUnsigned (JFloat f) limit =
     (case f of
        None \<Rightarrow> Inl ''expected an integer between 0 and max''
      | Some x \<Rightarrow>
          if x < 0 \<or> of_int \<lfloor>x\<rfloor> \<noteq> x \<or> x > of_nat limit then Inl ''expected an integer between 0 and max''
          else below_max limit (nat \<lfloor>x\<rfloor>))"
| "decodeUnsigned (JInt i) limit = (if i < 0 then Inl ''expected an unsigned integer'' else below_max limit (nat i))"
| "decodeUnsigned (JUint n) limit = below_max limit n"
| "decodeUnsigned v limit = Inl ''expected an unsigned integer''"

definition decodeInstructionError :: "jv \<Rightarrow> tx_error" where
  "decodeInstructionError raw =
     (case raw of
        JArr [i, v] \<Rightarrow>
          (case decodeUnsigned i 0xFF of
             Inl e \<Rightarrow> BadShape (''solana rpc: decode InstructionError index: '' @ e)
           | Inr index \<Rightarrow>
               (case v of
                  JStr kind \<Rightarrow> InstructionError (int index) kind 0 None
                | JObj [(kind, details)] \<Rightarrow>
                    if kind = ''Custom'' then
                      case decodeUnsigned details 0xFFFFFFFF of
                        Inl e \<Rightarrow> BadShape (''solana rpc: decode custom program error code: '' @ e)
                      | Inr code \<Rightarrow> InstructionError (int index) ''Custom'' (of_nat code) None
                    else InstructionError (int index) kind 0 (if details = JNull then None else Some details)
                | JObj entries \<Rightarrow> BadShape ''solana rpc: instruction error object must contain exactly one variant''
                | _ \<Rightarrow> BadShape ''solana rpc: unrecognized instruction error''))
      | _ \<Rightarrow> BadShape ''solana rpc: InstructionError must be [index, error]'')"

definition decode_value :: "jv \<Rightarrow> tx_error option" where
  "decode_value v =
     (case v of
        JNull \<Rightarrow> None
      | JStr kind \<Rightarrow> Some (TransactionError kind None)
      | JObj [(kind, details)] \<Rightarrow>
          if kind = ''InstructionError'' then Some (decodeInstructionError details)
          else Some (TransactionError kind (if details = JNull then None else Some details))
      | JObj entries \<Rightarrow> Some (BadShape ''solana rpc: transaction error object must contain exactly one variant'')
      | _ \<Rightarrow> Some (BadShape ''solana rpc: unrecognized transaction error shape''))"

text \<open>\<open>json\<close> validates and decodes with \<open>UseNumber\<close>; a \<open>nil\<close> details value is no details.\<close>

definition decodeTransactionErrorJSON :: "(bytes \<Rightarrow> string + jv) \<Rightarrow> bytes \<Rightarrow> tx_error option" where
  "decodeTransactionErrorJSON json raw =
     (let trimmed = TrimSpace raw
      in if trimmed = [] \<or> bytes_string trimmed = ''null'' then None
         else case json trimmed of
                Inl e \<Rightarrow> Some (BadShape (''solana rpc: decode transaction error JSON: '' @ e))
              | Inr v \<Rightarrow> decode_value v)"

definition DecodeTransactionError :: "(bytes \<Rightarrow> string + jv) \<Rightarrow> raw_arg \<Rightarrow> tx_error option" where
  "DecodeTransactionError json raw =
     (case raw of RawBytes b \<Rightarrow> decodeTransactionErrorJSON json b | RawValue v \<Rightarrow> decode_value v)"

section \<open>Priority fees\<close>

record PrioritizationFee =
  pf_Slot :: u64
  pf_Fee :: u64

record PriorityFeeStats =
  P50 :: u64
  P75 :: u64
  P95 :: u64
  stats_Max :: u64
  Samples :: int

text \<open>\<open>None\<close> is an index panic.\<close>

definition percentile :: "u64 list \<Rightarrow> nat \<Rightarrow> u64 option" where
  "percentile sorted_fees p =
     (let n = length sorted_fees
      in if n = 0 then Some 0
         else
           let idx = (p * n) div 100;
               idx = (if idx > 0 then idx - 1 else idx);
               idx = (if idx \<ge> n then n - 1 else idx)
           in if idx < n then Some (sorted_fees ! idx) else None)"

definition PriorityFeeStatsFromFees :: "PrioritizationFee list \<Rightarrow> PriorityFeeStats option" where
  "PriorityFeeStatsFromFees fees =
     (if fees = [] then Some \<lparr>P50 = 0, P75 = 0, P95 = 0, stats_Max = 0, Samples = 0\<rparr>
      else
        let values = sort (map pf_Fee fees)
        in case (percentile values 50, percentile values 75, percentile values 95) of
             (Some a, Some b, Some c) \<Rightarrow>
               Some \<lparr>P50 = a, P75 = b, P95 = c, stats_Max = values ! (length values - 1), Samples = int (length values)\<rparr>
           | _ \<Rightarrow> None)"

section \<open>Commitment\<close>

definition commitmentRank :: "string \<Rightarrow> int" where
  "commitmentRank c =
     (if c = ''processed'' then 0 else if c = ''confirmed'' then 1 else if c = ''finalized'' then 2 else - 1)"

definition statusReachedCommitment :: "string \<Rightarrow> string \<Rightarrow> bool" where
  "statusReachedCommitment status required =
     (let statusN = commitmentRank status; reqN = commitmentRank required
      in if statusN < 0 \<or> reqN < 0 then False else statusN \<ge> reqN)"

section \<open>Configuration\<close>

record sendConfig =
  commitment :: string
  confirmTimeout :: int
  pollInterval :: int
  maxBlockhashRetries :: int
  skipPreflight :: "bool option"

definition defaultSendConfig :: sendConfig where
  "defaultSendConfig = \<lparr>commitment = ''confirmed'', confirmTimeout = 60 * 1000000000, pollInterval = 2 * 1000000000,
     maxBlockhashRetries = 3, skipPreflight = None\<rparr>"

definition WithSendCommitment :: "string \<Rightarrow> sendConfig \<Rightarrow> sendConfig" where
  "WithSendCommitment c cfg = cfg\<lparr>commitment := c\<rparr>"

definition WithConfirmTimeout :: "int \<Rightarrow> sendConfig \<Rightarrow> sendConfig" where
  "WithConfirmTimeout d cfg = cfg\<lparr>confirmTimeout := d\<rparr>"

definition WithPollInterval :: "int \<Rightarrow> sendConfig \<Rightarrow> sendConfig" where
  "WithPollInterval d cfg = cfg\<lparr>pollInterval := d\<rparr>"

definition WithMaxBlockhashRetries :: "int \<Rightarrow> sendConfig \<Rightarrow> sendConfig" where
  "WithMaxBlockhashRetries n cfg = cfg\<lparr>maxBlockhashRetries := n\<rparr>"

definition WithSendSkipPreflight :: "bool \<Rightarrow> sendConfig \<Rightarrow> sendConfig" where
  "WithSendSkipPreflight b cfg = cfg\<lparr>skipPreflight := Some b\<rparr>"

section \<open>Confirmation\<close>

record SignatureStatus =
  ss_Slot :: u64
  ss_Confirmations :: "u64 option"
  ss_Err :: bytes
  ss_ConfirmationStatus :: string

datatype send_error = RpcErr rpc_error | TxErr tx_error

text \<open>
  What one call of \<open>confirmSignature\<close> meets.  \<open>clock 0\<close> is the time of the call, \<open>clock (Suc i)\<close>
  the time at the head of round \<open>i\<close>; \<open>ctx_head\<close> and \<open>ctx_wait\<close> say whether the context has ended at
  the head of the round and during its wait.
\<close>

record confirm_env =
  clock :: "nat \<Rightarrow> int"
  ctx_head :: "nat \<Rightarrow> rpc_error option"
  statuses :: "nat \<Rightarrow> rpc_error + SignatureStatus option list"
  blockHeight :: "nat \<Rightarrow> rpc_error + u64"
  ctx_wait :: "nat \<Rightarrow> rpc_error option"

text \<open>The status the round sees: the first entry of a successful answer, when it is there and not nil.\<close>

definition seen_status :: "confirm_env \<Rightarrow> nat \<Rightarrow> SignatureStatus option" where
  "seen_status env i = (case statuses env i of Inr (s # _) \<Rightarrow> s | _ \<Rightarrow> None)"

definition expired_at :: "confirm_env \<Rightarrow> nat \<Rightarrow> u64 option \<Rightarrow> bool" where
  "expired_at env i lastValid \<longleftrightarrow>
     (case lastValid of
        None \<Rightarrow> False
      | Some h \<Rightarrow> (case blockHeight env i of Inl e \<Rightarrow> False | Inr height \<Rightarrow> height > h))"

text \<open>What the status and the block height of round \<open>i\<close> decide: nothing yet, success, or an error.\<close>

definition confirm_round ::
  "(bytes \<Rightarrow> string + jv) \<Rightarrow> confirm_env \<Rightarrow> sendConfig \<Rightarrow> u64 option \<Rightarrow> nat \<Rightarrow> send_error option option" where
  "confirm_round json env cfg lastValid i =
     (case seen_status env i of
        Some s \<Rightarrow>
          (case DecodeTransactionError json (RawBytes (ss_Err s)) of
             Some txErr \<Rightarrow> Some (Some (TxErr txErr))
           | None \<Rightarrow> if statusReachedCommitment (ss_ConfirmationStatus s) (commitment cfg) then Some None else None)
      | None \<Rightarrow>
          if expired_at env i lastValid then Some (Some (RpcErr (Sentinel errBlockhashExpired))) else None)"

text \<open>
  The loop of \<open>confirmSignature\<close> from round \<open>i\<close>: the round it returned in, and its error (\<open>None\<close>:
  confirmed).  It may run forever.
\<close>

partial_function (option) confirm_loop ::
  "(bytes \<Rightarrow> string + jv) \<Rightarrow> confirm_env \<Rightarrow> sendConfig \<Rightarrow> u64 option \<Rightarrow> int \<Rightarrow> nat \<Rightarrow> (nat \<times> send_error option) option" where
  "confirm_loop json env cfg lastValid deadline i =
     (if clock env (Suc i) > deadline then Some (i, Some (RpcErr (Plain ''solana client: confirmation timeout'')))
      else case ctx_head env i of
        Some e \<Rightarrow> Some (i, Some (RpcErr e))
      | None \<Rightarrow>
          (case confirm_round json env cfg lastValid i of
             Some result \<Rightarrow> Some (i, result)
           | None \<Rightarrow>
               (case ctx_wait env i of
                  Some e \<Rightarrow> Some (i, Some (RpcErr e))
                | None \<Rightarrow> confirm_loop json env cfg lastValid deadline (Suc i))))"

definition confirmSignature ::
  "(bytes \<Rightarrow> string + jv) \<Rightarrow> confirm_env \<Rightarrow> sendConfig \<Rightarrow> u64 option \<Rightarrow> (nat \<times> send_error option) option" where
  "confirmSignature json env cfg lastValid = confirm_loop json env cfg lastValid (clock env 0 + confirmTimeout cfg) 0"

section \<open>Sending\<close>

text \<open>What \<open>GetLatestBlockhash\<close>, the builder and \<open>SendTransaction\<close> answer in each attempt, and the rounds of its confirmation.\<close>

record 'tx send_env =
  latestBlockhash :: "nat \<Rightarrow> rpc_error + bytes \<times> u64"
  buildTx :: "(nat \<Rightarrow> bytes \<Rightarrow> rpc_error + 'tx) option"
  sendTx :: "nat \<Rightarrow> 'tx \<Rightarrow> sendConfig \<Rightarrow> rpc_error + bytes"
  confirm :: "nat \<Rightarrow> confirm_env"

definition zero_sig :: bytes where "zero_sig = replicate 64 0"

definition sendOnce :: "'tx send_env \<Rightarrow> nat \<Rightarrow> 'tx \<Rightarrow> sendConfig \<Rightarrow> rpc_error + bytes" where
  "sendOnce env a tx cfg =
     (case sendTx env a tx cfg of Inl e \<Rightarrow> Inl (Wrapped ''solana client: send: '' e) | Inr sig \<Rightarrow> Inr sig)"

text \<open>
  The attempts of \<open>SendAndConfirmTransaction\<close>, from attempt \<open>a\<close> with \<open>left\<close> retries left.  The log
  lists the attempts whose transaction was handed to \<open>SendTransaction\<close>.
\<close>

fun send_attempts ::
  "(bytes \<Rightarrow> string + jv) \<Rightarrow> 'tx send_env \<Rightarrow> (nat \<Rightarrow> bytes \<Rightarrow> rpc_error + 'tx) \<Rightarrow> sendConfig \<Rightarrow> nat \<Rightarrow> nat \<Rightarrow> (nat list \<times> bytes \<times> send_error option) option" where
  "send_attempts json env build cfg left a =
     (case latestBlockhash env a of
        Inl e \<Rightarrow> Some ([], zero_sig, Some (RpcErr (Wrapped ''solana client: get blockhash: '' e)))
      | Inr (blockhash, lastValid) \<Rightarrow>
          (case build a blockhash of
             Inl e \<Rightarrow> Some ([], zero_sig, Some (RpcErr (Wrapped ''solana client: build transaction: '' e)))
           | Inr tx \<Rightarrow>
               (case sendOnce env a tx cfg of
                  Inl e \<Rightarrow>
                    if IsBlockhashExpired (Some e) \<and> left > 0
                    then map_option (\<lambda>(log, r). (a # log, r)) (send_attempts json env build cfg (left - 1) (Suc a))
                    else Some ([a], zero_sig, Some (RpcErr e))
                | Inr sig \<Rightarrow>
                    (case confirmSignature json (confirm env a) cfg (Some lastValid) of
                       None \<Rightarrow> None
                     | Some (i, None) \<Rightarrow> Some ([a], sig, None)
                     | Some (i, Some err) \<Rightarrow>
                         if (case err of RpcErr e \<Rightarrow> is_sentinel e errBlockhashExpired | TxErr t \<Rightarrow> False) \<and> left > 0
                         then map_option (\<lambda>(log, r). (a # log, r)) (send_attempts json env build cfg (left - 1) (Suc a))
                         else Some ([a], sig, Some err)))))"

declare send_attempts.simps [simp del]

definition SendAndConfirmTransaction ::
  "(bytes \<Rightarrow> string + jv) \<Rightarrow> 'tx send_env \<Rightarrow> (sendConfig \<Rightarrow> sendConfig) list \<Rightarrow> (nat list \<times> bytes \<times> send_error option) option" where
  "SendAndConfirmTransaction json env opts =
     (case buildTx env of
        None \<Rightarrow> Some ([], zero_sig, Some (RpcErr (Plain ''solana client: SendAndConfirmTransaction: nil builder'')))
      | Some build \<Rightarrow>
          let cfg = chain opts defaultSendConfig
          in if maxBlockhashRetries cfg < 0
             then Some ([], zero_sig, Some (RpcErr (Plain ''solana client: exhausted blockhash retries'')))
             else send_attempts json env build cfg (nat (maxBlockhashRetries cfg)) 0)"

definition SendAndConfirmSignedTransaction ::
  "(bytes \<Rightarrow> string + jv) \<Rightarrow> 'tx send_env \<Rightarrow> 'tx option \<Rightarrow> (sendConfig \<Rightarrow> sendConfig) list \<Rightarrow> (bytes \<times> send_error option) option" where
  "SendAndConfirmSignedTransaction json env tx opts =
     (case tx of
        None \<Rightarrow> Some (zero_sig, Some (RpcErr (Plain ''solana client: SendAndConfirmSignedTransaction: nil transaction'')))
      | Some tx \<Rightarrow>
          let cfg = chain opts defaultSendConfig
          in case sendOnce env 0 tx cfg of
               Inl e \<Rightarrow> Some (zero_sig, Some (RpcErr e))
             | Inr sig \<Rightarrow> map_option (\<lambda>(i, err). (sig, err)) (confirmSignature json (confirm env 0) cfg None))"

end
