(* ===== verification/Rpc_Send_Laws.thy ===== *)
theory Rpc_Send_Laws
  imports Rpc_Send
begin

text \<open>
  Laws of the typed RPC logic: transaction errors survive the wire, the fee percentiles are ordered
  samples, confirmation ends and is sound, and a transaction is sent again only after the previous
  one has expired.
\<close>

section \<open>Unsigned numbers\<close>

lemma ParseUint_digits: "n < 2 ^ 64 \<Longrightarrow> ParseUint (digits n) = Some n"
  using digits_digits [of n] by (simp add: ParseUint_def)

lemma decodeUnsigned_digits: "n \<le> limit \<Longrightarrow> limit < 2 ^ 64 \<Longrightarrow> decodeUnsigned (JNum (digits n)) limit = Inr n"
  by (simp add: ParseUint_digits below_max_def)

section \<open>Transaction errors\<close>

text \<open>The value a Solana node sends for an error.\<close>

fun tx_error_value :: "tx_error \<Rightarrow> jv" where
  "tx_error_value (TransactionError kind None) = JStr kind"
| "tx_error_value (TransactionError kind (Some d)) = JObj [(kind, d)]"
| "tx_error_value (InstructionError i kind code d) =
     JObj [(''InstructionError'', JArr [JNum (digits (nat i)),
       if kind = ''Custom'' then JObj [(kind, JNum (digits (unat code)))]
       else case d of None \<Rightarrow> JStr kind | Some v \<Rightarrow> JObj [(kind, v)]])]"
| "tx_error_value (BadShape msg) = JOther"

fun wire_error :: "tx_error \<Rightarrow> bool" where
  "wire_error (TransactionError kind d) \<longleftrightarrow> d \<noteq> Some JNull \<and> (d \<noteq> None \<longrightarrow> kind \<noteq> ''InstructionError'')"
| "wire_error (InstructionError i kind code d) \<longleftrightarrow>
     0 \<le> i \<and> i \<le> 255 \<and> d \<noteq> Some JNull \<and> (if kind = ''Custom'' then d = None else code = 0)"
| "wire_error (BadShape msg) \<longleftrightarrow> False"

text \<open>C23: \<open>DecodeTransactionError\<close> recovers every transaction and instruction error from the value a node sends for it.\<close>

theorem DecodeTransactionError_roundtrip:
  assumes "wire_error e"
  shows "DecodeTransactionError json (RawValue (tx_error_value e)) = Some e"
proof (cases e)
  case (TransactionError kind d)
  with assms show ?thesis by (cases d) (auto simp: DecodeTransactionError_def decode_value_def)
next
  case (InstructionError i kind code d)
  have code: "unat code \<le> 0xFFFFFFFF" using unsigned_less [where ?'a = nat, of code] by simp
  have i: "decodeUnsigned (JNum (digits (nat i))) 0xFF = Inr (nat i)"
    using assms InstructionError by (intro decodeUnsigned_digits) auto
  have c: "decodeUnsigned (JNum (digits (unat code))) 0xFFFFFFFF = Inr (unat code)"
    by (rule decodeUnsigned_digits [OF code]) simp
  show ?thesis using assms InstructionError i c
    by (cases d) (auto simp: DecodeTransactionError_def decode_value_def decodeInstructionError_def
        simp del: decodeUnsigned.simps)
qed (use assms in simp)

lemma sample_digits: "digits 2 = ''2''" "digits 6001 = ''6001''"
  by (simp_all add: digits.simps char_of_def bit_0)

theorem DecodeTransactionError_roundtrip_witness:
  "DecodeTransactionError (\<lambda>b. Inl []) (RawValue (JObj [(''InstructionError'', JArr [JNum ''2'', JObj [(''Custom'', JNum ''6001'')]])])) =
     Some (InstructionError 2 ''Custom'' 6001 None)"
  using DecodeTransactionError_roundtrip [of "InstructionError 2 ''Custom'' 6001 None" "\<lambda>b. Inl []"]
  by (simp add: sample_digits)

section \<open>Priority fees\<close>

definition rank :: "nat \<Rightarrow> nat \<Rightarrow> nat" where
  "rank n p = (p * n) div 100 - 1"

lemma percentile_sorted:
  assumes "xs \<noteq> []" and "p \<le> 100"
  shows "percentile xs p = Some (xs ! rank (length xs) p)" and "rank (length xs) p < length xs"
proof -
  have "p * length xs \<le> 100 * length xs" using assms(2) by simp
  then have "p * length xs div 100 \<le> length xs" by (metis div_le_mono nonzero_mult_div_cancel_left zero_neq_numeral)
  then show "rank (length xs) p < length xs" using assms(1) by (simp add: rank_def) (metis Suc_pred length_greater_0_conv less_Suc_eq_le less_imp_diff_less le_neq_implies_less)
  then show "percentile xs p = Some (xs ! rank (length xs) p)" using assms(1) by (auto simp: percentile_def rank_def Let_def)
qed

lemma rank_mono: "p \<le> q \<Longrightarrow> rank n p \<le> rank n q"
  by (simp add: rank_def diff_le_mono div_le_mono)

lemma count_below:
  assumes "sorted xs" and "i < length xs"
  shows "Suc i \<le> length (filter (\<lambda>v. v \<le> xs ! i) xs)"
proof -
  have "filter (\<lambda>v. v \<le> xs ! i) (take (Suc i) xs) = take (Suc i) xs"
    using assms by (auto simp: filter_id_conv in_set_conv_nth sorted_nth_mono)
  then have "Suc i = length (filter (\<lambda>v. v \<le> xs ! i) (take (Suc i) xs))" using assms(2) by simp
  also have "\<dots> \<le> length (filter (\<lambda>v. v \<le> xs ! i) (take (Suc i) xs @ drop (Suc i) xs))"
    unfolding filter_append length_append by simp
  finally show ?thesis by simp
qed

lemma count_sort: "length (filter P (sort xs)) = length (filter P xs)"
  by (simp add: filter_sort)

lemma sort_nonempty: "xs \<noteq> [] \<Longrightarrow> sort xs \<noteq> []"
  by (metis length_0_conv length_sort)

text \<open>
  The \<open>k\<close>-th smallest sample, counted from 1, without sorting: fewer than \<open>k\<close> samples are below it, and
  at least \<open>k\<close> are not above it.
\<close>

definition kth_smallest :: "nat \<Rightarrow> u64 list \<Rightarrow> u64 \<Rightarrow> bool" where
  "kth_smallest k vs v \<longleftrightarrow>
     v \<in> set vs \<and> length (filter (\<lambda>x. x < v) vs) < k \<and> k \<le> length (filter (\<lambda>x. x \<le> v) vs)"

lemma count_above:
  assumes "sorted xs" and "i < length xs"
  shows "length (filter (\<lambda>v. v < xs ! i) xs) \<le> i"
proof -
  have "filter (\<lambda>v. v < xs ! i) (drop i xs) = []"
    using assms by (auto simp: filter_empty_conv in_set_conv_nth not_less sorted_nth_mono)
  then have "filter (\<lambda>v. v < xs ! i) (take i xs @ drop i xs) = filter (\<lambda>v. v < xs ! i) (take i xs)"
    unfolding filter_append by simp
  moreover have "length (filter (\<lambda>v. v < xs ! i) (take i xs)) \<le> i"
    using length_filter_le [of "\<lambda>v. v < xs ! i" "take i xs"] by simp
  ultimately show ?thesis by simp
qed

lemma kth_smallest_sort:
  assumes "i < length vs"
  shows "kth_smallest (Suc i) vs (sort vs ! i)"
proof -
  have i: "i < length (sort vs)" using assms by simp
  have "sort vs ! i \<in> set vs" using nth_mem [OF i] by simp
  then show ?thesis
    using count_below [OF sorted_sort i] count_above [OF sorted_sort i] by (simp add: kth_smallest_def count_sort)
qed

text \<open>The rank is unique: the definition names one value.\<close>

lemma kth_smallest_unique:
  assumes "kth_smallest k vs v" and "kth_smallest k vs w"
  shows "v = w"
proof -
  have le: "length (filter (\<lambda>x. x \<le> v) vs) \<le> length (filter (\<lambda>x. x < w) vs)" if "v < w" for v w
    using that by (induction vs) auto
  show ?thesis
    using assms le [of v w] le [of w v] by (cases v w rule: linorder_cases) (auto simp: kth_smallest_def)
qed

lemma rank_Suc: "Suc (rank n p) = max 1 (p * n div 100)"
  by (simp add: rank_def max_def)

text \<open>
  C24: the fee statistics never index out of range, and over \<open>n\<close> samples the \<open>p\<close>-th percentile is
  exactly the \<open>p n / 100\<close>-th smallest sample (rounded down, and the smallest when that is 0); the
  percentiles are in order below the maximum, which bounds every sample.
\<close>

theorem fee_percentiles:
  assumes "fees \<noteq> []"
  defines "vs \<equiv> map pf_Fee fees"
  shows "\<exists>st. PriorityFeeStatsFromFees fees = Some st \<and>
     kth_smallest (max 1 (50 * length fees div 100)) vs (P50 st) \<and>
     kth_smallest (max 1 (75 * length fees div 100)) vs (P75 st) \<and>
     kth_smallest (max 1 (95 * length fees div 100)) vs (P95 st) \<and>
     P50 st \<le> P75 st \<and> P75 st \<le> P95 st \<and> P95 st \<le> stats_Max st \<and>
     stats_Max st \<in> set vs \<and> (\<forall>v \<in> set vs. v \<le> stats_Max st) \<and> Samples st = int (length fees)"
proof -
  let ?s = "sort vs" and ?n = "length vs"
  have ne: "vs \<noteq> []" "?s \<noteq> []" using assms(1) sort_nonempty [of vs] by (simp_all add: vs_def)
  have n: "?n = length fees" by (simp add: vs_def)
  have r: "rank ?n 50 < ?n" "rank ?n 75 < ?n" "rank ?n 95 < ?n" using percentile_sorted(2) [OF ne(1)] by simp_all
  have last: "v \<le> ?s ! (?n - 1)" if "v \<in> set vs" for v
  proof -
    from that obtain i where "i < ?n" "v = ?s ! i" by (metis in_set_conv_nth length_sort set_sort)
    then show ?thesis using sorted_nth_mono [OF sorted_sort, of i "?n - 1" vs] by simp
  qed
  have mem: "?s ! i \<in> set vs" if "i < ?n" for i using that nth_mem [of i ?s] by simp
  let ?st = "\<lparr>P50 = ?s ! rank ?n 50, P75 = ?s ! rank ?n 75, P95 = ?s ! rank ?n 95, stats_Max = ?s ! (?n - 1), Samples = int ?n\<rparr>"
  have "PriorityFeeStatsFromFees fees = Some ?st"
    using assms(1) percentile_sorted(1) [OF ne(2)] by (simp add: PriorityFeeStatsFromFees_def vs_def [symmetric] Let_def)
  moreover have "P50 ?st \<le> P75 ?st" "P75 ?st \<le> P95 ?st"
    using r rank_mono [of _ _ ?n] by (auto intro!: sorted_nth_mono)
  moreover have "P95 ?st \<le> stats_Max ?st" using last [OF mem [OF r(3)]] by simp
  moreover have "stats_Max ?st \<in> set vs" using mem ne by simp
  moreover have "kth_smallest (max 1 (50 * length fees div 100)) vs (P50 ?st)"
    "kth_smallest (max 1 (75 * length fees div 100)) vs (P75 ?st)"
    "kth_smallest (max 1 (95 * length fees div 100)) vs (P95 ?st)"
    using kth_smallest_sort [OF r(1)] kth_smallest_sort [OF r(2)] kth_smallest_sort [OF r(3)] by (simp_all add: n rank_Suc)
  moreover have "\<forall>v \<in> set vs. v \<le> stats_Max ?st" "Samples ?st = int (length fees)" using last by (simp_all add: vs_def)
  ultimately show ?thesis by blast
qed

text \<open>The ten samples of the comment at \<open>percentile\<close>, in another order.\<close>

definition sample_fees :: "PrioritizationFee list" where
  "sample_fees = map (\<lambda>v. \<lparr>pf_Slot = 1, pf_Fee = v\<rparr>) [3000, 10000, 1000, 7000, 9000, 5000, 2000, 8000, 4000, 6000]"

theorem fee_percentiles_witness:
  "\<exists>st. PriorityFeeStatsFromFees sample_fees = Some st \<and> P50 st = 5000 \<and> P75 st = 7000 \<and> P95 st = 9000 \<and> Samples st = 10"
proof -
  let ?vs = "[3000, 10000, 1000, 7000, 9000, 5000, 2000, 8000, 4000, 6000] :: u64 list"
  have vs: "map pf_Fee sample_fees = ?vs" and n: "length sample_fees = 10" "sample_fees \<noteq> []"
    by (simp_all add: sample_fees_def)
  have k: "kth_smallest 5 ?vs 5000" "kth_smallest 7 ?vs 7000" "kth_smallest 9 ?vs 9000"
    by (simp_all add: kth_smallest_def)
  obtain st where st: "PriorityFeeStatsFromFees sample_fees = Some st" "Samples st = 10" "kth_smallest 5 ?vs (P50 st)"
    "kth_smallest 7 ?vs (P75 st)" "kth_smallest 9 ?vs (P95 st)"
    using fee_percentiles [OF n(2)] unfolding vs n(1) by auto
  then show ?thesis using kth_smallest_unique k by blast
qed

section \<open>Confirmation\<close>

text \<open>Why a round ended the confirmation.\<close>

definition verdict :: "(bytes \<Rightarrow> string + jv) \<Rightarrow> confirm_env \<Rightarrow> sendConfig \<Rightarrow> u64 option \<Rightarrow> int \<Rightarrow> nat \<Rightarrow> send_error option \<Rightarrow> bool" where
  "verdict json env cfg lastValid deadline i r \<longleftrightarrow>
     (case r of
        None \<Rightarrow> (\<exists>s. seen_status env i = Some s \<and> DecodeTransactionError json (RawBytes (ss_Err s)) = None \<and>
                   statusReachedCommitment (ss_ConfirmationStatus s) (commitment cfg))
      | Some (TxErr t) \<Rightarrow> (\<exists>s. seen_status env i = Some s \<and> DecodeTransactionError json (RawBytes (ss_Err s)) = Some t)
      | Some (RpcErr e) \<Rightarrow>
          e = Plain ''solana client: confirmation timeout'' \<and> clock env (Suc i) > deadline \<or>
          ctx_head env i = Some e \<or> ctx_wait env i = Some e \<or>
          e = Sentinel errBlockhashExpired \<and> seen_status env i = None \<and> expired_at env i lastValid)"

lemma confirm_round_verdict:
  "confirm_round json env cfg lastValid i = Some r \<Longrightarrow> verdict json env cfg lastValid deadline i r"
  by (auto simp: confirm_round_def verdict_def split: option.splits if_splits)

lemma confirm_loop_cases:
  obtains (last) r where "confirm_loop json env cfg lastValid deadline i = Some (i, r)" "verdict json env cfg lastValid deadline i r"
  | (again) "clock env (Suc i) \<le> deadline"
      "confirm_loop json env cfg lastValid deadline i = confirm_loop json env cfg lastValid deadline (Suc i)"
proof -
  note unfold = confirm_loop.simps [of json env cfg lastValid deadline i]
  consider "clock env (Suc i) > deadline" | e where "clock env (Suc i) \<le> deadline" "ctx_head env i = Some e"
    | r where "clock env (Suc i) \<le> deadline" "ctx_head env i = None" "confirm_round json env cfg lastValid i = Some r"
    | e where "clock env (Suc i) \<le> deadline" "ctx_head env i = None" "confirm_round json env cfg lastValid i = None" "ctx_wait env i = Some e"
    | "clock env (Suc i) \<le> deadline" "ctx_head env i = None" "confirm_round json env cfg lastValid i = None" "ctx_wait env i = None"
    by (cases "clock env (Suc i) > deadline"; cases "ctx_head env i"; cases "confirm_round json env cfg lastValid i"; cases "ctx_wait env i") auto
  then show ?thesis
  proof cases
    case 1
    show ?thesis
      by (rule last [of "Some (RpcErr (Plain ''solana client: confirmation timeout''))"])
        (use 1 in \<open>simp_all add: unfold verdict_def\<close>)
  next
    case (2 e)
    then show ?thesis by (intro last [of "Some (RpcErr e)"]) (simp_all add: unfold verdict_def)
  next
    case (3 r)
    then show ?thesis by (intro last [of r] confirm_round_verdict) (simp_all add: unfold)
  next
    case (4 e)
    then show ?thesis by (intro last [of "Some (RpcErr e)"]) (simp_all add: unfold verdict_def)
  next
    case 5
    then show ?thesis by (intro again) (simp_all add: unfold)
  qed
qed

text \<open>The clock moves on by at least the poll interval between two rounds.\<close>

definition clock_ok :: "confirm_env \<Rightarrow> sendConfig \<Rightarrow> bool" where
  "clock_ok env cfg \<longleftrightarrow>
     clock env 0 \<le> clock env 1 \<and> (\<forall>i. clock env (Suc i) + pollInterval cfg \<le> clock env (Suc (Suc i)))"

lemma confirm_loop_ends:
  assumes "clock_ok env cfg"
  shows "deadline < clock env (Suc i) + int n * pollInterval cfg \<Longrightarrow>
    \<exists>k r. confirm_loop json env cfg lastValid deadline i = Some (k, r) \<and> verdict json env cfg lastValid deadline k r \<and> k \<le> i + n"
proof (induction n arbitrary: i)
  case 0
  show ?case by (cases rule: confirm_loop_cases [of json env cfg lastValid deadline i]) (use 0 in auto)
next
  case (Suc n)
  have "clock env (Suc i) + pollInterval cfg \<le> clock env (Suc (Suc i))" using assms by (simp add: clock_ok_def)
  then have "deadline < clock env (Suc (Suc i)) + int n * pollInterval cfg" using Suc.prems by (simp add: algebra_simps)
  from Suc.IH [OF this] show ?case
    by (cases rule: confirm_loop_cases [of json env cfg lastValid deadline i]) fastforce+
qed

text \<open>
  C9: waiting for a confirmation ends.  With a positive poll interval, \<open>confirmSignature\<close> returns
  within \<open>confirmTimeout / pollInterval + 2\<close> rounds whatever the server answers.  It reports success
  only when the last status it saw carries no error and has reached the commitment, and expiry only
  when the signature was not visible and the block height had passed the last valid one.
\<close>

theorem confirmSignature_ends:
  assumes "clock_ok env cfg" and "0 < pollInterval cfg" and "0 \<le> confirmTimeout cfg"
  shows "\<exists>k r. confirmSignature json env cfg lastValid = Some (k, r) \<and>
    int k \<le> confirmTimeout cfg div pollInterval cfg + 1 \<and>
    verdict json env cfg lastValid (clock env 0 + confirmTimeout cfg) k r"
proof -
  let ?q = "confirmTimeout cfg div pollInterval cfg"
  have q: "0 \<le> ?q" using assms by (simp add: pos_imp_zdiv_nonneg_iff)
  have "confirmTimeout cfg < (?q + 1) * pollInterval cfg"
    unfolding distrib_right mult_1
    using pos_mod_bound [OF assms(2), of "confirmTimeout cfg"] div_mult_mod_eq [of "confirmTimeout cfg" "pollInterval cfg"]
    by linarith
  then have "clock env 0 + confirmTimeout cfg < clock env (Suc 0) + int (nat (?q + 1)) * pollInterval cfg"
    using assms(1) q by (simp add: clock_ok_def)
  from confirm_loop_ends [OF assms(1) this, of json lastValid] q show ?thesis
    unfolding confirmSignature_def by fastforce
qed

text \<open>A node that shows the signature as confirmed in its second answer.\<close>

definition sample_status :: SignatureStatus where
  "sample_status = \<lparr>ss_Slot = 5, ss_Confirmations = None, ss_Err = [], ss_ConfirmationStatus = ''confirmed''\<rparr>"

definition sample_env :: confirm_env where
  "sample_env = \<lparr>clock = \<lambda>i. 2000000000 * int i, ctx_head = \<lambda>i. None, statuses = \<lambda>i. Inr [if i = 0 then None else Some sample_status],
     blockHeight = \<lambda>i. Inr 10, ctx_wait = \<lambda>i. None\<rparr>"

lemma sample_clock: "clock_ok sample_env defaultSendConfig"
  by (simp add: clock_ok_def sample_env_def defaultSendConfig_def)

theorem confirmSignature_ends_witness:
  "\<exists>k r. confirmSignature (\<lambda>b. Inl []) sample_env defaultSendConfig (Some 20) = Some (k, r) \<and> int k \<le> 31"
  using confirmSignature_ends [OF sample_clock, of "\<lambda>b. Inl []" "Some 20"] by (auto simp: defaultSendConfig_def)

section \<open>Sending again\<close>

text \<open>The context ends with one of Go's two context errors.\<close>

definition ctx_ok :: "confirm_env \<Rightarrow> bool" where
  "ctx_ok env \<longleftrightarrow>
     (\<forall>i. ctx_head env i \<in> {None, Some (Sentinel Canceled), Some (Sentinel DeadlineExceeded)} \<and>
          ctx_wait env i \<in> {None, Some (Sentinel Canceled), Some (Sentinel DeadlineExceeded)})"

text \<open>
  Attempt \<open>a\<close> may be repeated: the node rejected its blockhash as expired, or its signature was not
  visible while the block height was past the last one valid for its blockhash.
\<close>

definition expired_attempt :: "'tx send_env \<Rightarrow> (nat \<Rightarrow> bytes \<Rightarrow> rpc_error + 'tx) \<Rightarrow> sendConfig \<Rightarrow> nat \<Rightarrow> bool" where
  "expired_attempt env build cfg a \<longleftrightarrow>
     (\<exists>blockhash lastValid tx. latestBlockhash env a = Inr (blockhash, lastValid) \<and> build a blockhash = Inr tx \<and>
        ((\<exists>e. sendOnce env a tx cfg = Inl e \<and> IsBlockhashExpired (Some e)) \<or>
         (\<exists>sig i. sendOnce env a tx cfg = Inr sig \<and> seen_status (confirm env a) i = None \<and>
            expired_at (confirm env a) i (Some lastValid))))"

text \<open>Attempt \<open>a\<close> was accepted with signature \<open>sig\<close>, and a status without error reached the commitment.\<close>

definition confirmed_attempt ::
  "(bytes \<Rightarrow> string + jv) \<Rightarrow> 'tx send_env \<Rightarrow> (nat \<Rightarrow> bytes \<Rightarrow> rpc_error + 'tx) \<Rightarrow> sendConfig \<Rightarrow> nat \<Rightarrow> bytes \<Rightarrow> bool" where
  "confirmed_attempt json env build cfg a sig \<longleftrightarrow>
     (\<exists>blockhash lastValid tx i s. latestBlockhash env a = Inr (blockhash, lastValid) \<and> build a blockhash = Inr tx \<and>
        sendOnce env a tx cfg = Inr sig \<and> seen_status (confirm env a) i = Some s \<and>
        DecodeTransactionError json (RawBytes (ss_Err s)) = None \<and>
        statusReachedCommitment (ss_ConfirmationStatus s) (commitment cfg))"

lemma verdict_expired:
  assumes "ctx_ok env" and "verdict json env cfg lastValid deadline i (Some (RpcErr e))" and "is_sentinel e errBlockhashExpired"
  shows "seen_status env i = None \<and> expired_at env i lastValid"
proof -
  have "ctx_head env i \<noteq> Some e" "ctx_wait env i \<noteq> Some e"
    using assms(1,3) unfolding ctx_ok_def by (metis insertE is_sentinel.simps(1) option.distinct(1) option.inject sentinel.distinct empty_iff)+
  then show ?thesis using assms(2,3) by (auto simp: verdict_def)
qed

text \<open>One attempt ends the sending, or is an expired one that another attempt follows.\<close>

lemma send_attempts_cases:
  assumes "clock_ok (confirm env a) cfg" and "0 < pollInterval cfg" and "0 \<le> confirmTimeout cfg" and "ctx_ok (confirm env a)"
  obtains (last) log sig r where "send_attempts json env build cfg left a = Some (log, sig, r)" "log = [] \<or> log = [a]"
      "r = None \<Longrightarrow> log = [a] \<and> confirmed_attempt json env build cfg a sig"
  | (again) left' where "left = Suc left'" "expired_attempt env build cfg a"
      "send_attempts json env build cfg left a = map_option (\<lambda>(log, r). (a # log, r)) (send_attempts json env build cfg left' (Suc a))"
proof -
  note unfold = send_attempts.simps [of json env build cfg left a]
  show ?thesis
  proof (cases "latestBlockhash env a")
    case (Inl e)
    show ?thesis by (rule last, simp add: unfold Inl) simp_all
  next
    case bh: (Inr p)
    obtain blockhash lastValid where p: "p = (blockhash, lastValid)" by (cases p)
    show ?thesis
    proof (cases "build a blockhash")
      case (Inl e)
      show ?thesis by (rule last, simp add: unfold bh p Inl) simp_all
    next
      case tx: (Inr tx)
      show ?thesis
      proof (cases "sendOnce env a tx cfg")
        case (Inl e)
        show ?thesis
        proof (cases "IsBlockhashExpired (Some e) \<and> left > 0")
          case True
          with Inl bh p tx show ?thesis
            by (intro again [of "left - 1"]) (auto simp: unfold expired_attempt_def)
        next
          case False
          then have "send_attempts json env build cfg left a = Some ([a], zero_sig, Some (RpcErr e))"
            using Inl bh p tx by (auto simp: unfold)
          then show ?thesis by (intro last) auto
        qed
      next
        case sent: (Inr sig)
        obtain k r where c: "confirmSignature json (confirm env a) cfg (Some lastValid) = Some (k, r)"
          "verdict json (confirm env a) cfg (Some lastValid) (clock (confirm env a) 0 + confirmTimeout cfg) k r"
          using confirmSignature_ends [OF assms(1-3)] by blast
        note defs = unfold bh p tx sent c(1)
        show ?thesis
        proof (cases "(\<exists>e. r = Some (RpcErr e) \<and> is_sentinel e errBlockhashExpired) \<and> left > 0")
          case True
          then obtain e where e: "r = Some (RpcErr e)" "is_sentinel e errBlockhashExpired" by blast
          then have "expired_attempt env build cfg a"
            using verdict_expired [OF assms(4) c(2) [unfolded e(1)] e(2)] bh p tx sent by (auto simp: expired_attempt_def)
          then show ?thesis using True e by (intro again [of "left - 1"]) (auto simp: defs)
        next
          case False
          have "send_attempts json env build cfg left a = Some ([a], sig, r)"
            using False by (cases r) (auto simp: defs split: send_error.splits)
          then show ?thesis
            using c(2) bh p tx sent by (intro last) (auto simp: verdict_def confirmed_attempt_def)
        qed
      qed
    qed
  qed
qed

lemma send_attempts_spec:
  assumes "\<And>a. clock_ok (confirm env a) cfg" and "0 < pollInterval cfg" and "0 \<le> confirmTimeout cfg" and "\<And>a. ctx_ok (confirm env a)"
  shows "\<exists>n sig r. send_attempts json env build cfg left a = Some ([a..<n], sig, r) \<and> a \<le> n \<and> n \<le> a + Suc left \<and>
     (\<forall>j. a \<le> j \<and> Suc j < n \<longrightarrow> expired_attempt env build cfg j) \<and>
     (r = None \<longrightarrow> a < n \<and> confirmed_attempt json env build cfg (n - 1) sig)"
proof (induction left arbitrary: a)
  case 0
  from assms(1) [of a] assms(2,3) assms(4) [of a] show ?case
  proof (cases rule: send_attempts_cases [where json = json and build = build and left = 0])
    case (last log sig r)
    then show ?thesis by (intro exI [of _ "a + length log"] exI [of _ sig] exI [of _ r]) auto
  qed simp
next
  case (Suc left)
  from assms(1) [of a] assms(2,3) assms(4) [of a] show ?case
  proof (cases rule: send_attempts_cases [where json = json and build = build and left = "Suc left"])
    case (last log sig r)
    then show ?thesis by (intro exI [of _ "a + length log"] exI [of _ sig] exI [of _ r]) auto
  next
    case (again left')
    obtain n sig r where n: "send_attempts json env build cfg left (Suc a) = Some ([Suc a..<n], sig, r)" "Suc a \<le> n" "n \<le> Suc a + Suc left"
      "\<forall>j. Suc a \<le> j \<and> Suc j < n \<longrightarrow> expired_attempt env build cfg j"
      "r = None \<longrightarrow> Suc a < n \<and> confirmed_attempt json env build cfg (n - 1) sig"
      using Suc.IH by blast
    have "expired_attempt env build cfg j" if "a \<le> j" "Suc j < n" for j
      using that n(4) again(2) by (cases "j = a") auto
    then show ?thesis
      using again n by (intro exI [of _ n] exI [of _ sig] exI [of _ r]) (auto simp: upt_conv_Cons)
  qed
qed

text \<open>
  C8: \<open>SendAndConfirmTransaction\<close> always returns, after at most \<open>maxBlockhashRetries + 1\<close> sends.
  It sends again only after the node rejected the previous blockhash as expired, or after a round in
  which the previous signature was not visible and the block height had passed the last valid one;
  and it reports success only for the last transaction sent, once a status without error has reached
  the commitment.
\<close>

theorem SendAndConfirm_resends_only_expired:
  assumes "buildTx env = Some build" and "cfg = chain opts defaultSendConfig"
    and "\<And>a. clock_ok (confirm env a) cfg" and "\<And>a. ctx_ok (confirm env a)"
    and "0 < pollInterval cfg" and "0 \<le> confirmTimeout cfg"
  shows "\<exists>n sig r. SendAndConfirmTransaction json env opts = Some ([0..<n], sig, r) \<and>
     int n \<le> max 0 (maxBlockhashRetries cfg + 1) \<and>
     (\<forall>j. Suc j < n \<longrightarrow> expired_attempt env build cfg j) \<and>
     (r = None \<longrightarrow> 0 < n \<and> confirmed_attempt json env build cfg (n - 1) sig)"
proof (cases "maxBlockhashRetries cfg < 0")
  case True
  then show ?thesis using assms(1,2) by (intro exI [of _ 0]) (simp add: SendAndConfirmTransaction_def Let_def)
next
  case False
  obtain n sig r where "send_attempts json env build cfg (nat (maxBlockhashRetries cfg)) 0 = Some ([0..<n], sig, r)"
    "n \<le> Suc (nat (maxBlockhashRetries cfg))" "\<forall>j. Suc j < n \<longrightarrow> expired_attempt env build cfg j"
    "r = None \<longrightarrow> 0 < n \<and> confirmed_attempt json env build cfg (n - 1) sig"
    using send_attempts_spec [OF assms(3) assms(5,6) assms(4), of json build "nat (maxBlockhashRetries cfg)" 0] by auto
  then show ?thesis
    using False assms(1,2) by (intro exI [of _ n] exI [of _ sig] exI [of _ r]) (auto simp: SendAndConfirmTransaction_def Let_def)
qed

text \<open>A node that rejects the first blockhash and accepts the second transaction.\<close>

definition sample_send_env :: "nat send_env" where
  "sample_send_env = \<lparr>latestBlockhash = \<lambda>a. Inr ([], 20), buildTx = Some (\<lambda>a bh. Inr a),
     sendTx = \<lambda>a tx cfg. if a = 0 then Inl (Plain ''Blockhash not found'') else Inr [7], confirm = \<lambda>a. sample_env\<rparr>"

theorem SendAndConfirm_resends_only_expired_witness:
  "\<exists>n sig r. SendAndConfirmTransaction (\<lambda>b. Inl []) sample_send_env [] = Some ([0..<n], sig, r) \<and> n \<le> 4"
proof -
  have env: "buildTx sample_send_env = Some (\<lambda>a bh. Inr a)" "\<And>a. confirm sample_send_env a = sample_env"
    by (simp_all add: sample_send_env_def)
  have "ctx_ok sample_env" by (simp add: ctx_ok_def sample_env_def)
  moreover have "maxBlockhashRetries defaultSendConfig = 3" "0 < pollInterval defaultSendConfig" "0 \<le> confirmTimeout defaultSendConfig"
    by (simp_all add: defaultSendConfig_def)
  ultimately show ?thesis
    using SendAndConfirm_resends_only_expired [of sample_send_env _ defaultSendConfig "[]" "\<lambda>b. Inl []", OF env(1)] sample_clock env(2)
    by fastforce
qed

end
