(* ===== verification/Decode_Plan.thy ===== *)
theory Decode_Plan
  imports Bincode
begin

text \<open>
  Reflective decoding (\<open>encoding/decode_plan.go\<close>, \<open>codec.go\<close>, \<open>borsh.go\<close>): a Go type is compiled
  once into a flat list of operations on byte offsets, which the decoder then runs.  Types are the
  finite trees that \<open>reflect\<close> shows of a non-recursive type, with the offsets and sizes Go's layout
  gives; a type whose pointer implements \<open>Unmarshaler\<close> is \<open>KCustom\<close>, its method a parameter, with
  a flag that says whether its kind is \<open>uint8\<close>.
\<close>

section \<open>Types, values and memory\<close>

datatype gotype =
    KUint8 | KUint16 | KUint32 | KUint64 | KInt8 | KInt16 | KInt32 | KInt64 | KBool
  | KArray (arr_len: nat) (arr_elemSize: nat) (arr_elem: gotype)
  | KSlice (sl_named: bool) (sl_elemSize: nat) (sl_elem: gotype)
  | KString
  | KPointer (ptr_elemSize: nat) (ptr_elem: gotype)
  | KStruct string "(string \<times> bool \<times> string \<times> nat \<times> gotype) list"
  | KCustom nat bool
  | KInterface string
  | KOther string

text \<open>A decoded value; a struct has the values of its wire fields.\<close>

datatype 'c goval =
    VU8 u8 | VU16 u16 | VU32 u32 | VU64 u64 | VI8 int | VI16 int | VI32 int | VI64 int | VBool bool
  | VFixed bytes | VArray "'c goval list" | VBytes bytes | VSlice "'c goval list" | VString bytes
  | VOption "'c goval option" | VStruct "'c goval list" | VCustom 'c

text \<open>
  What the plan writes to memory: a machine value at an offset of the object.  A slice or pointer
  field refers to a fresh object: \<open>reflect.MakeSlice\<close> allocates a count of elements of a size,
  \<open>reflect.New\<close> one element; the object is given by the writes to it.
\<close>

datatype 'c cell =
    CU8 u8 | CU16 u16 | CU32 u32 | CU64 u64 | CI8 int | CI16 int | CI32 int | CI64 int | CBool bool
  | CFixed bytes | CBytes bytes | CSlice nat nat "(nat \<times> 'c cell) list" | CString bytes
  | CPointer "(nat \<times> (nat \<times> 'c cell) list) option" | CCustom 'c

type_synonym 'c writes = "(nat \<times> 'c cell) list"

section \<open>Plans\<close>

datatype op =
    opU8 nat | opU16 nat | opU32 nat | opU64 nat | opI8 nat | opI16 nat | opI32 nat | opI64 nat | opBool nat
  | opFixedBytes nat u32
  | opFixedArray nat u32 nat "op list"
  | opByteSlice nat bool
  | opSlice nat nat "op list"
  | opString nat
  | opPointer nat nat "op list"
  | opCallIface nat nat

definition is_uint8 :: "gotype \<Rightarrow> bool" where
  "is_uint8 t \<longleftrightarrow> (case t of KUint8 \<Rightarrow> True | KCustom k byte_kind \<Rightarrow> byte_kind | _ \<Rightarrow> False)"

text \<open>\<open>emitValue\<close>: the operations it appends, or its error.\<close>

fun emitValue :: "gotype \<Rightarrow> nat \<Rightarrow> op list result"
and emitFields :: "string \<Rightarrow> (string \<times> bool \<times> string \<times> nat \<times> gotype) list \<Rightarrow> nat \<Rightarrow> op list result" where
  "emitValue (KCustom k byte_kind) off = Inr [opCallIface off k]"
| "emitValue KUint8 off = Inr [opU8 off]"
| "emitValue KUint16 off = Inr [opU16 off]"
| "emitValue KUint32 off = Inr [opU32 off]"
| "emitValue KUint64 off = Inr [opU64 off]"
| "emitValue KInt8 off = Inr [opI8 off]"
| "emitValue KInt16 off = Inr [opI16 off]"
| "emitValue KInt32 off = Inr [opI32 off]"
| "emitValue KInt64 off = Inr [opI64 off]"
| "emitValue KBool off = Inr [opBool off]"
| "emitValue (KArray n sz t) off =
     (if is_uint8 t then Inr [opFixedBytes off (of_nat n)]
      else res_bind (emitValue t 0) (\<lambda>sub. Inr [opFixedArray off (of_nat n) sz sub]))"
| "emitValue (KSlice named sz t) off =
     (if is_uint8 t then Inr [opByteSlice off (\<not> named)]
      else res_bind (emitValue t 0) (\<lambda>sub. Inr [opSlice off sz sub]))"
| "emitValue KString off = Inr [opString off]"
| "emitValue (KPointer sz t) off = res_bind (emitValue t 0) (\<lambda>sub. Inr [opPointer off sz sub])"
| "emitValue (KStruct name fds) off = emitFields name fds off"
| "emitValue (KInterface name) off = Inl (Errorf ''encoding: cannot decode into %s: binary decoding needs a concrete type'' [])"
| "emitValue (KOther kind) off = Inl (Errorf ''encoding: cannot compile plan for kind %s (%s)'' [])"
| "emitFields name [] off = Inr []"
| "emitFields name ((fname, exported, tag, foff, t) # fs) off =
     (if \<not> exported \<or> tag = ''-'' then emitFields name fs off
      else case emitValue t (off + foff) of
             Inl err \<Rightarrow> Inl (Wrapf ''%s.%s: %w'' [] err)
           | Inr ops \<Rightarrow> res_bind (emitFields name fs off) (\<lambda>rest. Inr (ops @ rest)))"

definition compileDecodePlan :: "gotype \<Rightarrow> op list result" where
  "compileDecodePlan t = emitValue t 0"

text \<open>The plan cache: a type is compiled on its first use only.\<close>

definition decodePlanFor :: "gotype \<Rightarrow> (gotype \<rightharpoonup> op list) \<Rightarrow> op list result \<times> (gotype \<rightharpoonup> op list)" where
  "decodePlanFor t cache =
     (case cache t of
        Some p \<Rightarrow> (Inr p, cache)
      | None \<Rightarrow>
          (case compileDecodePlan t of
             Inl err \<Rightarrow> (Inl err, cache)
           | Inr p \<Rightarrow> (Inr p, cache(t \<mapsto> p))))"

section \<open>Running a plan\<close>

definition readLen :: "nat decm" where
  "readLen d = (if d_borsh d then map_decm unat ReadUint32 d else map_decm unat ReadUint64 d)"

definition check_len :: "string \<Rightarrow> nat \<Rightarrow> unit decm" where
  "check_len what n d =
     (if int n > Remaining d then (Inl (Errorf what [int n, Remaining d]), d) else (Inr (), d))"

fun execDecodeOp :: "(nat \<Rightarrow> 'c decm) \<Rightarrow> op \<Rightarrow> nat \<Rightarrow> 'c writes decm"
and execDecodePlan :: "(nat \<Rightarrow> 'c decm) \<Rightarrow> op list \<Rightarrow> nat \<Rightarrow> 'c writes decm" where
  "execDecodeOp custom (opU8 off) base = map_decm (\<lambda>v. [(base + off, CU8 v)]) ReadUint8"
| "execDecodeOp custom (opU16 off) base = map_decm (\<lambda>v. [(base + off, CU16 v)]) ReadUint16"
| "execDecodeOp custom (opU32 off) base = map_decm (\<lambda>v. [(base + off, CU32 v)]) ReadUint32"
| "execDecodeOp custom (opU64 off) base = map_decm (\<lambda>v. [(base + off, CU64 v)]) ReadUint64"
| "execDecodeOp custom (opI8 off) base = map_decm (\<lambda>v. [(base + off, CI8 (sint v))]) ReadUint8"
| "execDecodeOp custom (opI16 off) base = map_decm (\<lambda>v. [(base + off, CI16 (sint v))]) ReadUint16"
| "execDecodeOp custom (opI32 off) base = map_decm (\<lambda>v. [(base + off, CI32 (sint v))]) ReadUint32"
| "execDecodeOp custom (opI64 off) base = map_decm (\<lambda>v. [(base + off, CI64 (sint v))]) ReadUint64"
| "execDecodeOp custom (opBool off) base =
     rbind ReadUint8 (\<lambda>b.
       if b = 0 then rreturn [(base + off, CBool False)]
       else if b = 1 then rreturn [(base + off, CBool True)]
       else rfail (Errorf ''encoding: invalid bool byte 0x%02x'' [uint b]))"
| "execDecodeOp custom (opFixedBytes off n) base = map_decm (\<lambda>b. [(base + off, CFixed b)]) (ReadBytes (uint n))"
| "execDecodeOp custom (opFixedArray off n sz sub) base =
     map_decm concat
       (read_loop (\<lambda>i. wrapr ''[%d]: %w'' [int i] (execDecodePlan custom sub (base + off + i * sz))) 0 (unat n))"
| "execDecodeOp custom (opByteSlice off plain) base =
     rbind readLen (\<lambda>n. rbind (check_len ''byte slice length %d exceeds %d remaining bytes'' n) (\<lambda>_.
       map_decm (\<lambda>b. [(base + off, CBytes b)]) (ReadBytes (int n))))"
| "execDecodeOp custom (opSlice off sz sub) base =
     rbind readLen (\<lambda>n. rbind (check_len ''slice length %d exceeds %d remaining bytes'' n) (\<lambda>_.
       map_decm (\<lambda>ws. [(base + off, CSlice n sz (concat ws))])
         (read_loop (\<lambda>i. wrapr ''[%d]: %w'' [int i] (execDecodePlan custom sub (i * sz))) 0 n)))"
| "execDecodeOp custom (opString off) base =
     rbind readLen (\<lambda>n. rbind (check_len ''string length %d exceeds %d remaining bytes'' n) (\<lambda>_.
       map_decm (\<lambda>b. [(base + off, CString b)]) (ReadBytes (int n))))"
| "execDecodeOp custom (opPointer off sz sub) base =
     rbind ReadUint8 (\<lambda>tag.
       if tag = 0 then rreturn [(base + off, CPointer None)]
       else if tag = 1 then map_decm (\<lambda>ws. [(base + off, CPointer (Some (sz, ws)))]) (execDecodePlan custom sub 0)
       else rfail (Errorf ''encoding: invalid Option tag 0x%02x'' [uint tag]))"
| "execDecodeOp custom (opCallIface off k) base = map_decm (\<lambda>v. [(base + off, CCustom v)]) (custom k)"
| "execDecodePlan custom [] base = rreturn []"
| "execDecodePlan custom (o1 # os) base =
     rbind (execDecodeOp custom o1 base) (\<lambda>w. rbind (execDecodePlan custom os base) (\<lambda>ws. rreturn (w @ ws)))"

text \<open>\<open>DecodeFast\<close> and \<open>DecodeTo\<close> on a non-nil pointer to a value of type \<open>t\<close> (\<open>None\<close>: not such a pointer).\<close>

definition DecodeFast ::
  "(nat \<Rightarrow> 'c decm) \<Rightarrow> gotype option \<Rightarrow> (gotype \<rightharpoonup> op list) \<Rightarrow> decoder \<Rightarrow> ('c writes result \<times> decoder) \<times> (gotype \<rightharpoonup> op list)" where
  "DecodeFast custom v cache d =
     (case v of
        None \<Rightarrow> ((Inl (Errorf ''encoding: DecodeFast requires a non-nil pointer, got %T'' []), d), cache)
      | Some t \<Rightarrow>
          (case decodePlanFor t cache of
             (Inl err, cache) \<Rightarrow> ((Inl err, d), cache)
           | (Inr p, cache) \<Rightarrow> (execDecodePlan custom p 0 d, cache)))"

definition DecodeTo ::
  "(nat \<Rightarrow> 'c decm) \<Rightarrow> gotype option \<Rightarrow> (gotype \<rightharpoonup> op list) \<Rightarrow> decoder \<Rightarrow> ('c writes result \<times> decoder) \<times> (gotype \<rightharpoonup> op list)" where
  "DecodeTo = DecodeFast"

definition BinDecodeTo ::
  "(nat \<Rightarrow> 'c decm) \<Rightarrow> bytes \<Rightarrow> gotype option \<Rightarrow> (gotype \<rightharpoonup> op list) \<Rightarrow> ('c writes result \<times> decoder) \<times> (gotype \<rightharpoonup> op list)" where
  "BinDecodeTo custom data v cache = DecodeTo custom v cache (NewDecoder data)"

definition UseBorsh :: "decoder \<Rightarrow> decoder" where
  "UseBorsh d = d\<lparr>d_borsh := True\<rparr>"

definition BorshDecodeTo ::
  "(nat \<Rightarrow> 'c decm) \<Rightarrow> bytes \<Rightarrow> gotype option \<Rightarrow> (gotype \<rightharpoonup> op list) \<Rightarrow> ('c writes result \<times> decoder) \<times> (gotype \<rightharpoonup> op list)" where
  "BorshDecodeTo custom data v cache = DecodeTo custom v cache (UseBorsh (NewDecoder data))"

section \<open>The reference decoder\<close>

text \<open>What the wire conventions say a type decodes to, by recursion on the type.\<close>

fun decode_type :: "(nat \<Rightarrow> 'c decm) \<Rightarrow> gotype \<Rightarrow> 'c goval decm"
and decode_fields :: "(nat \<Rightarrow> 'c decm) \<Rightarrow> (string \<times> bool \<times> string \<times> nat \<times> gotype) list \<Rightarrow> 'c goval list decm" where
  "decode_type custom KUint8 = map_decm VU8 ReadUint8"
| "decode_type custom KUint16 = map_decm VU16 ReadUint16"
| "decode_type custom KUint32 = map_decm VU32 ReadUint32"
| "decode_type custom KUint64 = map_decm VU64 ReadUint64"
| "decode_type custom KInt8 = map_decm VI8 ReadInt8"
| "decode_type custom KInt16 = map_decm VI16 ReadInt16"
| "decode_type custom KInt32 = map_decm VI32 ReadInt32"
| "decode_type custom KInt64 = map_decm VI64 ReadInt64"
| "decode_type custom KBool =
     rbind ReadUint8 (\<lambda>b. if b = 0 then rreturn (VBool False) else if b = 1 then rreturn (VBool True)
       else rfail (Errorf ''encoding: invalid bool byte 0x%02x'' [uint b]))"
| "decode_type custom (KArray n sz t) =
     (if is_uint8 t then map_decm VFixed (ReadBytes (int n))
      else map_decm VArray (read_loop (\<lambda>i. wrapr ''[%d]: %w'' [int i] (decode_type custom t)) 0 n))"
| "decode_type custom (KSlice named sz t) =
     (if is_uint8 t
      then rbind readLen (\<lambda>n. rbind (check_len ''byte slice length %d exceeds %d remaining bytes'' n) (\<lambda>_.
             map_decm VBytes (ReadBytes (int n))))
      else rbind readLen (\<lambda>n. rbind (check_len ''slice length %d exceeds %d remaining bytes'' n) (\<lambda>_.
             map_decm VSlice (read_loop (\<lambda>i. wrapr ''[%d]: %w'' [int i] (decode_type custom t)) 0 n))))"
| "decode_type custom KString =
     rbind readLen (\<lambda>n. rbind (check_len ''string length %d exceeds %d remaining bytes'' n) (\<lambda>_.
       map_decm VString (ReadBytes (int n))))"
| "decode_type custom (KPointer sz t) =
     rbind ReadUint8 (\<lambda>tag.
       if tag = 0 then rreturn (VOption None)
       else if tag = 1 then map_decm (\<lambda>v. VOption (Some v)) (decode_type custom t)
       else rfail (Errorf ''encoding: invalid Option tag 0x%02x'' [uint tag]))"
| "decode_type custom (KStruct name fds) = map_decm VStruct (decode_fields custom fds)"
| "decode_type custom (KCustom k byte_kind) = map_decm VCustom (custom k)"
| "decode_type custom (KInterface name) = rfail (Errorf ''not decodable'' [])"
| "decode_type custom (KOther kind) = rfail (Errorf ''not decodable'' [])"
| "decode_fields custom [] = rreturn []"
| "decode_fields custom ((fname, exported, tag, foff, t) # fs) =
     (if \<not> exported \<or> tag = ''-'' then decode_fields custom fs
      else rbind (decode_type custom t) (\<lambda>v. rbind (decode_fields custom fs) (\<lambda>vs. rreturn (v # vs))))"

text \<open>The memory image of a value of a type at an offset.\<close>

definition leaf :: "nat \<Rightarrow> 'c goval \<Rightarrow> 'c writes" where
  "leaf off v = (case v of
     VU8 x \<Rightarrow> [(off, CU8 x)] | VU16 x \<Rightarrow> [(off, CU16 x)] | VU32 x \<Rightarrow> [(off, CU32 x)] | VU64 x \<Rightarrow> [(off, CU64 x)]
   | VI8 x \<Rightarrow> [(off, CI8 x)] | VI16 x \<Rightarrow> [(off, CI16 x)] | VI32 x \<Rightarrow> [(off, CI32 x)] | VI64 x \<Rightarrow> [(off, CI64 x)]
   | VBool b \<Rightarrow> [(off, CBool b)] | VFixed b \<Rightarrow> [(off, CFixed b)] | VBytes b \<Rightarrow> [(off, CBytes b)]
   | VString b \<Rightarrow> [(off, CString b)] | VCustom x \<Rightarrow> [(off, CCustom x)] | _ \<Rightarrow> [])"

definition concat_image :: "(nat \<Rightarrow> 'c goval \<Rightarrow> 'c writes) \<Rightarrow> nat \<Rightarrow> 'c goval list \<Rightarrow> 'c writes" where
  "concat_image f k vs = concat (map (\<lambda>(i, v). f i v) (enumerate k vs))"

fun memory_image :: "gotype \<Rightarrow> nat \<Rightarrow> 'c goval \<Rightarrow> 'c writes"
and image_fields :: "(string \<times> bool \<times> string \<times> nat \<times> gotype) list \<Rightarrow> nat \<Rightarrow> 'c goval list \<Rightarrow> 'c writes" where
  "memory_image (KArray n sz t) off v =
     (case v of VArray vs \<Rightarrow> concat_image (\<lambda>i. memory_image t (off + i * sz)) 0 vs | _ \<Rightarrow> leaf off v)"
| "memory_image (KSlice named sz t) off v =
     (case v of VSlice vs \<Rightarrow> [(off, CSlice (length vs) sz (concat_image (\<lambda>i. memory_image t (i * sz)) 0 vs))] | _ \<Rightarrow> leaf off v)"
| "memory_image (KPointer sz t) off v =
     (case v of VOption None \<Rightarrow> [(off, CPointer None)] | VOption (Some x) \<Rightarrow> [(off, CPointer (Some (sz, memory_image t 0 x)))] | _ \<Rightarrow> [])"
| "memory_image (KStruct name fds) off v = (case v of VStruct vs \<Rightarrow> image_fields fds off vs | _ \<Rightarrow> [])"
| "memory_image t off v = leaf off v"
| "image_fields [] off vs = []"
| "image_fields ((fname, exported, tag, foff, t) # fs) off vs =
     (if \<not> exported \<or> tag = ''-'' then image_fields fs off vs
      else case vs of [] \<Rightarrow> [] | v # vs \<Rightarrow> memory_image t (off + foff) v @ image_fields fs off vs)"

end
