(* ===== verification/Large_Int.thy ===== *)
theory Large_Int
  imports Reader Decimal
begin

text \<open>
  Decimal text and JSON forms of \<open>U128\<close> and \<open>U256\<close> (\<open>encoding/u128.go\<close>), and the 128- and 256-bit
  integers of the root package with their decoders (\<open>large_int.go\<close>).
\<close>

section \<open>Text forms\<close>

definition u128_String :: "U128 \<Rightarrow> string" where
  "u128_String u = (if Hi u = 0 then digits (unat (Lo u)) else itoa (bytes_BigInt u))"

definition u256_String :: "U256 \<Rightarrow> string" where
  "u256_String u = (if le64 u 8 OR le64 u 16 OR le64 u 24 = 0 then digits (unat (le64 u 0)) else itoa (bytes_BigInt u))"

definition u128_UnmarshalText :: "string \<Rightarrow> U128 result" where
  "u128_UnmarshalText b =
     (case SetString10 b of
        None \<Rightarrow> Inl (Errorf ''solana/encoding: U128.UnmarshalText: invalid decimal %q'' [])
      | Some x \<Rightarrow> u128_SetBigInt x)"

definition u256_UnmarshalText :: "string \<Rightarrow> U256 result" where
  "u256_UnmarshalText b =
     (case SetString10 b of
        None \<Rightarrow> Inl (Errorf ''solana/encoding: U256.UnmarshalText: invalid decimal %q'' [])
      | Some x \<Rightarrow> u256_SetBigInt x)"

text \<open>\<open>strconv.AppendQuote\<close> on a string of digits.\<close>

definition u128_MarshalJSON :: "U128 \<Rightarrow> string" where
  "u128_MarshalJSON u = CHR 0x22 # u128_String u @ [CHR 0x22]"

definition u256_MarshalJSON :: "U256 \<Rightarrow> string" where
  "u256_MarshalJSON u = CHR 0x22 # u256_String u @ [CHR 0x22]"

definition strip_quotes :: "string \<Rightarrow> string" where
  "strip_quotes b = (if length b \<ge> 2 \<and> hd b = CHR 0x22 \<and> b ! (length b - 1) = CHR 0x22 then butlast (tl b) else b)"

definition u128_UnmarshalJSON :: "string \<Rightarrow> U128 result" where
  "u128_UnmarshalJSON b = u128_UnmarshalText (strip_quotes b)"

definition u256_UnmarshalJSON :: "string \<Rightarrow> U256 result" where
  "u256_UnmarshalJSON b = u256_UnmarshalText (strip_quotes b)"

section \<open>Integers of the root package\<close>

record Uint128 =
  Uint128_Lo :: u64
  Uint128_Hi :: u64

record Int128 =
  Int128_Lo :: u64
  Int128_Hi :: int

record Uint256 =
  Uint256_Lo :: Uint128
  Uint256_Hi :: Uint128

record Int256 =
  Int256_Lo :: Uint128
  Int256_Hi :: Int128

definition Uint128_of_raw :: "U128 \<Rightarrow> Uint128" where
  "Uint128_of_raw raw = \<lparr>Uint128_Lo = le64 raw 0, Uint128_Hi = le64 raw 8\<rparr>"

definition Int128_of_raw :: "U128 \<Rightarrow> Int128" where
  "Int128_of_raw raw = \<lparr>Int128_Lo = le64 raw 0, Int128_Hi = sint (le64 raw 8)\<rparr>"

definition Uint128_UnmarshalFromDecoder :: "Uint128 decm" where
  "Uint128_UnmarshalFromDecoder = map_decm Uint128_of_raw ReadU128"

definition Int128_UnmarshalFromDecoder :: "Int128 decm" where
  "Int128_UnmarshalFromDecoder = map_decm Int128_of_raw ReadU128"

definition Uint256_UnmarshalFromDecoder :: "Uint256 decm" where
  "Uint256_UnmarshalFromDecoder =
     rbind (wrapr ''Uint256 lo: %w'' [] ReadU128) (\<lambda>lo. rbind (wrapr ''Uint256 hi: %w'' [] ReadU128) (\<lambda>hi.
       rreturn \<lparr>Uint256_Lo = Uint128_of_raw lo, Uint256_Hi = Uint128_of_raw hi\<rparr>))"

definition Int256_UnmarshalFromDecoder :: "Int256 decm" where
  "Int256_UnmarshalFromDecoder =
     rbind (wrapr ''Int256 lo: %w'' [] ReadU128) (\<lambda>lo. rbind (wrapr ''Int256 hi: %w'' [] ReadU128) (\<lambda>hi.
       rreturn \<lparr>Int256_Lo = Uint128_of_raw lo, Int256_Hi = Int128_of_raw hi\<rparr>))"

definition Uint128_Bytes :: "Uint128 \<Rightarrow> bytes" where
  "Uint128_Bytes u = put64 8 (Uint128_Hi u) (put64 0 (Uint128_Lo u) (zero_array 16))"

definition Int128_raw :: "Int128 \<Rightarrow> bytes" where
  "Int128_raw i = put64 8 (word_of_int (Int128_Hi i)) (put64 0 (Int128_Lo i) (zero_array 16))"

definition Uint256_Bytes :: "Uint256 \<Rightarrow> bytes" where
  "Uint256_Bytes u = Uint128_Bytes (Uint256_Lo u) @ Uint128_Bytes (Uint256_Hi u)"

definition Uint128_MarshalToEncoder :: "Uint128 \<Rightarrow> encoder \<Rightarrow> encoder" where
  "Uint128_MarshalToEncoder u = WriteU128 (Uint128_Bytes u)"

definition Int128_MarshalToEncoder :: "Int128 \<Rightarrow> encoder \<Rightarrow> encoder" where
  "Int128_MarshalToEncoder i = WriteU128 (Int128_raw i)"

definition Uint256_MarshalToEncoder :: "Uint256 \<Rightarrow> encoder \<Rightarrow> encoder" where
  "Uint256_MarshalToEncoder u = chain [Uint128_MarshalToEncoder (Uint256_Lo u), Uint128_MarshalToEncoder (Uint256_Hi u)]"

definition Uint128_BigInt :: "Uint128 \<Rightarrow> int" where
  "Uint128_BigInt u = bytes_BigInt (Uint128_Bytes u)"

definition Int128_BigInt :: "Int128 \<Rightarrow> int" where
  "Int128_BigInt i =
     (let v = bytes_BigInt (Int128_raw i) in if Int128_Hi i < 0 then v - 2 ^ 128 else v)"

definition Uint256_BigInt :: "Uint256 \<Rightarrow> int" where
  "Uint256_BigInt u = bytes_BigInt (Uint256_Bytes u)"

text \<open>The value that \<open>Int256.String\<close> prints.\<close>

definition Int256_value :: "Int256 \<Rightarrow> int" where
  "Int256_value i =
     (let v = bytes_BigInt (Uint128_Bytes (Int256_Lo i) @ Int128_raw (Int256_Hi i))
      in if Int128_Hi (Int256_Hi i) < 0 then v - 2 ^ 256 else v)"

definition Uint128_IsZero :: "Uint128 \<Rightarrow> bool" where
  "Uint128_IsZero u \<longleftrightarrow> Uint128_Lo u = 0 \<and> Uint128_Hi u = 0"

definition Int128_IsZero :: "Int128 \<Rightarrow> bool" where
  "Int128_IsZero i \<longleftrightarrow> Int128_Lo i = 0 \<and> Int128_Hi i = 0"

definition Uint256_IsZero :: "Uint256 \<Rightarrow> bool" where
  "Uint256_IsZero u \<longleftrightarrow> Uint128_IsZero (Uint256_Lo u) \<and> Uint128_IsZero (Uint256_Hi u)"

definition Uint128_String :: "Uint128 \<Rightarrow> string" where "Uint128_String u = itoa (Uint128_BigInt u)"
definition Int128_String :: "Int128 \<Rightarrow> string" where "Int128_String i = itoa (Int128_BigInt i)"
definition Uint256_String :: "Uint256 \<Rightarrow> string" where "Uint256_String u = itoa (Uint256_BigInt u)"
definition Int256_String :: "Int256 \<Rightarrow> string" where "Int256_String i = itoa (Int256_value i)"

text \<open>\<open>x.Bytes()\<close> is the magnitude of \<open>x\<close>; its low 16 bytes are kept.\<close>

definition Uint128FromBigInt :: "int \<Rightarrow> Uint128" where
  "Uint128FromBigInt x =
     (let b = nat_bytes (nat \<bar>x\<bar>);
          b = (if length b > 16 then drop (length b - 16) b else b)
      in Uint128_of_raw (rev (zero_array (16 - length b) @ b)))"

section \<open>Laws\<close>

lemma put64_pair: "put64 8 hi (put64 0 lo (zero_array 16)) = le_bytes 8 lo @ le_bytes 8 hi"
  by (simp add: put64_def zero_array_def le_bytes_def upt_rec numeral_eq_Suc)

lemma take8: "off + 8 \<le> length u \<Longrightarrow>
    take 8 (drop off u) = [u ! off, u ! (off + 1), u ! (off + 2), u ! (off + 3), u ! (off + 4), u ! (off + 5), u ! (off + 6), u ! (off + 7)]"
  by (intro nth_equalityI) (auto simp: less_Suc_eq numeral_eq_Suc)

lemma le64_take: "off + 8 \<le> length u \<Longrightarrow> le64 u off = le_word (take 8 (drop off u))"
  unfolding take8 by (simp add: le64_def push_bit_or or.assoc)

lemma unat_le_word:
  assumes "8 * length bs \<le> LENGTH('a)"
  shows "unat (le_word bs :: 'a::len word) = be_nat (rev bs)"
  using assms
proof (induction bs)
  case (Cons b bs)
  let ?w = "le_word bs :: 'a word"
  have IH: "unat ?w = be_nat (rev bs)" using Cons by simp
  have "be_nat (rev bs) < 2 ^ (8 * length bs)" using be_nat_less [of "rev bs"] by (simp add: power_mult)
  then have "256 * be_nat (rev bs) < 2 ^ (8 * length (b # bs))" by (simp add: power_add)
  also have "\<dots> \<le> 2 ^ LENGTH('a)" using Cons.prems by (intro power_increasing) auto
  finally have fits: "256 * be_nat (rev bs) < 2 ^ LENGTH('a)" .
  have "unat b < 256" using unsigned_less [where ?'a = nat, of b] by simp
  moreover have "(2::nat) ^ 8 \<le> 2 ^ LENGTH('a)" using Cons.prems by (intro power_increasing) auto
  ultimately have "unat b < 2 ^ LENGTH('a)" by simp
  then have "unat (ucast b :: 'a word) = unat b" by (simp add: unsigned_ucast_eq take_bit_nat_eq_self)
  moreover have "unat (push_bit 8 ?w) = push_bit 8 (unat ?w)"
    using fits IH by (simp add: unsigned_push_bit_eq push_bit_eq_mult [where ?'a = nat] take_bit_nat_eq_self mult.commute)
  ultimately show ?case
    using nat_or_push_bit [of "unat b" 8 "unat ?w"] \<open>unat b < 256\<close> IH by (simp add: unsigned_or_eq be_nat_append)
qed simp

lemma be_nat_le_bytes: "LENGTH('a) = 8 * k \<Longrightarrow> be_nat (rev (le_bytes k w)) = unat (w :: 'a::len word)"
  using unat_le_word [of "le_bytes k w", where ?'a = 'a] by (simp add: le_word_le_bytes)

lemma BigInt_pair: "bytes_BigInt (le_bytes 8 lo @ le_bytes 8 hi) = uint (lo :: u64) + 2 ^ 64 * uint (hi :: u64)"
  by (simp add: bytes_BigInt_def be_nat_append be_nat_le_bytes)

text \<open>The value of the integers.\<close>

lemma Uint128_value: "Uint128_BigInt u = uint (Uint128_Lo u) + 2 ^ 64 * uint (Uint128_Hi u)"
  by (simp add: Uint128_BigInt_def Uint128_Bytes_def put64_pair BigInt_pair)

lemma Int128_value:
  assumes "fits_signed 64 (Int128_Hi i)"
  shows "Int128_BigInt i = uint (Int128_Lo i) + 2 ^ 64 * Int128_Hi i"
proof -
  have "uint (word_of_int (Int128_Hi i) :: u64) = Int128_Hi i mod 2 ^ 64" by (simp add: unsigned_of_int take_bit_eq_mod)
  also have "\<dots> = (if Int128_Hi i < 0 then Int128_Hi i + 2 ^ 64 else Int128_Hi i)"
  proof (cases "Int128_Hi i < 0")
    case True
    then have "(Int128_Hi i + 2 ^ 64) mod 2 ^ 64 = Int128_Hi i + 2 ^ 64"
      using assms by (intro mod_pos_pos_trivial) (auto simp: fits_signed_def)
    then show ?thesis using True by simp
  qed (use assms in \<open>simp add: fits_signed_def\<close>)
  finally show ?thesis by (simp add: Int128_BigInt_def Int128_raw_def put64_pair BigInt_pair Let_def)
qed

lemma Uint256_value: "Uint256_BigInt u = Uint128_BigInt (Uint256_Lo u) + 2 ^ 128 * Uint128_BigInt (Uint256_Hi u)"
  by (simp add: Uint256_BigInt_def Uint256_Bytes_def Uint128_BigInt_def bytes_BigInt_def be_nat_append Uint128_Bytes_def put64_pair)

lemma bytes_BigInt_append: "bytes_BigInt (a @ b) = bytes_BigInt a + 256 ^ length a * bytes_BigInt b"
  by (simp add: bytes_BigInt_def be_nat_append)

text \<open>The signed integers are read in two's complement: the high word carries the sign.\<close>

lemma Int128_raw_value: "bytes_BigInt (Int128_raw i) = Int128_BigInt i + (if Int128_Hi i < 0 then 2 ^ 128 else 0)"
  by (simp add: Int128_BigInt_def Let_def)

lemma Int256_value_halves: "Int256_value i = Uint128_BigInt (Int256_Lo i) + 2 ^ 128 * Int128_BigInt (Int256_Hi i)"
  by (simp add: Int256_value_def Let_def bytes_BigInt_append Int128_raw_value Uint128_BigInt_def [symmetric])
     (simp add: Uint128_Bytes_def put64_pair)

section \<open>Text round trips\<close>

lemma raw_pair: "length raw = 16 \<Longrightarrow> raw = le_bytes 8 (le64 raw 0) @ le_bytes 8 (le64 raw 8)"
proof -
  assume len: "length raw = 16"
  have "le_bytes 8 (le64 raw off) = take 8 (drop off raw)" if "off \<le> 8" for off
    using that len le_bytes_le_word [of "take 8 (drop off raw)", where ?'a = 64] by (simp add: le64_take)
  from this [of 0] this [of 8] len show ?thesis by (simp add: append_take_drop_id)
qed

lemma u128_String_eq: "length u = 16 \<Longrightarrow> u128_String u = itoa (bytes_BigInt u)"
proof -
  assume "length u = 16"
  from raw_pair [OF this] have "bytes_BigInt u = uint (le64 u 0) + 2 ^ 64 * uint (le64 u 8)" using BigInt_pair by metis
  then show ?thesis by (simp add: u128_String_def Lo_def Hi_def itoa_def nat_uint_eq)
qed

lemma u256_low:
  assumes "length u = 32" and "le64 u 8 OR le64 u 16 OR le64 u 24 = 0"
  shows "bytes_BigInt u = uint (le64 u 0)"
proof -
  have z: "le64 u 8 = 0" "le64 u 16 = 0" "le64 u 24 = 0" using assms(2) by (simp_all add: or_eq_0_iff)
  have "le_bytes 8 (le64 u off) = take 8 (drop off u)" if "off \<le> 24" for off
    using that assms(1) le_bytes_le_word [of "take 8 (drop off u)", where ?'a = 64] by (simp add: le64_take)
  from this [of 0] this [of 8] this [of 16] this [of 24]
  have t: "take 8 u = le_bytes 8 (le64 u 0)" "take 8 (drop 8 u) = le_bytes 8 (0::u64)" "take 8 (drop 16 u) = le_bytes 8 (0::u64)"
    "drop 24 u = le_bytes 8 (0::u64)" using z assms(1) by simp_all
  have "drop 16 u = take 8 (drop 16 u) @ drop 24 u" "drop 8 u = take 8 (drop 8 u) @ drop 16 u" "u = take 8 u @ drop 8 u"
    using append_take_drop_id [of 8 "drop 16 u", symmetric] append_take_drop_id [of 8 "drop 8 u", symmetric]
    by (simp_all only: drop_drop append_take_drop_id) simp_all
  then have "u = take 8 u @ take 8 (drop 8 u) @ take 8 (drop 16 u) @ drop 24 u" by metis
  then have "u = le_bytes 8 (le64 u 0) @ replicate 24 0"
    unfolding t by (simp add: le_bytes_def upt_rec numeral_eq_Suc)
  then have "be_nat (rev u) = be_nat (rev (le_bytes 8 (le64 u 0)))" by (metis be_nat_zeros rev_append rev_replicate)
  then show ?thesis by (simp add: bytes_BigInt_def be_nat_le_bytes)
qed

lemma u256_String_eq: "length u = 32 \<Longrightarrow> u256_String u = itoa (bytes_BigInt u)"
  using u256_low [of u] by (simp add: u256_String_def itoa_def nat_uint_eq)

lemma strip_quoted [simp]: "strip_quotes (CHR 0x22 # s @ [CHR 0x22]) = s"
  by (simp add: strip_quotes_def nth_append)

text \<open>An accepted text denotes exactly the integer it is read as, and only texts of integers in range are accepted.\<close>

lemma u128_UnmarshalText_iff:
  "u128_UnmarshalText s = Inr u \<longleftrightarrow> length u = 16 \<and> SetString10 s = Some (bytes_BigInt u)"
  by (auto simp: u128_UnmarshalText_def u128_SetBigInt_def set_big_int_law split: option.splits)

lemma u256_UnmarshalText_iff:
  "u256_UnmarshalText s = Inr u \<longleftrightarrow> length u = 32 \<and> SetString10 s = Some (bytes_BigInt u)"
  by (auto simp: u256_UnmarshalText_def u256_SetBigInt_def set_big_int_law split: option.splits)

text \<open>
  C29: the decimal text and the JSON form of every 128- and 256-bit integer are read back as the
  same integer, whichever of the two branches of \<open>String\<close> printed it.
\<close>

theorem large_text_roundtrip:
  assumes "length u = 16" and "length w = 32"
  shows "u128_UnmarshalText (u128_String u) = Inr u \<and> u128_UnmarshalJSON (u128_MarshalJSON u) = Inr u \<and>
    u256_UnmarshalText (u256_String w) = Inr w \<and> u256_UnmarshalJSON (u256_MarshalJSON w) = Inr w"
  using assms by (simp add: u128_UnmarshalText_iff u256_UnmarshalText_iff u128_UnmarshalJSON_def u128_MarshalJSON_def
      u128_String_eq u256_UnmarshalJSON_def u256_MarshalJSON_def u256_String_eq SetString10_itoa)

theorem large_text_roundtrip_witness:
  "u128_UnmarshalJSON (u128_MarshalJSON (replicate 16 255)) = Inr (replicate 16 255) \<and>
   u256_UnmarshalJSON (u256_MarshalJSON (7 # replicate 31 0)) = Inr (7 # replicate 31 0)"
  using large_text_roundtrip [of "replicate 16 255" "7 # replicate 31 0"] by simp

section \<open>Decoders\<close>

lemma le64_pair: "le64 (le_bytes 8 lo @ le_bytes 8 hi) 0 = lo" "le64 (le_bytes 8 lo @ le_bytes 8 hi) 8 = hi"
  by (simp_all add: le64_take le_word_le_bytes)

lemma Uint128_of_raw_iff:
  "length raw = 16 \<Longrightarrow> Uint128_of_raw raw = u \<longleftrightarrow> raw = le_bytes 8 (Uint128_Lo u) @ le_bytes 8 (Uint128_Hi u)"
  using raw_pair [of raw] by (auto simp: Uint128_of_raw_def le64_pair)

lemma Int128_of_raw_iff:
  "length raw = 16 \<Longrightarrow> Int128_of_raw raw = i \<longleftrightarrow>
     fits_signed 64 (Int128_Hi i) \<and> raw = le_bytes 8 (Int128_Lo i) @ le_bytes 8 (word_of_int (Int128_Hi i) :: u64)"
proof -
  assume len: "length raw = 16"
  have fits: "fits_signed 64 (sint (w :: u64))" for w
    using sint_greater_eq [of w] sint_less [of w] by (simp add: fits_signed_def)
  have inv: "fits_signed 64 v \<Longrightarrow> sint (word_of_int v :: u64) = v" for v
    by (simp add: fits_signed_def signed_of_int signed_take_bit_int_eq_self)
  show ?thesis using raw_pair [OF len] fits inv by (auto simp: Int128_of_raw_def le64_pair)
qed

definition large_bytes :: "u64 \<Rightarrow> u64 \<Rightarrow> bytes" where
  "large_bytes lo hi = le_bytes 8 lo @ le_bytes 8 hi"

lemma length_large_bytes [simp]: "length (large_bytes lo hi) = 16"
  by (simp add: large_bytes_def)

lemma ReadU128_law: "ReadU128 d = (Inr raw, d') \<longleftrightarrow> length raw = 16 \<and> reads d raw d'"
  using raw.law [of 16 d raw d'] by (simp add: ReadU128_def)

lemma wire_reader_ReadU128: "wire_reader ReadU128"
  using raw.wire_reader_axioms [of 16] by (simp add: ReadU128_def)

definition Uint128_enc :: "Uint128 \<Rightarrow> bytes" where
  "Uint128_enc u = large_bytes (Uint128_Lo u) (Uint128_Hi u)"

definition Int128_enc :: "Int128 \<Rightarrow> bytes" where
  "Int128_enc i = large_bytes (Int128_Lo i) (word_of_int (Int128_Hi i))"

lemma length_large_enc [simp]: "length (Uint128_enc u) = 16" "length (Int128_enc i) = 16"
  by (simp_all add: Uint128_enc_def Int128_enc_def)

lemma wire_codecI:
  "wire_reader m \<Longrightarrow> (\<And>d x d'. m d = (Inr x, d') \<longleftrightarrow> valid x \<and> reads d (enc x) d') \<Longrightarrow> wire_codec m enc valid"
  by (intro wire_codec.intro wire_codec_axioms.intro)

interpretation uint128: wire_codec Uint128_UnmarshalFromDecoder Uint128_enc "\<lambda>_. True"
proof (rule wire_codecI)
  show "wire_reader Uint128_UnmarshalFromDecoder"
    unfolding Uint128_UnmarshalFromDecoder_def by (rule wire_reader_map [OF wire_reader_ReadU128])
  have "(\<exists>raw. length raw = 16 \<and> reads d raw d' \<and> u = Uint128_of_raw raw) \<longleftrightarrow> reads d (Uint128_enc u) d'" for d d' u
    using Uint128_of_raw_iff [of _ u] Uint128_of_raw_iff [of "Uint128_enc u" u] length_large_enc(1) [of u]
    by (metis Uint128_enc_def large_bytes_def)
  then show "Uint128_UnmarshalFromDecoder d = (Inr u, d') \<longleftrightarrow> True \<and> reads d (Uint128_enc u) d'" for d u d'
    by (auto simp: Uint128_UnmarshalFromDecoder_def map_decm_Inr ReadU128_law)
qed

interpretation int128: wire_codec Int128_UnmarshalFromDecoder Int128_enc "\<lambda>i. fits_signed 64 (Int128_Hi i)"
proof (rule wire_codecI)
  show "wire_reader Int128_UnmarshalFromDecoder"
    unfolding Int128_UnmarshalFromDecoder_def by (rule wire_reader_map [OF wire_reader_ReadU128])
  have "(\<exists>raw. length raw = 16 \<and> reads d raw d' \<and> i = Int128_of_raw raw) \<longleftrightarrow>
      fits_signed 64 (Int128_Hi i) \<and> reads d (Int128_enc i) d'" for d d' i
    using Int128_of_raw_iff [of _ i] Int128_of_raw_iff [of "Int128_enc i" i] length_large_enc(2) [of i]
    by (metis Int128_enc_def large_bytes_def)
  then show "Int128_UnmarshalFromDecoder d = (Inr i, d') \<longleftrightarrow> fits_signed 64 (Int128_Hi i) \<and> reads d (Int128_enc i) d'" for d i d'
    by (auto simp: Int128_UnmarshalFromDecoder_def map_decm_Inr ReadU128_law)
qed

definition Uint256_enc :: "Uint256 \<Rightarrow> bytes" where
  "Uint256_enc u = Uint128_enc (Uint256_Lo u) @ Uint128_enc (Uint256_Hi u)"

definition Int256_enc :: "Int256 \<Rightarrow> bytes" where
  "Int256_enc i = Uint128_enc (Int256_Lo i) @ Int128_enc (Int256_Hi i)"

text \<open>The root-package decoders of the halves are maps of \<open>ReadU128\<close>; the 256-bit decoders run them in turn.\<close>

lemma half_law:
  "ReadU128 d = (Inr raw, d') \<and> Uint128_of_raw raw = u \<longleftrightarrow> reads d (Uint128_enc u) d' \<and> raw = Uint128_enc u"
  "ReadU128 d = (Inr raw, d') \<and> Int128_of_raw raw = i \<longleftrightarrow>
     fits_signed 64 (Int128_Hi i) \<and> reads d (Int128_enc i) d' \<and> raw = Int128_enc i"
  using Uint128_of_raw_iff [of raw u] Int128_of_raw_iff [of raw i] length_large_enc(1) [of u] length_large_enc(2) [of i]
  by (auto simp: ReadU128_law Uint128_enc_def Int128_enc_def large_bytes_def)

interpretation uint256: wire_codec Uint256_UnmarshalFromDecoder Uint256_enc "\<lambda>_. True"
proof (rule wire_codecI)
  show "wire_reader Uint256_UnmarshalFromDecoder"
    unfolding Uint256_UnmarshalFromDecoder_def by (intro reader_intros wire_reader_ReadU128)
  have "Uint256_UnmarshalFromDecoder d = (Inr u, d') \<longleftrightarrow>
      (\<exists>raw d1 raw'. (ReadU128 d = (Inr raw, d1) \<and> Uint128_of_raw raw = Uint256_Lo u) \<and>
         (ReadU128 d1 = (Inr raw', d') \<and> Uint128_of_raw raw' = Uint256_Hi u))" for d u d'
    by (cases u) (auto simp: Uint256_UnmarshalFromDecoder_def rbind_Inr wrapr_Inr rreturn_Inr)
  then show "Uint256_UnmarshalFromDecoder d = (Inr u, d') \<longleftrightarrow> True \<and> reads d (Uint256_enc u) d'" for d u d'
    unfolding half_law by (auto simp: Uint256_enc_def reads_append)
qed

interpretation int256: wire_codec Int256_UnmarshalFromDecoder Int256_enc "\<lambda>i. fits_signed 64 (Int128_Hi (Int256_Hi i))"
proof (rule wire_codecI)
  show "wire_reader Int256_UnmarshalFromDecoder"
    unfolding Int256_UnmarshalFromDecoder_def by (intro reader_intros wire_reader_ReadU128)
  have "Int256_UnmarshalFromDecoder d = (Inr i, d') \<longleftrightarrow>
      (\<exists>raw d1 raw'. (ReadU128 d = (Inr raw, d1) \<and> Uint128_of_raw raw = Int256_Lo i) \<and>
         (ReadU128 d1 = (Inr raw', d') \<and> Int128_of_raw raw' = Int256_Hi i))" for d i d'
    by (cases i) (auto simp: Int256_UnmarshalFromDecoder_def rbind_Inr wrapr_Inr rreturn_Inr)
  then show "Int256_UnmarshalFromDecoder d = (Inr i, d') \<longleftrightarrow>
      fits_signed 64 (Int128_Hi (Int256_Hi i)) \<and> reads d (Int256_enc i) d'" for d i d'
    unfolding half_law by (auto simp: Int256_enc_def reads_append)
qed

text \<open>What the encoders append is the encoding that the decoders read.\<close>

lemma MarshalToEncoder_enc:
  "e_buf (Uint128_MarshalToEncoder u e) = e_buf e @ Uint128_enc u"
  "e_buf (Int128_MarshalToEncoder i e) = e_buf e @ Int128_enc i"
  "e_buf (Uint256_MarshalToEncoder u2 e) = e_buf e @ Uint256_enc u2"
  by (simp_all add: Uint128_MarshalToEncoder_def Int128_MarshalToEncoder_def Uint256_MarshalToEncoder_def WriteU128_def
      Uint128_Bytes_def Int128_raw_def put64_pair Uint128_enc_def Int128_enc_def Uint256_enc_def large_bytes_def)

section \<open>From an integer\<close>

lemma be_nat_last: "n \<le> length b \<Longrightarrow> be_nat (drop (length b - n) b) = be_nat b mod 256 ^ n"
proof -
  assume n: "n \<le> length b"
  let ?lo = "drop (length b - n) b"
  have "be_nat b = be_nat (take (length b - n) b) * 256 ^ length ?lo + be_nat ?lo"
    using be_nat_append [of "take (length b - n) b" ?lo] by simp
  then show ?thesis using n be_nat_less [of ?lo] by simp
qed

lemma Uint128_of_raw_value: "length raw = 16 \<Longrightarrow> Uint128_BigInt (Uint128_of_raw raw) = bytes_BigInt raw"
  using Uint128_of_raw_iff [of raw "Uint128_of_raw raw"] by (simp add: Uint128_BigInt_def Uint128_Bytes_def put64_pair)

text \<open>\<open>Uint128FromBigInt\<close> keeps the magnitude of its argument modulo two to the 128: the sign and higher bits are dropped.\<close>

theorem Uint128FromBigInt_value: "Uint128_BigInt (Uint128FromBigInt x) = \<bar>x\<bar> mod 2 ^ 128"
proof -
  let ?b = "nat_bytes (nat \<bar>x\<bar>)"
  let ?c = "if length ?b > 16 then drop (length ?b - 16) ?b else ?b"
  have len: "length ?c \<le> 16" by simp
  have val: "be_nat ?c = nat \<bar>x\<bar> mod 256 ^ 16"
  proof (cases "length ?b > 16")
    case False
    then have "nat \<bar>x\<bar> < 256 ^ 16" using nat_bytes_length [of "nat \<bar>x\<bar>" 16] by simp
    with False show ?thesis by simp
  qed (use be_nat_last [of 16 ?b] in simp)
  have "Uint128_BigInt (Uint128FromBigInt x) = int (be_nat ?c)"
    unfolding Uint128FromBigInt_def Let_def
    by (subst Uint128_of_raw_value) (use len in \<open>simp_all add: bytes_BigInt_def zero_array_def del: rev_append\<close>)
  also have "\<dots> = \<bar>x\<bar> mod 2 ^ 128" unfolding val by (simp add: zmod_int)
  finally show ?thesis .
qed

end
