(* ===== verification/Decode_Plan_Laws.thy ===== *)
theory Decode_Plan_Laws
  imports Decode_Plan Large_Int
begin

text \<open>
  Laws of the reflective decoder.  The read monad is associative, so running a plan is a
  homomorphism on lists of operations; with it the compiled plan of a type is shown to
  write exactly the memory image of what the reference decoder returns, with the same
  errors and the same cursor.  The reference decoder in turn is the inverse of an encoding
  function, for the Borsh and the bincode length prefixes.
\<close>

section \<open>The read monad\<close>

lemma rbind_return [simp]: "rbind (rreturn x) f = f x"
  by (simp add: rbind_def rreturn_def fun_eq_iff)

lemma rbind_return_right [simp]: "rbind m rreturn = m"
  by (auto simp: rbind_def rreturn_def fun_eq_iff split: prod.splits sum.splits)

lemma rbind_assoc: "rbind (rbind m f) g = rbind m (\<lambda>x. rbind (f x) g)"
  by (auto simp: rbind_def fun_eq_iff split: prod.splits sum.splits)

lemma rbind_fail [simp]: "rbind (rfail e) f = rfail e"
  by (simp add: rbind_def rfail_def fun_eq_iff)

lemma map_decm_return [simp]: "map_decm f (rreturn x) = rreturn (f x)"
  by (simp add: map_decm_def)

lemma map_decm_fail [simp]: "map_decm f (rfail e) = rfail e"
  by (simp add: map_decm_def)

lemma map_decm_bind [simp]: "map_decm f (rbind m g) = rbind m (\<lambda>x. map_decm f (g x))"
  by (simp add: map_decm_def rbind_assoc)

lemma map_decm_map [simp]: "map_decm f (map_decm g m) = map_decm (\<lambda>x. f (g x)) m"
  by (simp add: map_decm_def rbind_assoc)

lemma bind_map [simp]: "rbind (map_decm f m) g = rbind m (\<lambda>x. g (f x))"
  by (simp add: map_decm_def rbind_assoc)

lemma map_decm_if [simp]: "map_decm f (if c then m else m') = (if c then map_decm f m else map_decm f m')"
  by simp

lemma wrapr_map [simp]: "wrapr msg args (map_decm f m) = map_decm f (wrapr msg args m)"
  by (auto simp: wrapr_def map_decm_def rbind_def rreturn_def fun_eq_iff split: prod.splits sum.splits)

text \<open>A loop whose body maps the result of an element read.\<close>

lemma read_loop_map:
  "map_decm concat (read_loop (\<lambda>i. map_decm (g i) (m i)) k n) = map_decm (concat_image g k) (read_loop m k n)"
proof (induction n arbitrary: k)
  case 0
  then show ?case by (simp add: concat_image_def)
next
  case (Suc n)
  have "rbind (read_loop (\<lambda>i. map_decm (g i) (m i)) (Suc k) n) (\<lambda>xs. rreturn (concat (g k x # xs))) =
      rbind (read_loop m (Suc k) n) (\<lambda>xs. rreturn (concat_image g k (x # xs)))" for x
  proof -
    have "rbind (read_loop (\<lambda>i. map_decm (g i) (m i)) (Suc k) n) (\<lambda>xs. rreturn (concat (g k x # xs))) =
        map_decm ((@) (g k x)) (map_decm concat (read_loop (\<lambda>i. map_decm (g i) (m i)) (Suc k) n))"
      by (simp add: map_decm_def rbind_assoc)
    also have "\<dots> = map_decm ((@) (g k x)) (map_decm (concat_image g (Suc k)) (read_loop m (Suc k) n))"
      by (simp only: Suc.IH)
    also have "\<dots> = rbind (read_loop m (Suc k) n) (\<lambda>xs. rreturn (concat_image g k (x # xs)))"
      by (simp add: map_decm_def rbind_assoc concat_image_def)
    finally show ?thesis .
  qed
  then show ?case by (simp add: map_decm_def rbind_assoc)
qed

section \<open>Compiling and running\<close>

lemma execDecodePlan_append:
  "execDecodePlan custom (ps @ qs) base =
     rbind (execDecodePlan custom ps base) (\<lambda>w. rbind (execDecodePlan custom qs base) (\<lambda>ws. rreturn (w @ ws)))"
  by (induction ps) (simp_all add: rbind_assoc)

text \<open>The types that have a plan: those whose wire fields are all of a supported kind.\<close>

fun decodable :: "gotype \<Rightarrow> bool"
and decodable_fields :: "(string \<times> bool \<times> string \<times> nat \<times> gotype) list \<Rightarrow> bool" where
  "decodable (KArray n sz t) \<longleftrightarrow> is_uint8 t \<or> decodable t"
| "decodable (KSlice named sz t) \<longleftrightarrow> is_uint8 t \<or> decodable t"
| "decodable (KPointer sz t) \<longleftrightarrow> decodable t"
| "decodable (KStruct name fds) \<longleftrightarrow> decodable_fields fds"
| "decodable (KInterface name) \<longleftrightarrow> False"
| "decodable (KOther kind) \<longleftrightarrow> False"
| "decodable t \<longleftrightarrow> True"
| "decodable_fields [] \<longleftrightarrow> True"
| "decodable_fields ((fname, exported, tag, foff, t) # fs) \<longleftrightarrow> (exported \<and> tag \<noteq> ''-'' \<longrightarrow> decodable t) \<and> decodable_fields fs"

lemma res_bind_ok: "(\<exists>y. res_bind r (\<lambda>x. Inr (f x)) = Inr y) \<longleftrightarrow> (\<exists>x. r = Inr x)"
  by (cases r) auto

lemma emit_ok:
  "(\<exists>ops. emitValue t off = Inr ops) \<longleftrightarrow> decodable t"
  "(\<exists>ops. emitFields name fds off = Inr ops) \<longleftrightarrow> decodable_fields fds"
  by (induction t off and name fds off rule: emitValue_emitFields.induct)
     (auto simp: res_bind_Inr_iff split: sum.splits)

text \<open>\<open>op.count\<close> has 32 bits: the lengths of the arrays of a type must fit.\<close>

fun counts_fit :: "gotype \<Rightarrow> bool"
and counts_fit_fields :: "(string \<times> bool \<times> string \<times> nat \<times> gotype) list \<Rightarrow> bool" where
  "counts_fit (KArray n sz t) \<longleftrightarrow> n < 2 ^ 32 \<and> counts_fit t"
| "counts_fit (KSlice named sz t) \<longleftrightarrow> counts_fit t"
| "counts_fit (KPointer sz t) \<longleftrightarrow> counts_fit t"
| "counts_fit (KStruct name fds) \<longleftrightarrow> counts_fit_fields fds"
| "counts_fit t \<longleftrightarrow> True"
| "counts_fit_fields [] \<longleftrightarrow> True"
| "counts_fit_fields ((fname, exported, tag, foff, t) # fs) \<longleftrightarrow> (exported \<and> tag \<noteq> ''-'' \<longrightarrow> counts_fit t) \<and> counts_fit_fields fs"

lemma count_fits: "n < 2 ^ 32 \<Longrightarrow> unat (of_nat n :: u32) = n \<and> uint (of_nat n :: u32) = int n"
  by (simp add: unsigned_of_nat take_bit_nat_eq_self)

lemma read_loop_length: "read_loop f k n d = (Inr xs, d') \<Longrightarrow> length xs = n"
  by (induction n arbitrary: k d xs) (auto simp: rbind_Inr rreturn_Inr)

lemma read_loop_map_cong:
  assumes "\<And>xs. length xs = n \<Longrightarrow> f xs = g xs"
  shows "map_decm f (read_loop m k n) = map_decm g (read_loop m k n)"
  using assms read_loop_length [of m k n]
  by (auto simp: map_decm_def rbind_def rreturn_def fun_eq_iff split: prod.splits sum.splits)

lemma image_fields_step:
  "\<not> exported \<or> tag = ''-'' \<Longrightarrow> image_fields ((fname, exported, tag, foff, t) # fs) off = image_fields fs off"
  by (auto simp: fun_eq_iff)

lemmas plan_monad = map_decm_def rbind_assoc leaf_def ReadInt8_def ReadInt16_def ReadInt32_def ReadInt64_def
  res_bind_Inr_iff image_fields_step

lemma emit_refines:
  "emitValue t off = Inr ops \<Longrightarrow> counts_fit t \<Longrightarrow>
     execDecodePlan custom ops base = map_decm (memory_image t (base + off)) (decode_type custom t)"
  "emitFields name fds off = Inr ops \<Longrightarrow> counts_fit_fields fds \<Longrightarrow>
     execDecodePlan custom ops base = map_decm (image_fields fds (base + off)) (decode_fields custom fds)"
proof (induction t off and name fds off arbitrary: ops base and ops base rule: emitValue_emitFields.induct)
  case (10 off)
  then show ?case by (auto simp: leaf_def cong del: if_weak_cong)
next
  case (11 n sz t off)
  show ?case
  proof (cases "is_uint8 t")
    case True
    with 11 show ?thesis using count_fits [of n] by (auto simp: plan_monad)
  next
    case False
    then obtain sub where sub: "emitValue t 0 = Inr sub" and ops: "ops = [opFixedArray off (of_nat n) sz sub]"
      using 11 by (auto simp: res_bind_Inr_iff)
    have "execDecodePlan custom sub b = map_decm (memory_image t b) (decode_type custom t)" for b
      using "11.IH" [OF False sub, of b] "11.prems" by simp
    then show ?thesis using False "11.prems" count_fits [of n] by (simp add: ops read_loop_map)
  qed
next
  case (12 named sz t off)
  show ?case
  proof (cases "is_uint8 t")
    case True
    with 12 show ?thesis by (auto simp: plan_monad)
  next
    case False
    then obtain sub where sub: "emitValue t 0 = Inr sub" and ops: "ops = [opSlice off sz sub]"
      using 12 by (auto simp: res_bind_Inr_iff)
    have "execDecodePlan custom sub b = map_decm (memory_image t b) (decode_type custom t)" for b
      using "12.IH" [OF False sub, of b] "12.prems" by simp
    then have "map_decm (\<lambda>ws. [(base + off, CSlice n sz (concat ws))])
          (read_loop (\<lambda>i. wrapr ''[%d]: %w'' [int i] (execDecodePlan custom sub (i * sz))) 0 n) =
        map_decm (\<lambda>vs. [(base + off, CSlice n sz (concat_image (\<lambda>i. memory_image t (i * sz)) 0 vs))])
          (read_loop (\<lambda>i. wrapr ''[%d]: %w'' [int i] (decode_type custom t)) 0 n)" for n
      using arg_cong [OF read_loop_map [of "\<lambda>i. memory_image t (i * sz)" "\<lambda>i. wrapr ''[%d]: %w'' [int i] (decode_type custom t)" 0 n],
          of "map_decm (\<lambda>ws. [(base + off, CSlice n sz ws)])"] by simp
    also have "\<dots> n = map_decm (\<lambda>vs. [(base + off, CSlice (length vs) sz (concat_image (\<lambda>i. memory_image t (i * sz)) 0 vs))])
          (read_loop (\<lambda>i. wrapr ''[%d]: %w'' [int i] (decode_type custom t)) 0 n)" for n
      by (rule read_loop_map_cong) simp
    finally show ?thesis using False by (simp add: ops)
  qed
next
  case (14 sz t off)
  then obtain sub where sub: "emitValue t 0 = Inr sub" and ops: "ops = [opPointer off sz sub]"
    by (auto simp: res_bind_Inr_iff)
  have "execDecodePlan custom sub 0 = map_decm (memory_image t 0) (decode_type custom t)"
    using "14.IH" [OF sub, of 0] "14.prems" by simp
  then show ?case by (auto simp: ops cong del: if_weak_cong)
next
  case (19 name fname exported tag foff t fs off)
  show ?case
  proof (cases "\<not> exported \<or> tag = ''-''")
    case True
    with 19 show ?thesis by (auto simp: image_fields_step)
  next
    case False
    then obtain ps qs where p: "emitValue t (off + foff) = Inr ps" and q: "emitFields name fs off = Inr qs" and ops: "ops = ps @ qs"
      using 19 by (auto simp: res_bind_Inr_iff split: sum.splits)
    have "execDecodePlan custom ps base = map_decm (memory_image t (base + (off + foff))) (decode_type custom t)"
      using "19.IH"(2) [OF False p] "19.prems" False by auto
    moreover have "execDecodePlan custom qs base = map_decm (image_fields fs (base + off)) (decode_fields custom fs)"
      using "19.IH"(3) [OF False p q] "19.prems" by simp
    ultimately show ?thesis using False by (simp add: ops execDecodePlan_append add.assoc)
  qed
qed (auto simp: plan_monad)

text \<open>The plan cache holds compiled plans only, and a decode keeps it so.\<close>

definition cache_ok :: "(gotype \<rightharpoonup> op list) \<Rightarrow> bool" where
  "cache_ok cache \<longleftrightarrow> (\<forall>t p. cache t = Some p \<longrightarrow> compileDecodePlan t = Inr p)"

lemma cache_ok_empty [simp]: "cache_ok Map.empty"
  by (simp add: cache_ok_def)

lemma decodePlanFor_ok:
  assumes "cache_ok cache"
  shows "fst (decodePlanFor t cache) = compileDecodePlan t \<and> cache_ok (snd (decodePlanFor t cache))"
  using assms by (auto simp: decodePlanFor_def cache_ok_def split: option.splits sum.splits)

lemma DecodeTo_plan:
  assumes "cache_ok cache"
  shows "fst (DecodeTo custom (Some t) cache d) =
      (case compileDecodePlan t of Inl e \<Rightarrow> (Inl e, d) | Inr p \<Rightarrow> execDecodePlan custom p 0 d)"
    and "cache_ok (snd (DecodeTo custom (Some t) cache d))"
  using decodePlanFor_ok [OF assms, of t]
  by (cases "decodePlanFor t cache"; auto simp: DecodeTo_def DecodeFast_def split: sum.splits)+

text \<open>
  C27: decoding through the cached, compiled plan equals the reference decoder followed by the memory
  memory image of its value: the same errors, the same cursor and, at every offset, the same writes.
  A type without a plan is refused before anything is read.
\<close>

theorem DecodeTo_refines:
  assumes "cache_ok cache" and "counts_fit t"
  shows "fst (DecodeTo custom (Some t) cache d) =
      (if decodable t then map_decm (memory_image t 0) (decode_type custom t) d
       else (Inl (projl (compileDecodePlan t)), d)) \<and>
    cache_ok (snd (DecodeTo custom (Some t) cache d))"
proof (cases "compileDecodePlan t")
  case (Inl e)
  then have "\<not> decodable t" using emit_ok(1) [of t 0] by (auto simp: compileDecodePlan_def)
  then show ?thesis by (simp add: DecodeTo_plan [OF assms(1)] Inl)
next
  case (Inr p)
  then have "decodable t" using emit_ok(1) [of t 0] by (auto simp: compileDecodePlan_def)
  moreover have "execDecodePlan custom p 0 = map_decm (memory_image t 0) (decode_type custom t)"
    using emit_refines(1) [of t 0 p custom 0] Inr assms(2) by (simp add: compileDecodePlan_def)
  ultimately show ?thesis by (simp add: DecodeTo_plan [OF assms(1)] Inr)
qed

section \<open>Encodings\<close>

definition len_bytes :: "bool \<Rightarrow> nat \<Rightarrow> bytes" where
  "len_bytes borsh n = (if borsh then le_bytes 4 (of_nat n :: u32) else le_bytes 8 (of_nat n :: u64))"

definition len_fits :: "bool \<Rightarrow> nat \<Rightarrow> bool" where
  "len_fits borsh n \<longleftrightarrow> n < 2 ^ (if borsh then 32 else 64)"

lemma len_bytes_not_Nil [simp]: "len_bytes borsh n \<noteq> []"
  by (simp add: len_bytes_def le_bytes_def upt_rec)

lemma of_nat_unat_iff: "n = unat w \<longleftrightarrow> n < 2 ^ LENGTH('a) \<and> of_nat n = (w :: 'a::len word)"
  using unsigned_less [where ?'a = nat, of w] by (auto simp: unsigned_of_nat take_bit_nat_eq_self)

lemma readLen_law: "readLen d = (Inr n, d') \<longleftrightarrow> len_fits (d_borsh d) n \<and> reads d (len_bytes (d_borsh d) n) d'"
proof (cases "d_borsh d")
  case True
  then show ?thesis
    using of_nat_unat_iff [of n, where ?'a = 32]
    by (auto simp: readLen_def map_decm_Inr u32.law len_fits_def len_bytes_def)
next
  case False
  then show ?thesis
    using of_nat_unat_iff [of n, where ?'a = 64]
    by (auto simp: readLen_def map_decm_Inr u64.law len_fits_def len_bytes_def)
qed

lemma check_len_Inr: "check_len msg n d = (Inr u, d') \<longleftrightarrow> int n \<le> Remaining d \<and> d' = d"
  by (auto simp: check_len_def)

lemma reads_Remaining: "reads d xs d' \<Longrightarrow> int (length xs) \<le> Remaining d"
  by (simp add: reads_def Remaining_def)

text \<open>The counted loop for an element reader whose law depends on the length prefix in force.\<close>

lemma read_loop_prefix_law:
  assumes elem: "\<And>i d x d'. wf_decoder d \<Longrightarrow> d_borsh d = b \<Longrightarrow> f i d = (Inr x, d') \<longleftrightarrow> P x \<and> reads d (en x) d'"
    and "wf_decoder d" and "d_borsh d = b"
  shows "read_loop f k n d = (Inr xs, d') \<longleftrightarrow> length xs = n \<and> list_all P xs \<and> reads d (concat (map en xs)) d'"
  using assms(2,3)
proof (induction n arbitrary: k xs d)
  case 0
  then show ?case by (auto simp: rreturn_def)
next
  case (Suc n)
  have step: "read_loop f (Suc k) n d1 = (Inr ys, d') \<longleftrightarrow> length ys = n \<and> list_all P ys \<and> reads d1 (concat (map en ys)) d'"
    if "reads d bs d1" for d1 ys bs
    using Suc.IH [of d1] Suc.prems reads_frame [OF that] reads_wf [OF that] by simp
  show ?case
    using Suc.prems by (cases xs) (auto simp: rbind_Inr rreturn_Inr elem reads_append step cong: conj_cong)
qed

definition leaf_valid :: "gotype \<Rightarrow> 'c goval \<Rightarrow> bool" where
  "leaf_valid t v \<longleftrightarrow> (case (t, v) of
     (KUint8, VU8 _) \<Rightarrow> True | (KUint16, VU16 _) \<Rightarrow> True | (KUint32, VU32 _) \<Rightarrow> True | (KUint64, VU64 _) \<Rightarrow> True
   | (KInt8, VI8 i) \<Rightarrow> fits_signed 8 i | (KInt16, VI16 i) \<Rightarrow> fits_signed 16 i
   | (KInt32, VI32 i) \<Rightarrow> fits_signed 32 i | (KInt64, VI64 i) \<Rightarrow> fits_signed 64 i
   | (KBool, VBool _) \<Rightarrow> True | _ \<Rightarrow> False)"

definition leaf_enc :: "'c goval \<Rightarrow> bytes" where
  "leaf_enc v = (case v of
     VU8 x \<Rightarrow> [x] | VU16 x \<Rightarrow> le_bytes 2 x | VU32 x \<Rightarrow> le_bytes 4 x | VU64 x \<Rightarrow> le_bytes 8 x
   | VI8 i \<Rightarrow> [word_of_int i] | VI16 i \<Rightarrow> le_bytes 2 (word_of_int i :: u16)
   | VI32 i \<Rightarrow> le_bytes 4 (word_of_int i :: u32) | VI64 i \<Rightarrow> le_bytes 8 (word_of_int i :: u64)
   | VBool b \<Rightarrow> [if b then 1 else 0] | _ \<Rightarrow> [])"

text \<open>The values of a type: what can be written with the given length prefix.\<close>

fun typed :: "(nat \<Rightarrow> 'c \<Rightarrow> bool) \<Rightarrow> bool \<Rightarrow> gotype \<Rightarrow> 'c goval \<Rightarrow> bool"
and typed_fields :: "(nat \<Rightarrow> 'c \<Rightarrow> bool) \<Rightarrow> bool \<Rightarrow> (string \<times> bool \<times> string \<times> nat \<times> gotype) list \<Rightarrow> 'c goval list \<Rightarrow> bool" where
  "typed cvalid b (KArray n sz t) v \<longleftrightarrow>
     (case v of VFixed bs \<Rightarrow> is_uint8 t \<and> length bs = n
      | VArray vs \<Rightarrow> \<not> is_uint8 t \<and> length vs = n \<and> list_all (typed cvalid b t) vs | _ \<Rightarrow> False)"
| "typed cvalid b (KSlice named sz t) v \<longleftrightarrow>
     (case v of VBytes bs \<Rightarrow> is_uint8 t \<and> len_fits b (length bs)
      | VSlice vs \<Rightarrow> \<not> is_uint8 t \<and> len_fits b (length vs) \<and> list_all (typed cvalid b t) vs | _ \<Rightarrow> False)"
| "typed cvalid b KString v \<longleftrightarrow> (case v of VString bs \<Rightarrow> len_fits b (length bs) | _ \<Rightarrow> False)"
| "typed cvalid b (KPointer sz t) v \<longleftrightarrow>
     (case v of VOption None \<Rightarrow> True | VOption (Some x) \<Rightarrow> typed cvalid b t x | _ \<Rightarrow> False)"
| "typed cvalid b (KStruct name fds) v \<longleftrightarrow> (case v of VStruct vs \<Rightarrow> typed_fields cvalid b fds vs | _ \<Rightarrow> False)"
| "typed cvalid b (KCustom k byte_kind) v \<longleftrightarrow> (case v of VCustom x \<Rightarrow> cvalid k x | _ \<Rightarrow> False)"
| "typed cvalid b t v \<longleftrightarrow> leaf_valid t v"
| "typed_fields cvalid b [] vs \<longleftrightarrow> vs = []"
| "typed_fields cvalid b ((fname, exported, tag, foff, t) # fs) vs \<longleftrightarrow>
     (if \<not> exported \<or> tag = ''-'' then typed_fields cvalid b fs vs
      else case vs of [] \<Rightarrow> False | v # vs \<Rightarrow> typed cvalid b t v \<and> typed_fields cvalid b fs vs)"

fun enc :: "(nat \<Rightarrow> 'c \<Rightarrow> bytes) \<Rightarrow> bool \<Rightarrow> gotype \<Rightarrow> 'c goval \<Rightarrow> bytes"
and enc_fields :: "(nat \<Rightarrow> 'c \<Rightarrow> bytes) \<Rightarrow> bool \<Rightarrow> (string \<times> bool \<times> string \<times> nat \<times> gotype) list \<Rightarrow> 'c goval list \<Rightarrow> bytes" where
  "enc cenc b (KArray n sz t) v =
     (case v of VFixed bs \<Rightarrow> bs | VArray vs \<Rightarrow> concat (map (enc cenc b t) vs) | _ \<Rightarrow> [])"
| "enc cenc b (KSlice named sz t) v =
     (case v of VBytes bs \<Rightarrow> len_bytes b (length bs) @ bs
      | VSlice vs \<Rightarrow> len_bytes b (length vs) @ concat (map (enc cenc b t) vs) | _ \<Rightarrow> [])"
| "enc cenc b KString v = (case v of VString bs \<Rightarrow> len_bytes b (length bs) @ bs | _ \<Rightarrow> [])"
| "enc cenc b (KPointer sz t) v = (case v of VOption None \<Rightarrow> [0] | VOption (Some x) \<Rightarrow> 1 # enc cenc b t x | _ \<Rightarrow> [])"
| "enc cenc b (KStruct name fds) v = (case v of VStruct vs \<Rightarrow> enc_fields cenc b fds vs | _ \<Rightarrow> [])"
| "enc cenc b (KCustom k byte_kind) v = (case v of VCustom x \<Rightarrow> cenc k x | _ \<Rightarrow> [])"
| "enc cenc b t v = leaf_enc v"
| "enc_fields cenc b [] vs = []"
| "enc_fields cenc b ((fname, exported, tag, foff, t) # fs) vs =
     (if \<not> exported \<or> tag = ''-'' then enc_fields cenc b fs vs
      else case vs of [] \<Rightarrow> [] | v # vs \<Rightarrow> enc cenc b t v @ enc_fields cenc b fs vs)"

text \<open>Types whose values take at least one byte on the wire; the elements of slices must be of one.\<close>

fun sized :: "gotype \<Rightarrow> bool"
and sized_fields :: "(string \<times> bool \<times> string \<times> nat \<times> gotype) list \<Rightarrow> bool" where
  "sized (KArray n sz t) \<longleftrightarrow> n > 0 \<and> (is_uint8 t \<or> sized t)"
| "sized (KStruct name fds) \<longleftrightarrow> sized_fields fds"
| "sized t \<longleftrightarrow> True"
| "sized_fields [] \<longleftrightarrow> False"
| "sized_fields ((fname, exported, tag, foff, t) # fs) \<longleftrightarrow> (exported \<and> tag \<noteq> ''-'' \<and> sized t) \<or> sized_fields fs"

fun slices_sized :: "gotype \<Rightarrow> bool"
and slices_sized_fields :: "(string \<times> bool \<times> string \<times> nat \<times> gotype) list \<Rightarrow> bool" where
  "slices_sized (KArray n sz t) \<longleftrightarrow> slices_sized t"
| "slices_sized (KSlice named sz t) \<longleftrightarrow> sized t \<and> slices_sized t"
| "slices_sized (KPointer sz t) \<longleftrightarrow> slices_sized t"
| "slices_sized (KStruct name fds) \<longleftrightarrow> slices_sized_fields fds"
| "slices_sized t \<longleftrightarrow> True"
| "slices_sized_fields [] \<longleftrightarrow> True"
| "slices_sized_fields ((fname, exported, tag, foff, t) # fs) \<longleftrightarrow> (exported \<and> tag \<noteq> ''-'' \<longrightarrow> slices_sized t) \<and> slices_sized_fields fs"

section \<open>The contract of hand-written decoders\<close>

text \<open>
  What the plan relies on at an \<open>opCallIface\<close>: the method is a codec, and the encoding of
  a value is never empty.
\<close>

locale custom_codecs =
  fixes custom :: "nat \<Rightarrow> 'c decm" and cenc :: "nat \<Rightarrow> 'c \<Rightarrow> bytes" and cvalid :: "nat \<Rightarrow> 'c \<Rightarrow> bool"
  assumes codec: "wire_codec (custom k) (cenc k) (cvalid k)"
    and nonempty: "cvalid k x \<Longrightarrow> cenc k x \<noteq> []"
begin

lemma enc_not_Nil:
  "sized t \<Longrightarrow> typed cvalid b t v \<Longrightarrow> enc cenc b t v \<noteq> []"
  "sized_fields fds \<Longrightarrow> typed_fields cvalid b fds vs \<Longrightarrow> enc_fields cenc b fds vs \<noteq> []"
proof (induction t and fds arbitrary: v and vs rule: sized_sized_fields.induct)
  case (1 n sz t)
  then show ?case by (cases v) (auto simp: Suc_le_length_iff length_Suc_conv gr0_conv_Suc split: goval.splits)
qed (auto simp: leaf_valid_def leaf_enc_def le_bytes_def upt_rec nonempty split: goval.splits option.splits list.splits if_splits)

lemma many_bytes:
  assumes "sized t" and "list_all (typed cvalid b t) vs"
  shows "length vs \<le> length (concat (map (enc cenc b t) vs))"
  using assms(2)
proof (induction vs)
  case (Cons v vs)
  then have "enc cenc b t v \<noteq> []" using enc_not_Nil(1) [OF assms(1)] by simp
  then have "1 \<le> length (enc cenc b t v)" by (cases "enc cenc b t v") auto
  then show ?case using Cons by simp
qed simp

lemma custom_law: "custom k d = (Inr x, d') \<longleftrightarrow> cvalid k x \<and> reads d (cenc k x) d'"
  by (rule wire_codec.law [OF codec])

text \<open>A length prefix, its bound check, and a body of at least as many bytes as the length says.\<close>

lemma counted_law:
  assumes "wf_decoder d"
    and "\<And>d1 n. wf_decoder d1 \<Longrightarrow> d_borsh d1 = d_borsh d \<Longrightarrow>
      body n d1 = (Inr v, d') \<longleftrightarrow> m = n \<and> P \<and> reads d1 bs d'"
    and "P \<Longrightarrow> m \<le> length bs"
  shows "rbind readLen (\<lambda>n. rbind (check_len msg n) (\<lambda>_. body n)) d = (Inr v, d') \<longleftrightarrow>
    len_fits (d_borsh d) m \<and> P \<and> reads d (len_bytes (d_borsh d) m @ bs) d'"
proof -
  have key: "rbind (check_len msg n) (\<lambda>_. body n) d1 = (Inr v, d') \<longleftrightarrow> m = n \<and> P \<and> reads d1 bs d'"
    if "reads d xs d1" for n d1 xs
  proof -
    have "body n d1 = (Inr v, d') \<longleftrightarrow> m = n \<and> P \<and> reads d1 bs d'"
      using assms(2) reads_frame [OF that] reads_wf [OF that] by simp
    moreover have "int n \<le> Remaining d1" if "m = n" "P" "reads d1 bs d'"
      using reads_Remaining [OF that(3)] assms(3) that by simp
    ultimately show ?thesis by (auto simp: rbind_Inr check_len_Inr)
  qed
  show ?thesis unfolding rbind_Inr [of readLen] readLen_law reads_append by (auto simp: key cong: conj_cong)
qed

lemma zero_not_one [simp]: "\<exists>x :: u8. x \<noteq> 1 \<and> (x \<noteq> 1 \<longrightarrow> x = 0)"
  by (rule exI [of _ 0]) simp

lemmas leaf_defs = leaf_valid_def leaf_enc_def map_decm_Inr rbind_Inr u8.law u16.law u32.law u64.law
  signed_codecs [THEN wire_codec.law]

lemma leaf_laws:
  "decode_type custom KUint8 d = (Inr v, d') \<longleftrightarrow> leaf_valid KUint8 v \<and> reads d (leaf_enc v) d'"
  "decode_type custom KUint16 d = (Inr v, d') \<longleftrightarrow> leaf_valid KUint16 v \<and> reads d (leaf_enc v) d'"
  "decode_type custom KUint32 d = (Inr v, d') \<longleftrightarrow> leaf_valid KUint32 v \<and> reads d (leaf_enc v) d'"
  "decode_type custom KUint64 d = (Inr v, d') \<longleftrightarrow> leaf_valid KUint64 v \<and> reads d (leaf_enc v) d'"
  "decode_type custom KInt8 d = (Inr v, d') \<longleftrightarrow> leaf_valid KInt8 v \<and> reads d (leaf_enc v) d'"
  "decode_type custom KInt16 d = (Inr v, d') \<longleftrightarrow> leaf_valid KInt16 v \<and> reads d (leaf_enc v) d'"
  "decode_type custom KInt32 d = (Inr v, d') \<longleftrightarrow> leaf_valid KInt32 v \<and> reads d (leaf_enc v) d'"
  "decode_type custom KInt64 d = (Inr v, d') \<longleftrightarrow> leaf_valid KInt64 v \<and> reads d (leaf_enc v) d'"
  by (cases v; simp add: leaf_defs; fail)+

lemma bytes_law: "map_decm c (ReadBytes (int n)) d = (Inr v, d') \<longleftrightarrow> (\<exists>bs. v = c bs \<and> length bs = n \<and> reads d bs d')"
  by (auto simp: map_decm_Inr raw.law)

lemma decode_law:
  "slices_sized t \<Longrightarrow> wf_decoder d \<Longrightarrow> decode_type custom t d = (Inr v, d') \<longleftrightarrow>
     typed cvalid (d_borsh d) t v \<and> reads d (enc cenc (d_borsh d) t v) d'"
  "slices_sized_fields fds \<Longrightarrow> wf_decoder d \<Longrightarrow> decode_fields custom fds d = (Inr vs, d') \<longleftrightarrow>
     typed_fields cvalid (d_borsh d) fds vs \<and> reads d (enc_fields cenc (d_borsh d) fds vs) d'"
proof (induction custom\<equiv>custom t and custom\<equiv>custom fds arbitrary: v d d' and vs d d' rule: decode_type_decode_fields.induct)
  case 9
  then show ?case
    by (cases v) (auto simp: leaf_defs rreturn_Inr rfail_Inr split: if_splits)
next
  case (10 n sz t)
  show ?case
  proof (cases "is_uint8 t")
    case True
    then show ?thesis by (cases v) (auto simp: bytes_law)
  next
    case False
    have "read_loop (\<lambda>i. wrapr ''[%d]: %w'' [int i] (decode_type custom t)) 0 n d = (Inr vs, d') \<longleftrightarrow>
        length vs = n \<and> list_all (typed cvalid (d_borsh d) t) vs \<and> reads d (concat (map (enc cenc (d_borsh d) t) vs)) d'" for vs
      by (rule read_loop_prefix_law) (use 10 False in \<open>simp_all add: wrapr_Inr\<close>)
    then show ?thesis using False by (cases v) (auto simp: map_decm_Inr)
  qed
next
  case (11 named sz t)
  show ?case
  proof (cases "is_uint8 t")
    case True
    have "decode_type custom (KSlice named sz t) d = (Inr (VBytes bs), d') \<longleftrightarrow>
        len_fits (d_borsh d) (length bs) \<and> True \<and> reads d (len_bytes (d_borsh d) (length bs) @ bs) d'" for bs
      unfolding decode_type.simps if_P [OF True] using "11.prems"
      by (intro counted_law) (auto simp: bytes_law)
    moreover have "decode_type custom (KSlice named sz t) d = (Inr v, d') \<Longrightarrow> \<exists>bs. v = VBytes bs"
      using True by (auto simp: rbind_Inr map_decm_Inr)
    ultimately show ?thesis using True by (cases v) auto
  next
    case False
    have loop: "read_loop (\<lambda>i. wrapr ''[%d]: %w'' [int i] (decode_type custom t)) 0 n d1 = (Inr vs, d') \<longleftrightarrow>
        length vs = n \<and> list_all (typed cvalid (d_borsh d) t) vs \<and> reads d1 (concat (map (enc cenc (d_borsh d) t) vs)) d'"
      if "wf_decoder d1" "d_borsh d1 = d_borsh d" for vs n d1
      by (rule read_loop_prefix_law) (use 11 False that in \<open>simp_all add: wrapr_Inr\<close>)
    have "decode_type custom (KSlice named sz t) d = (Inr (VSlice vs), d') \<longleftrightarrow>
        len_fits (d_borsh d) (length vs) \<and> list_all (typed cvalid (d_borsh d) t) vs \<and>
        reads d (len_bytes (d_borsh d) (length vs) @ concat (map (enc cenc (d_borsh d) t) vs)) d'" for vs
      unfolding decode_type.simps if_not_P [OF False] using "11.prems"
      by (intro counted_law) (auto simp: map_decm_Inr loop many_bytes)
    moreover have "decode_type custom (KSlice named sz t) d = (Inr v, d') \<Longrightarrow> \<exists>vs. v = VSlice vs"
      using False by (auto simp: rbind_Inr map_decm_Inr)
    ultimately show ?thesis using False by (cases v) auto
  qed
next
  case 12
  have "decode_type custom KString d = (Inr (VString bs), d') \<longleftrightarrow>
      len_fits (d_borsh d) (length bs) \<and> True \<and> reads d (len_bytes (d_borsh d) (length bs) @ bs) d'" for bs
    unfolding decode_type.simps using 12
    by (intro counted_law) (auto simp: bytes_law)
  moreover have "decode_type custom KString d = (Inr v, d') \<Longrightarrow> \<exists>bs. v = VString bs"
    by (auto simp: rbind_Inr map_decm_Inr)
  ultimately show ?case by (cases v) auto
next
  case (13 sz t)
  have some: "decode_type custom t d1 = (Inr x, d') \<longleftrightarrow>
      typed cvalid (d_borsh d) t x \<and> reads d1 (enc cenc (d_borsh d) t x) d'" if "reads d bs d1" for bs d1 x
    using 13 reads_frame [OF that] reads_wf [OF that] by simp
  have "decode_type custom (KPointer sz t) d = (Inr v, d') \<longleftrightarrow>
      (\<exists>tag d1. reads d [tag] d1 \<and> (tag = 0 \<and> v = VOption None \<and> d' = d1 \<or>
         tag = 1 \<and> (\<exists>x. v = VOption (Some x) \<and> decode_type custom t d1 = (Inr x, d'))))"
    by (auto simp: rbind_Inr u8.law rreturn_Inr rfail_Inr map_decm_Inr split: if_splits)
  also have "\<dots> \<longleftrightarrow> typed cvalid (d_borsh d) (KPointer sz t) v \<and> reads d (enc cenc (d_borsh d) (KPointer sz t) v) d'"
  proof (cases v)
    case (VOption opt)
    then show ?thesis
      by (cases opt) (auto simp: some reads_Cons [of d 1 "enc _ _ _ _"] cong: conj_cong)
  qed auto
  finally show ?case .
next
  case (19 fname exported tag foff t fs)
  show ?case
  proof (cases "\<not> exported \<or> tag = ''-''")
    case True
    with 19 show ?thesis by auto
  next
    case False
    have tl: "decode_fields custom fs d1 = (Inr us, d') \<longleftrightarrow>
        typed_fields cvalid (d_borsh d) fs us \<and> reads d1 (enc_fields cenc (d_borsh d) fs us) d'" if "reads d bs d1" for bs d1 us
      using 19 False reads_frame [OF that] reads_wf [OF that] by simp
    have hd: "decode_type custom t d = (Inr x, d1) \<longleftrightarrow> typed cvalid (d_borsh d) t x \<and> reads d (enc cenc (d_borsh d) t x) d1" for x d1
      using 19 False by simp
    show ?thesis using False by (cases vs) (auto simp: rbind_Inr rreturn_Inr hd tl reads_append cong: conj_cong)
  qed
next
  case (14 name fds)
  then show ?case by (cases v) (auto simp: map_decm_Inr)
next
  case (15 k byte_kind)
  then show ?case by (cases v) (auto simp: map_decm_Inr custom_law)
qed (simp_all only: leaf_laws typed.simps enc.simps, simp_all add: leaf_valid_def rfail_Inr rreturn_Inr)

end

section \<open>The wide integers of the root package in a plan\<close>

text \<open>
  The root package's \<open>Unmarshaler\<close>s for wide integers, as the \<open>opCallIface\<close> targets 0 to 3.
\<close>

datatype wide = WU128 Uint128 | WI128 Int128 | WU256 Uint256 | WI256 Int256

definition wide_decoder :: "nat \<Rightarrow> wide decm" where
  "wide_decoder k =
     (if k = 0 then map_decm WU128 Uint128_UnmarshalFromDecoder
      else if k = 1 then map_decm WI128 Int128_UnmarshalFromDecoder
      else if k = 2 then map_decm WU256 Uint256_UnmarshalFromDecoder
      else map_decm WI256 Int256_UnmarshalFromDecoder)"

definition wide_enc :: "nat \<Rightarrow> wide \<Rightarrow> bytes" where
  "wide_enc k w = (case w of WU128 u \<Rightarrow> Uint128_enc u | WI128 i \<Rightarrow> Int128_enc i | WU256 u \<Rightarrow> Uint256_enc u | WI256 i \<Rightarrow> Int256_enc i)"

definition wide_valid :: "nat \<Rightarrow> wide \<Rightarrow> bool" where
  "wide_valid k w =
     (case w of WU128 u \<Rightarrow> k = 0
      | WI128 i \<Rightarrow> k = 1 \<and> fits_signed 64 (Int128_Hi i)
      | WU256 u \<Rightarrow> k = 2
      | WI256 i \<Rightarrow> k > 2 \<and> fits_signed 64 (Int128_Hi (Int256_Hi i)))"

lemma wide_law: "wide_decoder k d = (Inr w, d') \<longleftrightarrow> wide_valid k w \<and> reads d (wide_enc k w) d'"
  by (cases w) (auto simp: wide_decoder_def wide_enc_def wide_valid_def map_decm_Inr uint128.law int128.law uint256.law int256.law)

lemma wide_reader: "wire_reader (wide_decoder k)"
  by (simp add: wide_decoder_def wire_reader_map uint128.wire_reader_axioms int128.wire_reader_axioms
      uint256.wire_reader_axioms int256.wire_reader_axioms)

lemma wide_nonempty: "wide_enc k w \<noteq> []"
proof -
  have "Uint128_enc u \<noteq> []" "Int128_enc i \<noteq> []" for u i
    using length_large_enc(1) [of u] length_large_enc(2) [of i] by force+
  then show ?thesis by (simp add: wide_enc_def Uint256_enc_def Int256_enc_def split: wide.splits)
qed

interpretation wide: custom_codecs wide_decoder wide_enc wide_valid
  by (rule custom_codecs.intro) (simp_all add: wide_law wide_nonempty wire_codecI wide_reader)

text \<open>
  C26: a reflective decode succeeds exactly when the input starts with the encoding of a value of the
  type, with the length prefixes of the function called (eight bytes, four for Borsh); it then
  writes the memory image of that value and stops behind its encoding.
\<close>

theorem DecodeTo_wire:
  assumes "cache_ok cache" and "counts_fit t" and "slices_sized t" and "decodable t"
  shows "(fst (BinDecodeTo wide_decoder data (Some t) cache) = (Inr w, d') \<longleftrightarrow>
      (\<exists>v. typed wide_valid False t v \<and> reads (NewDecoder data) (enc wide_enc False t v) d' \<and> w = memory_image t 0 v)) \<and>
    (fst (BorshDecodeTo wide_decoder data (Some t) cache) = (Inr w, d') \<longleftrightarrow>
      (\<exists>v. typed wide_valid True t v \<and> reads (UseBorsh (NewDecoder data)) (enc wide_enc True t v) d' \<and> w = memory_image t 0 v))"
proof -
  have law: "fst (DecodeTo wide_decoder (Some t) cache d) = (Inr w, d') \<longleftrightarrow>
      (\<exists>v. typed wide_valid (d_borsh d) t v \<and> reads d (enc wide_enc (d_borsh d) t v) d' \<and> w = memory_image t 0 v)"
    if "wf_decoder d" for d
    using assms(4) wide.decode_law(1) [OF assms(3) that]
    by (auto simp: DecodeTo_refines [OF assms(1,2)] map_decm_Inr)
  show ?thesis
    using law [of "NewDecoder data"] law [of "UseBorsh (NewDecoder data)"]
    by (simp add: BinDecodeTo_def BorshDecodeTo_def UseBorsh_def NewDecoder_def wf_decoder_def)
qed

definition sample_type :: gotype where
  "sample_type = KStruct ''Layout''
     [(''Tag'', True, '''', 0, KUint8), (''cache'', False, '''', 8, KOther ''map''), (''Supply'', True, '''', 16, KCustom 0 False),
      (''Keys'', True, '''', 32, KSlice False 2 (KArray 2 1 KUint8)), (''Limit'', True, '''', 56, KPointer 2 KUint16)]"

definition sample_value :: "wide goval" where
  "sample_value = VStruct [VU8 7, VCustom (WU128 \<lparr>Uint128_Lo = 5, Uint128_Hi = 0\<rparr>),
     VSlice [VFixed [1, 2], VFixed [3, 4]], VOption (Some (VU16 9))]"

theorem DecodeTo_refines_witness:
  "fst (DecodeTo wide_decoder (Some sample_type) Map.empty (NewDecoder [7])) =
     map_decm (memory_image sample_type 0) (decode_type wide_decoder sample_type) (NewDecoder [7])"
  using DecodeTo_refines [of Map.empty sample_type wide_decoder "NewDecoder [7]"] by (simp add: sample_type_def is_uint8_def)

theorem DecodeTo_wire_witness:
  "\<exists>d'. fst (BorshDecodeTo wide_decoder (enc wide_enc True sample_type sample_value @ [1, 2]) (Some sample_type) Map.empty) =
     (Inr (memory_image sample_type 0 sample_value), d')"
proof -
  let ?data = "enc wide_enc True sample_type sample_value @ [1, 2]"
  have "reads (UseBorsh (NewDecoder ?data)) (enc wide_enc True sample_type sample_value)
      ((UseBorsh (NewDecoder ?data))\<lparr>d_pos := length (enc wide_enc True sample_type sample_value)\<rparr>)" (is "reads _ _ ?d")
    by (simp add: reads_def UseBorsh_def NewDecoder_def)
  moreover have "typed wide_valid True sample_type sample_value"
    by (simp add: sample_type_def sample_value_def is_uint8_def leaf_valid_def wide_valid_def len_fits_def)
  moreover have "counts_fit sample_type \<and> slices_sized sample_type \<and> decodable sample_type"
    by (simp add: sample_type_def is_uint8_def)
  ultimately show ?thesis
    using DecodeTo_wire [of Map.empty sample_type ?data "memory_image sample_type 0 sample_value" ?d] by auto
qed

section \<open>Boundary behaviour\<close>

text \<open>
  The length of an array type is cut to 32 bits when it is compiled: an array of two to the 32
  bytes reads nothing.
\<close>

lemma array_count_truncated:
  "fst (DecodeTo custom (Some (KArray (2 ^ 32) 1 KUint8)) Map.empty (NewDecoder [])) = (Inr [(0, CFixed [])], NewDecoder [])"
  by (simp add: DecodeTo_plan [OF cache_ok_empty] compileDecodePlan_def is_uint8_def ReadBytes_def map_decm_def rbind_def rreturn_def
      Remaining_def NewDecoder_def)

text \<open>
  The bound on the length of a slice counts one byte for each element: three elements of a type
  without wire fields take no bytes after the length, and are refused at the end of the input.
\<close>

lemma empty_elements_refused:
  "\<exists>e. fst (BorshDecodeTo custom [3, 0, 0, 0] (Some (KSlice False 0 (KStruct ''Unit'' []))) Map.empty) =
     (Inl e, \<lparr>d_buf = [3, 0, 0, 0], d_pos = 4, d_borsh = True\<rparr>)"
  by (simp add: BorshDecodeTo_def DecodeTo_plan [OF cache_ok_empty] compileDecodePlan_def is_uint8_def readLen_def check_len_def
      map_decm_def rbind_def rreturn_def Remaining_def NewDecoder_def UseBorsh_def ReadUint32_def)

text \<open>A slice or array of a byte-kind type is read as raw bytes even when the type has its own decoder.\<close>

lemma byte_kind_bypasses_decoder:
  "compileDecodePlan (KSlice True 1 (KCustom k True)) = Inr [opByteSlice 0 False]"
  "compileDecodePlan (KArray n 1 (KCustom k True)) = Inr [opFixedBytes 0 (of_nat n)]"
  by (simp_all add: compileDecodePlan_def is_uint8_def)

end
