(* ===== verification/Decode_Plan_Memory.thy ===== *)
theory Decode_Plan_Memory
  imports Decode_Plan_Laws
begin

text \<open>
  Memory safety of the reflective decoder.  \<open>execDecodeOp\<close> writes through \<open>unsafe\<close> pointers at
  offsets fixed when the type was compiled; under Go's layout of the type every write of a
  successful decode lies inside the object it is meant for.
\<close>

section \<open>Sizes\<close>

text \<open>The bytes a cell occupies on a 64-bit platform; the size of a custom value is a parameter.\<close>

fun cell_size :: "('c \<Rightarrow> nat) \<Rightarrow> 'c cell \<Rightarrow> nat" where
  "cell_size cs (CU8 v) = 1"
| "cell_size cs (CU16 v) = 2"
| "cell_size cs (CU32 v) = 4"
| "cell_size cs (CU64 v) = 8"
| "cell_size cs (CI8 v) = 1"
| "cell_size cs (CI16 v) = 2"
| "cell_size cs (CI32 v) = 4"
| "cell_size cs (CI64 v) = 8"
| "cell_size cs (CBool v) = 1"
| "cell_size cs (CFixed bs) = length bs"
| "cell_size cs (CBytes bs) = 24"
| "cell_size cs (CSlice n sz ws) = 24"
| "cell_size cs (CString bs) = 16"
| "cell_size cs (CPointer p) = 8"
| "cell_size cs (CCustom x) = cs x"

text \<open>All writes fall inside an object of \<open>n\<close> bytes, those to the objects behind slices and pointers inside these.\<close>

fun writes_within :: "('c \<Rightarrow> nat) \<Rightarrow> nat \<Rightarrow> 'c writes \<Rightarrow> bool"
and cell_within :: "('c \<Rightarrow> nat) \<Rightarrow> 'c cell \<Rightarrow> bool" where
  "writes_within cs n [] \<longleftrightarrow> True"
| "writes_within cs n ((off, c) # ws) \<longleftrightarrow> off + cell_size cs c \<le> n \<and> cell_within cs c \<and> writes_within cs n ws"
| "cell_within cs (CSlice k sz ws) \<longleftrightarrow> writes_within cs (k * sz) ws"
| "cell_within cs (CPointer (Some (sz, ws))) \<longleftrightarrow> writes_within cs sz ws"
| "cell_within cs c \<longleftrightarrow> True"

lemma writes_within_iff:
  "writes_within cs n ws \<longleftrightarrow> (\<forall>(off, c) \<in> set ws. off + cell_size cs c \<le> n \<and> cell_within cs c)"
  by (induction ws) auto

text \<open>
  Go's layout: an object of \<open>s\<close> bytes holds a value of the type, every field inside its struct and
  every element inside its array; \<open>ks\<close> gives the sizes of the types with their own decoder.
\<close>

fun holds :: "(nat \<Rightarrow> nat) \<Rightarrow> nat \<Rightarrow> gotype \<Rightarrow> bool"
and holds_fields :: "(nat \<Rightarrow> nat) \<Rightarrow> nat \<Rightarrow> (string \<times> bool \<times> string \<times> nat \<times> gotype) list \<Rightarrow> bool" where
  "holds ks s KUint8 \<longleftrightarrow> 1 \<le> s"
| "holds ks s KUint16 \<longleftrightarrow> 2 \<le> s"
| "holds ks s KUint32 \<longleftrightarrow> 4 \<le> s"
| "holds ks s KUint64 \<longleftrightarrow> 8 \<le> s"
| "holds ks s KInt8 \<longleftrightarrow> 1 \<le> s"
| "holds ks s KInt16 \<longleftrightarrow> 2 \<le> s"
| "holds ks s KInt32 \<longleftrightarrow> 4 \<le> s"
| "holds ks s KInt64 \<longleftrightarrow> 8 \<le> s"
| "holds ks s KBool \<longleftrightarrow> 1 \<le> s"
| "holds ks s (KArray n sz t) \<longleftrightarrow> n * sz \<le> s \<and> (is_uint8 t \<longrightarrow> sz = 1) \<and> holds ks sz t"
| "holds ks s (KSlice named sz t) \<longleftrightarrow> 24 \<le> s \<and> holds ks sz t"
| "holds ks s KString \<longleftrightarrow> 16 \<le> s"
| "holds ks s (KPointer sz t) \<longleftrightarrow> 8 \<le> s \<and> holds ks sz t"
| "holds ks s (KStruct name fds) \<longleftrightarrow> holds_fields ks s fds"
| "holds ks s (KCustom k byte_kind) \<longleftrightarrow> ks k \<le> s"
| "holds ks s t \<longleftrightarrow> True"
| "holds_fields ks s [] \<longleftrightarrow> True"
| "holds_fields ks s ((fname, exported, tag, foff, t) # fs) \<longleftrightarrow> foff \<le> s \<and> holds ks (s - foff) t \<and> holds_fields ks s fs"

section \<open>Writes stay inside\<close>

locale custom_layout = custom_codecs custom cenc cvalid
  for custom :: "nat \<Rightarrow> 'c decm" and cenc :: "nat \<Rightarrow> 'c \<Rightarrow> bytes" and cvalid :: "nat \<Rightarrow> 'c \<Rightarrow> bool" +
  fixes ksize :: "nat \<Rightarrow> nat" and csize :: "'c \<Rightarrow> nat"
  assumes size: "cvalid k x \<Longrightarrow> csize x = ksize k"
begin

lemma concat_image_within:
  assumes "(at, c) \<in> set (concat_image (\<lambda>i. f (off + i * sz)) 0 vs)"
    and "\<And>base v. v \<in> set vs \<Longrightarrow> (at, c) \<in> set (f base v) \<Longrightarrow> base \<le> at \<and> at + cell_size csize c \<le> base + sz \<and> cell_within csize c"
  shows "off \<le> at \<and> at + cell_size csize c \<le> off + length vs * sz \<and> cell_within csize c"
proof -
  from assms(1) obtain i where i: "i < length vs" and w: "(at, c) \<in> set (f (off + i * sz) (vs ! i))"
    by (auto simp: concat_image_def in_set_enumerate_eq)
  then have "off + i * sz \<le> at \<and> at + cell_size csize c \<le> off + i * sz + sz \<and> cell_within csize c"
    using assms(2) [OF nth_mem [OF i] w] by simp
  moreover have "i * sz + sz \<le> length vs * sz" using i mult_le_mono1 [of "Suc i" "length vs" sz] by simp
  ultimately show ?thesis by linarith
qed

lemma leaf_within:
  "holds ksize s t \<Longrightarrow> leaf_valid t v \<Longrightarrow> (at, c) \<in> set (leaf off v) \<Longrightarrow>
     off \<le> at \<and> at + cell_size csize c \<le> off + s \<and> cell_within csize c"
  by (cases t; simp add: leaf_valid_def; cases v; simp add: leaf_def)

lemma image_within:
  "holds ksize s t \<Longrightarrow> typed cvalid b t v \<Longrightarrow> (at, c) \<in> set (memory_image t off v) \<Longrightarrow>
     off \<le> at \<and> at + cell_size csize c \<le> off + s \<and> cell_within csize c"
  "holds_fields ksize s fds \<Longrightarrow> typed_fields cvalid b fds vs \<Longrightarrow> (at, c) \<in> set (image_fields fds off vs) \<Longrightarrow>
     off \<le> at \<and> at + cell_size csize c \<le> off + s \<and> cell_within csize c"
proof (induction ks\<equiv>ksize s t and ks\<equiv>ksize s fds arbitrary: v at c off and vs off at c rule: holds_holds_fields.induct)
  case (10 s n sz t)
  show ?case
  proof (cases v)
    case (VFixed bs)
    with 10 show ?thesis by (auto simp: leaf_def)
  next
    case (VArray vs)
    have "off \<le> at \<and> at + cell_size csize c \<le> off + length vs * sz \<and> cell_within csize c"
      by (rule concat_image_within [where f = "memory_image t"]) (use 10 VArray in \<open>auto simp: list_all_iff\<close>)
    with 10 VArray show ?thesis by auto
  qed (use 10 in auto)
next
  case (11 s named sz t)
  show ?case
  proof (cases v)
    case (VSlice vs)
    have "0 \<le> a \<and> a + cell_size csize x \<le> 0 + length vs * sz \<and> cell_within csize x"
      if "(a, x) \<in> set (concat_image (\<lambda>i. memory_image t (i * sz)) 0 vs)" for a x
      by (rule concat_image_within [where f = "memory_image t"]) (use 11 VSlice that in \<open>auto simp: list_all_iff\<close>)
    then show ?thesis using 11 VSlice by (auto simp: writes_within_iff)
  qed (use 11 in \<open>auto simp: leaf_def\<close>)
next
  case (13 s sz t)
  show ?case
  proof (cases v)
    case (VOption opt)
    have "writes_within csize sz (memory_image t 0 x)" if "opt = Some x" for x
      using 13 VOption that by (fastforce simp: writes_within_iff)
    then show ?thesis using 13 VOption by (cases opt) auto
  qed (use 13 in auto)
next
  case (12 s)
  then show ?case by (cases v) (auto simp: leaf_def)
next
  case (15 s k byte_kind)
  then show ?case by (cases v) (auto simp: leaf_def size)
next
  case (14 s name fds)
  then show ?case by (cases v) auto
next
  case (18 s fname exported tag foff t fs)
  show ?case
  proof (cases "\<not> exported \<or> tag = ''-''")
    case True
    with 18 show ?thesis by auto
  next
    case False
    then obtain x xs where vs: "vs = x # xs" using 18 by (cases vs) auto
    then consider "(at, c) \<in> set (memory_image t (off + foff) x)" | "(at, c) \<in> set (image_fields fs off xs)"
      using 18 False by auto
    then show ?thesis
    proof cases
      case 1
      have "off + foff \<le> at \<and> at + cell_size csize c \<le> off + foff + (s - foff) \<and> cell_within csize c"
        by (rule "18.hyps"(1)) (use 18 False vs 1 in auto)
      then show ?thesis using 18 by auto
    next
      case 2
      show ?thesis by (rule "18.hyps"(2)) (use 18 False vs 2 in auto)
    qed
  qed
qed (simp_all only: typed.simps memory_image.simps leaf_within typed_fields.simps image_fields.simps list.set empty_iff)

end

definition wide_size :: "wide \<Rightarrow> nat" where
  "wide_size w = (case w of WU128 u \<Rightarrow> 16 | WI128 i \<Rightarrow> 16 | WU256 u \<Rightarrow> 32 | WI256 i \<Rightarrow> 32)"

definition wide_type_size :: "nat \<Rightarrow> nat" where
  "wide_type_size k = (if k \<le> 1 then 16 else 32)"

interpretation wide: custom_layout wide_decoder wide_enc wide_valid wide_type_size wide_size
  by unfold_locales (auto simp: wide_valid_def wide_size_def wide_type_size_def split: wide.splits)

text \<open>
  C28: memory safety of a reflective decode.  When an object of \<open>s\<close> bytes holds the type under Go's
  layout, every write of a successful decode into it lies inside its bytes, and every write behind
  a slice or pointer lies inside the memory allocated for it.
\<close>

theorem DecodeTo_writes_inside:
  assumes "cache_ok cache" and "counts_fit t" and "slices_sized t" and "holds wide_type_size s t"
    and "wf_decoder d" and "fst (DecodeTo wide_decoder (Some t) cache d) = (Inr ws, d')"
  shows "writes_within wide_size s ws"
proof -
  obtain v where "decode_type wide_decoder t d = (Inr v, d')" and ws: "ws = memory_image t 0 v"
    using assms(6) by (auto simp: DecodeTo_refines [OF assms(1,2)] map_decm_Inr split: if_splits)
  then have "typed wide_valid (d_borsh d) t v" using wide.decode_law(1) [OF assms(3,5)] by simp
  then show ?thesis using wide.image_within(1) [OF assms(4), of _ v _ _ 0] by (fastforce simp: ws writes_within_iff)
qed

theorem DecodeTo_writes_inside_witness:
  "writes_within wide_size 24 [(0, CU8 7), (8, CPointer (Some (1, [(0, CBool True)]))), (16, CI8 (- 1))]"
proof -
  let ?t = "KStruct ''P'' [(''A'', True, '''', 0, KUint8), (''B'', True, '''', 8, KPointer 1 KBool), (''C'', True, '''', 16, KInt8)]"
  have "fst (DecodeTo wide_decoder (Some ?t) Map.empty (NewDecoder [7, 1, 1, 255])) =
      (Inr [(0, CU8 7), (8, CPointer (Some (1, [(0, CBool True)]))), (16, CI8 (- 1))], \<lparr>d_buf = [7, 1, 1, 255], d_pos = 4, d_borsh = False\<rparr>)"
    by (simp add: DecodeTo_plan(1) [OF cache_ok_empty] compileDecodePlan_def NewDecoder_def ReadUint8_def Remaining_def
        map_decm_def rbind_def rreturn_def)
  then show ?thesis
    using DecodeTo_writes_inside [of Map.empty ?t 24 "NewDecoder [7, 1, 1, 255]"] by simp
qed

end
