(* ===== verification/Base64.thy ===== *)
theory Base64
  imports Prelude
begin

text \<open>
  Standard base64 as \<open>encoding/base64\<close> has it (\<open>StdEncoding\<close>): padded groups of four
  characters; the decoder skips line breaks and rejects anything else outside the alphabet.
\<close>

section \<open>Encoding and decoding\<close>

definition b64_char :: "nat \<Rightarrow> char" where
  "b64_char n = char_of (if n < 26 then n + 65 else if n < 52 then n + 71 else if n < 62 then n - 4 else if n = 62 then 43 else 47)"

definition b64_index :: "char \<Rightarrow> nat option" where
  "b64_index c =
     (let n = of_char c
      in if 65 \<le> n \<and> n \<le> 90 then Some (n - 65)
         else if 97 \<le> n \<and> n \<le> 122 then Some (n - 71)
         else if 48 \<le> n \<and> n \<le> 57 then Some (n + 4)
         else if n = 43 then Some 62
         else if n = 47 then Some 63 else None)"

fun base64_EncodeToString :: "bytes \<Rightarrow> string" where
  "base64_EncodeToString [] = []"
| "base64_EncodeToString [a] = [b64_char (unat a div 4), b64_char (unat a mod 4 * 16), CHR ''='', CHR ''='']"
| "base64_EncodeToString [a, b] =
     [b64_char (unat a div 4), b64_char (unat a mod 4 * 16 + unat b div 16), b64_char (unat b mod 16 * 4), CHR ''='']"
| "base64_EncodeToString (a # b # c # r) =
     b64_char (unat a div 4) # b64_char (unat a mod 4 * 16 + unat b div 16) #
     b64_char (unat b mod 16 * 4 + unat c div 64) # b64_char (unat c mod 64) # base64_EncodeToString r"

definition first_byte :: "nat \<Rightarrow> nat \<Rightarrow> byte" where "first_byte i j = of_nat (i * 4 + j div 16)"
definition second_byte :: "nat \<Rightarrow> nat \<Rightarrow> byte" where "second_byte j k = of_nat (j mod 16 * 16 + k div 4)"
definition third_byte :: "nat \<Rightarrow> nat \<Rightarrow> byte" where "third_byte k l = of_nat (k mod 4 * 64 + l)"

fun decode_quanta :: "string \<Rightarrow> bytes option" where
  "decode_quanta [] = Some []"
| "decode_quanta (c0 # c1 # c2 # c3 # rest) =
     (case (b64_index c0, b64_index c1) of
        (Some i, Some j) \<Rightarrow>
          if c2 = CHR ''='' then (if c3 = CHR ''='' \<and> rest = [] then Some [first_byte i j] else None)
          else (case b64_index c2 of
                  None \<Rightarrow> None
                | Some k \<Rightarrow>
                    if c3 = CHR ''='' then (if rest = [] then Some [first_byte i j, second_byte j k] else None)
                    else (case b64_index c3 of
                            None \<Rightarrow> None
                          | Some l \<Rightarrow> map_option (\<lambda>bs. first_byte i j # second_byte j k # third_byte k l # bs) (decode_quanta rest)))
      | _ \<Rightarrow> None)"
| "decode_quanta _ = None"

definition is_break :: "char \<Rightarrow> bool" where
  "is_break c \<longleftrightarrow> of_char c = (10 :: nat) \<or> of_char c = (13 :: nat)"

definition base64_DecodeString :: "string \<Rightarrow> bytes option" where
  "base64_DecodeString s = decode_quanta (filter (\<lambda>c. \<not> is_break c) s)"

section \<open>Laws\<close>

lemma b64_index_char: "n < 64 \<Longrightarrow> b64_index (b64_char n) = Some n"
  by (auto simp: b64_index_def b64_char_def Let_def)

lemma b64_char_plain: "n < 64 \<Longrightarrow> b64_char n \<noteq> CHR ''='' \<and> \<not> is_break (b64_char n)"
proof -
  assume "n < 64"
  then have "b64_index (b64_char n) \<noteq> None" by (simp add: b64_index_char)
  moreover have "b64_index (CHR ''='') = None" by (simp add: b64_index_def)
  moreover have "is_break c \<Longrightarrow> b64_index c = None" for c by (auto simp: is_break_def b64_index_def)
  ultimately show ?thesis by metis
qed

lemma byte_lt: "unat (a :: byte) < 256"
  using unsigned_less [where ?'a = nat, of a] by simp

lemma sextets:
  "unat (a :: byte) div 4 < 64" "unat a mod 4 * 16 < 64" "unat a mod 4 * 16 + unat (b :: byte) div 16 < 64"
  "unat b mod 16 * 4 < 64" "unat b mod 16 * 4 + unat (c :: byte) div 64 < 64" "unat c mod 64 < 64"
  using byte_lt [of a] byte_lt [of b] byte_lt [of c] by (auto simp: div_less_iff_less_mult)

lemma bytes_back:
  "first_byte (unat a div 4) (unat a mod 4 * 16) = a"
  "first_byte (unat a div 4) (unat a mod 4 * 16 + unat b div 16) = a"
  "second_byte (unat a mod 4 * 16 + unat b div 16) (unat b mod 16 * 4) = b"
  "second_byte (unat a mod 4 * 16 + unat b div 16) (unat b mod 16 * 4 + unat c div 64) = b"
  "third_byte (unat b mod 16 * 4 + unat c div 64) (unat c mod 64) = (c :: byte)"
proof -
  have "unat b div 16 < 16" "unat c div 64 < 4" using byte_lt [of b] byte_lt [of c] by (auto simp: div_less_iff_less_mult)
  then show "first_byte (unat a div 4) (unat a mod 4 * 16) = a"
    "first_byte (unat a div 4) (unat a mod 4 * 16 + unat b div 16) = a"
    "second_byte (unat a mod 4 * 16 + unat b div 16) (unat b mod 16 * 4) = b"
    "second_byte (unat a mod 4 * 16 + unat b div 16) (unat b mod 16 * 4 + unat c div 64) = b"
    "third_byte (unat b mod 16 * 4 + unat c div 64) (unat c mod 64) = (c :: byte)"
    by (simp_all add: first_byte_def second_byte_def third_byte_def)
qed

lemma decode_quanta_encode: "decode_quanta (base64_EncodeToString b) = Some b"
  by (induction b rule: base64_EncodeToString.induct)
     (simp_all add: b64_index_char b64_char_plain sextets bytes_back)

lemma encode_no_breaks: "filter (\<lambda>c. \<not> is_break c) (base64_EncodeToString b) = base64_EncodeToString b"
  by (induction b rule: base64_EncodeToString.induct) (simp_all add: b64_char_plain sextets, simp_all add: is_break_def)

theorem base64_roundtrip: "base64_DecodeString (base64_EncodeToString b) = Some b"
  by (simp add: base64_DecodeString_def encode_no_breaks decode_quanta_encode)

lemma base64_EncodeToString_Nil [simp]: "base64_EncodeToString b = [] \<longleftrightarrow> b = []"
  by (cases b rule: base64_EncodeToString.cases) auto

end
