(* ===== verification/Rpc_Data.thy ===== *)
theory Rpc_Data
  imports Base64 Rpc_Send Transaction_Laws
begin

text \<open>
  JSON forms of binary data in RPC answers: \<open>EncodedData\<close> (\<open>account_info.go\<close>), \<open>Base58Data\<close>
  (\<open>base58data.go\<close>), message versions, index slices, messages and transactions (\<open>message.go\<close>,
  \<open>transaction.go\<close>), raw JSON (\<open>jsonrpc/rawjson.go\<close>), and the option constants of \<open>options.go\<close>.
  Parameters: the JSON reader and writer of \<open>encoding/json\<close> as functions between text and values,
  the base58 codec, and the zstd codec.
\<close>

section \<open>Options\<close>

type_synonym CommitmentLevel = string
type_synonym Encoding = string

definition CommitmentProcessed :: CommitmentLevel where "CommitmentProcessed = ''processed''"
definition CommitmentConfirmed :: CommitmentLevel where "CommitmentConfirmed = ''confirmed''"
definition CommitmentFinalized :: CommitmentLevel where "CommitmentFinalized = ''finalized''"

definition EncodingJSONParsed :: Encoding where "EncodingJSONParsed = ''jsonParsed''"
definition EncodingJSON :: Encoding where "EncodingJSON = ''json''"
definition EncodingBase58 :: Encoding where "EncodingBase58 = ''base58''"
definition EncodingBase64 :: Encoding where "EncodingBase64 = ''base64''"
definition EncodingBase64ZSTD :: Encoding where "EncodingBase64ZSTD = ''base64+zstd''"

type_synonym TxDetailLevel = string
type_synonym CirculateFilter = string

definition TxDetailLevelNone :: TxDetailLevel where "TxDetailLevelNone = ''none''"
definition TxDetailLevelFull :: TxDetailLevel where "TxDetailLevelFull = ''full''"
definition TxDetailLevelAccounts :: TxDetailLevel where "TxDetailLevelAccounts = ''accounts''"
definition TxDetailLevelSignatures :: TxDetailLevel where "TxDetailLevelSignatures = ''signatures''"

definition FilterCirculating :: CirculateFilter where "FilterCirculating = ''circulating''"
definition FilterNonCirculating :: CirculateFilter where "FilterNonCirculating = ''nonCirculating''"

lemmas encoding_defs = EncodingJSONParsed_def EncodingJSON_def EncodingBase58_def EncodingBase64_def EncodingBase64ZSTD_def

section \<open>Encoded data\<close>

type_synonym json_reader = "string \<Rightarrow> jv result"
type_synonym json_writer = "jv \<Rightarrow> string"

record EncodedData =
  ed_Bytes :: bytes
  ed_Encoding :: Encoding

record AccountInfo =
  ai_Lamports :: u64
  ai_Owner :: PublicKey
  ai_Data :: EncodedData
  ai_Executable :: bool
  ai_RentEpoch :: u64
  ai_Space :: u64

definition ai_Bytes :: "AccountInfo \<Rightarrow> bytes" where
  "ai_Bytes a = ed_Bytes (ai_Data a)"

text \<open>
  \<open>json.Unmarshal\<close> into a \<open>[2]string\<close>: \<open>null\<close> leaves the array or the element alone, missing
  elements are zero, further elements are dropped, another type is an error.
\<close>

definition json_string :: "jv \<Rightarrow> string option" where
  "json_string v = (case v of JStr s \<Rightarrow> Some s | JNull \<Rightarrow> Some [] | _ \<Rightarrow> None)"

definition json_pair :: "jv \<Rightarrow> (string \<times> string) option" where
  "json_pair v =
     (case v of
        JNull \<Rightarrow> Some ([], [])
      | JArr vs \<Rightarrow>
          (case (if length vs > 0 then json_string (vs ! 0) else Some [], if length vs > 1 then json_string (vs ! 1) else Some []) of
             (Some a, Some b) \<Rightarrow> Some (a, b)
           | _ \<Rightarrow> None)
      | _ \<Rightarrow> None)"

text \<open>What a value of the tuple decodes to under its encoding, when it is not empty.\<close>

definition decode_payload :: "b58decoder \<Rightarrow> (bytes \<Rightarrow> bytes option) \<Rightarrow> Encoding \<Rightarrow> string \<Rightarrow> bytes result" where
  "decode_payload b58dec unzstd enc v =
     (if enc = EncodingBase64 then
        (case base64_DecodeString v of None \<Rightarrow> Inl (Errorf ''solana: EncodedData: base64 decode: %w'' []) | Some b \<Rightarrow> Inr b)
      else if enc = EncodingBase58 then
        (case b58dec v of None \<Rightarrow> Inl (Errorf ''solana: EncodedData: base58 decode: %w'' []) | Some b \<Rightarrow> Inr b)
      else if enc = EncodingBase64ZSTD then
        (case base64_DecodeString v of
           None \<Rightarrow> Inl (Errorf ''solana: EncodedData: base64 decode: %w'' [])
         | Some compressed \<Rightarrow>
             (case unzstd compressed of
                None \<Rightarrow> Inl (Errorf ''solana: EncodedData: zstd decompress: %w'' [])
              | Some out \<Rightarrow> Inr out))
      else if enc = EncodingJSONParsed \<or> enc = EncodingJSON
      then Inl (Errorf ''solana: EncodedData: encoding %q is a parsed object, not raw bytes'' [])
      else Inl (Errorf ''solana: EncodedData: unknown encoding %q'' []))"

definition EncodedData_UnmarshalJSON ::
  "json_reader \<Rightarrow> b58decoder \<Rightarrow> (bytes \<Rightarrow> bytes option) \<Rightarrow> string \<Rightarrow> EncodedData \<Rightarrow> go_error option \<times> EncodedData" where
  "EncodedData_UnmarshalJSON json b58dec unzstd data d =
     (case json data of
        Inl e \<Rightarrow> (Some (Wrapf ''solana: EncodedData: %w'' [] e), d)
      | Inr v \<Rightarrow>
          (case json_pair v of
             None \<Rightarrow> (Some (Wrapf ''solana: EncodedData: %w'' [] (Errorf ''json: cannot unmarshal into Go value of type [2]string'' [])), d)
           | Some (val, enc) \<Rightarrow>
               let d = d\<lparr>ed_Encoding := enc\<rparr>
               in if val = [] then (None, d\<lparr>ed_Bytes := []\<rparr>)
                  else case decode_payload b58dec unzstd enc val of
                         Inl e \<Rightarrow> (Some e, d)
                       | Inr b \<Rightarrow> (None, d\<lparr>ed_Bytes := b\<rparr>)))"

definition EncodedData_MarshalJSON ::
  "json_writer \<Rightarrow> b58encoder \<Rightarrow> (bytes \<Rightarrow> bytes) \<Rightarrow> EncodedData \<Rightarrow> string result" where
  "EncodedData_MarshalJSON wr b58enc zstd d =
     (let enc = ed_Encoding d; tuple = (\<lambda>v. Inr (wr (JArr [JStr v, JStr enc]))) in
      if enc = EncodingBase64 then tuple (base64_EncodeToString (ed_Bytes d))
      else if enc = EncodingBase58 then tuple (b58enc (ed_Bytes d))
      else if enc = EncodingBase64ZSTD then tuple (base64_EncodeToString (zstd (ed_Bytes d)))
      else if enc = EncodingJSONParsed \<or> enc = EncodingJSON
      then Inl (Errorf ''solana: EncodedData: encoding %q has no raw-bytes form'' [])
      else if enc = [] then Inl (Errorf ''solana: EncodedData: empty Encoding'' [])
      else Inl (Errorf ''solana: EncodedData: unknown encoding %q'' []))"

section \<open>Messages and transactions\<close>

definition unmarshal_encoded ::
  "json_reader \<Rightarrow> b58decoder \<Rightarrow> (bytes \<Rightarrow> bytes option) \<Rightarrow> string \<Rightarrow> (bytes \<Rightarrow> 'a result) \<Rightarrow> string \<Rightarrow> 'a unmarshal" where
  "unmarshal_encoded json b58dec unzstd label unmarshal data x =
     (if data = ''null'' then (None, x)
      else case EncodedData_UnmarshalJSON json b58dec unzstd data \<lparr>ed_Bytes = [], ed_Encoding = []\<rparr> of
             (Some e, d) \<Rightarrow> (Some (Wrapf (''solana: '' @ label @ '': %w'') [] e), x)
           | (None, d) \<Rightarrow> if ed_Bytes d = [] then (None, x) else store (unmarshal (ed_Bytes d)) x)"

definition Transaction_UnmarshalJSON ::
  "json_reader \<Rightarrow> b58decoder \<Rightarrow> (bytes \<Rightarrow> bytes option) \<Rightarrow> string \<Rightarrow> Transaction unmarshal" where
  "Transaction_UnmarshalJSON json b58dec unzstd = unmarshal_encoded json b58dec unzstd ''Transaction'' tx_UnmarshalBinary"

definition Message_UnmarshalJSON ::
  "json_reader \<Rightarrow> b58decoder \<Rightarrow> (bytes \<Rightarrow> bytes option) \<Rightarrow> string \<Rightarrow> Message unmarshal" where
  "Message_UnmarshalJSON json b58dec unzstd = unmarshal_encoded json b58dec unzstd ''Message'' UnmarshalBinary"

text \<open>\<open>strconv.ParseUint(s, 10, 8)\<close>\<close>

definition ParseUint8 :: "string \<Rightarrow> nat option" where
  "ParseUint8 s = (if s = [] \<or> \<not> list_all is_digit s \<or> decimal s \<ge> 2 ^ 8 then None else Some (decimal s))"

definition MessageVersion_UnmarshalJSON :: "string \<Rightarrow> MessageVersion unmarshal" where
  "MessageVersion_UnmarshalJSON s v =
     (if s = ''null'' \<or> s = [CHR 0x22, CHR 0x22] \<or> s = CHR 0x22 # ''legacy'' @ [CHR 0x22] then (None, MessageVersionLegacy)
      else case ParseUint8 s of
             None \<Rightarrow> (Some (Errorf ''solana: MessageVersion: %w'' []), v)
           | Some n \<Rightarrow> (None, of_nat n))"

definition MessageVersion_MarshalJSON :: "MessageVersion \<Rightarrow> string" where
  "MessageVersion_MarshalJSON v =
     (if v = MessageVersionLegacy then CHR 0x22 # ''legacy'' @ [CHR 0x22] else digits (unat v))"

text \<open>\<open>json.Marshal\<close> of a slice of numbers.\<close>

fun comma_join :: "string list \<Rightarrow> string" where
  "comma_join [] = []"
| "comma_join [s] = s"
| "comma_join (s # t # r) = s @ CHR '','' # comma_join (t # r)"

definition Uint8Slice_MarshalJSON :: "bytes \<Rightarrow> string" where
  "Uint8Slice_MarshalJSON u8s =
     (let out = map (\<lambda>idx. ucast idx :: u16) u8s
      in CHR ''['' # comma_join (map (\<lambda>w. digits (unat w)) out) @ [CHR '']''])"

section \<open>Base58 data and raw JSON\<close>

definition Base58Data_MarshalJSON :: "b58encoder \<Rightarrow> bytes \<Rightarrow> string" where
  "Base58Data_MarshalJSON b58enc t = jsonQuote (b58enc t)"

definition Base58Data_UnmarshalJSON :: "b58decoder \<Rightarrow> string \<Rightarrow> bytes unmarshal" where
  "Base58Data_UnmarshalJSON b58dec data t =
     (if isJSONNull data then (None, [])
      else case unquoteJSONString data of
             Inl e \<Rightarrow> (Some (Wrapf ''solana: Base58Data: %w'' [] e), t)
           | Inr s \<Rightarrow>
               if s = [] then (None, [])
               else case b58dec s of
                      None \<Rightarrow> (Some (Errorf ''solana: Base58Data: %w'' []), t)
                    | Some decoded \<Rightarrow> (None, decoded))"

definition Base58Data_String :: "b58encoder \<Rightarrow> bytes \<Rightarrow> string" where
  "Base58Data_String b58enc t = b58enc t"

definition Base58Data_Base58 :: "b58encoder \<Rightarrow> bytes \<Rightarrow> string" where
  "Base58Data_Base58 b58enc t = b58enc t"

definition hex_digit :: "nat \<Rightarrow> char" where
  "hex_digit n = char_of (if n < 10 then 48 + n else 87 + n)"

definition Base58Data_Hex :: "bytes \<Rightarrow> string" where
  "Base58Data_Hex t = concat (map (\<lambda>b. [hex_digit (unat b div 16), hex_digit (unat b mod 16)]) t)"

definition RawJSON_MarshalJSON :: "string \<Rightarrow> string" where
  "RawJSON_MarshalJSON r = (if r = [] then ''null'' else r)"

text \<open>\<open>None\<close> is a nil receiver.\<close>

definition RawJSON_UnmarshalJSON :: "string option \<Rightarrow> string \<Rightarrow> go_error option \<times> string option" where
  "RawJSON_UnmarshalJSON r data =
     (case r of
        None \<Rightarrow> (Some (Errorf ''rpc: RawJSON: nil receiver'' []), None)
      | Some old \<Rightarrow> (None, Some (take 0 old @ data)))"

definition RawJSON_String :: "string \<Rightarrow> string" where
  "RawJSON_String r = r"

section \<open>Laws\<close>

text \<open>Characters that stand for themselves in a JSON string.\<close>

definition plain_char :: "char \<Rightarrow> bool" where
  "plain_char c \<longleftrightarrow> 32 \<le> (of_char c :: nat) \<and> (of_char c :: nat) < 127 \<and> of_char c \<noteq> (34 :: nat) \<and> of_char c \<noteq> (92 :: nat)"

text \<open>
  What the code relies on: \<open>encoding/json\<close> reads back a tuple of plain strings that it wrote, base58
  text is plain, and zstd (\<open>NewWriter\<close> and \<open>NewReader\<close> with their default options) compresses nothing
  to nothing, and anything else up to the decoder's limit of 64 GiB to a frame that it decompresses.
\<close>

definition json_tuples_ok :: "json_reader \<Rightarrow> json_writer \<Rightarrow> bool" where
  "json_tuples_ok json wr \<longleftrightarrow>
     (\<forall>a b. list_all plain_char a \<and> list_all plain_char b \<longrightarrow>
        json (wr (JArr [JStr a, JStr b])) = Inr (JArr [JStr a, JStr b]) \<and> wr (JArr [JStr a, JStr b]) \<noteq> ''null'')"

definition base58_plain :: "b58encoder \<Rightarrow> bool" where
  "base58_plain b58enc \<longleftrightarrow> (\<forall>b. list_all plain_char (b58enc b))"

definition zstd_ok :: "(bytes \<Rightarrow> bytes) \<Rightarrow> (bytes \<Rightarrow> bytes option) \<Rightarrow> bool" where
  "zstd_ok zstd unzstd \<longleftrightarrow> zstd [] = [] \<and>
     (\<forall>b. b \<noteq> [] \<and> length b \<le> 2 ^ 36 \<longrightarrow> zstd b \<noteq> [] \<and> unzstd (zstd b) = Some b)"

lemma plain_b64: "list_all plain_char (base64_EncodeToString b)"
proof -
  have "plain_char (b64_char n)" if "n < 64" for n
    using that by (auto simp: plain_char_def b64_char_def)
  then show ?thesis
    by (induction b rule: base64_EncodeToString.induct) (simp_all add: sextets, simp_all add: plain_char_def)
qed

lemma plain_encodings: "enc \<in> {EncodingBase64, EncodingBase58, EncodingBase64ZSTD} \<Longrightarrow> list_all plain_char enc"
  by (auto simp: encoding_defs plain_char_def)

text \<open>The tuple that \<open>MarshalJSON\<close> writes, and what \<open>UnmarshalJSON\<close> makes of its value.\<close>

definition payload :: "b58encoder \<Rightarrow> (bytes \<Rightarrow> bytes) \<Rightarrow> EncodedData \<Rightarrow> string" where
  "payload b58enc zstd d =
     (if ed_Encoding d = EncodingBase58 then b58enc (ed_Bytes d)
      else if ed_Encoding d = EncodingBase64ZSTD then base64_EncodeToString (zstd (ed_Bytes d))
      else base64_EncodeToString (ed_Bytes d))"

lemma EncodedData_payload:
  assumes "base58_ok b58enc b58dec" and "base58_plain b58enc" and "zstd_ok zstd unzstd"
    and "ed_Encoding d \<in> {EncodingBase64, EncodingBase58, EncodingBase64ZSTD}" and "ed_Bytes d \<noteq> []"
    and "length (ed_Bytes d) \<le> 2 ^ 36"
  shows "EncodedData_MarshalJSON wr b58enc zstd d = Inr (wr (JArr [JStr (payload b58enc zstd d), JStr (ed_Encoding d)]))"
    and "list_all plain_char (payload b58enc zstd d)" and "payload b58enc zstd d \<noteq> []"
    and "decode_payload b58dec unzstd (ed_Encoding d) (payload b58enc zstd d) = Inr (ed_Bytes d)"
  using assms by (auto simp: EncodedData_MarshalJSON_def payload_def plain_b64 base58_plain_def base58_ok_def zstd_ok_def
      decode_payload_def base64_roundtrip encoding_defs)

lemma EncodedData_read:
  assumes "json_tuples_ok json wr" and "list_all plain_char v" and "list_all plain_char enc" and "v \<noteq> []"
    and "decode_payload b58dec unzstd enc v = Inr b"
  shows "EncodedData_UnmarshalJSON json b58dec unzstd (wr (JArr [JStr v, JStr enc])) d0 =
    (None, d0\<lparr>ed_Bytes := b, ed_Encoding := enc\<rparr>)"
  using assms by (simp add: EncodedData_UnmarshalJSON_def json_tuples_ok_def json_pair_def json_string_def)

text \<open>
  The [value, encoding] tuple that \<open>MarshalJSON\<close> writes for binary data under base64, base58 or
  base64+zstd is read back as the same data and encoding.
\<close>

theorem EncodedData_roundtrip:
  assumes "json_tuples_ok json wr" and "base58_ok b58enc b58dec" and "base58_plain b58enc" and "zstd_ok zstd unzstd"
    and "ed_Encoding d \<in> {EncodingBase64, EncodingBase58, EncodingBase64ZSTD}" and "ed_Bytes d \<noteq> []"
    and "length (ed_Bytes d) \<le> 2 ^ 36"
  shows "\<exists>text. EncodedData_MarshalJSON wr b58enc zstd d = Inr text \<and>
    EncodedData_UnmarshalJSON json b58dec unzstd text d0 = (None, d)"
  using EncodedData_payload(1) [OF assms(2-7), where wr = wr]
    EncodedData_read [OF assms(1) EncodedData_payload(2) [OF assms(2-7)] plain_encodings [OF assms(5)]
      EncodedData_payload(3) [OF assms(2-7)] EncodedData_payload(4) [OF assms(2-7)]]
  by simp

lemma tx_roundtrip:
  assumes "message_ok (tx_Message tx)" and "sigs_ok tx" and "tx_Marshal tx = Inr bs"
    and "Version (tx_Message tx) = MessageVersion1 \<or> length (Signatures tx) \<noteq> 129"
  shows "tx_UnmarshalBinary bs = Inr tx"
proof -
  from assms(3) have m: "sigs_match tx" and bs: "bs = tx_bytes tx" by (auto simp: tx_Marshal_law)
  from sigs_match_le [OF m] have "length (Signatures tx) \<le> 0xFFFF"
    and "clash (length (Signatures tx)) \<longleftrightarrow> length (Signatures tx) = 129"
    by (simp_all add: clash_small)
  with assms m show ?thesis
    unfolding tx_UnmarshalBinary_law bs by (auto simp: tx_bytes_def)
qed

text \<open>
  C18: the binary form in which \<open>getTransaction\<close> and \<open>getBlock\<close> answer.  The tuple of a transaction's
  wire bytes (at most 64 GiB, the default limit of the zstd decoder) under any of the three binary
  encodings is decoded to that transaction.
\<close>

theorem Transaction_UnmarshalJSON_roundtrip:
  assumes "json_tuples_ok json wr" and "base58_ok b58enc b58dec" and "base58_plain b58enc" and "zstd_ok zstd unzstd"
    and "enc \<in> {EncodingBase64, EncodingBase58, EncodingBase64ZSTD}"
    and "message_ok (tx_Message tx)" and "sigs_ok tx" and "tx_Marshal tx = Inr bs"
    and "Version (tx_Message tx) = MessageVersion1 \<or> length (Signatures tx) \<noteq> 129"
    and "EncodedData_MarshalJSON wr b58enc zstd \<lparr>ed_Bytes = bs, ed_Encoding = enc\<rparr> = Inr text"
    and "length bs \<le> 2 ^ 36"
  shows "Transaction_UnmarshalJSON json b58dec unzstd text tx0 = (None, tx)"
proof -
  let ?d = "\<lparr>ed_Bytes = bs, ed_Encoding = enc\<rparr>"
  have tx: "tx_UnmarshalBinary bs = Inr tx" by (rule tx_roundtrip [OF assms(6-9)])
  then have "bs \<noteq> []" by (auto simp: tx_UnmarshalBinary_def)
  then have d: "ed_Encoding ?d \<in> {EncodingBase64, EncodingBase58, EncodingBase64ZSTD}" "ed_Bytes ?d \<noteq> []"
    "length (ed_Bytes ?d) \<le> 2 ^ 36" using assms(5,11) by simp_all
  note p = EncodedData_payload [OF assms(2-4) d]
  have shape: "text = wr (JArr [JStr (payload b58enc zstd ?d), JStr enc])"
    using assms(10) p(1) [where wr = wr] by simp
  have "text \<noteq> ''null''"
    using assms(1) p(2) plain_encodings [OF assms(5)] unfolding shape json_tuples_ok_def by blast
  moreover have "EncodedData_UnmarshalJSON json b58dec unzstd text d0 = (None, ?d)" for d0
    using EncodedData_read [OF assms(1) p(2) _ p(3,4)] plain_encodings [OF assms(5)] unfolding shape by simp
  ultimately show ?thesis
    using \<open>bs \<noteq> []\<close> tx by (simp add: Transaction_UnmarshalJSON_def unmarshal_encoded_def store_def)
qed

text \<open>Versions: every version is read back from its JSON form.\<close>

lemma digits_not_quoted: "digits n \<noteq> ''null'' \<and> hd (digits n) \<noteq> CHR 0x22"
proof -
  have "list_all is_digit (digits n)" "digits n \<noteq> []" using digits_digits [of n] by auto
  then have "is_digit (hd (digits n))" by (cases "digits n") auto
  moreover have "\<not> is_digit (hd ''null'')" "\<not> is_digit (CHR 0x22)" by (simp_all add: is_digit_def)
  ultimately show ?thesis by metis
qed

theorem MessageVersion_json_roundtrip:
  "MessageVersion_UnmarshalJSON (MessageVersion_MarshalJSON v) v0 = (None, v)"
proof (cases "v = MessageVersionLegacy")
  case False
  have "unat v < 256" using unsigned_less [where ?'a = nat, of v] by simp
  then have "ParseUint8 (digits (unat v)) = Some (unat v)" using digits_digits [of "unat v"] by (simp add: ParseUint8_def)
  then show ?thesis
    using False digits_not_quoted [of "unat v"] by (auto simp: MessageVersion_UnmarshalJSON_def MessageVersion_MarshalJSON_def)
qed (simp add: MessageVersion_UnmarshalJSON_def MessageVersion_MarshalJSON_def)

text \<open>The number 255 is read as the legacy version, not as an unknown one.\<close>

lemma version_255_is_legacy: "MessageVersion_UnmarshalJSON ''255'' v = (None, MessageVersionLegacy)"
  by (simp add: MessageVersion_UnmarshalJSON_def ParseUint8_def is_digit_def decimal_def MessageVersionLegacy_def)

text \<open>The length and type of the tuple are not checked.\<close>

lemma EncodedData_lenient:
  "json data = Inr (JArr [JStr [], JStr enc]) \<Longrightarrow>
     EncodedData_UnmarshalJSON json b58dec unzstd data d = (None, \<lparr>ed_Bytes = [], ed_Encoding = enc\<rparr>)"
  "json data = Inr (JArr (JStr ''AQ=='' # JStr EncodingBase64 # rest)) \<Longrightarrow>
     EncodedData_UnmarshalJSON json b58dec unzstd data d = (None, \<lparr>ed_Bytes = [1], ed_Encoding = EncodingBase64\<rparr>)"
proof -
  assume "json data = Inr (JArr (JStr ''AQ=='' # JStr EncodingBase64 # rest))"
  moreover have "base64_DecodeString ''AQ=='' = Some [1]"
    by (simp add: base64_DecodeString_def is_break_def b64_index_def first_byte_def)
  ultimately show "EncodedData_UnmarshalJSON json b58dec unzstd data d = (None, \<lparr>ed_Bytes = [1], ed_Encoding = EncodingBase64\<rparr>)"
    by (cases d) (simp add: EncodedData_UnmarshalJSON_def json_pair_def json_string_def decode_payload_def)
qed (cases d, simp add: EncodedData_UnmarshalJSON_def json_pair_def json_string_def)

lemma Base58Data_roundtrip:
  "base58_ok b58enc b58dec \<Longrightarrow> t \<noteq> [] \<Longrightarrow> Base58Data_UnmarshalJSON b58dec (Base58Data_MarshalJSON b58enc t) t0 = (None, t)"
  by (auto simp: Base58Data_UnmarshalJSON_def Base58Data_MarshalJSON_def base58_ok_def)

section \<open>Witnesses\<close>

text \<open>Concrete codecs: a tuple is written with a quote between its strings; base58 stands in as base64, zstd as a frame byte.\<close>

definition sample_write :: json_writer where
  "sample_write v = (case v of JArr [JStr a, JStr b] \<Rightarrow> CHR 0x22 # a @ CHR 0x22 # b | _ \<Rightarrow> [])"

definition sample_json :: json_reader where
  "sample_json s =
     (let a = takeWhile (\<lambda>c. c \<noteq> CHR 0x22) (tl s) in Inr (JArr [JStr a, JStr (drop (Suc (length a)) (tl s))]))"

definition sample_zstd :: "bytes \<Rightarrow> bytes" where "sample_zstd b = (if b = [] then [] else 0x28 # b)"
definition sample_unzstd :: "bytes \<Rightarrow> bytes option" where "sample_unzstd b = (if b = [] then None else Some (tl b))"

lemma sample_codecs:
  "json_tuples_ok sample_json sample_write" "base58_ok base64_EncodeToString base64_DecodeString"
  "base58_plain base64_EncodeToString" "zstd_ok sample_zstd sample_unzstd"
proof -
  have "takeWhile (\<lambda>c. c \<noteq> CHR 0x22) (a @ CHR 0x22 # b) = a" if "list_all plain_char a" for a b
    using that by (induction a) (auto simp: plain_char_def)
  then show "json_tuples_ok sample_json sample_write"
    by (simp add: json_tuples_ok_def sample_json_def sample_write_def)
  show "base58_ok base64_EncodeToString base64_DecodeString" by (simp add: base58_ok_def base64_roundtrip)
  show "base58_plain base64_EncodeToString" by (simp add: base58_plain_def plain_b64)
  show "zstd_ok sample_zstd sample_unzstd" by (simp add: zstd_ok_def sample_zstd_def sample_unzstd_def)
qed

theorem EncodedData_roundtrip_witness:
  "\<exists>text. EncodedData_MarshalJSON sample_write base64_EncodeToString sample_zstd \<lparr>ed_Bytes = [1, 2], ed_Encoding = EncodingBase64ZSTD\<rparr> = Inr text \<and>
    EncodedData_UnmarshalJSON sample_json base64_DecodeString sample_unzstd text \<lparr>ed_Bytes = [], ed_Encoding = []\<rparr> =
      (None, \<lparr>ed_Bytes = [1, 2], ed_Encoding = EncodingBase64ZSTD\<rparr>)"
  by (rule EncodedData_roundtrip [OF sample_codecs]) simp_all

theorem Transaction_UnmarshalJSON_roundtrip_witness:
  "Transaction_UnmarshalJSON sample_json base64_DecodeString sample_unzstd
     (sample_write (JArr [JStr (base64_EncodeToString (0x28 # tx_bytes sample_tx)), JStr EncodingBase64ZSTD])) (NewTransaction sample_message) =
   (None, sample_tx)"
proof (rule Transaction_UnmarshalJSON_roundtrip [OF sample_codecs _ sample_tx_ok(1,3,4), where enc = EncodingBase64ZSTD])
  have "tx_bytes sample_tx \<noteq> []"
    using tx_roundtrip [OF sample_tx_ok(1,3,4)] by (auto simp: tx_UnmarshalBinary_def sample_tx_def)
  then show "EncodedData_MarshalJSON sample_write base64_EncodeToString sample_zstd
      \<lparr>ed_Bytes = tx_bytes sample_tx, ed_Encoding = EncodingBase64ZSTD\<rparr> =
    Inr (sample_write (JArr [JStr (base64_EncodeToString (0x28 # tx_bytes sample_tx)), JStr EncodingBase64ZSTD]))"
    by (simp add: EncodedData_MarshalJSON_def sample_zstd_def encoding_defs)
next
  show "length (tx_bytes sample_tx) \<le> 2 ^ 36"
    using tx_SerializedSize_Marshal [OF sample_tx_ok(2-4)] sample_message_size
    by (simp add: tx_SerializedSize_def sample_tx_def sample_message_def SignatureSize_def version_defs)
qed (simp_all add: sample_tx_def)

end
