(* ===== verification/Rpc_Types.thy ===== *)
theory Rpc_Types
  imports Rpc_Data
begin

text \<open>
  Data of the typed RPC client: the configuration objects of \<open>rpc/options.go\<close> with the JSON objects
  they are sent as, the results of the methods (\<open>rpc/types.go\<close>, \<open>rpc/methods_*.go\<close>) and the execution
  metadata (\<open>transaction_meta.go\<close>).  A field that the JSON library fills is data only; floating-point
  fields are of a type parameter \<open>'f\<close>, as the client only passes them on.
\<close>

section \<open>JSON objects of options\<close>

text \<open>A struct is sent as the list of its fields in order; a field tagged \<open>omitempty\<close> is left out when it is empty or nil.\<close>

definition str_field :: "string \<Rightarrow> string \<Rightarrow> (string \<times> jv) list" where
  "str_field k s = (if s = [] then [] else [(k, JStr s)])"

definition opt_field :: "string \<Rightarrow> jv option \<Rightarrow> (string \<times> jv) list" where
  "opt_field k v = (case v of None \<Rightarrow> [] | Some x \<Rightarrow> [(k, x)])"

definition jbool :: "bool option \<Rightarrow> jv option" where "jbool = map_option JBool"
definition juint :: "u64 option \<Rightarrow> jv option" where "juint = map_option (\<lambda>n. JUint (unat n))"
definition jint :: "int option \<Rightarrow> jv option" where "jint = map_option JInt"

record DataSlice =
  ds_Offset :: u64
  ds_Length :: u64

record CommitmentCfg =
  cc_Commitment :: CommitmentLevel

record CommitmentWithMinSlotCfg =
  cm_Commitment :: CommitmentLevel
  cm_MinContextSlot :: "u64 option"

record CommitmentWithEncodingCfg =
  ce_Commitment :: CommitmentLevel
  ce_Encoding :: Encoding

record AccountInfoCfg =
  ac_Commitment :: CommitmentLevel
  ac_Encoding :: Encoding
  ac_DataSlice :: "DataSlice option"
  ac_MinContextSlot :: "u64 option"

record GetBlockCfg =
  gb_Commitment :: CommitmentLevel
  gb_Encoding :: Encoding
  gb_MaxVersion :: "u64 option"
  gb_TransactionDetails :: string
  gb_Rewards :: "bool option"

record GetTransactionCfg =
  gt_Commitment :: CommitmentLevel
  gt_Encoding :: Encoding
  gt_MaxVersion :: "u64 option"

record SignaturesForAddressCfg =
  sf_Commitment :: CommitmentLevel
  sf_MinContextSlot :: "u64 option"
  sf_Limit :: "int option"
  sf_Before :: string
  sf_Until :: string

record SignatureStatusesCfg =
  sc_SearchHistory :: "bool option"

record SendTxCfg =
  st_SkipPreflight :: "bool option"
  st_PreflightCommitment :: CommitmentLevel
  st_MaxRetries :: "u64 option"
  st_MinContextSlot :: "u64 option"
  st_Encoding :: Encoding

record SimulateAccountsCfg =
  sa_Encoding :: Encoding
  sa_Addresses :: "PublicKey list"

record SimulateTxCfg =
  si_Commitment :: CommitmentLevel
  si_SigVerify :: "bool option"
  si_ReplaceRecentBlockhash :: "bool option"
  si_MinContextSlot :: "u64 option"
  si_Encoding :: Encoding
  si_InnerInstructions :: "bool option"
  si_Accounts :: "SimulateAccountsCfg option"

record LargestAccountsCfg =
  lc_Commitment :: CommitmentLevel
  lc_Filter :: string

record InflationRewardCfg =
  ir_Commitment :: CommitmentLevel
  ir_MinContextSlot :: "u64 option"
  ir_Epoch :: "u64 option"

record LeaderScheduleCfg =
  le_Commitment :: CommitmentLevel
  le_Identity :: string

record LogsSubscribeCfg =
  lo_Commitment :: CommitmentLevel

record SignatureSubscribeCfg =
  ss_Commitment :: CommitmentLevel

definition json_DataSlice :: "DataSlice \<Rightarrow> jv" where
  "json_DataSlice d = JObj [(''offset'', JUint (unat (ds_Offset d))), (''length'', JUint (unat (ds_Length d)))]"

definition json_CommitmentCfg :: "CommitmentCfg \<Rightarrow> jv" where
  "json_CommitmentCfg c = JObj (str_field ''commitment'' (cc_Commitment c))"

definition json_CommitmentWithMinSlotCfg :: "CommitmentWithMinSlotCfg \<Rightarrow> jv" where
  "json_CommitmentWithMinSlotCfg c =
     JObj (str_field ''commitment'' (cm_Commitment c) @ opt_field ''minContextSlot'' (juint (cm_MinContextSlot c)))"

text \<open>\<open>AccountInfoCfg.MarshalJSON\<close> fills in the default encoding.\<close>

definition with_base64 :: "AccountInfoCfg \<Rightarrow> AccountInfoCfg" where
  "with_base64 c = (if ac_Encoding c = [] then c\<lparr>ac_Encoding := EncodingBase64\<rparr> else c)"

definition json_AccountInfoCfg :: "AccountInfoCfg \<Rightarrow> jv" where
  "json_AccountInfoCfg c0 =
     (let c = with_base64 c0
      in JObj (str_field ''commitment'' (ac_Commitment c) @ str_field ''encoding'' (ac_Encoding c) @
           opt_field ''dataSlice'' (map_option json_DataSlice (ac_DataSlice c)) @
           opt_field ''minContextSlot'' (juint (ac_MinContextSlot c))))"

definition json_GetBlockCfg :: "GetBlockCfg \<Rightarrow> jv" where
  "json_GetBlockCfg c =
     JObj (str_field ''commitment'' (gb_Commitment c) @ str_field ''encoding'' (gb_Encoding c) @
       opt_field ''maxSupportedTransactionVersion'' (juint (gb_MaxVersion c)) @
       str_field ''transactionDetails'' (gb_TransactionDetails c) @ opt_field ''rewards'' (jbool (gb_Rewards c)))"

definition json_GetTransactionCfg :: "GetTransactionCfg \<Rightarrow> jv" where
  "json_GetTransactionCfg c =
     JObj (str_field ''commitment'' (gt_Commitment c) @ str_field ''encoding'' (gt_Encoding c) @
       opt_field ''maxSupportedTransactionVersion'' (juint (gt_MaxVersion c)))"

definition json_SignaturesForAddressCfg :: "SignaturesForAddressCfg \<Rightarrow> jv" where
  "json_SignaturesForAddressCfg c =
     JObj (str_field ''commitment'' (sf_Commitment c) @ opt_field ''minContextSlot'' (juint (sf_MinContextSlot c)) @
       opt_field ''limit'' (jint (sf_Limit c)) @ str_field ''before'' (sf_Before c) @ str_field ''until'' (sf_Until c))"

definition json_SignatureStatusesCfg :: "SignatureStatusesCfg \<Rightarrow> jv" where
  "json_SignatureStatusesCfg c = JObj (opt_field ''searchTransactionHistory'' (jbool (sc_SearchHistory c)))"

definition json_SendTxCfg :: "SendTxCfg \<Rightarrow> jv" where
  "json_SendTxCfg c =
     JObj (opt_field ''skipPreflight'' (jbool (st_SkipPreflight c)) @ str_field ''preflightCommitment'' (st_PreflightCommitment c) @
       opt_field ''maxRetries'' (juint (st_MaxRetries c)) @ opt_field ''minContextSlot'' (juint (st_MinContextSlot c)) @
       str_field ''encoding'' (st_Encoding c))"

definition json_SimulateAccountsCfg :: "b58encoder \<Rightarrow> SimulateAccountsCfg \<Rightarrow> jv" where
  "json_SimulateAccountsCfg b58enc c =
     JObj (str_field ''encoding'' (sa_Encoding c) @ [(''addresses'', JArr (map (\<lambda>pk. JStr (b58enc pk)) (sa_Addresses c)))])"

definition json_SimulateTxCfg :: "b58encoder \<Rightarrow> SimulateTxCfg \<Rightarrow> jv" where
  "json_SimulateTxCfg b58enc c =
     JObj (str_field ''commitment'' (si_Commitment c) @ opt_field ''sigVerify'' (jbool (si_SigVerify c)) @
       opt_field ''replaceRecentBlockhash'' (jbool (si_ReplaceRecentBlockhash c)) @
       opt_field ''minContextSlot'' (juint (si_MinContextSlot c)) @ str_field ''encoding'' (si_Encoding c) @
       opt_field ''innerInstructions'' (jbool (si_InnerInstructions c)) @
       opt_field ''accounts'' (map_option (json_SimulateAccountsCfg b58enc) (si_Accounts c)))"

definition json_LargestAccountsCfg :: "LargestAccountsCfg \<Rightarrow> jv" where
  "json_LargestAccountsCfg c = JObj (str_field ''commitment'' (lc_Commitment c) @ str_field ''filter'' (lc_Filter c))"

definition json_InflationRewardCfg :: "InflationRewardCfg \<Rightarrow> jv" where
  "json_InflationRewardCfg c =
     JObj (str_field ''commitment'' (ir_Commitment c) @ opt_field ''minContextSlot'' (juint (ir_MinContextSlot c)) @
       opt_field ''epoch'' (juint (ir_Epoch c)))"

definition json_LeaderScheduleCfg :: "LeaderScheduleCfg \<Rightarrow> jv" where
  "json_LeaderScheduleCfg c = JObj (str_field ''commitment'' (le_Commitment c) @ str_field ''identity'' (le_Identity c))"

definition json_LogsSubscribeCfg :: "LogsSubscribeCfg \<Rightarrow> jv" where
  "json_LogsSubscribeCfg c = JObj (str_field ''commitment'' (lo_Commitment c))"

definition json_SignatureSubscribeCfg :: "SignatureSubscribeCfg \<Rightarrow> jv" where
  "json_SignatureSubscribeCfg c = JObj (str_field ''commitment'' (ss_Commitment c))"

text \<open>\<open>FirstOrZero\<close>: the optional argument of a variadic method, or the zero value of its type.\<close>

definition FirstOrZero :: "'c \<Rightarrow> 'c list \<Rightarrow> 'c" where
  "FirstOrZero zero opts = (case opts of [] \<Rightarrow> zero | c # _ \<Rightarrow> c)"

definition zero_CommitmentCfg :: CommitmentCfg where "zero_CommitmentCfg = \<lparr>cc_Commitment = []\<rparr>"
definition zero_MinSlotCfg :: CommitmentWithMinSlotCfg where "zero_MinSlotCfg = \<lparr>cm_Commitment = [], cm_MinContextSlot = None\<rparr>"
definition zero_AccountInfoCfg :: AccountInfoCfg where
  "zero_AccountInfoCfg = \<lparr>ac_Commitment = [], ac_Encoding = [], ac_DataSlice = None, ac_MinContextSlot = None\<rparr>"
definition zero_GetBlockCfg :: GetBlockCfg where
  "zero_GetBlockCfg = \<lparr>gb_Commitment = [], gb_Encoding = [], gb_MaxVersion = None, gb_TransactionDetails = [], gb_Rewards = None\<rparr>"
definition zero_GetTransactionCfg :: GetTransactionCfg where
  "zero_GetTransactionCfg = \<lparr>gt_Commitment = [], gt_Encoding = [], gt_MaxVersion = None\<rparr>"
definition zero_SignaturesForAddressCfg :: SignaturesForAddressCfg where
  "zero_SignaturesForAddressCfg = \<lparr>sf_Commitment = [], sf_MinContextSlot = None, sf_Limit = None, sf_Before = [], sf_Until = []\<rparr>"
definition zero_SendTxCfg :: SendTxCfg where
  "zero_SendTxCfg = \<lparr>st_SkipPreflight = None, st_PreflightCommitment = [], st_MaxRetries = None, st_MinContextSlot = None, st_Encoding = []\<rparr>"
definition zero_SimulateTxCfg :: SimulateTxCfg where
  "zero_SimulateTxCfg = \<lparr>si_Commitment = [], si_SigVerify = None, si_ReplaceRecentBlockhash = None, si_MinContextSlot = None,
     si_Encoding = [], si_InnerInstructions = None, si_Accounts = None\<rparr>"

section \<open>Execution metadata\<close>

record 'f UiTokenAmount =
  ua_Address :: "PublicKey option"
  ua_Amount :: string
  ua_Decimals :: u8
  ua_UiAmount :: 'f
  ua_UiAmountString :: string

record 'f TokenBalance =
  tb_AccountIndex :: u16
  tb_Mint :: PublicKey
  tb_Owner :: PublicKey
  tb_ProgramID :: PublicKey
  tb_UiTokenAmount :: "'f UiTokenAmount"

record TxStatus =
  ts_Ok :: jv
  ts_Err :: bytes

record InnerInstruction =
  ii_Index :: u16
  ii_Instructions :: "CompiledInstruction list"

record LoadedAddresses =
  la_Writable :: "PublicKey list"
  la_ReadOnly :: "PublicKey list"

record Reward =
  rw_Pubkey :: PublicKey
  rw_Lamports :: int
  rw_PostBalance :: u64
  rw_RewardType :: string
  rw_Commission :: "u8 option"

record 'f TransactionMeta =
  tm_Err :: bytes
  tm_Fee :: u64
  tm_PreBalances :: "u64 list"
  tm_PostBalances :: "u64 list"
  tm_LogMessages :: "string list"
  tm_ComputeUnitsConsumed :: "u64 option"
  tm_InnerInstructions :: "InnerInstruction list"
  tm_PreTokenBalances :: "'f TokenBalance list"
  tm_PostTokenBalances :: "'f TokenBalance list"
  tm_Status :: "TxStatus option"
  tm_Rewards :: "Reward list"
  tm_LoadedAddresses :: "LoadedAddresses option"

record LatestBlockhash =
  lb_Slot :: u64
  lb_Blockhash :: Hash
  lb_LastValidBlockHeight :: u64

section \<open>Results\<close>

text \<open>The answer of a call with a context: \<open>jsonrpc.ContextValue\<close>.\<close>

record 't ContextValue =
  cv_Slot :: u64
  cv_Value :: 't

record GetAccountInfoResult =
  gai_Slot :: u64
  gai_Account :: "AccountInfo option"

record GetMultipleAccountsResult =
  gma_Slot :: u64
  gma_Accounts :: "AccountInfo option list"

record GetBalanceResult =
  gbr_Slot :: u64
  gbr_Value :: u64

record GetSignatureStatusesResult =
  gss_Slot :: u64
  gss_Statuses :: "SignatureStatus option list"

record ConfirmedSignatureForAddress =
  cs_Signature :: string
  cs_Slot :: u64
  cs_Err :: jv
  cs_Memo :: "string option"
  cs_BlockTime :: "int option"
  cs_ConfirmationStatus :: string

record 'f GetTransactionResult =
  gtr_Slot :: u64
  gtr_BlockTime :: "int option"
  gtr_Meta :: "'f TransactionMeta option"
  gtr_Transaction :: "Transaction option"
  gtr_Version :: MessageVersion

record 'f BlockTransaction =
  bt_Transaction :: "Transaction option"
  bt_Meta :: "'f TransactionMeta option"
  bt_Version :: MessageVersion

record 'f GetBlockResult =
  gbk_Blockhash :: string
  gbk_PreviousBlockhash :: string
  gbk_ParentSlot :: u64
  gbk_Transactions :: "'f BlockTransaction list"
  gbk_BlockHeight :: "u64 option"
  gbk_BlockTime :: "int option"
  gbk_Rewards :: "Reward list"

record SimulationReturnData =
  srd_ProgramID :: PublicKey
  srd_Data :: EncodedData

record SimulationInstruction =
  sin_Program :: string
  sin_ProgramID :: PublicKey
  sin_Parsed :: bytes
  sin_Accounts :: "PublicKey list"
  sin_Data :: bytes
  sin_StackHeight :: "u32 option"

record SimulationInnerInstruction =
  sii_Index :: u8
  sii_Instructions :: "SimulationInstruction list"

record 'f SimulateResult =
  sr_Slot :: u64
  sr_Accounts :: "AccountInfo option list"
  sr_Err :: jv
  sr_Fee :: "u64 option"
  sr_PreBalances :: "u64 list"
  sr_PostBalances :: "u64 list"
  sr_InnerInstructions :: "SimulationInnerInstruction list"
  sr_PreTokenBalances :: "'f TokenBalance list"
  sr_PostTokenBalances :: "'f TokenBalance list"
  sr_LoadedAccountsDataSize :: "u32 option"
  sr_LoadedAddresses :: "LoadedAddresses option"
  sr_Logs :: "string list"
  sr_ReplacementBlockhash :: "LatestBlockhash option"
  sr_ReturnData :: "SimulationReturnData option"
  sr_UnitsConsumed :: "u64 option"

record 'f TokenAmount =
  ta_Amount :: string
  ta_Decimals :: u8
  ta_UIAmount :: "'f option"
  ta_UIAmountString :: string

record 'f GetTokenAccountBalanceResult =
  gtb_Slot :: u64
  gtb_Value :: "'f TokenAmount"

record 'f GetTokenSupplyResult =
  gts_Slot :: u64
  gts_Value :: "'f TokenAmount"

record BlockCommitment =
  bc_Commitment :: "u64 list"
  bc_TotalStake :: u64

record EpochInfo =
  ei_AbsoluteSlot :: u64
  ei_BlockHeight :: u64
  ei_Epoch :: u64
  ei_SlotIndex :: u64
  ei_SlotsInEpoch :: u64
  ei_TransactionCount :: "u64 option"

record SupplyResult =
  su_Slot :: u64
  su_Total :: u64
  su_Circulating :: u64
  su_NonCirculating :: u64
  su_NonCirculatingAccounts :: "string list"

record 'f InflationRate =
  ifr_Total :: 'f
  ifr_Validator :: 'f
  ifr_Foundation :: 'f
  ifr_Epoch :: u64

record EpochSchedule =
  es_SlotsPerEpoch :: u64
  es_LeaderScheduleSlotOffset :: u64
  es_Warmup :: bool
  es_FirstNormalEpoch :: u64
  es_FirstNormalSlot :: u64

record 'f InflationGovernor =
  ig_Initial :: 'f
  ig_Terminal :: 'f
  ig_Taper :: 'f
  ig_Foundation :: 'f
  ig_FoundationTerm :: 'f

record InflationReward =
  iw_Epoch :: u64
  iw_EffectiveSlot :: u64
  iw_Amount :: u64
  iw_PostBalance :: u64
  iw_Commission :: "u8 option"

record PerformanceSample =
  ps_Slot :: u64
  ps_NumTransactions :: u64
  ps_NumSlots :: u64
  ps_SamplePeriodSecs :: u16
  ps_NumNonVoteTransactions :: u64

record GetFeeForMessageResult =
  gfm_Slot :: u64
  gfm_Fee :: "u64 option"

record ProgramAccount =
  pa_Pubkey :: PublicKey
  pa_Account :: AccountInfo

record TokenAccountFilter =
  tf_Mint :: PublicKey
  tf_ProgramID :: PublicKey

record TokenAccount =
  tk_Pubkey :: PublicKey
  tk_Account :: AccountInfo

record 'f TokenLargestAccount =
  tl_Address :: PublicKey
  tl_Amount :: string
  tl_Decimals :: u8
  tl_UIAmount :: "'f option"
  tl_UIAmountString :: string

record LargestAccount =
  lg_Address :: PublicKey
  lg_Lamports :: u64

record SolanaVersion =
  sv_SolanaCore :: string
  sv_FeatureSet :: u32

record HighestSnapshotSlot =
  hs_Full :: u64
  hs_Incremental :: "u64 option"

record VoteAccount =
  va_VotePubkey :: PublicKey
  va_NodePubkey :: PublicKey
  va_ActivatedStake :: u64
  va_EpochVoteAccount :: bool
  va_Commission :: u8
  va_LastVote :: u64
  va_EpochCredits :: "(u64 \<times> u64 \<times> u64) list"
  va_RootSlot :: u64

record VoteAccounts =
  vs_Current :: "VoteAccount list"
  vs_Delinquent :: "VoteAccount list"

record ClusterNode =
  cn_Pubkey :: PublicKey
  cn_Gossip :: string
  cn_TPU :: string
  cn_RPC :: string
  cn_Version :: string
  cn_FeatureSet :: "u32 option"
  cn_ShredVersion :: "u16 option"

record BlockProductionRange =
  bp_FirstSlot :: u64
  bp_LastSlot :: u64

record BlockProductionValue =
  bv_ByIdentity :: "string \<rightharpoonup> u64 \<times> u64"
  bv_Range :: BlockProductionRange

record BlockProductionResult =
  br_Slot :: u64
  br_Value :: BlockProductionValue

record StakeActivation =
  sk_State :: string
  sk_Active :: u64
  sk_Inactive :: u64

end
