(* ===== verification/Rpc_Methods.thy ===== *)
theory Rpc_Methods
  imports Rpc_Types Jsonrpc Token_State
begin

text \<open>
  The typed methods of the RPC client (\<open>rpc/methods_*.go\<close>, \<open>rpc/client.go\<close>).  Each makes at most one
  call; \<open>call\<close> stands for \<open>jsonrpc.CallContext\<close> at the method's result type, a function of the
  name of the method, the positional parameters and the client, which it returns with the outcome
  (\<open>None\<close>: a retry policy that never gives up).  The parameters are the JSON values the codec is given.
\<close>

section \<open>The client\<close>

text \<open>\<open>rpc.Client\<close> embeds the transport; it has no state of its own.\<close>

record ('a, 'r) rpc_Client =
  rc_Client :: "('a, 'r) Client"

definition rpc_NewClient ::
  "('a, 'r) Codec \<Rightarrow> (int \<Rightarrow> int) \<Rightarrow> (int \<Rightarrow> int \<Rightarrow> http_client) \<Rightarrow> string \<Rightarrow> ('a, 'r) Config \<Rightarrow> ('a, 'r) rpc_Client" where
  "rpc_NewClient goJSON rand transport ep cfg = \<lparr>rc_Client = NewClient goJSON rand transport ep cfg\<rparr>"

definition rpc_NewClientWith ::
  "('a, 'r) Codec \<Rightarrow> (int \<Rightarrow> int) \<Rightarrow> (int \<Rightarrow> int \<Rightarrow> http_client) \<Rightarrow> string \<Rightarrow> ('a, 'r) ClientOption list \<Rightarrow> ('a, 'r) rpc_Client" where
  "rpc_NewClientWith goJSON rand transport ep opts = \<lparr>rc_Client = NewClientWith goJSON rand transport ep opts\<rparr>"

definition NewClientFromTransport :: "('a, 'r) Client \<Rightarrow> ('a, 'r) rpc_Client" where
  "NewClientFromTransport j = \<lparr>rc_Client = j\<rparr>"

definition Transport :: "('a, 'r) rpc_Client \<Rightarrow> ('a, 'r) Client" where
  "Transport c = rc_Client c"

section \<open>Calls\<close>

type_synonym ('st, 't) caller = "string \<Rightarrow> jv list \<Rightarrow> 'st \<Rightarrow> 'st \<times> (rpc_error + 't) option"

datatype method_error = CallFailed rpc_error | Refused go_error

type_synonym ('st, 'r) rpc_call = "'st \<Rightarrow> 'st \<times> (method_error + 'r) option"

definition perform :: "('st, 't) caller \<Rightarrow> string \<Rightarrow> jv list \<Rightarrow> ('t \<Rightarrow> method_error + 'r) \<Rightarrow> ('st, 'r) rpc_call" where
  "perform call m ps f st =
     (case call m ps st of
        (st', None) \<Rightarrow> (st', None)
      | (st', Some (Inl e)) \<Rightarrow> (st', Some (Inl (CallFailed e)))
      | (st', Some (Inr x)) \<Rightarrow> (st', Some (f x)))"

definition refuse :: "go_error \<Rightarrow> ('st, 'r) rpc_call" where
  "refuse e st = (st, Some (Inl (Refused e)))"

definition checked :: "'r result \<Rightarrow> method_error + 'r" where
  "checked r = (case r of Inl e \<Rightarrow> Inl (Refused e) | Inr x \<Rightarrow> Inr x)"

text \<open>The client of \<open>jsonrpc\<close> as a caller.\<close>

definition client_call :: "call_ctx \<Rightarrow> ((jv, 't) Client, 't) caller" where
  "client_call ctx m ps c = CallContext c ctx m (Some ps)"

definition pk_json :: "b58encoder \<Rightarrow> bytes \<Rightarrow> jv" where
  "pk_json b58enc pk = JStr (b58enc pk)"

section \<open>Accounts\<close>

definition GetAccountInfo ::
  "('st, AccountInfo option ContextValue) caller \<Rightarrow> b58encoder \<Rightarrow> PublicKey \<Rightarrow> AccountInfoCfg list \<Rightarrow> ('st, GetAccountInfoResult) rpc_call" where
  "GetAccountInfo call b58enc pubkey cfg =
     perform call ''getAccountInfo'' [pk_json b58enc pubkey, json_AccountInfoCfg (FirstOrZero zero_AccountInfoCfg cfg)]
       (\<lambda>resp. Inr \<lparr>gai_Slot = cv_Slot resp, gai_Account = cv_Value resp\<rparr>)"

definition MaxGetMultipleAccountsAddresses :: nat where "MaxGetMultipleAccountsAddresses = 100"

definition GetMultipleAccounts ::
  "('st, AccountInfo option list ContextValue) caller \<Rightarrow> b58encoder \<Rightarrow> PublicKey list \<Rightarrow> AccountInfoCfg list \<Rightarrow> ('st, GetMultipleAccountsResult) rpc_call" where
  "GetMultipleAccounts call b58enc addresses cfg =
     (if length addresses > MaxGetMultipleAccountsAddresses
      then refuse (Errorf ''solana: GetMultipleAccounts: %d addresses exceeds Solana RPC max of %d''
             [int (length addresses), int MaxGetMultipleAccountsAddresses])
      else
        let keys = map (pk_json b58enc) addresses
        in perform call ''getMultipleAccounts'' [JArr keys, json_AccountInfoCfg (FirstOrZero zero_AccountInfoCfg cfg)]
             (\<lambda>resp. Inr \<lparr>gma_Slot = cv_Slot resp, gma_Accounts = cv_Value resp\<rparr>))"

text \<open>\<open>None\<close> in the result: the account does not exist.\<close>

definition GetAddressLookupTable ::
  "('st, AccountInfo option ContextValue) caller \<Rightarrow> b58encoder \<Rightarrow> PublicKey \<Rightarrow> CommitmentWithMinSlotCfg list \<Rightarrow> ('st, (u64 \<times> TableState) option) rpc_call" where
  "GetAddressLookupTable call b58enc address cfg =
     (let opt = FirstOrZero zero_MinSlotCfg cfg;
          infoCfg = \<lparr>ac_Commitment = cm_Commitment opt, ac_Encoding = EncodingBase64, ac_DataSlice = None,
                     ac_MinContextSlot = cm_MinContextSlot opt\<rparr>
      in perform call ''getAccountInfo'' [pk_json b58enc address, json_AccountInfoCfg infoCfg]
           (\<lambda>resp. case cv_Value resp of
              None \<Rightarrow> Inr None
            | Some acc \<Rightarrow>
                (case DecodeTableState (ed_Bytes (ai_Data acc)) of
                   Inl e \<Rightarrow> Inl (Refused (Wrapf ''client: GetAddressLookupTable: %w'' [] e))
                 | Inr state \<Rightarrow> Inr (Some (cv_Slot resp, state)))))"

section \<open>Blocks and tokens\<close>

definition get_block_defaults :: "GetBlockCfg \<Rightarrow> GetBlockCfg" where
  "get_block_defaults c0 =
     chain [\<lambda>c. if gb_Encoding c = [] then c\<lparr>gb_Encoding := EncodingBase64\<rparr> else c,
            \<lambda>c. if gb_TransactionDetails c = [] then c\<lparr>gb_TransactionDetails := ''full''\<rparr> else c,
            \<lambda>c. if gb_MaxVersion c = None then c\<lparr>gb_MaxVersion := Some 0\<rparr> else c] c0"

definition GetBlock ::
  "('st, 'f GetBlockResult option) caller \<Rightarrow> u64 \<Rightarrow> GetBlockCfg list \<Rightarrow> ('st, 'f GetBlockResult option) rpc_call" where
  "GetBlock call slot cfg =
     perform call ''getBlock'' [JUint (unat slot), json_GetBlockCfg (get_block_defaults (FirstOrZero zero_GetBlockCfg cfg))] Inr"

definition ptr_json :: "u64 option \<Rightarrow> jv" where
  "ptr_json p = (case p of None \<Rightarrow> JNull | Some n \<Rightarrow> JUint (unat n))"

definition commitment_json :: "CommitmentCfg list \<Rightarrow> jv" where
  "commitment_json cfg = json_CommitmentCfg (FirstOrZero zero_CommitmentCfg cfg)"

definition min_slot_json :: "CommitmentWithMinSlotCfg list \<Rightarrow> jv" where
  "min_slot_json cfg = json_CommitmentWithMinSlotCfg (FirstOrZero zero_MinSlotCfg cfg)"

definition GetBlocks :: "('st, u64 list) caller \<Rightarrow> u64 \<Rightarrow> u64 option \<Rightarrow> CommitmentCfg list \<Rightarrow> ('st, u64 list) rpc_call" where
  "GetBlocks call start end_slot cfg = perform call ''getBlocks'' [JUint (unat start), ptr_json end_slot, commitment_json cfg] Inr"

definition GetTokenAccountBalance ::
  "('st, 'f TokenAmount ContextValue) caller \<Rightarrow> b58encoder \<Rightarrow> PublicKey \<Rightarrow> CommitmentCfg list \<Rightarrow> ('st, 'f GetTokenAccountBalanceResult) rpc_call" where
  "GetTokenAccountBalance call b58enc account cfg =
     perform call ''getTokenAccountBalance'' [pk_json b58enc account, commitment_json cfg]
       (\<lambda>resp. Inr \<lparr>gtb_Slot = cv_Slot resp, gtb_Value = cv_Value resp\<rparr>)"

definition GetTokenSupply ::
  "('st, 'f TokenAmount ContextValue) caller \<Rightarrow> b58encoder \<Rightarrow> PublicKey \<Rightarrow> CommitmentCfg list \<Rightarrow> ('st, 'f GetTokenSupplyResult) rpc_call" where
  "GetTokenSupply call b58enc mint cfg =
     perform call ''getTokenSupply'' [pk_json b58enc mint, commitment_json cfg]
       (\<lambda>resp. Inr \<lparr>gts_Slot = cv_Slot resp, gts_Value = cv_Value resp\<rparr>)"

definition GetBlockCommitment :: "('st, BlockCommitment) caller \<Rightarrow> u64 \<Rightarrow> ('st, BlockCommitment) rpc_call" where
  "GetBlockCommitment call slot = perform call ''getBlockCommitment'' [JUint (unat slot)] Inr"

definition GetBlocksWithLimit :: "('st, u64 list) caller \<Rightarrow> u64 \<Rightarrow> u64 \<Rightarrow> CommitmentCfg list \<Rightarrow> ('st, u64 list) rpc_call" where
  "GetBlocksWithLimit call startSlot limit cfg =
     perform call ''getBlocksWithLimit'' [JUint (unat startSlot), JUint (unat limit), commitment_json cfg] Inr"

definition GetFirstAvailableBlock :: "('st, u64) caller \<Rightarrow> ('st, u64) rpc_call" where
  "GetFirstAvailableBlock call = perform call ''getFirstAvailableBlock'' [] Inr"

section \<open>The chain\<close>

definition GetEpochInfo :: "('st, EpochInfo) caller \<Rightarrow> CommitmentWithMinSlotCfg list \<Rightarrow> ('st, EpochInfo) rpc_call" where
  "GetEpochInfo call cfg = perform call ''getEpochInfo'' [min_slot_json cfg] Inr"

definition GetSupply :: "('st, SupplyResult ContextValue) caller \<Rightarrow> CommitmentCfg list \<Rightarrow> ('st, SupplyResult) rpc_call" where
  "GetSupply call cfg =
     perform call ''getSupply'' [commitment_json cfg] (\<lambda>resp. Inr ((cv_Value resp)\<lparr>su_Slot := cv_Slot resp\<rparr>))"

definition GetInflationRate :: "('st, 'f InflationRate) caller \<Rightarrow> ('st, 'f InflationRate) rpc_call" where
  "GetInflationRate call = perform call ''getInflationRate'' [] Inr"

definition GetMinimumBalanceForRentExemption :: "('st, u64) caller \<Rightarrow> u64 \<Rightarrow> CommitmentCfg list \<Rightarrow> ('st, u64) rpc_call" where
  "GetMinimumBalanceForRentExemption call dataSize cfg =
     perform call ''getMinimumBalanceForRentExemption'' [JUint (unat dataSize), commitment_json cfg] Inr"

definition GetSlotLeader :: "('st, string) caller \<Rightarrow> b58decoder \<Rightarrow> CommitmentWithMinSlotCfg list \<Rightarrow> ('st, PublicKey) rpc_call" where
  "GetSlotLeader call b58dec cfg =
     perform call ''getSlotLeader'' [min_slot_json cfg] (\<lambda>leader. checked (PublicKeyFromBase58 b58dec leader))"

definition GetBlockTime :: "('st, int option) caller \<Rightarrow> u64 \<Rightarrow> ('st, int option) rpc_call" where
  "GetBlockTime call slot = perform call ''getBlockTime'' [JUint (unat slot)] Inr"

definition GetEpochSchedule :: "('st, EpochSchedule) caller \<Rightarrow> ('st, EpochSchedule) rpc_call" where
  "GetEpochSchedule call = perform call ''getEpochSchedule'' [] Inr"

fun decode_leaders :: "b58decoder \<Rightarrow> string list \<Rightarrow> PublicKey list result" where
  "decode_leaders b58dec [] = Inr []"
| "decode_leaders b58dec (s # ss) =
     res_bind (PublicKeyFromBase58 b58dec s) (\<lambda>pk. res_bind (decode_leaders b58dec ss) (\<lambda>pks. Inr (pk # pks)))"

definition GetSlotLeaders :: "('st, string list) caller \<Rightarrow> b58decoder \<Rightarrow> u64 \<Rightarrow> u64 \<Rightarrow> ('st, PublicKey list) rpc_call" where
  "GetSlotLeaders call b58dec startSlot limit =
     perform call ''getSlotLeaders'' [JUint (unat startSlot), JUint (unat limit)] (\<lambda>raw. checked (decode_leaders b58dec raw))"

definition GetLeaderSchedule ::
  "('st, string \<rightharpoonup> u64 list) caller \<Rightarrow> u64 option \<Rightarrow> LeaderScheduleCfg list \<Rightarrow> ('st, string \<rightharpoonup> u64 list) rpc_call" where
  "GetLeaderSchedule call slot cfg =
     perform call ''getLeaderSchedule'' [ptr_json slot, json_LeaderScheduleCfg (FirstOrZero \<lparr>le_Commitment = [], le_Identity = []\<rparr> cfg)] Inr"

definition GetInflationGovernor :: "('st, 'f InflationGovernor) caller \<Rightarrow> CommitmentCfg list \<Rightarrow> ('st, 'f InflationGovernor) rpc_call" where
  "GetInflationGovernor call cfg = perform call ''getInflationGovernor'' [commitment_json cfg] Inr"

definition GetInflationReward ::
  "('st, InflationReward option list) caller \<Rightarrow> b58encoder \<Rightarrow> PublicKey list \<Rightarrow> InflationRewardCfg list \<Rightarrow> ('st, InflationReward option list) rpc_call" where
  "GetInflationReward call b58enc addresses cfg =
     perform call ''getInflationReward''
       [JArr (map (pk_json b58enc) addresses),
        json_InflationRewardCfg (FirstOrZero \<lparr>ir_Commitment = [], ir_MinContextSlot = None, ir_Epoch = None\<rparr> cfg)] Inr"

definition GetRecentPerformanceSamples :: "('st, PerformanceSample list) caller \<Rightarrow> u64 option \<Rightarrow> ('st, PerformanceSample list) rpc_call" where
  "GetRecentPerformanceSamples call limit = perform call ''getRecentPerformanceSamples'' [ptr_json limit] Inr"

section \<open>Fees\<close>

definition RequestAirdrop ::
  "('st, string) caller \<Rightarrow> b58encoder \<Rightarrow> b58decoder \<Rightarrow> PublicKey \<Rightarrow> u64 \<Rightarrow> CommitmentCfg list \<Rightarrow> ('st, Signature) rpc_call" where
  "RequestAirdrop call b58enc b58dec pubkey lamports cfg =
     perform call ''requestAirdrop'' [pk_json b58enc pubkey, JUint (unat lamports), commitment_json cfg]
       (\<lambda>sigStr. checked (SignatureFromBase58 b58dec sigStr))"

definition GetFeeForMessage ::
  "('st, u64 option ContextValue) caller \<Rightarrow> Message option \<Rightarrow> CommitmentWithMinSlotCfg list \<Rightarrow> ('st, GetFeeForMessageResult) rpc_call" where
  "GetFeeForMessage call msg cfg =
     (case msg of
        None \<Rightarrow> refuse (Errorf ''solana: GetFeeForMessage: nil message'' [])
      | Some m \<Rightarrow>
          (case Marshal m of
             Inl e \<Rightarrow> refuse (Wrapf ''solana: GetFeeForMessage: marshal: %w'' [] e)
           | Inr msgBytes \<Rightarrow>
               perform call ''getFeeForMessage'' [JStr (base64_EncodeToString msgBytes), min_slot_json cfg]
                 (\<lambda>resp. Inr \<lparr>gfm_Slot = cv_Slot resp, gfm_Fee = cv_Value resp\<rparr>)))"

definition MaxGetRecentPrioritizationFeesAddresses :: nat where "MaxGetRecentPrioritizationFeesAddresses = 128"

definition GetRecentPrioritizationFees ::
  "('st, PrioritizationFee list) caller \<Rightarrow> b58encoder \<Rightarrow> PublicKey list \<Rightarrow> ('st, PrioritizationFee list) rpc_call" where
  "GetRecentPrioritizationFees call b58enc addresses =
     (if length addresses > MaxGetRecentPrioritizationFeesAddresses
      then refuse (Errorf ''solana: GetRecentPrioritizationFees: %d addresses exceeds Solana RPC max of %d''
             [int (length addresses), int MaxGetRecentPrioritizationFeesAddresses])
      else perform call ''getRecentPrioritizationFees'' [JArr (map (pk_json b58enc) addresses)] Inr)"

section \<open>Programs and token accounts\<close>

definition GetProgramAccounts ::
  "('st, ProgramAccount list) caller \<Rightarrow> b58encoder \<Rightarrow> PublicKey \<Rightarrow> AccountInfoCfg list \<Rightarrow> ('st, ProgramAccount list) rpc_call" where
  "GetProgramAccounts call b58enc program cfg =
     perform call ''getProgramAccounts'' [pk_json b58enc program, json_AccountInfoCfg (FirstOrZero zero_AccountInfoCfg cfg)] Inr"

definition tokenAccountsCall ::
  "('st, TokenAccount list ContextValue) caller \<Rightarrow> b58encoder \<Rightarrow> string \<Rightarrow> PublicKey \<Rightarrow> TokenAccountFilter \<Rightarrow> AccountInfoCfg list \<Rightarrow>
     ('st, TokenAccount list) rpc_call" where
  "tokenAccountsCall call b58enc m addr flt cfg =
     (let f = (if \<not> pk_IsZero (tf_Mint flt) then JObj [(''mint'', pk_json b58enc (tf_Mint flt))]
               else JObj [(''programId'', pk_json b58enc (tf_ProgramID flt))])
      in perform call m [pk_json b58enc addr, f, json_AccountInfoCfg (FirstOrZero zero_AccountInfoCfg cfg)] (\<lambda>resp. Inr (cv_Value resp)))"

definition GetTokenAccountsByOwner ::
  "('st, TokenAccount list ContextValue) caller \<Rightarrow> b58encoder \<Rightarrow> PublicKey \<Rightarrow> TokenAccountFilter \<Rightarrow> AccountInfoCfg list \<Rightarrow> ('st, TokenAccount list) rpc_call" where
  "GetTokenAccountsByOwner call b58enc owner flt cfg = tokenAccountsCall call b58enc ''getTokenAccountsByOwner'' owner flt cfg"

definition GetTokenAccountsByDelegate ::
  "('st, TokenAccount list ContextValue) caller \<Rightarrow> b58encoder \<Rightarrow> PublicKey \<Rightarrow> TokenAccountFilter \<Rightarrow> AccountInfoCfg list \<Rightarrow> ('st, TokenAccount list) rpc_call" where
  "GetTokenAccountsByDelegate call b58enc delegate flt cfg = tokenAccountsCall call b58enc ''getTokenAccountsByDelegate'' delegate flt cfg"

definition GetTokenLargestAccounts ::
  "('st, 'f TokenLargestAccount list ContextValue) caller \<Rightarrow> b58encoder \<Rightarrow> PublicKey \<Rightarrow> CommitmentCfg list \<Rightarrow> ('st, 'f TokenLargestAccount list) rpc_call" where
  "GetTokenLargestAccounts call b58enc mint cfg =
     perform call ''getTokenLargestAccounts'' [pk_json b58enc mint, commitment_json cfg] (\<lambda>resp. Inr (cv_Value resp))"

definition GetLargestAccounts ::
  "('st, LargestAccount list ContextValue) caller \<Rightarrow> LargestAccountsCfg list \<Rightarrow> ('st, LargestAccount list) rpc_call" where
  "GetLargestAccounts call cfg =
     perform call ''getLargestAccounts'' [json_LargestAccountsCfg (FirstOrZero \<lparr>lc_Commitment = [], lc_Filter = []\<rparr> cfg)]
       (\<lambda>resp. Inr (cv_Value resp))"

section \<open>Queries\<close>

definition GetBalance ::
  "('st, u64 ContextValue) caller \<Rightarrow> b58encoder \<Rightarrow> PublicKey \<Rightarrow> CommitmentWithMinSlotCfg list \<Rightarrow> ('st, GetBalanceResult) rpc_call" where
  "GetBalance call b58enc pubkey cfg =
     perform call ''getBalance'' [pk_json b58enc pubkey, min_slot_json cfg]
       (\<lambda>resp. Inr \<lparr>gbr_Slot = cv_Slot resp, gbr_Value = cv_Value resp\<rparr>)"

definition GetSlot :: "('st, u64) caller \<Rightarrow> CommitmentWithMinSlotCfg list \<Rightarrow> ('st, u64) rpc_call" where
  "GetSlot call cfg = perform call ''getSlot'' [min_slot_json cfg] Inr"

definition GetBlockHeight :: "('st, u64) caller \<Rightarrow> CommitmentWithMinSlotCfg list \<Rightarrow> ('st, u64) rpc_call" where
  "GetBlockHeight call cfg = perform call ''getBlockHeight'' [min_slot_json cfg] Inr"

definition GetLatestBlockhash ::
  "('st, LatestBlockhash ContextValue) caller \<Rightarrow> CommitmentWithMinSlotCfg list \<Rightarrow> ('st, LatestBlockhash) rpc_call" where
  "GetLatestBlockhash call cfg =
     perform call ''getLatestBlockhash'' [min_slot_json cfg] (\<lambda>resp. Inr ((cv_Value resp)\<lparr>lb_Slot := cv_Slot resp\<rparr>))"

section \<open>Signatures\<close>

definition MaxGetSignatureStatusesSignatures :: nat where "MaxGetSignatureStatusesSignatures = 256"

definition GetSignatureStatuses ::
  "('st, SignatureStatus option list ContextValue) caller \<Rightarrow> b58encoder \<Rightarrow> Signature list \<Rightarrow> SignatureStatusesCfg list \<Rightarrow>
     ('st, GetSignatureStatusesResult) rpc_call" where
  "GetSignatureStatuses call b58enc sigs cfg =
     (if length sigs > MaxGetSignatureStatusesSignatures
      then refuse (Errorf ''solana: GetSignatureStatuses: %d signatures exceeds Solana RPC max of %d''
             [int (length sigs), int MaxGetSignatureStatusesSignatures])
      else perform call ''getSignatureStatuses''
             [JArr (map (pk_json b58enc) sigs), json_SignatureStatusesCfg (FirstOrZero \<lparr>sc_SearchHistory = None\<rparr> cfg)]
             (\<lambda>resp. Inr \<lparr>gss_Slot = cv_Slot resp, gss_Statuses = cv_Value resp\<rparr>))"

definition GetSignaturesForAddress ::
  "('st, ConfirmedSignatureForAddress option list) caller \<Rightarrow> b58encoder \<Rightarrow> PublicKey \<Rightarrow> SignaturesForAddressCfg list \<Rightarrow>
     ('st, ConfirmedSignatureForAddress option list) rpc_call" where
  "GetSignaturesForAddress call b58enc addr cfg =
     perform call ''getSignaturesForAddress''
       [pk_json b58enc addr, json_SignaturesForAddressCfg (FirstOrZero zero_SignaturesForAddressCfg cfg)] Inr"

section \<open>Simulation\<close>

text \<open>The account snapshots of a simulation, with their default encoding.\<close>

definition simulate_accounts :: "SimulateAccountsCfg \<Rightarrow> SimulateAccountsCfg result" where
  "simulate_accounts a =
     (let a = (if sa_Encoding a = [] then a\<lparr>sa_Encoding := EncodingBase64\<rparr> else a)
      in if sa_Encoding a = EncodingBase64 \<or> sa_Encoding a = EncodingBase64ZSTD then Inr a
         else Inl (Errorf ''solana: SimulateTransaction: unsupported account encoding %q'' []))"

text \<open>The configuration that is sent, or what is wrong with it.\<close>

definition simulate_config :: "SimulateTxCfg \<Rightarrow> SimulateTxCfg result" where
  "simulate_config cfg =
     (let c0 = (if si_Encoding cfg = [] then cfg\<lparr>si_Encoding := EncodingBase64\<rparr> else cfg)
      in if si_SigVerify c0 = Some True \<and> si_ReplaceRecentBlockhash c0 = Some True
         then Inl (Errorf ''solana: SimulateTransaction: sigVerify and replaceRecentBlockhash cannot both be true'' [])
         else case si_Accounts c0 of
                None \<Rightarrow> Inr c0
              | Some a \<Rightarrow> res_bind (simulate_accounts a) (\<lambda>a. Inr (c0\<lparr>si_Accounts := Some a\<rparr>)))"

definition encode_wire :: "b58encoder \<Rightarrow> string \<Rightarrow> Encoding \<Rightarrow> bytes \<Rightarrow> string result" where
  "encode_wire b58enc msg enc raw =
     (if enc = EncodingBase64 then Inr (base64_EncodeToString raw)
      else if enc = EncodingBase58 then Inr (b58enc raw)
      else Inl (Errorf msg []))"

definition SimulateTransaction ::
  "('st, 'f SimulateResult ContextValue) caller \<Rightarrow> b58encoder \<Rightarrow> Transaction option \<Rightarrow> SimulateTxCfg list \<Rightarrow> ('st, 'f SimulateResult) rpc_call" where
  "SimulateTransaction call b58enc tx cfg =
     (case tx of
        None \<Rightarrow> refuse (Errorf ''solana: SimulateTransaction: nil transaction'' [])
      | Some tx \<Rightarrow>
          (case tx_Marshal tx of
             Inl e \<Rightarrow> refuse (Wrapf ''solana: SimulateTransaction: marshal: %w'' [] e)
           | Inr raw \<Rightarrow>
               (case simulate_config (FirstOrZero zero_SimulateTxCfg cfg) of
                  Inl e \<Rightarrow> refuse e
                | Inr c0 \<Rightarrow>
                    (case encode_wire b58enc ''solana: SimulateTransaction: unsupported transaction encoding %q'' (si_Encoding c0) raw of
                       Inl e \<Rightarrow> refuse e
                     | Inr encoded \<Rightarrow>
                         perform call ''simulateTransaction'' [JStr encoded, json_SimulateTxCfg b58enc c0]
                           (\<lambda>resp. Inr ((cv_Value resp)\<lparr>sr_Slot := cv_Slot resp\<rparr>))))))"

section \<open>System\<close>

definition GetHealth :: "('st, string) caller \<Rightarrow> ('st, string) rpc_call" where
  "GetHealth call = perform call ''getHealth'' [] Inr"

definition GetVersion :: "('st, SolanaVersion) caller \<Rightarrow> ('st, SolanaVersion) rpc_call" where
  "GetVersion call = perform call ''getVersion'' [] Inr"

definition GetIdentity :: "('st, string) caller \<Rightarrow> b58decoder \<Rightarrow> ('st, PublicKey) rpc_call" where
  "GetIdentity call b58dec = perform call ''getIdentity'' [] (\<lambda>raw. checked (PublicKeyFromBase58 b58dec raw))"

definition GetGenesisHash :: "('st, string) caller \<Rightarrow> b58decoder \<Rightarrow> ('st, Hash) rpc_call" where
  "GetGenesisHash call b58dec = perform call ''getGenesisHash'' [] (\<lambda>raw. checked (HashFromBase58 b58dec raw))"

definition GetHighestSnapshotSlot :: "('st, HighestSnapshotSlot) caller \<Rightarrow> ('st, HighestSnapshotSlot) rpc_call" where
  "GetHighestSnapshotSlot call = perform call ''getHighestSnapshotSlot'' [] Inr"

definition GetTransactionCount :: "('st, u64) caller \<Rightarrow> CommitmentWithMinSlotCfg list \<Rightarrow> ('st, u64) rpc_call" where
  "GetTransactionCount call cfg = perform call ''getTransactionCount'' [min_slot_json cfg] Inr"

definition IsBlockhashValid :: "('st, bool ContextValue) caller \<Rightarrow> b58encoder \<Rightarrow> Hash \<Rightarrow> CommitmentWithMinSlotCfg list \<Rightarrow> ('st, bool) rpc_call" where
  "IsBlockhashValid call b58enc blockhash cfg =
     perform call ''isBlockhashValid'' [pk_json b58enc blockhash, min_slot_json cfg] (\<lambda>resp. Inr (cv_Value resp))"

definition MinimumLedgerSlot :: "('st, u64) caller \<Rightarrow> ('st, u64) rpc_call" where
  "MinimumLedgerSlot call = perform call ''minimumLedgerSlot'' [] Inr"

definition GetMaxRetransmitSlot :: "('st, u64) caller \<Rightarrow> ('st, u64) rpc_call" where
  "GetMaxRetransmitSlot call = perform call ''getMaxRetransmitSlot'' [] Inr"

definition GetMaxShredInsertSlot :: "('st, u64) caller \<Rightarrow> ('st, u64) rpc_call" where
  "GetMaxShredInsertSlot call = perform call ''getMaxShredInsertSlot'' [] Inr"

section \<open>Transactions\<close>

definition get_transaction_defaults :: "GetTransactionCfg \<Rightarrow> GetTransactionCfg" where
  "get_transaction_defaults c0 =
     chain [\<lambda>c. if gt_Encoding c = [] then c\<lparr>gt_Encoding := EncodingBase64\<rparr> else c,
            \<lambda>c. if gt_MaxVersion c = None then c\<lparr>gt_MaxVersion := Some 0\<rparr> else c] c0"

definition GetTransaction ::
  "('st, 'f GetTransactionResult option) caller \<Rightarrow> b58encoder \<Rightarrow> Signature \<Rightarrow> GetTransactionCfg list \<Rightarrow> ('st, 'f GetTransactionResult option) rpc_call" where
  "GetTransaction call b58enc sig cfg =
     perform call ''getTransaction''
       [pk_json b58enc sig, json_GetTransactionCfg (get_transaction_defaults (FirstOrZero zero_GetTransactionCfg cfg))] Inr"

definition SendRawTransaction ::
  "('st, string) caller \<Rightarrow> b58encoder \<Rightarrow> b58decoder \<Rightarrow> bytes \<Rightarrow> SendTxCfg list \<Rightarrow> ('st, Signature) rpc_call" where
  "SendRawTransaction call b58enc b58dec raw cfg =
     (let c0 = FirstOrZero zero_SendTxCfg cfg;
          c0 = (if st_Encoding c0 = [] then c0\<lparr>st_Encoding := EncodingBase64\<rparr> else c0)
      in case encode_wire b58enc ''solana: SendRawTransaction: unsupported encoding %q'' (st_Encoding c0) raw of
           Inl e \<Rightarrow> refuse e
         | Inr encoded \<Rightarrow>
             perform call ''sendTransaction'' [JStr encoded, json_SendTxCfg c0] (\<lambda>sigStr. checked (SignatureFromBase58 b58dec sigStr)))"

definition SendTransaction ::
  "('st, string) caller \<Rightarrow> b58encoder \<Rightarrow> b58decoder \<Rightarrow> Transaction \<Rightarrow> SendTxCfg list \<Rightarrow> ('st, Signature) rpc_call" where
  "SendTransaction call b58enc b58dec tx cfg =
     (case tx_Marshal tx of
        Inl e \<Rightarrow> refuse (Wrapf ''solana: SendTransaction: marshal: %w'' [] e)
      | Inr raw \<Rightarrow> SendRawTransaction call b58enc b58dec raw cfg)"

section \<open>Votes and stake\<close>

definition GetVoteAccounts :: "('st, VoteAccounts) caller \<Rightarrow> CommitmentCfg list \<Rightarrow> ('st, VoteAccounts) rpc_call" where
  "GetVoteAccounts call cfg = perform call ''getVoteAccounts'' [commitment_json cfg] Inr"

definition GetClusterNodes :: "('st, ClusterNode list) caller \<Rightarrow> ('st, ClusterNode list) rpc_call" where
  "GetClusterNodes call = perform call ''getClusterNodes'' [] Inr"

definition GetBlockProduction ::
  "('st, BlockProductionValue ContextValue) caller \<Rightarrow> CommitmentCfg list \<Rightarrow> ('st, BlockProductionResult) rpc_call" where
  "GetBlockProduction call cfg =
     perform call ''getBlockProduction'' [commitment_json cfg] (\<lambda>resp. Inr \<lparr>br_Slot = cv_Slot resp, br_Value = cv_Value resp\<rparr>)"

definition GetStakeActivation ::
  "('st, StakeActivation) caller \<Rightarrow> b58encoder \<Rightarrow> PublicKey \<Rightarrow> CommitmentWithMinSlotCfg list \<Rightarrow> ('st, StakeActivation) rpc_call" where
  "GetStakeActivation call b58enc account cfg = perform call ''getStakeActivation'' [pk_json b58enc account, min_slot_json cfg] Inr"

definition GetStakeMinimumDelegation :: "('st, u64 ContextValue) caller \<Rightarrow> CommitmentCfg list \<Rightarrow> ('st, u64) rpc_call" where
  "GetStakeMinimumDelegation call cfg =
     perform call ''getStakeMinimumDelegation'' [commitment_json cfg] (\<lambda>resp. Inr (cv_Value resp))"

end
