(* ===== verification/Rpc_Methods_Laws.thy ===== *)
theory Rpc_Methods_Laws
  imports Rpc_Methods
begin

text \<open>
  Laws of the typed RPC methods.  The locale \<open>rpc_transport\<close> is the contract of a call: it uses up one
  request id; it is interpreted on the client of \<open>jsonrpc\<close>.  The locale \<open>options_view\<close> is the contract of
  a configuration object: a node that reads the JSON object by name finds the options that were set.
  On these rest what a node receives of a transaction, a simulation and the batched queries.
\<close>

section \<open>Requests\<close>

locale rpc_transport =
  fixes call :: "('st, 't) caller" and requests :: "'st \<Rightarrow> u64"
  assumes one_request: "requests (fst (call m ps st)) = requests st + 1"
begin

lemma perform_requests: "requests (fst (perform call m ps f st)) = requests st + 1"
  using one_request [of m ps st] by (auto simp: perform_def split: prod.splits option.splits sum.splits)

lemma refused_or_sent:
  assumes "r = (if c then refuse e st else perform call m ps f st)"
  shows "requests (fst r) = (if c then requests st else requests st + 1)"
  unfolding assms by (simp add: refuse_def perform_requests)

end

interpretation client: rpc_transport "client_call ctx" nextID for ctx
  by unfold_locales
     (auto simp: client_call_def CallContext_def callRaw_def Let_def split: prod.splits option.splits sum.splits)

section \<open>What a node reads\<close>

definition get_str :: "string \<Rightarrow> (string \<times> jv) list \<Rightarrow> string" where
  "get_str k fds = (case map_of fds k of Some (JStr s) \<Rightarrow> s | _ \<Rightarrow> [])"

definition get_uint :: "string \<Rightarrow> (string \<times> jv) list \<Rightarrow> u64 option" where
  "get_uint k fds = (case map_of fds k of Some (JUint n) \<Rightarrow> Some (of_nat n) | _ \<Rightarrow> None)"

definition get_int :: "string \<Rightarrow> (string \<times> jv) list \<Rightarrow> int option" where
  "get_int k fds = (case map_of fds k of Some (JInt i) \<Rightarrow> Some i | _ \<Rightarrow> None)"

definition get_bool :: "string \<Rightarrow> (string \<times> jv) list \<Rightarrow> bool option" where
  "get_bool k fds = (case map_of fds k of Some (JBool b) \<Rightarrow> Some b | _ \<Rightarrow> None)"

definition get_obj :: "string \<Rightarrow> (string \<times> jv) list \<Rightarrow> (string \<times> jv) list option" where
  "get_obj k fds = (case map_of fds k of Some (JObj o') \<Rightarrow> Some o' | _ \<Rightarrow> None)"

definition fields_of :: "jv \<Rightarrow> (string \<times> jv) list" where
  "fields_of v = (case v of JObj fds \<Rightarrow> fds | _ \<Rightarrow> [])"

lemma map_of_str_field [simp]: "map_of (str_field k s @ r) k' = (if k = k' \<and> s \<noteq> [] then Some (JStr s) else map_of r k')"
  by (simp add: str_field_def)

lemma map_of_str_last [simp]: "map_of (str_field k s) k' = (if k = k' \<and> s \<noteq> [] then Some (JStr s) else None)"
  by (simp add: str_field_def)

lemma map_of_opt_field [simp]: "map_of (opt_field k v @ r) k' = (if k = k' \<and> v \<noteq> None then v else map_of r k')"
  by (cases v) (simp_all add: opt_field_def)

lemma map_of_opt_last [simp]: "map_of (opt_field k v) k' = (if k = k' then v else None)"
  by (cases v) (simp_all add: opt_field_def)

lemma read_juint [simp]: "(case juint p of Some (JUint n) \<Rightarrow> Some (of_nat n) | _ \<Rightarrow> None) = (p :: u64 option)"
  by (cases p) (simp_all add: juint_def)

lemma read_jint [simp]: "(case jint p of Some (JInt i) \<Rightarrow> Some i | _ \<Rightarrow> None) = p"
  by (cases p) (simp_all add: jint_def)

lemma read_jbool [simp]: "(case jbool p of Some (JBool b) \<Rightarrow> Some b | _ \<Rightarrow> None) = p"
  by (cases p) (simp_all add: jbool_def)

lemma ptr_None [simp]: "juint p = None \<longleftrightarrow> p = None" "jint i = None \<longleftrightarrow> i = None" "jbool b = None \<longleftrightarrow> b = None"
  by (simp_all add: juint_def jint_def jbool_def)

lemmas reads_defs = get_str_def get_uint_def get_int_def get_bool_def get_obj_def fields_of_def

locale options_view =
  fixes to_json :: "'c \<Rightarrow> jv" and of_json :: "jv \<Rightarrow> 'c" and complete :: "'c \<Rightarrow> 'c"
  assumes view: "of_json (to_json c) = complete c"
begin

text \<open>Options that differ after completion are sent as different objects.\<close>

lemma faithful: "to_json c = to_json c' \<Longrightarrow> complete c = complete c'"
  using view [of c] view [of c'] by simp

end

definition view_CommitmentCfg :: "jv \<Rightarrow> CommitmentCfg" where
  "view_CommitmentCfg v = \<lparr>cc_Commitment = get_str ''commitment'' (fields_of v)\<rparr>"

definition view_MinSlotCfg :: "jv \<Rightarrow> CommitmentWithMinSlotCfg" where
  "view_MinSlotCfg v = \<lparr>cm_Commitment = get_str ''commitment'' (fields_of v), cm_MinContextSlot = get_uint ''minContextSlot'' (fields_of v)\<rparr>"

definition view_DataSlice :: "(string \<times> jv) list \<Rightarrow> DataSlice" where
  "view_DataSlice fds = \<lparr>ds_Offset = the (get_uint ''offset'' fds), ds_Length = the (get_uint ''length'' fds)\<rparr>"

definition view_AccountInfoCfg :: "jv \<Rightarrow> AccountInfoCfg" where
  "view_AccountInfoCfg v =
     \<lparr>ac_Commitment = get_str ''commitment'' (fields_of v), ac_Encoding = get_str ''encoding'' (fields_of v),
      ac_DataSlice = map_option view_DataSlice (get_obj ''dataSlice'' (fields_of v)),
      ac_MinContextSlot = get_uint ''minContextSlot'' (fields_of v)\<rparr>"

definition view_GetBlockCfg :: "jv \<Rightarrow> GetBlockCfg" where
  "view_GetBlockCfg v =
     \<lparr>gb_Commitment = get_str ''commitment'' (fields_of v), gb_Encoding = get_str ''encoding'' (fields_of v),
      gb_MaxVersion = get_uint ''maxSupportedTransactionVersion'' (fields_of v),
      gb_TransactionDetails = get_str ''transactionDetails'' (fields_of v), gb_Rewards = get_bool ''rewards'' (fields_of v)\<rparr>"

definition view_GetTransactionCfg :: "jv \<Rightarrow> GetTransactionCfg" where
  "view_GetTransactionCfg v =
     \<lparr>gt_Commitment = get_str ''commitment'' (fields_of v), gt_Encoding = get_str ''encoding'' (fields_of v),
      gt_MaxVersion = get_uint ''maxSupportedTransactionVersion'' (fields_of v)\<rparr>"

definition view_SignaturesForAddressCfg :: "jv \<Rightarrow> SignaturesForAddressCfg" where
  "view_SignaturesForAddressCfg v =
     \<lparr>sf_Commitment = get_str ''commitment'' (fields_of v), sf_MinContextSlot = get_uint ''minContextSlot'' (fields_of v),
      sf_Limit = get_int ''limit'' (fields_of v), sf_Before = get_str ''before'' (fields_of v), sf_Until = get_str ''until'' (fields_of v)\<rparr>"

definition view_SendTxCfg :: "jv \<Rightarrow> SendTxCfg" where
  "view_SendTxCfg v =
     \<lparr>st_SkipPreflight = get_bool ''skipPreflight'' (fields_of v), st_PreflightCommitment = get_str ''preflightCommitment'' (fields_of v),
      st_MaxRetries = get_uint ''maxRetries'' (fields_of v), st_MinContextSlot = get_uint ''minContextSlot'' (fields_of v),
      st_Encoding = get_str ''encoding'' (fields_of v)\<rparr>"

text \<open>The fields of a simulation that are not account snapshots.\<close>

definition view_SimulateTxCfg :: "jv \<Rightarrow> SimulateTxCfg" where
  "view_SimulateTxCfg v =
     \<lparr>si_Commitment = get_str ''commitment'' (fields_of v), si_SigVerify = get_bool ''sigVerify'' (fields_of v),
      si_ReplaceRecentBlockhash = get_bool ''replaceRecentBlockhash'' (fields_of v),
      si_MinContextSlot = get_uint ''minContextSlot'' (fields_of v), si_Encoding = get_str ''encoding'' (fields_of v),
      si_InnerInstructions = get_bool ''innerInstructions'' (fields_of v), si_Accounts = None\<rparr>"

interpretation commitment_cfg: options_view json_CommitmentCfg view_CommitmentCfg "\<lambda>c. c"
  by unfold_locales (simp add: json_CommitmentCfg_def view_CommitmentCfg_def reads_defs del: map_of_append)

interpretation min_slot_cfg: options_view json_CommitmentWithMinSlotCfg view_MinSlotCfg "\<lambda>c. c"
  by unfold_locales (simp add: json_CommitmentWithMinSlotCfg_def view_MinSlotCfg_def reads_defs del: map_of_append)

lemma view_json_AccountInfoCfg: "view_AccountInfoCfg (json_AccountInfoCfg c) = with_base64 c"
  by (cases "ac_DataSlice c")
     (simp_all add: json_AccountInfoCfg_def view_AccountInfoCfg_def reads_defs view_DataSlice_def json_DataSlice_def
        with_base64_def Let_def del: map_of_append)

interpretation account_info_cfg: options_view json_AccountInfoCfg view_AccountInfoCfg with_base64
  by unfold_locales (rule view_json_AccountInfoCfg)

interpretation get_block_cfg: options_view json_GetBlockCfg view_GetBlockCfg "\<lambda>c. c"
  by unfold_locales (simp add: json_GetBlockCfg_def view_GetBlockCfg_def reads_defs del: map_of_append)

interpretation get_transaction_cfg: options_view json_GetTransactionCfg view_GetTransactionCfg "\<lambda>c. c"
  by unfold_locales (simp add: json_GetTransactionCfg_def view_GetTransactionCfg_def reads_defs del: map_of_append)

interpretation signatures_cfg: options_view json_SignaturesForAddressCfg view_SignaturesForAddressCfg "\<lambda>c. c"
  by unfold_locales (simp add: json_SignaturesForAddressCfg_def view_SignaturesForAddressCfg_def reads_defs del: map_of_append)

interpretation send_cfg: options_view json_SendTxCfg view_SendTxCfg "\<lambda>c. c"
  by unfold_locales (simp add: json_SendTxCfg_def view_SendTxCfg_def reads_defs del: map_of_append)

interpretation simulate_cfg: options_view "json_SimulateTxCfg b58enc" view_SimulateTxCfg "\<lambda>c. c\<lparr>si_Accounts := None\<rparr>" for b58enc
  by unfold_locales (simp add: json_SimulateTxCfg_def view_SimulateTxCfg_def reads_defs del: map_of_append)

text \<open>
  A node that reads the options object of a request by field name finds exactly the options the
  caller set; account queries always name an encoding, base64 by default.
\<close>

theorem options_faithful:
  "view_CommitmentCfg (json_CommitmentCfg c1) = c1 \<and>
   view_MinSlotCfg (json_CommitmentWithMinSlotCfg c2) = c2 \<and>
   view_AccountInfoCfg (json_AccountInfoCfg c3) = with_base64 c3 \<and>
   view_GetBlockCfg (json_GetBlockCfg c4) = c4 \<and>
   view_GetTransactionCfg (json_GetTransactionCfg c5) = c5 \<and>
   view_SignaturesForAddressCfg (json_SignaturesForAddressCfg c6) = c6 \<and>
   view_SendTxCfg (json_SendTxCfg c7) = c7 \<and>
   view_SimulateTxCfg (json_SimulateTxCfg b58enc c8) = c8\<lparr>si_Accounts := None\<rparr>"
  by (simp add: commitment_cfg.view min_slot_cfg.view account_info_cfg.view get_block_cfg.view get_transaction_cfg.view
      signatures_cfg.view send_cfg.view simulate_cfg.view)

section \<open>Batched queries\<close>

text \<open>The addresses a node reads from a positional parameter.\<close>

definition node_keys :: "b58decoder \<Rightarrow> jv \<Rightarrow> bytes option list" where
  "node_keys b58dec v = (case v of JArr vs \<Rightarrow> map (\<lambda>x. case x of JStr s \<Rightarrow> b58dec s | _ \<Rightarrow> None) vs | _ \<Rightarrow> [])"

lemma node_keys_pk:
  "base58_ok b58enc b58dec \<Longrightarrow> \<forall>k \<in> set ks. k \<noteq> [] \<Longrightarrow> node_keys b58dec (JArr (map (pk_json b58enc) ks)) = map Some ks"
  by (auto simp: node_keys_def pk_json_def base58_ok_def)

text \<open>On the client of \<open>jsonrpc\<close> a refused query uses no request id and any other exactly one.\<close>

lemma batched_query_ids:
  "nextID (fst (GetMultipleAccounts (client_call ctx) b58enc ks cfg1 c1)) =
     (if length ks > MaxGetMultipleAccountsAddresses then nextID c1 else nextID c1 + 1)"
  "nextID (fst (GetSignatureStatuses (client_call ctx) b58enc ks cfg2 c2)) =
     (if length ks > MaxGetSignatureStatusesSignatures then nextID c2 else nextID c2 + 1)"
  "nextID (fst (GetRecentPrioritizationFees (client_call ctx) b58enc ks c3)) =
     (if length ks > MaxGetRecentPrioritizationFeesAddresses then nextID c3 else nextID c3 + 1)"
  by (simp_all add: GetMultipleAccounts_def GetSignatureStatuses_def GetRecentPrioritizationFees_def Let_def refuse_def
      client.perform_requests)

text \<open>Different options are sent as different objects.\<close>

lemma options_injective:
  "json_SendTxCfg c = json_SendTxCfg c' \<Longrightarrow> c = c'"
  "json_GetBlockCfg b = json_GetBlockCfg b' \<Longrightarrow> b = b'"
  "json_AccountInfoCfg a = json_AccountInfoCfg a' \<Longrightarrow> with_base64 a = with_base64 a'"
  by (fact send_cfg.faithful get_block_cfg.faithful account_info_cfg.faithful)+

text \<open>A transport that records what it is asked to send.\<close>

definition recording :: "(string \<Rightarrow> jv list \<Rightarrow> rpc_error + 't) \<Rightarrow> ((string \<times> jv list) list, 't) caller" where
  "recording reply m ps sent = (sent @ [(m, ps)], Some (reply m ps))"

lemma perform_recording:
  "perform (recording reply) m ps f sent =
     (sent @ [(m, ps)], Some (case reply m ps of Inl e \<Rightarrow> Inl (CallFailed e) | Inr x \<Rightarrow> f x))"
  by (simp add: perform_def recording_def split: sum.splits)

text \<open>
  C17: a query for more keys than a node accepts is refused before anything is sent; any other is
  one request that hands the node all the keys in the caller's order.
\<close>

theorem batched_queries:
  assumes "base58_ok b58enc b58dec" and "\<forall>k \<in> set ks. k \<noteq> []"
  shows
    "(case GetMultipleAccounts (recording rep1) b58enc ks cfg1 [] of (sent, r) \<Rightarrow>
        if length ks > 100 then sent = [] \<and> (\<exists>e. r = Some (Inl (Refused e)))
        else \<exists>v opts. sent = [(''getMultipleAccounts'', [v, opts])] \<and> node_keys b58dec v = map Some ks) \<and>
     (case GetSignatureStatuses (recording rep2) b58enc ks cfg2 [] of (sent, r) \<Rightarrow>
        if length ks > 256 then sent = [] \<and> (\<exists>e. r = Some (Inl (Refused e)))
        else \<exists>v opts. sent = [(''getSignatureStatuses'', [v, opts])] \<and> node_keys b58dec v = map Some ks) \<and>
     (case GetRecentPrioritizationFees (recording rep3) b58enc ks [] of (sent, r) \<Rightarrow>
        if length ks > 128 then sent = [] \<and> (\<exists>e. r = Some (Inl (Refused e)))
        else \<exists>v. sent = [(''getRecentPrioritizationFees'', [v])] \<and> node_keys b58dec v = map Some ks)"
  using node_keys_pk [OF assms]
  by (simp add: GetMultipleAccounts_def GetSignatureStatuses_def GetRecentPrioritizationFees_def refuse_def perform_recording
      MaxGetMultipleAccountsAddresses_def MaxGetSignatureStatusesSignatures_def MaxGetRecentPrioritizationFeesAddresses_def)

theorem batched_queries_witness:
  "fst (GetMultipleAccounts (recording (\<lambda>m ps. Inl (Plain ''down''))) base64_EncodeToString (replicate 101 [1]) [] []) = [] \<and>
   (\<exists>v opts. fst (GetMultipleAccounts (recording (\<lambda>m ps. Inl (Plain ''down''))) base64_EncodeToString [[1], [2]] [] []) =
      [(''getMultipleAccounts'', [v, opts])] \<and> node_keys base64_DecodeString v = [Some [1], Some [2]])"
  using batched_queries [OF sample_codecs(2), of "replicate 101 [1]" "\<lambda>m ps. Inl (Plain ''down'')" "[]" "\<lambda>m ps. Inl (Plain ''down'')" "[]" "\<lambda>m ps. Inl (Plain ''down'')"]
    batched_queries [OF sample_codecs(2), of "[[1], [2]]" "\<lambda>m ps. Inl (Plain ''down'')" "[]" "\<lambda>m ps. Inl (Plain ''down'')" "[]" "\<lambda>m ps. Inl (Plain ''down'')"]
  by (auto split: prod.splits)

section \<open>Sending and simulating\<close>

text \<open>The wire bytes a node reads from the parameters of \<open>sendTransaction\<close> and \<open>simulateTransaction\<close>.\<close>

definition node_wire :: "b58decoder \<Rightarrow> jv list \<Rightarrow> bytes option" where
  "node_wire b58dec ps =
     (case ps of
        [JStr s, opts] \<Rightarrow>
          (let e = get_str ''encoding'' (fields_of opts)
           in if e = EncodingBase64 then base64_DecodeString s
              else if e = [] \<or> e = EncodingBase58 then b58dec s else None)
      | _ \<Rightarrow> None)"

lemma node_wire_encode:
  assumes "base58_ok b58enc b58dec" and "bs \<noteq> []" and "encode_wire b58enc msg enc bs = Inr s"
    and "get_str ''encoding'' (fields_of opts) = enc"
  shows "node_wire b58dec [JStr s, opts] = Some bs"
  using assms by (auto simp: node_wire_def encode_wire_def base58_ok_def base64_roundtrip encoding_defs split: if_splits)

lemma tx_Marshal_nonempty: "tx_Marshal tx = Inr bs \<Longrightarrow> bs \<noteq> []"
  by (auto simp: tx_Marshal_law tx_bytes_def trailing_layout_def prefixed_layout_def)

lemma send_encoding: "get_str ''encoding'' (fields_of (json_SendTxCfg c)) = st_Encoding c"
  using arg_cong [OF send_cfg.view [of c], of st_Encoding] by (simp add: view_SendTxCfg_def)

lemma simulate_options:
  "get_str ''encoding'' (fields_of (json_SimulateTxCfg b58enc c)) = si_Encoding c"
  "get_bool ''sigVerify'' (fields_of (json_SimulateTxCfg b58enc c)) = si_SigVerify c"
  "get_bool ''replaceRecentBlockhash'' (fields_of (json_SimulateTxCfg b58enc c)) = si_ReplaceRecentBlockhash c"
  using arg_cong [OF simulate_cfg.view [of b58enc c], of si_Encoding] arg_cong [OF simulate_cfg.view [of b58enc c], of si_SigVerify]
    arg_cong [OF simulate_cfg.view [of b58enc c], of si_ReplaceRecentBlockhash]
  by (simp_all add: view_SimulateTxCfg_def)

lemma simulate_account_encoding:
  "get_obj ''accounts'' (fields_of (json_SimulateTxCfg b58enc c)) = Some o' \<Longrightarrow>
     \<exists>a. si_Accounts c = Some a \<and> get_str ''encoding'' o' = sa_Encoding a"
  by (cases "si_Accounts c")
     (auto simp: json_SimulateTxCfg_def json_SimulateAccountsCfg_def reads_defs split: if_splits simp del: map_of_append)

lemma simulate_accounts_ok:
  "simulate_accounts a0 = Inr a \<Longrightarrow> sa_Encoding a \<in> {EncodingBase64, EncodingBase64ZSTD}"
  by (auto simp: simulate_accounts_def Let_def split: if_splits)

lemma simulate_config_Inr:
  assumes "simulate_config cfg = Inr c"
  obtains c0 where "\<not> (si_SigVerify c0 = Some True \<and> si_ReplaceRecentBlockhash c0 = Some True)"
    and "c = c0 \<and> si_Accounts c0 = None \<or> (\<exists>a0 a. simulate_accounts a0 = Inr a \<and> c = c0\<lparr>si_Accounts := Some a\<rparr>)"
proof -
  let ?c0 = "if si_Encoding cfg = [] then cfg\<lparr>si_Encoding := EncodingBase64\<rparr> else cfg"
  have "\<not> (si_SigVerify ?c0 = Some True \<and> si_ReplaceRecentBlockhash ?c0 = Some True)"
    and "c = ?c0 \<and> si_Accounts ?c0 = None \<or> (\<exists>a0 a. simulate_accounts a0 = Inr a \<and> c = ?c0\<lparr>si_Accounts := Some a\<rparr>)"
    using assms by (auto simp: simulate_config_def Let_def res_bind_Inr_iff split: if_split_asm option.split_asm)
  then show thesis by (rule that)
qed

lemma simulate_config_ok:
  assumes "simulate_config cfg = Inr c"
  shows "(si_SigVerify c, si_ReplaceRecentBlockhash c) \<noteq> (Some True, Some True)"
    and "si_Accounts c = Some a \<Longrightarrow> sa_Encoding a \<in> {EncodingBase64, EncodingBase64ZSTD}"
  using assms by (auto elim!: simulate_config_Inr dest: simulate_accounts_ok)

text \<open>
  C14: \<open>SendTransaction\<close> is one request from which the node decodes exactly the caller's transaction
  under exactly the caller's options, in either supported encoding.
\<close>

theorem SendTransaction_wire:
  assumes "base58_ok b58enc b58dec" and "message_ok (tx_Message tx)" and "sigs_ok tx" and "tx_Marshal tx = Inr bs"
    and "Version (tx_Message tx) = MessageVersion1 \<or> length (Signatures tx) \<noteq> 129"
    and "st_Encoding (FirstOrZero zero_SendTxCfg cfg) \<in> {[], EncodingBase64, EncodingBase58}"
  shows "\<exists>ps. fst (SendTransaction (recording reply) b58enc b58dec tx cfg []) = [(''sendTransaction'', ps)] \<and>
    node_wire b58dec ps = Some bs \<and> tx_UnmarshalBinary bs = Inr tx \<and>
    view_SendTxCfg (ps ! 1) = (let c = FirstOrZero zero_SendTxCfg cfg
       in if st_Encoding c = [] then c\<lparr>st_Encoding := EncodingBase64\<rparr> else c)"
proof -
  let ?c = "FirstOrZero zero_SendTxCfg cfg"
  let ?c0 = "if st_Encoding ?c = [] then ?c\<lparr>st_Encoding := EncodingBase64\<rparr> else ?c"
  obtain s where s: "encode_wire b58enc ''solana: SendRawTransaction: unsupported encoding %q'' (st_Encoding ?c0) bs = Inr s"
    using assms(6) by (auto simp: encode_wire_def encoding_defs)
  have "node_wire b58dec [JStr s, json_SendTxCfg ?c0] = Some bs"
    by (rule node_wire_encode [OF assms(1) tx_Marshal_nonempty [OF assms(4)] s send_encoding])
  moreover have "fst (SendTransaction (recording reply) b58enc b58dec tx cfg []) = [(''sendTransaction'', [JStr s, json_SendTxCfg ?c0])]"
    using s by (simp add: SendTransaction_def assms(4) SendRawTransaction_def perform_recording Let_def)
  moreover have "view_SendTxCfg (json_SendTxCfg ?c0) = ?c0" by (simp add: send_cfg.view)
  ultimately show ?thesis
    using tx_roundtrip [OF assms(2-5)] by (intro exI [of _ "[JStr s, json_SendTxCfg ?c0]"]) (simp add: Let_def)
qed

theorem SendTransaction_wire_witness:
  "\<exists>ps. fst (SendTransaction (recording (\<lambda>m ps. Inr [])) base64_EncodeToString base64_DecodeString sample_tx [] []) = [(''sendTransaction'', ps)] \<and>
     node_wire base64_DecodeString ps = Some (tx_bytes sample_tx)"
  using SendTransaction_wire [OF sample_codecs(2) sample_tx_ok(1,3,4), of "[]" "\<lambda>m ps. Inr []"]
  by (auto simp: sample_tx_def FirstOrZero_def zero_SendTxCfg_def)

text \<open>
  C15: a simulation that is sent is one request from which the node decodes the wire bytes of the
  transaction; it never asks for signature verification and a replaced blockhash at once, and for
  account snapshots only in an encoding the client can decode.
\<close>

theorem SimulateTransaction_sent:
  assumes "base58_ok b58enc b58dec" and "SimulateTransaction (recording reply) b58enc tx cfg [] = (sent, r)" and "sent \<noteq> []"
  shows "\<exists>t ps bs. tx = Some t \<and> sent = [(''simulateTransaction'', ps)] \<and> tx_Marshal t = Inr bs \<and> node_wire b58dec ps = Some bs \<and>
    (get_bool ''sigVerify'' (fields_of (ps ! 1)), get_bool ''replaceRecentBlockhash'' (fields_of (ps ! 1))) \<noteq> (Some True, Some True) \<and>
    (\<forall>a. get_obj ''accounts'' (fields_of (ps ! 1)) = Some a \<longrightarrow> get_str ''encoding'' a \<in> {EncodingBase64, EncodingBase64ZSTD})"
proof -
  obtain t bs where t: "tx = Some t" and bs: "tx_Marshal t = Inr bs"
    using assms(2,3) by (auto simp: SimulateTransaction_def refuse_def split: option.splits sum.splits)
  obtain c where c: "simulate_config (FirstOrZero zero_SimulateTxCfg cfg) = Inr c"
    using assms(2,3) by (auto simp: SimulateTransaction_def refuse_def t bs split: sum.splits)
  obtain s where s: "encode_wire b58enc ''solana: SimulateTransaction: unsupported transaction encoding %q'' (si_Encoding c) bs = Inr s"
    using assms(2,3) by (auto simp: SimulateTransaction_def refuse_def t bs c split: sum.splits)
  have sent: "sent = [(''simulateTransaction'', [JStr s, json_SimulateTxCfg b58enc c])]"
    using assms(2) by (simp add: SimulateTransaction_def t bs c s perform_recording)
  have "node_wire b58dec [JStr s, json_SimulateTxCfg b58enc c] = Some bs"
    by (rule node_wire_encode [OF assms(1) tx_Marshal_nonempty [OF bs] s simulate_options(1)])
  moreover have "get_obj ''accounts'' (fields_of (json_SimulateTxCfg b58enc c)) = Some a \<Longrightarrow>
      get_str ''encoding'' a \<in> {EncodingBase64, EncodingBase64ZSTD}" for a
    using simulate_account_encoding [of b58enc c a] simulate_config_ok(2) [OF c] by auto
  ultimately show ?thesis
    using simulate_config_ok(1) [OF c] t bs sent by (auto simp: simulate_options)
qed

theorem SimulateTransaction_sent_witness:
  "\<exists>ps. fst (SimulateTransaction (recording (\<lambda>m ps. Inl (Plain ''down'') :: rpc_error + unit SimulateResult ContextValue))
       base64_EncodeToString (Some sample_tx) [] []) = [(''simulateTransaction'', ps)] \<and>
     node_wire base64_DecodeString ps = Some (tx_bytes sample_tx)"
proof -
  let ?sim = "SimulateTransaction (recording (\<lambda>m ps. Inl (Plain ''down'') :: rpc_error + unit SimulateResult ContextValue))
       base64_EncodeToString (Some sample_tx) [] []"
  obtain sent r where run: "?sim = (sent, r)" by fastforce
  then have "sent \<noteq> []"
    by (auto simp: SimulateTransaction_def sample_tx_ok(4) simulate_config_def FirstOrZero_def zero_SimulateTxCfg_def encode_wire_def perform_recording)
  from SimulateTransaction_sent [OF sample_codecs(2) run this]
  obtain ps where "sent = [(''simulateTransaction'', ps)]" "node_wire base64_DecodeString ps = Some (tx_bytes sample_tx)"
    by (auto simp: sample_tx_ok(4))
  then show ?thesis unfolding run by simp
qed

end
