(* ===== verification/Ws_Client.thy ===== *)
theory Ws_Client
  imports Prelude
begin

text \<open>
  The WebSocket client (\<open>ws/client.go\<close>, \<open>ws/util.go\<close>) as a step relation.  Several goroutines
  share the client: callers of \<open>Subscribe\<close> and \<open>Unsubscribe\<close>, the read loop, and whoever runs
  the body of \<open>Close\<close> (once).  A step is what one goroutine does between two points where others
  can interleave: a section under \<open>mu\<close>, a channel close, or a return.  Objects that several
  goroutines hold (the \<open>pendingReply\<close> with its \<open>Subscription\<close>) live in a heap and are
  addressed by number.  Closing a closed channel and writing to a nil map panic in Go; the model
  records this in \<open>panicked\<close>.

  The peer, the scheduler, contexts and the JSON codec are the nondeterminism of the relation:
  any frame may arrive, any context may be cancelled, any write may fail, at any time.
\<close>

section \<open>State\<close>

text \<open>A \<open>pendingReply\<close> and the \<open>Subscription\<close> it carries.\<close>

record pendingReply =
  pr_oneShot :: bool
  pr_reqID :: u64
  pr_errMsg :: string
  pr_done :: bool
  sub_ID :: u64
  subDone :: bool

record subEntry =
  se_obj :: nat
  se_oneShot :: bool

text \<open>What a subscribe reply carries: an error object, a result that is no u64, or an id.\<close>

datatype reply = ReplyError string | ReplyBad string | ReplySub u64

text \<open>
  Where the read loop is: at \<open>ReadMessage\<close>; in \<open>handleReply\<close> with a pending request taken out of
  the map; past the registration; in \<open>dispatchIncoming\<close> past the dispatch of a one-shot
  notification; ended by a read error.
\<close>

datatype reader_pc = RIdle | RReply nat reply | RFinish nat | ROneShot u64 subEntry | RShutdown nat | RStopped

text \<open>Where the body of \<open>Close\<close> is: not started, the replies and entries still to be closed, finished.\<close>

datatype closer_pc = CNone | CDrain "nat list" "nat list" | CDone

text \<open>A Subscribe call waits, or has returned with an error message or with the subscription.\<close>

datatype caller_pc = Waiting | Failed string | Subscribed

record ws_client =
  nextReqID :: u64
  pendingReqs :: "(u64 \<rightharpoonup> nat) option"
  subscriptions :: "(u64 \<rightharpoonup> subEntry) option"
  closedFlag :: bool
  c_done :: bool
  heap :: "nat \<rightharpoonup> pendingReply"
  nalloc :: nat
  callers :: "nat \<rightharpoonup> caller_pc"
  rloop :: reader_pc
  closer :: closer_pc
  shutting :: "nat list"
  delivered :: "(nat \<times> bytes) list"
  panicked :: bool

definition DialWebSocket :: ws_client where
  "DialWebSocket = \<lparr>nextReqID = 0, pendingReqs = Some Map.empty, subscriptions = Some Map.empty,
     closedFlag = False, c_done = False, heap = Map.empty, nalloc = 0, callers = Map.empty,
     rloop = RIdle, closer = CNone, shutting = [], delivered = [], panicked = False\<rparr>"

section \<open>Operations\<close>

definition upd_obj :: "nat \<Rightarrow> (pendingReply \<Rightarrow> pendingReply) \<Rightarrow> ws_client \<Rightarrow> ws_client" where
  "upd_obj x f c = c\<lparr>heap := (heap c)(x := map_option f (heap c x))\<rparr>"

text \<open>\<open>close(p.done)\<close>\<close>

definition close_reply :: "nat \<Rightarrow> ws_client \<Rightarrow> ws_client" where
  "close_reply x c =
     (case heap c x of
        None \<Rightarrow> c\<lparr>panicked := True\<rparr>
      | Some p \<Rightarrow> if pr_done p then c\<lparr>panicked := True\<rparr> else upd_obj x (\<lambda>p. p\<lparr>pr_done := True\<rparr>) c)"

definition fail_reply :: "string \<Rightarrow> nat \<Rightarrow> ws_client \<Rightarrow> ws_client" where
  "fail_reply msg x c = close_reply x (upd_obj x (\<lambda>p. p\<lparr>pr_errMsg := msg\<rparr>) c)"

text \<open>The shutdown closure: \<open>sub.once.Do(func() { close(sub.subDone) })\<close>; the caller's own \<open>userShutdown\<close> is left out.\<close>

definition shutdown_sub :: "nat \<Rightarrow> ws_client \<Rightarrow> ws_client" where
  "shutdown_sub x c = upd_obj x (\<lambda>p. p\<lparr>subDone := True\<rparr>) c"

text \<open>The first section of \<open>subscribe\<close>, past the \<open>closedFlag\<close> check.\<close>

definition subscribe_begin :: "bool \<Rightarrow> ws_client \<Rightarrow> ws_client" where
  "subscribe_begin oneShot c =
     (let reqID = nextReqID c + 1; x = nalloc c;
          p = \<lparr>pr_oneShot = oneShot, pr_reqID = reqID, pr_errMsg = [], pr_done = False, sub_ID = 0, subDone = False\<rparr>;
          c = c\<lparr>nextReqID := reqID, heap := (heap c)(x \<mapsto> p), nalloc := Suc x, callers := (callers c)(x \<mapsto> Waiting)\<rparr>
      in case pendingReqs c of
           None \<Rightarrow> c\<lparr>panicked := True\<rparr>
         | Some m \<Rightarrow> c\<lparr>pendingReqs := Some (m(reqID \<mapsto> x))\<rparr>)"

definition cancelPending :: "u64 \<Rightarrow> ws_client \<Rightarrow> ws_client" where
  "cancelPending reqID c = c\<lparr>pendingReqs := map_option (\<lambda>m. m(reqID := None)) (pendingReqs c)\<rparr>"

text \<open>The first section of \<open>handleReply\<close>.\<close>

definition reply_begin :: "u64 \<Rightarrow> reply \<Rightarrow> ws_client \<Rightarrow> ws_client" where
  "reply_begin reqID r c =
     (case Option.bind (pendingReqs c) (\<lambda>m. m reqID) of
        None \<Rightarrow> c
      | Some x \<Rightarrow> (cancelPending reqID c)\<lparr>rloop := RReply x r\<rparr>)"

text \<open>The rest of \<open>handleReply\<close>, up to the last \<open>close(pending.done)\<close>.\<close>

definition reply_resolve :: "nat \<Rightarrow> reply \<Rightarrow> ws_client \<Rightarrow> ws_client" where
  "reply_resolve x r c =
     (case r of
        ReplyError msg \<Rightarrow> (fail_reply msg x c)\<lparr>rloop := RIdle\<rparr>
      | ReplyBad msg \<Rightarrow> (fail_reply (''decode subscription id: '' @ msg) x c)\<lparr>rloop := RIdle\<rparr>
      | ReplySub subID \<Rightarrow>
          let c = upd_obj x (\<lambda>p. p\<lparr>sub_ID := subID\<rparr>) c in
          (case subscriptions c of
             None \<Rightarrow> (fail_reply ''client closed'' x c)\<lparr>rloop := RIdle\<rparr>
           | Some m \<Rightarrow>
               c\<lparr>subscriptions := Some (m(subID \<mapsto> \<lparr>se_obj = x, se_oneShot = pr_oneShot (the (heap c x))\<rparr>)),
                 rloop := RFinish x\<rparr>))"

text \<open>
  The notification branch of \<open>dispatchIncoming\<close>, up to and including the dispatch; the lookup under the
  read lock and the call of the dispatch closure are one step.
\<close>

definition notify :: "u64 \<Rightarrow> bytes \<Rightarrow> ws_client \<Rightarrow> ws_client" where
  "notify subID payload c =
     (case Option.bind (subscriptions c) (\<lambda>m. m subID) of
        None \<Rightarrow> c
      | Some e \<Rightarrow>
          let c = c\<lparr>delivered := delivered c @ [(se_obj e, payload)]\<rparr>
          in if se_oneShot e then c\<lparr>rloop := ROneShot subID e\<rparr> else c)"

text \<open>Its one-shot branch, under the lock.\<close>

definition drop_one_shot :: "u64 \<Rightarrow> subEntry \<Rightarrow> ws_client \<Rightarrow> ws_client" where
  "drop_one_shot subID e c =
     c\<lparr>subscriptions := map_option (\<lambda>m. m(subID := None)) (subscriptions c), rloop := RShutdown (se_obj e)\<rparr>"

text \<open>The section of \<open>Unsubscribe\<close>; the shutdown of the entry it took out follows.\<close>

definition unsubscribe_begin :: "nat \<Rightarrow> ws_client \<Rightarrow> ws_client" where
  "unsubscribe_begin x c =
     (let subID = sub_ID (the (heap c x));
          c' = c\<lparr>subscriptions := map_option (\<lambda>m. m(subID := None)) (subscriptions c), nextReqID := nextReqID c + 1\<rparr>
      in case Option.bind (subscriptions c) (\<lambda>m. m subID) of
           None \<Rightarrow> c'
         | Some e \<Rightarrow> c'\<lparr>shutting := shutting c @ [se_obj e]\<rparr>)"

text \<open>The section of \<open>Close\<close>; \<open>ps\<close> and \<open>ss\<close> are the keys in the order \<open>range\<close> visits them.\<close>

definition close_begin :: "u64 list \<Rightarrow> u64 list \<Rightarrow> ws_client \<Rightarrow> ws_client" where
  "close_begin ps ss c =
     c\<lparr>closedFlag := True, pendingReqs := None, subscriptions := None,
       closer := CDrain (map (\<lambda>k. the (the (pendingReqs c) k)) ps) (map (\<lambda>k. se_obj (the (the (subscriptions c) k))) ss)\<rparr>"

section \<open>Steps\<close>

text \<open>
  A well-behaved peer answers a subscribe request with an id that is not in use, or with an error
  whose message is not empty.  The flag \<open>wb\<close> of the step relation restricts the peer to such
  replies; without it any reply may arrive.
\<close>

definition good_reply :: "reply \<Rightarrow> ws_client \<Rightarrow> bool" where
  "good_reply r c \<longleftrightarrow>
     (case r of
        ReplySub subID \<Rightarrow> (\<forall>m. subscriptions c = Some m \<longrightarrow> m subID = None)
      | ReplyError msg \<Rightarrow> msg \<noteq> []
      | ReplyBad msg \<Rightarrow> True)"

inductive ws_step :: "bool \<Rightarrow> ws_client \<Rightarrow> ws_client \<Rightarrow> bool" for wb where
  subscribe: "\<not> closedFlag c \<Longrightarrow> ws_step wb c (subscribe_begin oneShot c)"
| cancel: "callers c x = Some Waiting \<Longrightarrow> heap c x = Some p \<Longrightarrow>
     ws_step wb c ((cancelPending (pr_reqID p) c)\<lparr>callers := (callers c)(x \<mapsto> Failed err)\<rparr>)"
| closed_return: "callers c x = Some Waiting \<Longrightarrow> c_done c \<Longrightarrow>
     ws_step wb c (c\<lparr>callers := (callers c)(x \<mapsto> Failed ''solana: ws: client closed before reply'')\<rparr>)"
| error_return: "callers c x = Some Waiting \<Longrightarrow> heap c x = Some p \<Longrightarrow> pr_done p \<Longrightarrow> pr_errMsg p \<noteq> [] \<Longrightarrow>
     ws_step wb c (c\<lparr>callers := (callers c)(x \<mapsto> Failed (pr_errMsg p))\<rparr>)"
| return: "callers c x = Some Waiting \<Longrightarrow> heap c x = Some p \<Longrightarrow> pr_done p \<Longrightarrow> pr_errMsg p = [] \<Longrightarrow>
     ws_step wb c (c\<lparr>callers := (callers c)(x \<mapsto> Subscribed)\<rparr>)"
| unsubscribe: "callers c x = Some Subscribed \<Longrightarrow> heap c x = Some p \<Longrightarrow> ws_step wb c (unsubscribe_begin x c)"
| shutdown: "shutting c = xs @ x # ys \<Longrightarrow> ws_step wb c (shutdown_sub x (c\<lparr>shutting := xs @ ys\<rparr>))"
| read_reply: "rloop c = RIdle \<Longrightarrow> ws_step wb c (reply_begin reqID r c)"
| read_resolve: "rloop c = RReply x r \<Longrightarrow>
     (wb \<longrightarrow> good_reply r c) \<Longrightarrow>
     ws_step wb c (reply_resolve x r c)"
| read_finish: "rloop c = RFinish x \<Longrightarrow> ws_step wb c ((close_reply x c)\<lparr>rloop := RIdle\<rparr>)"
| read_notification: "rloop c = RIdle \<Longrightarrow> ws_step wb c (notify subID payload c)"
| read_drop: "rloop c = ROneShot subID e \<Longrightarrow> ws_step wb c (drop_one_shot subID e c)"
| read_shutdown: "rloop c = RShutdown x \<Longrightarrow> ws_step wb c ((shutdown_sub x c)\<lparr>rloop := RIdle\<rparr>)"
| read_error: "rloop c = RIdle \<Longrightarrow> ws_step wb c (c\<lparr>rloop := RStopped\<rparr>)"
| close: "closer c = CNone \<Longrightarrow> pendingReqs c = Some pm \<Longrightarrow> subscriptions c = Some sm \<Longrightarrow>
     distinct ps \<Longrightarrow> set ps = dom pm \<Longrightarrow> distinct ss \<Longrightarrow> set ss = dom sm \<Longrightarrow>
     ws_step wb c (close_begin ps ss c)"
| close_pending: "closer c = CDrain (x # xs) ss \<Longrightarrow>
     ws_step wb c ((fail_reply ''connection closed'' x c)\<lparr>closer := CDrain xs ss\<rparr>)"
| close_sub: "closer c = CDrain [] (x # ss) \<Longrightarrow>
     ws_step wb c ((shutdown_sub x c)\<lparr>closer := CDrain [] ss\<rparr>)"
| close_done: "closer c = CDrain [] [] \<Longrightarrow>
     ws_step wb c (c\<lparr>closer := CDone, c_done := True, panicked := panicked c \<or> c_done c\<rparr>)"

inductive ws_reachable :: "bool \<Rightarrow> ws_client \<Rightarrow> bool" for wb where
  init: "ws_reachable wb DialWebSocket"
| step: "ws_reachable wb c \<Longrightarrow> ws_step wb c c' \<Longrightarrow> ws_reachable wb c'"

section \<open>Bounded notification buffers\<close>

text \<open>
  \<open>sendOrDropOldest\<close> on a buffered channel of capacity \<open>n\<close>: the buffer, oldest first; \<open>taken\<close> says
  whether the consumer empties one slot between the first select and the second.
\<close>

definition sendOrDropOldest :: "nat \<Rightarrow> bool \<Rightarrow> 'a \<Rightarrow> 'a list \<Rightarrow> 'a list" where
  "sendOrDropOldest n taken v ch =
     (if length ch < n then ch @ [v]
      else
        let ch = (if taken then drop 1 ch else ch);
            ch = (case ch of [] \<Rightarrow> [] | y # ys \<Rightarrow> ys)
        in if length ch < n then ch @ [v] else ch)"

end
