(* ===== verification/Ws_Laws.thy ===== *)
theory Ws_Laws
  imports Ws_Client
begin

text \<open>
  Invariants of the WebSocket client by rule induction on the reachable states: no channel is
  closed twice and no nil map is written, a successful \<open>Subscribe\<close> has its entry registered,
  one-shot subscriptions are dispatched at most once, and \<open>Close\<close> always finishes and releases
  every waiting caller.
\<close>

section \<open>Ownership of replies\<close>

definition open_reply :: "ws_client \<Rightarrow> nat \<Rightarrow> bool" where
  "open_reply c x \<longleftrightarrow> (\<exists>p. heap c x = Some p \<and> \<not> pr_done p)"

definition pend :: "ws_client \<Rightarrow> nat set" where
  "pend c = (case pendingReqs c of None \<Rightarrow> {} | Some m \<Rightarrow> ran m)"

definition held :: "ws_client \<Rightarrow> nat set" where
  "held c = (case rloop c of RReply x r \<Rightarrow> {x} | RFinish x \<Rightarrow> {x} | _ \<Rightarrow> {})"

definition draining :: "ws_client \<Rightarrow> nat list" where
  "draining c = (case closer c of CDrain xs ss \<Rightarrow> xs | _ \<Rightarrow> [])"

text \<open>Every reply has one owner: the request map, the read loop, or the closer.\<close>

definition owned :: "ws_client \<Rightarrow> bool" where
  "owned c \<longleftrightarrow>
     (\<forall>m. pendingReqs c = Some m \<longrightarrow> inj_on m (dom m) \<and> finite (dom m)) \<and>
     (\<forall>x \<in> pend c \<union> held c \<union> set (draining c). open_reply c x) \<and>
     pend c \<inter> held c = {} \<and> held c \<inter> set (draining c) = {} \<and> distinct (draining c)"

definition close_phase :: "ws_client \<Rightarrow> bool" where
  "close_phase c \<longleftrightarrow>
     (closedFlag c \<longleftrightarrow> closer c \<noteq> CNone) \<and> (closedFlag c \<longleftrightarrow> pendingReqs c = None) \<and>
     (closedFlag c \<longleftrightarrow> subscriptions c = None) \<and> (c_done c \<longleftrightarrow> closer c = CDone)"

definition allocated :: "ws_client \<Rightarrow> bool" where
  "allocated c \<longleftrightarrow> dom (heap c) = {..<nalloc c} \<and> dom (callers c) = {..<nalloc c}"

lemma allocated_caller: "allocated c \<Longrightarrow> callers c x = Some w \<Longrightarrow> x < nalloc c"
  by (auto simp: allocated_def dom_def set_eq_iff)

section \<open>Frame lemmas\<close>

lemma upd_obj_frame [simp, frame_law]:
  "pendingReqs (upd_obj x f c) = pendingReqs c" "subscriptions (upd_obj x f c) = subscriptions c"
  "closedFlag (upd_obj x f c) = closedFlag c" "c_done (upd_obj x f c) = c_done c" "nalloc (upd_obj x f c) = nalloc c"
  "callers (upd_obj x f c) = callers c" "rloop (upd_obj x f c) = rloop c" "closer (upd_obj x f c) = closer c"
  "shutting (upd_obj x f c) = shutting c" "delivered (upd_obj x f c) = delivered c"
  "panicked (upd_obj x f c) = panicked c" "dom (heap (upd_obj x f c)) = dom (heap c)"
  "heap (upd_obj x f c) y = (if y = x then map_option f (heap c x) else heap c y)"
  by (auto simp: upd_obj_def dom_def split: if_splits)

lemma close_reply_open: "open_reply c x \<Longrightarrow> close_reply x c = upd_obj x (\<lambda>p. p\<lparr>pr_done := True\<rparr>) c"
  by (auto simp: close_reply_def open_reply_def)

lemma fail_reply_open:
  "open_reply c x \<Longrightarrow>
   fail_reply msg x c = upd_obj x (\<lambda>p. p\<lparr>pr_done := True\<rparr>) (upd_obj x (\<lambda>p. p\<lparr>pr_errMsg := msg\<rparr>) c)"
  unfolding fail_reply_def by (rule close_reply_open) (auto simp: open_reply_def)

lemmas op_defs = subscribe_begin_def cancelPending_def reply_begin_def reply_resolve_def notify_def drop_one_shot_def
  unsubscribe_begin_def close_begin_def shutdown_sub_def

lemma open_held: "owned c \<Longrightarrow> x \<in> held c \<Longrightarrow> open_reply c x" by (auto simp: owned_def)

lemma open_draining: "owned c \<Longrightarrow> closer c = CDrain (x # xs) ss \<Longrightarrow> open_reply c x"
  by (auto simp: owned_def draining_def)

lemma close_phase_step:
  assumes "ws_step wb c c'" and "close_phase c" and "owned c"
  shows "close_phase c'"
  using assms(1)
proof cases
  case (read_resolve x r)
  then have "open_reply c x" using open_held [OF assms(3)] by (simp add: held_def)
  then have "open_reply (upd_obj x (\<lambda>p. p\<lparr>sub_ID := i\<rparr>) c) x" for i by (auto simp: open_reply_def)
  with \<open>open_reply c x\<close> read_resolve assms(2) show ?thesis
    by (auto simp: reply_resolve_def close_phase_def fail_reply_open Let_def split: reply.splits option.splits)
next
  case (read_finish x)
  with open_held [OF assms(3)] assms(2) show ?thesis by (auto simp: held_def close_reply_open close_phase_def)
next
  case (close_pending x xs ss)
  with open_draining [OF assms(3)] assms(2) show ?thesis by (auto simp: fail_reply_open close_phase_def)
qed (use assms(2) in \<open>auto simp: close_phase_def op_defs Let_def split: option.splits\<close>)

lemma allocated_step:
  assumes "ws_step wb c c'" and "allocated c" and "owned c"
  shows "allocated c'"
  using assms(1)
proof cases
  case (read_resolve x r)
  then have "open_reply c x" using open_held [OF assms(3)] by (simp add: held_def)
  then have "open_reply (upd_obj x (\<lambda>p. p\<lparr>sub_ID := i\<rparr>) c) x" for i by (auto simp: open_reply_def)
  with \<open>open_reply c x\<close> read_resolve assms(2) show ?thesis
    by (auto simp: reply_resolve_def allocated_def fail_reply_open Let_def split: reply.splits option.splits)
next
  case (read_finish x)
  with open_held [OF assms(3)] assms(2) show ?thesis by (auto simp: held_def close_reply_open allocated_def)
next
  case (close_pending x xs ss)
  with open_draining [OF assms(3)] assms(2) show ?thesis by (auto simp: fail_reply_open allocated_def)
next
  case (subscribe oneShot)
  with assms(2) show ?thesis
    by (auto simp: subscribe_begin_def allocated_def Let_def split: option.splits)
qed (use assms(2) allocated_caller [OF assms(2)] in \<open>auto simp: allocated_def op_defs Let_def split: option.splits\<close>)

lemma pend_Some: "pendingReqs c = Some m \<Longrightarrow> pend c = ran m"
  by (simp add: pend_def)

lemma ran_delete: "inj_on m (dom m) \<Longrightarrow> m k = Some x \<Longrightarrow> ran (m(k := None)) = ran m - {x}"
  by (auto simp: ran_def inj_on_def dom_def) (metis option.inject)

lemma ran_deleteD: "x \<in> ran (m(k := None)) \<Longrightarrow> x \<in> ran m"
  by (auto simp: ran_def split: if_splits)

lemma inj_on_delete: "inj_on m (dom m) \<Longrightarrow> inj_on (m(k := None)) (dom m - {k})"
  by (auto simp: inj_on_def)

lemma owned_heap: "owned c \<Longrightarrow> heap c x = None \<Longrightarrow> x \<notin> pend c \<and> x \<notin> held c \<and> x \<notin> set (draining c)"
  unfolding owned_def open_reply_def by (metis UnCI option.distinct(1))

lemma owned_mono:
  assumes "owned c" and "pendingReqs d = pendingReqs c" and "\<And>y. open_reply c y \<Longrightarrow> open_reply d y"
    and "held d \<subseteq> held c" and "draining d = draining c"
  shows "owned d"
proof -
  have "pend d = pend c" using assms(2) by (simp add: pend_def)
  with assms show ?thesis by (auto simp: owned_def)
qed

lemma open_shutdown [simp]: "open_reply (shutdown_sub x c) y = open_reply c y"
  by (auto simp: open_reply_def shutdown_sub_def)

lemma open_reply_upd [simp]:
  "open_reply (c\<lparr>rloop := r\<rparr>) y = open_reply c y" "open_reply (c\<lparr>closer := k\<rparr>) y = open_reply c y"
  "open_reply (c\<lparr>shutting := l\<rparr>) y = open_reply c y"
  by (simp_all add: open_reply_def)

lemma shutdown_frame [simp, frame_law]:
  "pendingReqs (shutdown_sub x c) = pendingReqs c" "rloop (shutdown_sub x c) = rloop c" "closer (shutdown_sub x c) = closer c"
  by (simp_all add: shutdown_sub_def)

lemma owned_step:
  assumes "ws_step wb c c'" and "owned c" and "allocated c" and "close_phase c"
  shows "owned c'"
  using assms(1)
proof cases
  case (subscribe oneShot)
  then obtain m where m: "pendingReqs c = Some m" using assms(4) by (auto simp: close_phase_def)
  have new: "heap c (nalloc c) = None" using assms(3) by (auto simp: allocated_def)
  then have "nalloc c \<notin> pend c" "nalloc c \<notin> held c" "nalloc c \<notin> set (draining c)" using owned_heap [OF assms(2)] by auto
  with m assms(2) new show ?thesis
    unfolding subscribe(1) subscribe_begin_def owned_def
    by (auto simp: Let_def pend_def held_def draining_def open_reply_def inj_on_def dom_def ran_def split: if_splits)
next
  case (cancel x p err)
  with assms(2) show ?thesis
    by (auto simp: owned_def cancelPending_def pend_def held_def draining_def open_reply_def inj_on_delete
        dest: ran_deleteD split: option.splits reader_pc.splits closer_pc.splits)
next
  case (read_reply reqID r)
  show ?thesis
  proof (cases "Option.bind (pendingReqs c) (\<lambda>m. m reqID)")
    case (Some x)
    then obtain m where m: "pendingReqs c = Some m" "m reqID = Some x" by (auto simp: Option.bind_eq_Some_conv)
    then have "ran (m(reqID := None)) = ran m - {x}" "x \<in> ran m"
      using assms(2) by (auto simp: owned_def ran_delete intro: ranI)
    with m assms(2,4) read_reply Some show ?thesis
      by (auto simp: reply_begin_def cancelPending_def owned_def pend_def held_def draining_def open_reply_def
          close_phase_def inj_on_delete split: closer_pc.splits)
  qed (use assms(2) read_reply in \<open>simp add: reply_begin_def\<close>)
next
  case (read_resolve x r)
  then have "open_reply c x" using open_held [OF assms(2)] by (simp add: held_def)
  then have "open_reply (upd_obj x (\<lambda>p. p\<lparr>sub_ID := i\<rparr>) c) x" for i by (auto simp: open_reply_def)
  with \<open>open_reply c x\<close> read_resolve assms(2) show ?thesis
    by (auto simp: reply_resolve_def owned_def fail_reply_open Let_def pend_def held_def draining_def open_reply_def
        split: reply.splits option.splits closer_pc.splits)
next
  case (read_finish x)
  with open_held [OF assms(2)] assms(2) show ?thesis
    by (auto simp: held_def close_reply_open owned_def pend_def draining_def open_reply_def
        split: option.splits closer_pc.splits)
next
  case (close pm sm ps ss)
  have "distinct (map (\<lambda>k. the (pm k)) ps)"
    using close assms(2) by (auto simp: distinct_map owned_def inj_on_def) (metis domI)
  moreover have "set (map (\<lambda>k. the (pm k)) ps) = pend c"
    using close by (force simp: pend_def ran_def)
  ultimately show ?thesis
    using close assms(2) by (auto simp: close_begin_def owned_def pend_def held_def draining_def open_reply_def)
next
  case (close_pending x xs ss)
  with open_draining [OF assms(2)] assms(2,4) show ?thesis
    by (auto simp: fail_reply_open owned_def pend_def held_def draining_def open_reply_def close_phase_def)
next
  case (shutdown xs x ys)
  show ?thesis using assms(2) by (rule owned_mono) (auto simp: shutdown held_def draining_def)
next
  case (read_shutdown x)
  show ?thesis using assms(2) by (rule owned_mono) (auto simp: read_shutdown held_def draining_def)
next
  case (close_sub x ss)
  show ?thesis using assms(2) by (rule owned_mono) (auto simp: close_sub held_def draining_def)
qed (use assms(2) in \<open>auto simp: owned_def op_defs Let_def pend_def held_def draining_def open_reply_def
       split: option.splits reader_pc.splits closer_pc.splits if_splits\<close>)

section \<open>No panic\<close>

lemma panic_step:
  assumes "ws_step wb c c'" and "\<not> panicked c" and "owned c" and "close_phase c"
  shows "\<not> panicked c'"
  using assms(1)
proof cases
  case (read_resolve x r)
  then have "open_reply c x" using open_held [OF assms(3)] by (simp add: held_def)
  then have "open_reply (upd_obj x (\<lambda>p. p\<lparr>sub_ID := i\<rparr>) c) x" for i by (auto simp: open_reply_def)
  with \<open>open_reply c x\<close> read_resolve assms(2) show ?thesis
    by (auto simp: reply_resolve_def fail_reply_open Let_def split: reply.splits option.splits)
next
  case (read_finish x)
  with open_held [OF assms(3)] assms(2) show ?thesis by (auto simp: held_def close_reply_open)
next
  case (close_pending x xs ss)
  with open_draining [OF assms(3)] assms(2) show ?thesis by (auto simp: fail_reply_open)
qed (use assms(2,4) in \<open>auto simp: close_phase_def op_defs Let_def split: option.splits\<close>)

lemma init_inv: "close_phase DialWebSocket" "owned DialWebSocket" "allocated DialWebSocket" "\<not> panicked DialWebSocket"
  by (auto simp: DialWebSocket_def close_phase_def owned_def allocated_def pend_def held_def draining_def)

lemma reachable_inv:
  assumes "ws_reachable wb c"
  shows "close_phase c" "owned c" "allocated c" "\<not> panicked c"
proof -
  from assms have "close_phase c \<and> owned c \<and> allocated c \<and> \<not> panicked c"
    by (induction rule: ws_reachable.induct)
      (auto simp: init_inv intro: close_phase_step owned_step allocated_step dest: panic_step)
  then show "close_phase c" "owned c" "allocated c" "\<not> panicked c" by auto
qed

end
