(* ===== verification/Ws_Subscriptions.thy ===== *)
theory Ws_Subscriptions
  imports Ws_Laws
begin

text \<open>
  What a caller of the WebSocket client can rely on: no goroutine panics, a successful
  \<open>Subscribe\<close> is registered until it ends, a one-shot subscription is dispatched at most once, and
  \<open>Close\<close> finishes and releases every waiting caller.
\<close>

section \<open>Effects of the operations that touch the heap\<close>

lemma open_replyE:
  assumes "open_reply c x"
  obtains p where "heap c x = Some p" and "\<not> pr_done p"
  using assms by (auto simp: open_reply_def)

lemma close_reply_eff: "heap c x = Some p \<Longrightarrow> \<not> pr_done p \<Longrightarrow> close_reply x c = c\<lparr>heap := (heap c)(x \<mapsto> p\<lparr>pr_done := True\<rparr>)\<rparr>"
  by (simp add: close_reply_def upd_obj_def)

lemma fail_reply_eff:
  "heap c x = Some p \<Longrightarrow> \<not> pr_done p \<Longrightarrow>
   fail_reply msg x c = c\<lparr>heap := (heap c)(x \<mapsto> p\<lparr>pr_errMsg := msg, pr_done := True\<rparr>)\<rparr>"
  by (simp add: fail_reply_def close_reply_def upd_obj_def)

lemma reply_resolve_eff:
  assumes p: "heap c x = Some p" "\<not> pr_done p"
  obtains
    (failed) q where "reply_resolve x r c = c\<lparr>heap := (heap c)(x \<mapsto> q), rloop := RIdle\<rparr>" "pr_done q"
      "good_reply r c \<Longrightarrow> pr_errMsg q \<noteq> []" "pr_oneShot q = pr_oneShot p"
  | (registered) i m where "subscriptions c = Some m"
      "reply_resolve x r c = c\<lparr>heap := (heap c)(x \<mapsto> p\<lparr>sub_ID := i\<rparr>),
         subscriptions := Some (m(i \<mapsto> \<lparr>se_obj = x, se_oneShot = pr_oneShot p\<rparr>)), rloop := RFinish x\<rparr>"
      "good_reply r c \<Longrightarrow> m i = None"
proof (cases r)
  case (ReplyError msg)
  show ?thesis
    by (rule failed [of "p\<lparr>pr_errMsg := msg, pr_done := True\<rparr>"])
      (use p in \<open>simp_all add: ReplyError reply_resolve_def fail_reply_eff good_reply_def\<close>)
next
  case (ReplyBad msg)
  show ?thesis
    by (rule failed [of "p\<lparr>pr_errMsg := ''decode subscription id: '' @ msg, pr_done := True\<rparr>"])
      (use p in \<open>simp_all add: ReplyBad reply_resolve_def fail_reply_eff good_reply_def\<close>)
next
  case (ReplySub i)
  show ?thesis
  proof (cases "subscriptions c")
    case None
    show ?thesis
      by (rule failed [of "p\<lparr>sub_ID := i, pr_errMsg := ''client closed'', pr_done := True\<rparr>"])
        (use p None in \<open>simp_all add: ReplySub reply_resolve_def fail_reply_eff good_reply_def upd_obj_def\<close>)
  next
    case (Some m)
    show ?thesis
      by (rule registered [of m i]) (use p Some in \<open>simp_all add: ReplySub reply_resolve_def good_reply_def upd_obj_def\<close>)
  qed
qed

lemma shutdown_eff: "shutdown_sub x c = c\<lparr>heap := (heap c)(x := map_option (\<lambda>p. p\<lparr>subDone := True\<rparr>) (heap c x))\<rparr>"
  by (simp add: shutdown_sub_def upd_obj_def)

section \<open>The subscription map\<close>

text \<open>Replies that have not been resolved yet.\<close>

definition unresolved :: "ws_client \<Rightarrow> nat set" where
  "unresolved c = pend c \<union> set (draining c) \<union> (case rloop c of RReply x r \<Rightarrow> {x} | _ \<Rightarrow> {})"

definition entry_fits :: "ws_client \<Rightarrow> u64 \<Rightarrow> subEntry \<Rightarrow> bool" where
  "entry_fits c i e \<longleftrightarrow>
     (\<exists>p. heap c (se_obj e) = Some p \<and> sub_ID p = i \<and> pr_oneShot p = se_oneShot e) \<and> se_obj e \<notin> unresolved c"

text \<open>
  Every entry belongs to the object with its id; while the read loop is past the dispatch of a
  one-shot entry, nobody else has taken that id.
\<close>

definition entries :: "ws_client \<Rightarrow> bool" where
  "entries c \<longleftrightarrow>
     (\<forall>m i e. subscriptions c = Some m \<longrightarrow> m i = Some e \<longrightarrow> entry_fits c i e) \<and>
     (\<forall>i e. rloop c = ROneShot i e \<longrightarrow>
        se_oneShot e \<and> entry_fits c i e \<and> (\<forall>m e'. subscriptions c = Some m \<longrightarrow> m i = Some e' \<longrightarrow> e' = e)) \<and>
     (\<forall>m. subscriptions c = Some m \<longrightarrow> finite (dom m))"

lemma entry_fits_mono:
  assumes "entry_fits c i e" and "unresolved d \<subseteq> unresolved c \<union> {y. heap c y = None}"
    and "\<And>p. heap c (se_obj e) = Some p \<Longrightarrow> se_obj e \<notin> unresolved c \<Longrightarrow>
           \<exists>q. heap d (se_obj e) = Some q \<and> sub_ID q = sub_ID p \<and> pr_oneShot q = pr_oneShot p"
  shows "entry_fits d i e"
  using assms by (fastforce simp: entry_fits_def)

lemma entries_mono:
  assumes "entries c" and "unresolved d \<subseteq> unresolved c \<union> {y. heap c y = None}"
    and "\<And>x p. heap c x = Some p \<Longrightarrow> x \<notin> unresolved c \<Longrightarrow>
           \<exists>q. heap d x = Some q \<and> sub_ID q = sub_ID p \<and> pr_oneShot q = pr_oneShot p"
    and "\<And>m. subscriptions d = Some m \<Longrightarrow> \<exists>m'. subscriptions c = Some m' \<and> m \<subseteq>\<^sub>m m'"
    and "\<And>i e. rloop d = ROneShot i e \<Longrightarrow>
           rloop c = ROneShot i e \<or> (\<exists>m. subscriptions c = Some m \<and> m i = Some e \<and> se_oneShot e)"
  shows "entries d"
  unfolding entries_def
proof (intro conjI allI impI)
  have fits: "entry_fits d i e" if "entry_fits c i e" for i e
    using that assms(2) by (rule entry_fits_mono) (use assms(3) in auto)
  fix m i e assume m: "subscriptions d = Some m"
  then obtain m' where m': "subscriptions c = Some m'" "m \<subseteq>\<^sub>m m'" using assms(4) by blast
  { assume "m i = Some e"
    then have "m' i = Some e" using m' by (auto simp: map_le_def dom_def)
    then show "entry_fits d i e" using fits assms(1) m' by (auto simp: entries_def) }
  show "finite (dom m)" using m' assms(1) map_le_implies_dom_le finite_subset by (fastforce simp: entries_def)
next
  have fits: "entry_fits d i e" if "entry_fits c i e" for i e
    using that assms(2) by (rule entry_fits_mono) (use assms(3) in auto)
  fix i e assume r: "rloop d = ROneShot i e"
  show "se_oneShot e" "entry_fits d i e" using assms(5) [OF r] assms(1) fits by (auto simp: entries_def)
  fix m e' assume "subscriptions d = Some m" "m i = Some e'"
  then obtain m' where "subscriptions c = Some m'" "m' i = Some e'"
    using assms(4) by (force simp: map_le_def dom_def)
  then show "e' = e" using assms(5) [OF r] assms(1) by (auto simp: entries_def)
qed

lemmas unresolved_defs = unresolved_def pend_def draining_def

lemma unresolved_open: "owned c \<Longrightarrow> x \<in> unresolved c \<Longrightarrow> open_reply c x"
  by (auto simp: owned_def unresolved_def held_def split: reader_pc.splits)

lemma entries_register:
  assumes "entries c" and p: "heap c x = Some p" and x: "rloop c = RReply x r" and m: "subscriptions c = Some m"
    and notpend: "x \<notin> pend c" "x \<notin> set (draining c)"
    and d: "d = c\<lparr>heap := (heap c)(x \<mapsto> p\<lparr>sub_ID := i\<rparr>),
         subscriptions := Some (m(i \<mapsto> \<lparr>se_obj = x, se_oneShot = pr_oneShot p\<rparr>)), rloop := RFinish x\<rparr>"
  shows "entries d"
proof -
  have old: "entry_fits d j e" if "m j = Some e" for j e
  proof -
    have "entry_fits c j e" using that assms(1) m by (auto simp: entries_def)
    moreover then have "se_obj e \<noteq> x" using x by (auto simp: entry_fits_def unresolved_def)
    ultimately show ?thesis using d x by (auto simp: entry_fits_def unresolved_defs)
  qed
  have new: "entry_fits d i \<lparr>se_obj = x, se_oneShot = pr_oneShot p\<rparr>"
    using d notpend by (auto simp: entry_fits_def unresolved_defs)
  have "finite (dom m)" using assms(1) m by (auto simp: entries_def)
  with old new d show ?thesis by (auto simp: entries_def split: if_splits)
qed

lemma held_apart: "owned c \<Longrightarrow> x \<in> held c \<Longrightarrow> x \<notin> pend c \<and> x \<notin> set (draining c)"
  by (auto simp: owned_def)

lemma entries_step:
  assumes "ws_step wb c c'" and "entries c" and "owned c" and "allocated c" and "close_phase c"
  shows "entries c'"
  using assms(1)
proof cases
  case (subscribe oneShot)
  obtain m where m: "pendingReqs c = Some m" using subscribe assms(5) by (auto simp: close_phase_def)
  have "heap c (nalloc c) = None" using assms(4) by (auto simp: allocated_def)
  with m show ?thesis
    using assms(2) by (intro entries_mono [OF assms(2)])
      (auto simp: subscribe subscribe_begin_def Let_def unresolved_defs ran_def split: if_splits)
next
  case (read_reply reqID r)
  show ?thesis
  proof (cases "Option.bind (pendingReqs c) (\<lambda>m. m reqID)")
    case (Some x)
    then obtain m where m: "pendingReqs c = Some m" "m reqID = Some x" by (auto simp: Option.bind_eq_Some_conv)
    then have "x \<in> ran m" by (auto intro: ranI)
    with m show ?thesis
      by (intro entries_mono [OF assms(2)])
        (auto simp: read_reply reply_begin_def cancelPending_def unresolved_defs dest: ran_deleteD)
  qed (use assms(2) read_reply in \<open>simp add: reply_begin_def\<close>)
next
  case (read_resolve x r)
  have x: "x \<in> held c" using read_resolve by (simp add: held_def)
  obtain p where p: "heap c x = Some p" "\<not> pr_done p" using open_replyE open_held [OF assms(3) x] by blast
  from p show ?thesis
  proof (cases rule: reply_resolve_eff [where r = r])
    case (failed q)
    then show ?thesis
      by (intro entries_mono [OF assms(2)]) (auto simp: read_resolve unresolved_defs)
  next
    case (registered i m)
    show ?thesis
      using assms(2) p(1) read_resolve(2) registered(1)
      by (rule entries_register) (use held_apart [OF assms(3) x] read_resolve registered(2) in auto)
  qed
next
  case (read_finish x)
  obtain p where p: "heap c x = Some p" "\<not> pr_done p"
    using open_replyE open_held [OF assms(3), of x] read_finish by (auto simp: held_def)
  show ?thesis
    by (intro entries_mono [OF assms(2)]) (auto simp: read_finish close_reply_eff [OF p] unresolved_defs p)
next
  case (close_pending x xs ss)
  obtain p where p: "heap c x = Some p" "\<not> pr_done p"
    using open_replyE open_draining [OF assms(3) close_pending(2)] by blast
  show ?thesis
    by (intro entries_mono [OF assms(2)]) (auto simp: close_pending fail_reply_eff [OF p] unresolved_defs p)
next
  case (close pm sm ps ss)
  then show ?thesis
    by (intro entries_mono [OF assms(2)]) (auto simp: close_begin_def unresolved_defs ran_def dom_def)
next
  case (cancel x p err)
  then show ?thesis
    by (intro entries_mono [OF assms(2)])
      (auto simp: cancelPending_def unresolved_defs dest: ran_deleteD split: option.splits)
next
  case (unsubscribe x p)
  then show ?thesis
    by (intro entries_mono [OF assms(2)])
      (auto simp: unsubscribe_begin_def Let_def unresolved_defs map_le_def split: option.splits)
next
  case (read_notification subID payload)
  then show ?thesis
    by (intro entries_mono [OF assms(2)])
      (auto simp: notify_def Let_def unresolved_defs Option.bind_eq_Some_conv split: option.splits if_splits)
next
  case (read_drop subID e)
  then show ?thesis
    by (intro entries_mono [OF assms(2)])
      (auto simp: drop_one_shot_def unresolved_defs map_le_def split: option.splits)
qed (rule entries_mono [OF assms(2)]; auto simp: shutdown_eff unresolved_defs)+

section \<open>One-shot subscriptions\<close>

definition deliveries :: "nat \<Rightarrow> ws_client \<Rightarrow> nat" where
  "deliveries x c = length (filter (\<lambda>d. fst d = x) (delivered c))"

text \<open>
  A one-shot object that has had its notification is out of the map, or is about to be taken out
  by the read loop, which reads no further frame before that.
\<close>

definition one_shot :: "ws_client \<Rightarrow> bool" where
  "one_shot c \<longleftrightarrow>
     (\<forall>x p. heap c x = Some p \<longrightarrow> pr_oneShot p \<longrightarrow>
        deliveries x c = 0 \<or>
        deliveries x c = 1 \<and> x \<notin> unresolved c \<and>
          (\<forall>m i e. subscriptions c = Some m \<longrightarrow> m i = Some e \<longrightarrow> se_obj e = x \<longrightarrow> rloop c = ROneShot i e)) \<and>
     (\<forall>x. heap c x = None \<longrightarrow> deliveries x c = 0)"

lemma one_shotD:
  assumes "one_shot c" and "heap c x = Some p" and "pr_oneShot p" and "deliveries x c \<noteq> 0"
  shows "deliveries x c = 1" and "x \<notin> unresolved c"
    and "subscriptions c = Some m \<Longrightarrow> m i = Some e \<Longrightarrow> se_obj e = x \<Longrightarrow> rloop c = ROneShot i e"
  using assms(1) [unfolded one_shot_def, THEN conjunct1, THEN spec, THEN spec, THEN mp, THEN mp, OF assms(2,3)] assms(4)
  by auto

lemma one_shot_mono:
  assumes "one_shot c" and "unresolved d \<subseteq> unresolved c \<union> {y. heap c y = None}" and "delivered d = delivered c"
    and "\<And>x q. heap d x = Some q \<Longrightarrow> heap c x = None \<or> (\<exists>p. heap c x = Some p \<and> pr_oneShot p = pr_oneShot q)"
    and "\<And>x. heap d x = None \<Longrightarrow> heap c x = None"
    and "\<And>m i e. subscriptions d = Some m \<Longrightarrow> m i = Some e \<Longrightarrow>
           se_obj e \<in> unresolved c \<or> (\<exists>m. subscriptions c = Some m \<and> m i = Some e \<and> (rloop c = ROneShot i e \<longrightarrow> rloop d = ROneShot i e))"
  shows "one_shot d"
  unfolding one_shot_def
proof (intro conjI allI impI)
  have eq: "deliveries x d = deliveries x c" for x using assms(3) by (simp add: deliveries_def)
  show "deliveries x d = 0" if "heap d x = None" for x
    using assms(1) assms(5) [OF that] eq by (simp add: one_shot_def)
  fix x q assume q: "heap d x = Some q" "pr_oneShot q"
  show "deliveries x d = 0 \<or> deliveries x d = 1 \<and> x \<notin> unresolved d \<and>
          (\<forall>m i e. subscriptions d = Some m \<longrightarrow> m i = Some e \<longrightarrow> se_obj e = x \<longrightarrow> rloop d = ROneShot i e)"
  proof (cases "deliveries x c = 0")
    case False
    with assms(1,4) q obtain p where "heap c x = Some p" "pr_oneShot p" by (metis one_shot_def)
    note c = one_shotD [OF assms(1) this False]
    have "x \<notin> unresolved d" using c(2) assms(2) \<open>heap c x = Some p\<close> by auto
    moreover have "rloop d = ROneShot i e" if "subscriptions d = Some m" "m i = Some e" "se_obj e = x" for m i e
      using assms(6) [OF that(1,2)] c(2,3) that(3) by auto
    ultimately show ?thesis using c eq by auto
  qed (use eq in simp)
qed

lemma one_shot_notify:
  assumes "one_shot c" and "entries c" and "rloop c = RIdle" and m: "subscriptions c = Some m" "m i = Some e"
    and d: "d = c\<lparr>delivered := delivered c @ [(se_obj e, payload)], rloop := (if se_oneShot e then ROneShot i e else RIdle)\<rparr>"
  shows "one_shot d"
  unfolding one_shot_def
proof (intro conjI allI impI)
  have ent: "\<And>j f. m j = Some f \<Longrightarrow> entry_fits c j f" using assms(2) m by (auto simp: entries_def)
  from ent [OF m(2)] obtain p where p: "heap c (se_obj e) = Some p" "sub_ID p = i" "pr_oneShot p = se_oneShot e"
    "se_obj e \<notin> unresolved c" by (auto simp: entry_fits_def)
  have eq: "deliveries x d = (if x = se_obj e then Suc (deliveries x c) else deliveries x c)" for x
    by (simp add: deliveries_def d)
  have un: "unresolved d = unresolved c" using assms(3) by (auto simp: unresolved_defs d)
  show "deliveries x d = 0" if "heap d x = None" for x
    using that assms(1) p eq by (auto simp: one_shot_def d)
  fix x q assume "heap d x = Some q" and o: "pr_oneShot q"
  then have q: "heap c x = Some q" by (simp add: d)
  have fresh: "deliveries x c = 0" if "m j = Some f" "se_obj f = x" for j f
    using one_shotD(3) [OF assms(1) q o _ m(1) that] assms(3) by auto
  show "deliveries x d = 0 \<or> deliveries x d = 1 \<and> x \<notin> unresolved d \<and>
          (\<forall>m i e. subscriptions d = Some m \<longrightarrow> m i = Some e \<longrightarrow> se_obj e = x \<longrightarrow> rloop d = ROneShot i e)"
  proof (cases "x = se_obj e")
    case True
    have "se_oneShot e" using p q o True by simp
    moreover have "j = i \<and> f = e" if "m j = Some f" "se_obj f = x" for j f
      using ent [OF that(1)] that p m True by (auto simp: entry_fits_def)
    ultimately have "rloop d = ROneShot j f" if "subscriptions d = Some n" "n j = Some f" "se_obj f = x" for n j f
      using that m by (simp add: d)
    then show ?thesis using True eq fresh [OF m(2)] un p(4) by simp
  next
    case False
    show ?thesis
    proof (cases "deliveries x c = 0")
      case nz: False
      show ?thesis using one_shotD(1,2) [OF assms(1) q o nz] fresh nz un eq False m by (auto simp: d)
    qed (use eq False in simp)
  qed
qed

lemma one_shot_step:
  assumes "ws_step wb c c'" and "one_shot c" and "entries c" and "owned c" and "allocated c" and "close_phase c"
  shows "one_shot c'"
  using assms(1)
proof cases
  case (subscribe oneShot)
  obtain m where m: "pendingReqs c = Some m" using subscribe assms(6) by (auto simp: close_phase_def)
  have "heap c (nalloc c) = None" using assms(5) by (auto simp: allocated_def)
  with m show ?thesis
    by (intro one_shot_mono [OF assms(2)])
      (auto simp: subscribe subscribe_begin_def Let_def unresolved_defs ran_def split: if_splits)
next
  case (read_reply reqID r)
  show ?thesis
  proof (cases "Option.bind (pendingReqs c) (\<lambda>m. m reqID)")
    case (Some x)
    then obtain m where m: "pendingReqs c = Some m" "m reqID = Some x" by (auto simp: Option.bind_eq_Some_conv)
    then have "x \<in> ran m" by (auto intro: ranI)
    with m show ?thesis
      by (intro one_shot_mono [OF assms(2)])
        (auto simp: read_reply reply_begin_def cancelPending_def unresolved_defs dest: ran_deleteD)
  qed (use assms(2) read_reply in \<open>simp add: reply_begin_def\<close>)
next
  case (read_resolve x r)
  have x: "x \<in> held c" using read_resolve by (simp add: held_def)
  obtain p where p: "heap c x = Some p" "\<not> pr_done p" using open_replyE open_held [OF assms(4) x] by blast
  from p show ?thesis
  proof (cases rule: reply_resolve_eff [where r = r])
    case (failed q)
    then show ?thesis
      by (intro one_shot_mono [OF assms(2)]) (auto simp: read_resolve unresolved_defs p split: if_splits)
  next
    case (registered i m)
    then show ?thesis
      by (intro one_shot_mono [OF assms(2)]) (auto simp: read_resolve unresolved_defs p split: if_splits)
  qed
next
  case (read_finish x)
  obtain p where p: "heap c x = Some p" "\<not> pr_done p"
    using open_replyE open_held [OF assms(4), of x] read_finish by (auto simp: held_def)
  show ?thesis
    by (intro one_shot_mono [OF assms(2)])
      (auto simp: read_finish close_reply_eff [OF p] unresolved_defs p split: if_splits)
next
  case (close_pending x xs ss)
  obtain p where p: "heap c x = Some p" "\<not> pr_done p"
    using open_replyE open_draining [OF assms(4) close_pending(2)] by blast
  show ?thesis
    by (intro one_shot_mono [OF assms(2)])
      (auto simp: close_pending fail_reply_eff [OF p] unresolved_defs p split: if_splits)
next
  case (close pm sm ps ss)
  then show ?thesis
    by (intro one_shot_mono [OF assms(2)]) (auto simp: close_begin_def unresolved_defs ran_def dom_def)
next
  case (cancel x p err)
  then show ?thesis
    by (intro one_shot_mono [OF assms(2)])
      (auto simp: cancelPending_def unresolved_defs dest: ran_deleteD split: option.splits)
next
  case (unsubscribe x p)
  then show ?thesis
    by (intro one_shot_mono [OF assms(2)])
      (auto simp: unsubscribe_begin_def Let_def unresolved_defs split: option.splits if_splits)
next
  case (read_notification subID payload)
  show ?thesis
  proof (cases "Option.bind (subscriptions c) (\<lambda>m. m subID)")
    case (Some e)
    then obtain m where m: "subscriptions c = Some m" "m subID = Some e" by (auto simp: Option.bind_eq_Some_conv)
    show ?thesis
      using assms(2,3) read_notification(2) m
      by (rule one_shot_notify) (use read_notification Some in \<open>auto simp: notify_def Let_def\<close>)
  qed (use assms(2) read_notification in \<open>simp add: notify_def\<close>)
next
  case (read_drop subID e)
  have "m subID = None \<or> m subID = Some e" if "subscriptions c = Some m" for m
    using that assms(3) read_drop by (cases "m subID") (auto simp: entries_def)
  then show ?thesis
    by (intro one_shot_mono [OF assms(2)])
      (auto simp: read_drop drop_one_shot_def unresolved_defs split: option.splits if_splits)
qed (rule one_shot_mono [OF assms(2)]; auto simp: shutdown_eff unresolved_defs split: if_splits)+

section \<open>Registered subscriptions\<close>

definition registered :: "ws_client \<Rightarrow> nat \<Rightarrow> bool" where
  "registered c x \<longleftrightarrow>
     (\<exists>m p. subscriptions c = Some m \<and> heap c x = Some p \<and> m (sub_ID p) = Some \<lparr>se_obj = x, se_oneShot = pr_oneShot p\<rparr>)"

text \<open>The subscription has ended, or a goroutine is committed to end it.\<close>

definition ending :: "ws_client \<Rightarrow> nat \<Rightarrow> bool" where
  "ending c x \<longleftrightarrow>
     (\<exists>p. heap c x = Some p \<and> subDone p) \<or> x \<in> set (shutting c) \<or> rloop c = RShutdown x \<or>
     (\<exists>xs ss. closer c = CDrain xs ss \<and> x \<in> set ss)"

definition acknowledged :: "ws_client \<Rightarrow> nat \<Rightarrow> bool" where
  "acknowledged c x \<longleftrightarrow> (\<exists>p. heap c x = Some p \<and> (pr_done p \<and> pr_errMsg p = [] \<or> rloop c = RFinish x))"

definition live :: "ws_client \<Rightarrow> bool" where
  "live c \<longleftrightarrow> (\<forall>x. acknowledged c x \<longrightarrow> registered c x \<or> ending c x)"

text \<open>A step that keeps ids and ends of objects, and takes entries out only into an ending.\<close>

lemma live_mono:
  assumes "live c" and "\<And>x. acknowledged d x \<Longrightarrow> acknowledged c x"
    and "\<And>x p. acknowledged c x \<Longrightarrow> heap c x = Some p \<Longrightarrow>
           \<exists>q. heap d x = Some q \<and> sub_ID q = sub_ID p \<and> pr_oneShot q = pr_oneShot p \<and> (subDone p \<longrightarrow> subDone q)"
    and "\<And>x m i e. subscriptions c = Some m \<Longrightarrow> m i = Some e \<Longrightarrow>
           (\<exists>n. subscriptions d = Some n \<and> n i = Some e) \<or> ending d (se_obj e)"
    and "\<And>x. acknowledged c x \<Longrightarrow> ending c x \<Longrightarrow> ending d x"
  shows "live d"
  unfolding live_def
proof (intro allI impI)
  fix x assume "acknowledged d x"
  then have x: "acknowledged c x" using assms(2) by blast
  then consider "registered c x" | "ending c x" using assms(1) by (auto simp: live_def)
  then show "registered d x \<or> ending d x"
  proof cases
    case 1
    then obtain m p where m: "subscriptions c = Some m" "heap c x = Some p"
      "m (sub_ID p) = Some \<lparr>se_obj = x, se_oneShot = pr_oneShot p\<rparr>" by (auto simp: registered_def)
    obtain q where "heap d x = Some q" "sub_ID q = sub_ID p" "pr_oneShot q = pr_oneShot p"
      using assms(3) [OF x m(2)] by blast
    then show ?thesis using assms(4) [OF m(1,3)] by (auto simp: registered_def)
  next
    case 2
    then show ?thesis using assms(5) [OF x] by blast
  qed
qed

lemma live_step:
  assumes "ws_step True c c'" and "live c" and "entries c" and "owned c" and "allocated c" and "close_phase c"
  shows "live c'"
  using assms(1)
proof cases
  case (subscribe oneShot)
  obtain m where m: "pendingReqs c = Some m" using subscribe assms(6) by (auto simp: close_phase_def)
  have new: "heap c (nalloc c) = None" using assms(5) by (auto simp: allocated_def)
  then have "rloop c \<noteq> RFinish (nalloc c)" using owned_heap [OF assms(4) new] by (auto simp: held_def)
  with new m show ?thesis
    by (intro live_mono [OF assms(2)])
      (auto simp: subscribe subscribe_begin_def Let_def acknowledged_def ending_def split: if_splits)
next
  case (read_reply reqID r)
  then show ?thesis
    by (intro live_mono [OF assms(2)])
      (auto simp: reply_begin_def cancelPending_def acknowledged_def ending_def split: option.splits)
next
  case (read_resolve x r)
  have x: "x \<in> held c" using read_resolve by (simp add: held_def)
  obtain p where p: "heap c x = Some p" "\<not> pr_done p" using open_replyE open_held [OF assms(4) x] by blast
  from p show ?thesis
  proof (cases rule: reply_resolve_eff [where r = r])
    case (failed q)
    then show ?thesis using read_resolve p
      by (intro live_mono [OF assms(2)]) (auto simp: acknowledged_def ending_def split: if_splits)
  next
    case (registered i m)
    then have free: "m i = None" using read_resolve by simp
    have "registered c' y \<or> ending c' y" if y: "acknowledged c' y" "y \<noteq> x" for y
    proof -
      have "acknowledged c y" using y registered read_resolve by (auto simp: acknowledged_def)
      then have "registered c y \<or> ending c y" using assms(2) by (simp add: live_def)
      then show ?thesis using y(2) registered free read_resolve
        by (auto simp: registered_def ending_def) (metis option.distinct(1))
    qed
    moreover have "registered c' x" using registered read_resolve by (simp add: registered_def)
    ultimately show ?thesis unfolding live_def by metis
  qed
next
  case (read_finish x)
  obtain p where p: "heap c x = Some p" "\<not> pr_done p"
    using open_replyE open_held [OF assms(4), of x] read_finish by (auto simp: held_def)
  with read_finish show ?thesis
    by (intro live_mono [OF assms(2)])
      (auto simp: close_reply_eff [OF p] acknowledged_def ending_def split: if_splits)
next
  case (close_pending x xs ss)
  obtain p where p: "heap c x = Some p" "\<not> pr_done p"
    using open_replyE open_draining [OF assms(4) close_pending(2)] by blast
  with close_pending show ?thesis
    by (intro live_mono [OF assms(2)])
      (auto simp: fail_reply_eff [OF p] acknowledged_def ending_def split: if_splits)
next
  case (close pm sm ps ss)
  then show ?thesis
    by (intro live_mono [OF assms(2)]) (auto simp: close_begin_def acknowledged_def ending_def dom_def image_iff)
next
  case (unsubscribe x p)
  then show ?thesis
    by (intro live_mono [OF assms(2)])
      (auto simp: unsubscribe_begin_def Let_def acknowledged_def ending_def split: option.splits if_splits)
next
  case (read_notification subID payload)
  then show ?thesis
    by (intro live_mono [OF assms(2)])
      (auto simp: notify_def Let_def acknowledged_def ending_def split: option.splits if_splits)
next
  case (read_drop subID e)
  have "m subID = None \<or> m subID = Some e" if "subscriptions c = Some m" for m
    using that assms(3) read_drop by (cases "m subID") (auto simp: entries_def)
  with read_drop show ?thesis
    by (intro live_mono [OF assms(2)])
      (auto simp: drop_one_shot_def acknowledged_def ending_def split: option.splits if_splits)
next
  case (shutdown xs x ys)
  then show ?thesis
    by (intro live_mono [OF assms(2)]) (auto simp: shutdown_eff acknowledged_def ending_def split: if_splits)
next
  case (read_shutdown x)
  then show ?thesis
    by (intro live_mono [OF assms(2)]) (auto simp: shutdown_eff acknowledged_def ending_def split: if_splits)
next
  case (close_sub x ss)
  then show ?thesis
    by (intro live_mono [OF assms(2)]) (auto simp: shutdown_eff acknowledged_def ending_def split: if_splits)
qed (rule live_mono [OF assms(2)]; auto simp: cancelPending_def acknowledged_def ending_def)+

text \<open>A caller that has its subscription was acknowledged without an error.\<close>

definition returned :: "ws_client \<Rightarrow> bool" where
  "returned c \<longleftrightarrow>
     (\<forall>x. callers c x = Some Subscribed \<longrightarrow> (\<exists>p. heap c x = Some p \<and> pr_done p \<and> pr_errMsg p = []))"

lemma returned_mono:
  assumes "returned c" and "\<And>x. callers d x = Some Subscribed \<Longrightarrow> callers c x = Some Subscribed"
    and "\<And>x p. heap c x = Some p \<Longrightarrow> pr_done p \<Longrightarrow> \<exists>q. heap d x = Some q \<and> pr_done q \<and> pr_errMsg q = pr_errMsg p"
  shows "returned d"
  using assms unfolding returned_def by metis

lemma returned_step:
  assumes "ws_step wb c c'" and "returned c" and "owned c" and "allocated c"
  shows "returned c'"
  using assms(1)
proof cases
  case (subscribe oneShot)
  have "heap c (nalloc c) = None" using assms(4) by (auto simp: allocated_def)
  then show ?thesis
    by (intro returned_mono [OF assms(2)])
      (auto simp: subscribe subscribe_begin_def Let_def split: option.splits if_splits)
next
  case (read_resolve x r)
  have x: "x \<in> held c" using read_resolve by (simp add: held_def)
  obtain p where p: "heap c x = Some p" "\<not> pr_done p" using open_replyE open_held [OF assms(3) x] by blast
  from p show ?thesis
  proof (cases rule: reply_resolve_eff [where r = r])
    case (failed q)
    then show ?thesis using read_resolve p by (intro returned_mono [OF assms(2)]) auto
  next
    case (registered i m)
    then show ?thesis using read_resolve p by (intro returned_mono [OF assms(2)]) auto
  qed
next
  case (read_finish x)
  obtain p where p: "heap c x = Some p" "\<not> pr_done p"
    using open_replyE open_held [OF assms(3), of x] read_finish by (auto simp: held_def)
  with read_finish show ?thesis
    by (intro returned_mono [OF assms(2)]) (auto simp: close_reply_eff [OF p])
next
  case (close_pending x xs ss)
  obtain p where p: "heap c x = Some p" "\<not> pr_done p"
    using open_replyE open_draining [OF assms(3) close_pending(2)] by blast
  with close_pending show ?thesis
    by (intro returned_mono [OF assms(2)]) (auto simp: fail_reply_eff [OF p])
next
  case (return x p)
  with assms(2) show ?thesis by (auto simp: returned_def)
qed (rule returned_mono [OF assms(2)];
     auto simp: op_defs shutdown_eff [unfolded shutdown_sub_def] Let_def split: option.splits if_splits)+

section \<open>Invariants of the reachable states\<close>

lemma ws_invariants:
  assumes "ws_reachable wb c"
  shows "entries c" and "one_shot c" and "returned c"
proof -
  from assms have "entries c \<and> one_shot c \<and> returned c"
  proof (induction rule: ws_reachable.induct)
    case init
    then show ?case
      by (simp add: entries_def one_shot_def returned_def DialWebSocket_def deliveries_def)
  next
    case (step c c')
    note inv = reachable_inv(1-3) [OF step.hyps(1)]
    show ?case using step inv by (blast intro: entries_step one_shot_step returned_step)
  qed
  then show "entries c" and "one_shot c" and "returned c" by auto
qed

lemma ws_live: "ws_reachable True c \<Longrightarrow> live c"
proof (induction rule: ws_reachable.induct)
  case init
  then show ?case by (simp add: live_def acknowledged_def DialWebSocket_def)
next
  case (step c c')
  note inv = reachable_inv(1-3) [OF step.hyps(1)] ws_invariants(1) [OF step.hyps(1)]
  show ?case using step inv by (blast intro: live_step)
qed

end
