(* ===== verification/Ws_Properties.thy ===== *)
theory Ws_Properties
  imports Ws_Subscriptions
begin

text \<open>
  \<open>Close\<close> along every fair schedule, and the properties of the WebSocket client with the runs that
  witness them.
\<close>

section \<open>Close along a run\<close>

definition ended :: "ws_client \<Rightarrow> nat \<Rightarrow> bool" where
  "ended c x \<longleftrightarrow> (\<exists>p. heap c x = Some p \<and> subDone p)"

lemma reply_resolve_ended:
  "ended c x \<Longrightarrow> ended (reply_resolve y r c) x"
  by (auto simp: reply_resolve_def fail_reply_def close_reply_def upd_obj_def ended_def Let_def
      split: reply.splits option.splits)

lemma ended_step: "ws_step wb c c' \<Longrightarrow> allocated c \<Longrightarrow> ended c x \<Longrightarrow> ended c' x"
proof (induction rule: ws_step.cases)
  case (subscribe c oneShot)
  then show ?case by (auto simp: ended_def subscribe_begin_def Let_def allocated_def split: option.splits)
next
  case (read_resolve c y r)
  then show ?case by (simp add: reply_resolve_ended)
qed (auto simp: ended_def op_defs fail_reply_def close_reply_def upd_obj_def Let_def split: option.splits)

lemma closer_frame [simp]:
  "closer (close_reply x c) = closer c" "closer (fail_reply msg x c) = closer c" "closer (reply_resolve x r c) = closer c"
  by (auto simp: close_reply_def fail_reply_def reply_resolve_def Let_def split: option.splits reply.splits)

lemmas plain_defs = subscribe_begin_def cancelPending_def reply_begin_def notify_def drop_one_shot_def
  unsubscribe_begin_def close_begin_def shutdown_sub_def

text \<open>What a step does to the closer: nothing, or one item of its work.\<close>

lemma closer_step:
  assumes "ws_step wb c c'" and "closer c = CDrain xs ss"
  shows "closer c' = CDrain xs ss \<or> (\<exists>x xs'. xs = x # xs' \<and> closer c' = CDrain xs' ss) \<or>
    (\<exists>x ss'. xs = [] \<and> ss = x # ss' \<and> closer c' = CDrain [] ss' \<and> (x \<in> dom (heap c) \<longrightarrow> ended c' x)) \<or>
    xs = [] \<and> ss = [] \<and> closer c' = CDone"
  using assms
  by (induction rule: ws_step.cases)
    (auto simp: plain_defs ended_def Let_def split: option.splits)

lemma closer_done_step: "ws_step wb c c' \<Longrightarrow> closer c = CDone \<Longrightarrow> closer c' = CDone"
  by (induction rule: ws_step.cases) (auto simp: plain_defs Let_def split: option.splits)

definition closing :: "ws_client \<Rightarrow> nat list" where
  "closing c = (case closer c of CDrain xs ss \<Rightarrow> ss | _ \<Rightarrow> [])"

lemma dom_heap_step: "ws_step wb c c' \<Longrightarrow> dom (heap c) \<subseteq> dom (heap c')"
  by (induction rule: ws_step.cases)
    (auto simp: op_defs fail_reply_def close_reply_def upd_obj_def Let_def split: option.splits reply.splits)

lemma closing_allocated: "ws_reachable wb c \<Longrightarrow> set (closing c) \<subseteq> dom (heap c)"
proof (induction rule: ws_reachable.induct)
  case (step c c')
  show ?case
  proof (cases "closer c")
    case CNone
    from step(2) CNone show ?thesis
    proof cases
      case (close pm sm ps ss)
      have "\<exists>p. heap c (se_obj e) = Some p" if "sm i = Some e" for i e
        using that close ws_invariants(1) [OF step(1)] unfolding entries_def entry_fits_def by blast
      with close show ?thesis by (auto simp: closing_def close_begin_def)
    qed (auto simp: closing_def plain_defs Let_def split: option.splits)
  next
    case (CDrain xs ss)
    have "set (closing c') \<subseteq> set ss" using closer_step [OF step(2) CDrain] by (auto simp: closing_def)
    then show ?thesis using step(3) CDrain dom_heap_step [OF step(2)] by (auto simp: closing_def)
  next
    case CDone
    then show ?thesis using closer_done_step [OF step(2)] by (simp add: closing_def)
  qed
qed (simp add: closing_def DialWebSocket_def)

text \<open>Work the closer has left.\<close>

definition close_work :: "ws_client \<Rightarrow> nat" where
  "close_work c = (case closer c of CNone \<Rightarrow> 0 | CDrain xs ss \<Rightarrow> Suc (length xs + length ss) | CDone \<Rightarrow> 0)"

definition is_run :: "bool \<Rightarrow> (nat \<Rightarrow> ws_client) \<Rightarrow> bool" where
  "is_run wb \<sigma> \<longleftrightarrow> ws_reachable wb (\<sigma> 0) \<and> (\<forall>n. ws_step wb (\<sigma> n) (\<sigma> (Suc n)))"

text \<open>The goroutine in \<open>Close\<close> is never starved.\<close>

definition closer_fair :: "(nat \<Rightarrow> ws_client) \<Rightarrow> bool" where
  "closer_fair \<sigma> \<longleftrightarrow> (\<forall>n. closer (\<sigma> n) \<noteq> CNone \<longrightarrow> closer (\<sigma> n) \<noteq> CDone \<longrightarrow> (\<exists>k\<ge>n. closer (\<sigma> (Suc k)) \<noteq> closer (\<sigma> k)))"

lemma run_reachable: "is_run wb \<sigma> \<Longrightarrow> ws_reachable wb (\<sigma> n)"
  by (induction n) (auto simp: is_run_def intro: ws_reachable.step)

lemma work_step:
  assumes "ws_step wb c c'" and "closer c \<noteq> CNone"
  shows "closer c' \<noteq> CNone" and "close_work c' \<le> close_work c" and "closer c' \<noteq> closer c \<Longrightarrow> close_work c' < close_work c"
  using assms closer_step [OF assms(1)] closer_done_step [OF assms(1)]
  by (cases "closer c"; force simp: close_work_def)+

lemma work_antimono:
  assumes "is_run wb \<sigma>" and "closer (\<sigma> n) \<noteq> CNone" and "n \<le> k"
  shows "closer (\<sigma> k) \<noteq> CNone" and "close_work (\<sigma> k) \<le> close_work (\<sigma> n)"
proof -
  have "closer (\<sigma> k) \<noteq> CNone \<and> close_work (\<sigma> k) \<le> close_work (\<sigma> n)" using assms(3)
  proof (induction rule: dec_induct)
    case (step i)
    then show ?case using work_step [of wb "\<sigma> i" "\<sigma> (Suc i)"] assms(1) by (force simp: is_run_def)
  qed (use assms(2) in auto)
  then show "closer (\<sigma> k) \<noteq> CNone" "close_work (\<sigma> k) \<le> close_work (\<sigma> n)" by auto
qed

lemma run_closes:
  assumes run: "is_run wb \<sigma>" "closer_fair \<sigma>"
  shows "closer (\<sigma> n) \<noteq> CNone \<Longrightarrow> \<exists>k\<ge>n. closer (\<sigma> k) = CDone"
proof (induction "close_work (\<sigma> n)" arbitrary: n rule: less_induct)
  case less
  show ?case
  proof (cases "closer (\<sigma> n) = CDone")
    case False
    with less(2) run(2) obtain k where k: "k \<ge> n" "closer (\<sigma> (Suc k)) \<noteq> closer (\<sigma> k)" by (auto simp: closer_fair_def)
    note at_k = work_antimono [OF run(1) less(2) k(1)]
    have step: "ws_step wb (\<sigma> k) (\<sigma> (Suc k))" using run(1) by (simp add: is_run_def)
    have "close_work (\<sigma> (Suc k)) < close_work (\<sigma> n)" using work_step(3) [OF step at_k(1) k(2)] at_k(2) by simp
    then have "\<exists>j\<ge>Suc k. closer (\<sigma> j) = CDone" using less(1) work_step(1) [OF step at_k(1)] by blast
    then show ?thesis using k(1) by (meson Suc_leD le_trans)
  qed auto
qed

lemma run_done_stays:
  assumes "is_run wb \<sigma>" and "closer (\<sigma> n) = CDone" and "n \<le> k"
  shows "closer (\<sigma> k) = CDone"
  using assms(3)
proof (induction rule: dec_induct)
  case (step i)
  then show ?case using closer_done_step assms(1) by (auto simp: is_run_def)
qed (rule assms(2))

lemma run_closing:
  assumes "is_run wb \<sigma>" and "x \<in> set (closing (\<sigma> j))" and "j \<le> k"
  shows "x \<in> set (closing (\<sigma> k)) \<or> ended (\<sigma> k) x"
  using assms(3)
proof (induction rule: dec_induct)
  case (step k)
  have ws: "ws_step wb (\<sigma> k) (\<sigma> (Suc k))" using assms(1) by (simp add: is_run_def)
  note reach = run_reachable [OF assms(1), of k]
  from step.IH show ?case
  proof
    assume x: "x \<in> set (closing (\<sigma> k))"
    then obtain xs ss where d: "closer (\<sigma> k) = CDrain xs ss" "x \<in> set ss"
      by (cases "closer (\<sigma> k)") (auto simp: closing_def)
    have "x \<in> dom (heap (\<sigma> k))" using closing_allocated [OF reach] x by blast
    then show ?thesis using closer_step [OF ws d(1)] d(2) by (auto simp: closing_def)
  next
    assume "ended (\<sigma> k) x"
    then show ?thesis using ended_step [OF ws reachable_inv(3) [OF reach]] by blast
  qed
qed (use assms(2) in simp)

section \<open>A sample run\<close>

text \<open>A one-shot subscription that is requested, acknowledged with id 7 and returned.\<close>

definition ws_requested :: ws_client where
  "ws_requested = subscribe_begin True DialWebSocket"

definition ws_acked :: ws_client where
  "ws_acked = (close_reply 0 (reply_resolve 0 (ReplySub 7) (reply_begin 1 (ReplySub 7) ws_requested)))\<lparr>rloop := RIdle\<rparr>"

definition ws_subscribed :: ws_client where
  "ws_subscribed = ws_acked\<lparr>callers := (callers ws_acked)(0 \<mapsto> Subscribed)\<rparr>"

definition ws_notified :: ws_client where
  "ws_notified = notify 7 [1, 2] ws_subscribed"

lemma ws_requested_eq:
  "ws_requested = \<lparr>nextReqID = 1,
     pendingReqs = Some [1 \<mapsto> 0], subscriptions = Some Map.empty, closedFlag = False, c_done = False,
     heap = [0 \<mapsto> \<lparr>pr_oneShot = True, pr_reqID = 1, pr_errMsg = [], pr_done = False, sub_ID = 0, subDone = False\<rparr>],
     nalloc = 1, callers = [0 \<mapsto> Waiting], rloop = RIdle, closer = CNone, shutting = [], delivered = [], panicked = False\<rparr>"
  by (simp add: ws_requested_def subscribe_begin_def DialWebSocket_def Let_def)

lemma ws_acked_eq:
  "ws_acked = \<lparr>nextReqID = 1,
     pendingReqs = Some Map.empty, subscriptions = Some [7 \<mapsto> \<lparr>se_obj = 0, se_oneShot = True\<rparr>], closedFlag = False, c_done = False,
     heap = [0 \<mapsto> \<lparr>pr_oneShot = True, pr_reqID = 1, pr_errMsg = [], pr_done = True, sub_ID = 7, subDone = False\<rparr>],
     nalloc = 1, callers = [0 \<mapsto> Waiting], rloop = RIdle, closer = CNone, shutting = [], delivered = [], panicked = False\<rparr>"
  by (simp add: ws_acked_def ws_requested_eq reply_begin_def cancelPending_def reply_resolve_def upd_obj_def Let_def close_reply_def)

lemma ws_requested_reachable: "ws_reachable wb ws_requested"
  unfolding ws_requested_def by (rule ws_reachable.step [OF ws_reachable.init subscribe]) (simp add: DialWebSocket_def)

lemma ws_acked_reachable: "ws_reachable wb ws_acked"
proof -
  let ?c1 = "reply_begin 1 (ReplySub 7) ws_requested"
  have 1: "ws_reachable wb ?c1"
    by (rule ws_reachable.step [OF ws_requested_reachable read_reply]) (simp add: ws_requested_eq)
  have "rloop ?c1 = RReply 0 (ReplySub 7)" "good_reply (ReplySub 7) ?c1"
    by (simp_all add: ws_requested_eq reply_begin_def cancelPending_def good_reply_def)
  then have 2: "ws_reachable wb (reply_resolve 0 (ReplySub 7) ?c1)" by (intro ws_reachable.step [OF 1 read_resolve]) auto
  show ?thesis
    unfolding ws_acked_def
    by (rule ws_reachable.step [OF 2 read_finish])
      (simp add: ws_requested_eq reply_begin_def cancelPending_def reply_resolve_def upd_obj_def)
qed

lemma ws_subscribed_reachable: "ws_reachable wb ws_subscribed"
  unfolding ws_subscribed_def by (rule ws_reachable.step [OF ws_acked_reachable return [where p = "the (heap ws_acked 0)"]]) (simp_all add: ws_acked_eq)

lemma ws_notified_reachable: "ws_reachable wb ws_notified"
  unfolding ws_notified_def
  by (rule ws_reachable.step [OF ws_subscribed_reachable read_notification]) (simp add: ws_subscribed_def ws_acked_eq)

section \<open>Subscriptions without an entry\<close>

definition has_entry :: "ws_client \<Rightarrow> nat \<Rightarrow> bool" where
  "has_entry c x \<longleftrightarrow> (\<exists>m i e. subscriptions c = Some m \<and> m i = Some e \<and> se_obj e = x)"

text \<open>The object has been given an entry at some time: it has one, or what follows from having one has begun.\<close>

definition entered :: "ws_client \<Rightarrow> nat \<Rightarrow> bool" where
  "entered c x \<longleftrightarrow> has_entry c x \<or> (\<exists>i e. rloop c = ROneShot i e \<and> se_obj e = x) \<or> ending c x"

lemmas entered_defs = entered_def has_entry_def ending_def

text \<open>Only a subscription id in a reply gives an object its entry.\<close>

lemma entered_step:
  assumes "ws_step wb c c'" and "owned c" and "allocated c" and "entered c' x"
  shows "entered c x \<or> (\<exists>i. rloop c = RReply x (ReplySub i) \<and> x \<notin> unresolved c')"
  using assms(1)
proof cases
  case (subscribe oneShot)
  then show ?thesis using assms(4)
    by (auto simp: subscribe_begin_def entered_defs Let_def split: option.splits if_splits)
next
  case (read_resolve y r)
  have y: "y \<in> held c" using read_resolve by (simp add: held_def)
  obtain p where p: "heap c y = Some p" "\<not> pr_done p" using open_replyE open_held [OF assms(2) y] by blast
  show ?thesis
    using read_resolve p assms(4) held_apart [OF assms(2) y]
    by (cases r) (auto simp: reply_resolve_def fail_reply_eff upd_obj_def entered_defs unresolved_defs Let_def
      split: option.splits if_splits)
next
  case (read_finish y)
  obtain p where p: "heap c y = Some p" "\<not> pr_done p"
    using open_replyE open_held [OF assms(2), of y] read_finish by (auto simp: held_def)
  show ?thesis using assms(4) p by (auto simp: read_finish close_reply_eff [OF p] entered_defs split: if_splits)
next
  case (close_pending y xs ss)
  obtain p where p: "heap c y = Some p" "\<not> pr_done p"
    using open_replyE open_draining [OF assms(2) close_pending(2)] by blast
  show ?thesis using assms(4) p close_pending by (auto simp: fail_reply_eff [OF p] entered_defs split: if_splits)
next
  case (close pm sm ps ss)
  then show ?thesis using assms(4) by (fastforce simp: close_begin_def entered_defs)
next
  case (unsubscribe y p)
  have "entered c x"
  proof (cases "Option.bind (subscriptions c) (\<lambda>m. m (sub_ID (the (heap c y))))")
    case None
    then show ?thesis using assms(4) unsubscribe
      by (auto simp: unsubscribe_begin_def Let_def entered_defs split: if_splits) blast
  next
    case (Some e)
    then show ?thesis using assms(4) unsubscribe
      by (auto simp: unsubscribe_begin_def Let_def entered_defs Option.bind_eq_Some_conv split: if_splits) blast+
  qed
  then show ?thesis ..
next
  case (read_notification subID payload)
  have "entered c x"
  proof (cases "Option.bind (subscriptions c) (\<lambda>m. m subID)")
    case None
    then show ?thesis using assms(4) read_notification by (simp add: notify_def)
  next
    case (Some e)
    then show ?thesis using assms(4) read_notification
      by (auto simp: notify_def Let_def entered_defs Option.bind_eq_Some_conv split: if_splits) blast+
  qed
  then show ?thesis ..
next
  case (read_drop subID e)
  then have "entered c x" using assms(4) by (auto simp: drop_one_shot_def entered_defs split: if_splits) blast
  then show ?thesis ..
next
  case (read_reply reqID r)
  then have "entered c x" using assms(4) by (auto simp: reply_begin_def cancelPending_def entered_defs split: option.splits)
  then show ?thesis ..
next
  case (shutdown xs y ys)
  then have "entered c x" using assms(4) by (auto simp: shutdown_eff entered_defs split: if_splits)
  then show ?thesis ..
next
  case (read_shutdown y)
  then have "entered c x" using assms(4) by (auto simp: shutdown_eff entered_defs split: if_splits)
  then show ?thesis ..
next
  case (close_sub y ss)
  then have "entered c x" using assms(4) by (auto simp: shutdown_eff entered_defs split: if_splits)
  then show ?thesis ..
qed (use assms(4) in \<open>auto simp: cancelPending_def entered_defs\<close>)

lemma unresolved_step:
  assumes "ws_step wb c c'" and "owned c"
  shows "unresolved c' \<subseteq> unresolved c \<union> {nalloc c}"
  using assms(1)
proof cases
  case (subscribe oneShot)
  then show ?thesis
    by (auto simp: subscribe_begin_def Let_def unresolved_defs ran_def split: option.splits if_splits)
next
  case (read_reply reqID r)
  then show ?thesis
    by (auto simp: reply_begin_def cancelPending_def unresolved_defs Option.bind_eq_Some_conv dest: ran_deleteD
        intro: ranI split: option.splits)
next
  case (read_resolve y r)
  have y: "y \<in> held c" using read_resolve by (simp add: held_def)
  obtain p where p: "heap c y = Some p" "\<not> pr_done p" using open_replyE open_held [OF assms(2) y] by blast
  from p show ?thesis
    by (cases rule: reply_resolve_eff [where r = r]) (auto simp: read_resolve unresolved_defs)
next
  case (read_finish y)
  obtain p where p: "heap c y = Some p" "\<not> pr_done p"
    using open_replyE open_held [OF assms(2), of y] read_finish by (auto simp: held_def)
  show ?thesis by (auto simp: read_finish close_reply_eff [OF p] unresolved_defs)
next
  case (close_pending y xs ss)
  obtain p where p: "heap c y = Some p" "\<not> pr_done p"
    using open_replyE open_draining [OF assms(2) close_pending(2)] by blast
  show ?thesis by (auto simp: close_pending fail_reply_eff [OF p] unresolved_defs)
next
  case (close pm sm ps ss)
  then show ?thesis by (auto simp: close_begin_def unresolved_defs ran_def dom_def)
next
  case (cancel y p err)
  then show ?thesis by (auto simp: cancelPending_def unresolved_defs dest: ran_deleteD split: option.splits)
qed (auto simp: unsubscribe_begin_def notify_def drop_one_shot_def shutdown_eff Let_def unresolved_defs
      split: option.splits if_splits)

lemma nalloc_step: "ws_step wb c c' \<Longrightarrow> nalloc c \<le> nalloc c'"
  by (induction rule: ws_step.induct)
    (auto simp: op_defs fail_reply_def close_reply_def Let_def split: option.splits reply.splits)

lemma entered_resolved:
  "ws_reachable wb c \<Longrightarrow> entered c x \<Longrightarrow> x < nalloc c \<and> x \<notin> unresolved c"
proof (induction rule: ws_reachable.induct)
  case init
  then show ?case by (simp add: entered_defs DialWebSocket_def)
next
  case (step c c')
  note inv = reachable_inv [OF step(1)]
  consider "entered c x" | i where "rloop c = RReply x (ReplySub i)" "x \<notin> unresolved c'"
    using entered_step [OF step(2) inv(2,3) step(4)] by blast
  then show ?case
  proof cases
    case 1
    then show ?thesis using step(3) unresolved_step [OF step(2) inv(2)] nalloc_step [OF step(2)] by fastforce
  next
    case 2
    then have "x \<in> dom (heap c)" using open_held [OF inv(2), of x] by (auto simp: held_def open_reply_def)
    then show ?thesis using 2 inv(3) nalloc_step [OF step(2)] by (auto simp: allocated_def)
  qed
qed

text \<open>An object resolved without an entry never gets one.\<close>

definition detached :: "ws_client \<Rightarrow> nat \<Rightarrow> bool" where
  "detached c x \<longleftrightarrow> x < nalloc c \<and> x \<notin> unresolved c \<and> \<not> entered c x"

lemma detached_step:
  assumes "ws_step wb c c'" and "ws_reachable wb c" and "detached c x"
  shows "detached c' x"
proof -
  note inv = reachable_inv [OF assms(2)]
  have "rloop c \<noteq> RReply x r" for r using assms(3) by (auto simp: detached_def unresolved_def)
  then have "\<not> entered c' x" using entered_step [OF assms(1) inv(2,3)] assms(3) by (auto simp: detached_def)
  then show ?thesis
    using unresolved_step [OF assms(1) inv(2)] nalloc_step [OF assms(1)] assms(3) by (auto simp: detached_def)
qed

lemma detached_steps:
  "(ws_step wb)\<^sup>*\<^sup>* c d \<Longrightarrow> ws_reachable wb c \<Longrightarrow> detached c x \<Longrightarrow> detached d x"
proof -
  assume "(ws_step wb)\<^sup>*\<^sup>* c d" "ws_reachable wb c" "detached c x"
  then have "ws_reachable wb d \<and> detached d x"
    by (induction rule: rtranclp_induct) (auto intro: ws_reachable.step detached_step)
  then show "detached d x" by simp
qed

lemma failed_detached:
  assumes "ws_reachable wb c" and "rloop c = RReply x (ReplyError msg)"
  shows "detached (reply_resolve x (ReplyError msg) c) x"
proof -
  note inv = reachable_inv [OF assms(1)]
  have x: "x \<in> held c" using assms(2) by (simp add: held_def)
  obtain p where p: "heap c x = Some p" "\<not> pr_done p" using open_replyE open_held [OF inv(2) x] by blast
  have "x \<in> unresolved c" using assms(2) by (simp add: unresolved_def)
  then have "\<not> entered c x" using entered_resolved [OF assms(1)] by blast
  moreover have "x < nalloc c" using p(1) inv(3) by (auto simp: allocated_def dom_def)
  ultimately show ?thesis
    using held_apart [OF inv(2) x] p assms(2)
    by (auto simp: detached_def reply_resolve_def fail_reply_eff unresolved_defs entered_defs)
qed

section \<open>Properties\<close>

text \<open>
  C10: in every reachable state, whatever the server sends, no goroutine has panicked: no channel
  (\<open>pending.done\<close>, \<open>c.done\<close>) has been closed twice and no nil map has been written.
\<close>

theorem ws_no_panic: "ws_reachable wb c \<Longrightarrow> \<not> panicked c"
  by (rule reachable_inv(4))

theorem ws_no_panic_witness: "\<not> panicked ws_notified \<and> rloop ws_notified = ROneShot 7 \<lparr>se_obj = 0, se_oneShot = True\<rparr>"
  using ws_no_panic [OF ws_notified_reachable] by (simp add: ws_notified_def notify_def ws_subscribed_def ws_acked_eq)

text \<open>
  C11: when the server answers with unused ids and non-empty error messages, a subscription that
  \<open>Subscribe\<close> has returned is in the subscription map under its id, or it has ended or a goroutine is
  about to close its \<open>Done\<close> channel.
\<close>

theorem Subscribe_registered:
  assumes "ws_reachable True c" and "callers c x = Some Subscribed"
  shows "registered c x \<or> ending c x"
proof -
  have "acknowledged c x" using assms(2) ws_invariants(3) [OF assms(1)] by (auto simp: acknowledged_def returned_def)
  then show ?thesis using ws_live [OF assms(1)] by (simp add: live_def)
qed

theorem Subscribe_registered_witness: "registered ws_subscribed 0"
  using Subscribe_registered [OF ws_subscribed_reachable, of 0]
  by (simp add: ws_subscribed_def ws_acked_eq ending_def registered_def)

text \<open>A one-shot subscription is dispatched at most once, whatever the server sends and however calls interleave.\<close>

theorem one_shot_dispatched_once:
  assumes "ws_reachable wb c" and "heap c x = Some p" and "pr_oneShot p"
  shows "deliveries x c \<le> 1"
  using one_shotD(1) [OF ws_invariants(2) [OF assms(1)] assms(2,3)] by (cases "deliveries x c = 0") auto

theorem one_shot_dispatched_once_witness: "deliveries 0 ws_notified = 1"
  using one_shot_dispatched_once [OF ws_notified_reachable, of 0]
  by (simp add: ws_notified_def notify_def ws_subscribed_def ws_acked_eq deliveries_def)

lemma close_step_takes_all:
  assumes "ws_step wb c c'" and "\<not> closedFlag c" and "closedFlag c'" and "close_phase c"
    and "subscriptions c = Some m" and "m i = Some e"
  shows "se_obj e \<in> set (closing c')"
  using assms(1)
proof cases
  case (read_resolve x r)
  then show ?thesis using assms(2,3)
    by (auto simp: reply_resolve_def fail_reply_def close_reply_def Let_def split: reply.splits option.splits if_splits)
next
  case (close pm sm ps ss)
  then show ?thesis using assms(5,6) by (auto simp: close_begin_def closing_def image_iff intro: bexI [of _ i])
qed (use assms(2,3) in \<open>auto simp: plain_defs fail_reply_def close_reply_def Let_def split: option.splits if_splits\<close>)

text \<open>
  C12: on every run that starts with the step in which \<open>Close\<close> takes the maps, and in which the
  goroutine inside \<open>Close\<close> is not starved, \<open>Close\<close> finishes: from some point on the client's
  \<open>Done\<close> channel is closed, every subscription that was registered has its \<open>Done\<close> channel closed,
  and a caller still waiting in \<open>Subscribe\<close> can return with an error.
\<close>

theorem Close_terminates:
  assumes "is_run wb \<sigma>" and "closer_fair \<sigma>" and "\<not> closedFlag (\<sigma> 0)" and "closedFlag (\<sigma> 1)"
  shows "\<exists>n. \<forall>k\<ge>n. c_done (\<sigma> k) \<and>
           (\<forall>m i e. subscriptions (\<sigma> 0) = Some m \<longrightarrow> m i = Some e \<longrightarrow> ended (\<sigma> k) (se_obj e)) \<and>
           (\<forall>x. callers (\<sigma> k) x = Some Waiting \<longrightarrow>
              (\<exists>c'. ws_step wb (\<sigma> k) c' \<and> callers c' x = Some (Failed ''solana: ws: client closed before reply'')))"
proof -
  have phase: "close_phase (\<sigma> k)" for k using reachable_inv(1) run_reachable [OF assms(1)] by blast
  have "closer (\<sigma> 1) \<noteq> CNone" using phase [of 1] assms(4) by (simp add: close_phase_def)
  then obtain n where n: "n \<ge> 1" "closer (\<sigma> n) = CDone" using run_closes [OF assms(1,2)] by blast
  have step: "ws_step wb (\<sigma> 0) (\<sigma> 1)" using assms(1) by (simp add: is_run_def)
  have "c_done (\<sigma> k) \<and> (\<forall>m i e. subscriptions (\<sigma> 0) = Some m \<longrightarrow> m i = Some e \<longrightarrow> ended (\<sigma> k) (se_obj e))" if "n \<le> k" for k
  proof -
    have d: "closer (\<sigma> k) = CDone" using run_done_stays [OF assms(1) n(2) that] .
    then have "closing (\<sigma> k) = []" by (simp add: closing_def)
    moreover have "1 \<le> k" using n(1) that by simp
    ultimately have "ended (\<sigma> k) (se_obj e)" if "subscriptions (\<sigma> 0) = Some m" "m i = Some e" for m i e
      using run_closing [OF assms(1) close_step_takes_all [OF step assms(3,4) phase that], of k] by simp
    then show ?thesis using d phase [of k] by (auto simp: close_phase_def)
  qed
  then show ?thesis by (intro exI [of _ n]) (fastforce intro: closed_return)
qed

text \<open>The run of the witness: the sample subscription is closed, its entry shut down, then late frames are ignored.\<close>

definition close_sample :: "nat \<Rightarrow> ws_client" where
  "close_sample n =
     (let c0 = close_begin [] [7] ws_subscribed; c1 = (shutdown_sub 0 c0)\<lparr>closer := CDrain [] []\<rparr>;
          c2 = c1\<lparr>closer := CDone, c_done := True, panicked := panicked c1 \<or> c_done c1\<rparr>
      in if n = 0 then ws_subscribed else if n = 1 then c0 else if n = 2 then c1 else c2)"

lemma close_sample_step: "ws_step wb (close_sample n) (close_sample (Suc n))"
proof -
  consider "n = 0" | "n = 1" | "n = 2" | "n \<ge> 3" by linarith
  then show ?thesis
  proof cases
    case 1
    have "ws_step wb ws_subscribed (close_begin [] [7] ws_subscribed)"
      by (rule close [where pm = Map.empty and sm = "[7 \<mapsto> \<lparr>se_obj = 0, se_oneShot = True\<rparr>]"])
        (simp_all add: ws_subscribed_def ws_acked_eq)
    then show ?thesis by (simp add: 1 close_sample_def Let_def)
  next
    case 2
    show ?thesis using close_sub [of "close_sample 1" 0 "[]" wb]
      by (simp add: 2 close_sample_def Let_def close_begin_def ws_subscribed_def ws_acked_eq)
  next
    case 3
    show ?thesis using close_done [of "close_sample 2" wb] by (simp add: 3 close_sample_def Let_def)
  next
    case 4
    have "ws_step wb (close_sample n) (reply_begin 0 (ReplySub 0) (close_sample n))"
      by (rule read_reply) (use 4 in \<open>simp add: close_sample_def Let_def close_begin_def ws_subscribed_def ws_acked_eq shutdown_eff\<close>)
    then show ?thesis using 4 by (simp add: close_sample_def Let_def reply_begin_def close_begin_def shutdown_eff)
  qed
qed

lemma close_sample_run: "is_run wb close_sample"
  using close_sample_step ws_subscribed_reachable by (simp add: is_run_def close_sample_def)

lemma close_sample_fair: "closer_fair close_sample"
  unfolding closer_fair_def
proof (intro allI impI)
  fix n assume "closer (close_sample n) \<noteq> CNone" "closer (close_sample n) \<noteq> CDone"
  then have "n < 3" by (auto simp: close_sample_def Let_def split: if_splits)
  then show "\<exists>k\<ge>n. closer (close_sample (Suc k)) \<noteq> closer (close_sample k)"
    by (intro exI [of _ 2]) (simp add: close_sample_def Let_def)
qed

theorem Close_terminates_witness: "\<exists>n. c_done (close_sample n) \<and> ended (close_sample n) 0"
proof -
  have "\<not> closedFlag (close_sample 0)" "closedFlag (close_sample 1)"
    "subscriptions (close_sample 0) = Some [7 \<mapsto> \<lparr>se_obj = 0, se_oneShot = True\<rparr>]"
    by (simp_all add: close_sample_def Let_def close_begin_def ws_subscribed_def ws_acked_eq)
  with Close_terminates [OF close_sample_run close_sample_fair, of True]
  show ?thesis by (metis (no_types, lifting) fun_upd_same order_refl subEntry.select_convs(1))
qed

text \<open>
  C25: two ways \<open>Subscribe\<close>'s answer and the subscription map disagree.  When the read loop holds a
  server error with an empty message for a waiting caller, handling it lets that caller return a
  subscription, which has no entry and never gets one, and whose \<open>Done\<close> channel nobody closes, not
  even \<open>Close\<close>.  And when a waiting caller's reply has been registered but its context ends, the
  caller returns with an error while the entry stays, with nobody new about to end it.
\<close>

theorem Subscribe_anomalies:
  assumes "ws_reachable False c" and "callers c x = Some Waiting"
  shows "(rloop c = RReply x (ReplyError []) \<longrightarrow>
      (let c1 = reply_resolve x (ReplyError []) c; c2 = c1\<lparr>callers := (callers c1)(x \<mapsto> Subscribed)\<rparr>
       in ws_step False c c1 \<and> ws_step False c1 c2 \<and>
          (\<forall>d. (ws_step False)\<^sup>*\<^sup>* c2 d \<longrightarrow> \<not> has_entry d x \<and> \<not> ending d x))) \<and>
    (\<forall>p err. registered c x \<and> heap c x = Some p \<longrightarrow>
      (let d = (cancelPending (pr_reqID p) c)\<lparr>callers := (callers c)(x \<mapsto> Failed err)\<rparr>
       in ws_step True c d \<and> registered d x \<and> (ending d x \<longleftrightarrow> ending c x)))"
proof (intro conjI impI allI)
  assume r: "rloop c = RReply x (ReplyError [])"
  let ?c1 = "reply_resolve x (ReplyError []) c"
  let ?c2 = "?c1\<lparr>callers := (callers ?c1)(x \<mapsto> Subscribed)\<rparr>"
  obtain p where p: "heap c x = Some p" "\<not> pr_done p"
    using open_replyE open_held [OF reachable_inv(2) [OF assms(1)], of x] r by (auto simp: held_def)
  have 1: "ws_step False c ?c1" using r by (intro read_resolve) simp_all
  have 2: "ws_step False ?c1 ?c2"
    by (rule return [where p = "p\<lparr>pr_errMsg := [], pr_done := True\<rparr>"]) (use p assms(2) in \<open>simp_all add: reply_resolve_def fail_reply_eff\<close>)
  have "ws_reachable False ?c1" using assms(1) 1 by (rule ws_reachable.step)
  with 2 have fin: "ws_reachable False ?c2" "detached ?c2 x"
    using detached_step failed_detached [OF assms(1) r] by (blast intro: ws_reachable.step)+
  have "\<not> has_entry d x \<and> \<not> ending d x" if "(ws_step False)\<^sup>*\<^sup>* ?c2 d" for d
    using detached_steps [OF that fin] unfolding detached_def entered_def by blast
  with 1 2 show "let c1 = ?c1; c2 = c1\<lparr>callers := (callers c1)(x \<mapsto> Subscribed)\<rparr>
       in ws_step False c c1 \<and> ws_step False c1 c2 \<and> (\<forall>d. (ws_step False)\<^sup>*\<^sup>* c2 d \<longrightarrow> \<not> has_entry d x \<and> \<not> ending d x)"
    by (simp add: Let_def)
next
  fix p err assume "registered c x \<and> heap c x = Some p"
  then show "let d = (cancelPending (pr_reqID p) c)\<lparr>callers := (callers c)(x \<mapsto> Failed err)\<rparr>
       in ws_step True c d \<and> registered d x \<and> (ending d x \<longleftrightarrow> ending c x)"
    using cancel [OF assms(2), of p True err] by (auto simp: Let_def registered_def cancelPending_def ending_def)
qed

text \<open>The two states of the witness: the request has been answered with an empty error; it has been registered.\<close>

theorem Subscribe_anomalies_witness:
  "(\<exists>c. ws_reachable False c \<and> callers c 0 = Some Subscribed \<and>
      (\<forall>d. (ws_step False)\<^sup>*\<^sup>* c d \<longrightarrow> \<not> has_entry d 0 \<and> \<not> ending d 0)) \<and>
   (\<exists>c. ws_step True ws_acked c \<and> callers c 0 = Some (Failed ''context canceled'') \<and> registered c 0 \<and> \<not> ending c 0)"
proof
  let ?c = "reply_begin 1 (ReplyError []) ws_requested"
  let ?c1 = "reply_resolve 0 (ReplyError []) ?c"
  have reach: "ws_reachable False ?c"
    by (rule ws_reachable.step [OF ws_requested_reachable read_reply]) (simp add: ws_requested_eq)
  have "callers ?c 0 = Some Waiting" "rloop ?c = RReply 0 (ReplyError [])"
    by (simp_all add: ws_requested_eq reply_begin_def cancelPending_def)
  then have "ws_step False ?c ?c1" "ws_step False ?c1 (?c1\<lparr>callers := (callers ?c1)(0 \<mapsto> Subscribed)\<rparr>)"
    "\<forall>d. (ws_step False)\<^sup>*\<^sup>* (?c1\<lparr>callers := (callers ?c1)(0 \<mapsto> Subscribed)\<rparr>) d \<longrightarrow> \<not> has_entry d 0 \<and> \<not> ending d 0"
    using Subscribe_anomalies [OF reach, of 0] by (simp_all add: Let_def)
  then show "\<exists>c. ws_reachable False c \<and> callers c 0 = Some Subscribed \<and>
      (\<forall>d. (ws_step False)\<^sup>*\<^sup>* c d \<longrightarrow> \<not> has_entry d 0 \<and> \<not> ending d 0)"
    using reach by (intro exI [of _ "?c1\<lparr>callers := (callers ?c1)(0 \<mapsto> Subscribed)\<rparr>"]) (auto intro: ws_reachable.step)
next
  let ?p = "the (heap ws_acked 0)"
  let ?d = "(cancelPending (pr_reqID ?p) ws_acked)\<lparr>callers := (callers ws_acked)(0 \<mapsto> Failed ''context canceled'')\<rparr>"
  have acked: "registered ws_acked 0" "\<not> ending ws_acked 0" "callers ws_acked 0 = Some Waiting" "heap ws_acked 0 = Some ?p"
    by (simp_all add: ws_acked_eq registered_def ending_def)
  then have "ws_step True ws_acked ?d \<and> registered ?d 0 \<and> \<not> ending ?d 0"
    using Subscribe_anomalies [OF ws_acked_reachable acked(3), THEN conjunct2, rule_format, of ?p "''context canceled''"]
    by (simp add: Let_def)
  then show "\<exists>c. ws_step True ws_acked c \<and> callers c 0 = Some (Failed ''context canceled'') \<and> registered c 0 \<and> \<not> ending c 0"
    by (intro exI [of _ ?d]) simp
qed

section \<open>Notification buffers\<close>

lemma sendOrDropOldest_newest:
  "0 < n \<Longrightarrow> length ch \<le> n \<Longrightarrow> sendOrDropOldest n False v ch = drop (Suc (length ch) - n) (ch @ [v])"
  by (cases ch) (auto simp: sendOrDropOldest_def Suc_diff_le not_less)

text \<open>
  When the consumer takes nothing, a buffered notification channel holds the newest values in
  order: after any sequence of \<open>sendOrDropOldest\<close> calls it equals the last \<open>n\<close> values sent.
\<close>

theorem buffer_keeps_newest:
  assumes "0 < n"
  shows "foldl (\<lambda>ch v. sendOrDropOldest n False v ch) [] vs = drop (length vs - n) vs"
proof (induction vs rule: rev_induct)
  case (snoc v vs)
  let ?ch = "drop (length vs - n) vs"
  have "foldl (\<lambda>ch v. sendOrDropOldest n False v ch) [] (vs @ [v]) = sendOrDropOldest n False v ?ch" using snoc by simp
  also have "\<dots> = drop (Suc (length ?ch) - n) (?ch @ [v])" by (rule sendOrDropOldest_newest) (use assms in auto)
  also have "\<dots> = drop (length (vs @ [v]) - n) (vs @ [v])"
    using assms by (cases "length vs < n") (auto simp: Suc_diff_le)
  finally show ?case .
qed simp

theorem buffer_keeps_newest_witness: "foldl (\<lambda>ch v. sendOrDropOldest 2 False v ch) [] [1, 2, 3::nat] = [2, 3]"
  using buffer_keeps_newest [of 2 "[1, 2, 3::nat]"] by simp

end
