(* ===== verification/Ws_Typed.thy ===== *)
theory Ws_Typed
  imports Rpc_Methods_Laws Ws_Properties "HOL-Library.Sublist"
begin

text \<open>
  The typed subscriptions (\<open>ws/wsclient_*.go\<close>).  Each is a subscribe request, a decoder of
  notifications and a buffered channel.  \<open>sub_request\<close> is what a method hands to \<open>Subscribe\<close>; the
  decoder is the dispatch closure up to the send, with \<open>codec.Unmarshal\<close> as the parameter \<open>unm\<close>.
  The channel is a state machine at the grain of the three selects of \<open>sendOrDropOldest\<close>
  (\<open>ws/util.go\<close>), between which the consumer may receive.
\<close>

section \<open>Notifications\<close>

record AccountNotification =
  an_Slot :: u64
  an_Value :: "AccountInfo option"

record LogNotification =
  ln_Slot :: u64
  ln_Signature :: string
  ln_Err :: jv
  ln_Logs :: "string list"

record SlotInfo =
  sinf_Parent :: u64
  sinf_Root :: u64
  sinf_Slot :: u64

record ProgramNotification =
  pn_Slot :: u64
  pn_Pubkey :: PublicKey
  pn_Account :: "AccountInfo option"

record SignatureNotification =
  sn_Slot :: u64
  sn_Err :: jv

record 'f BlockNotification =
  bn_Slot :: u64
  bn_Err :: string
  bn_Block :: "'f GetBlockResult option"

record SlotUpdate =
  slu_Type :: string
  slu_Slot :: u64
  slu_Parent :: u64
  slu_Timestamp :: int
  slu_Err :: string

section \<open>Subscribe requests\<close>

record 'n sub_request =
  sq_method :: string
  sq_unsubMethod :: string
  sq_params :: "jv list option"
  sq_dispatch :: "bytes \<Rightarrow> 'n option"
  sq_capacity :: nat
  sq_oneShot :: bool

text \<open>A dispatch closure: decode the payload, drop it on an error, and send \<open>f\<close> of it.\<close>

definition decode_with :: "(bytes \<Rightarrow> 't result) \<Rightarrow> ('t \<Rightarrow> 'n) \<Rightarrow> bytes \<Rightarrow> 'n option" where
  "decode_with unm f raw = (case unm raw of Inl _ \<Rightarrow> None | Inr t \<Rightarrow> Some (f t))"

definition zero_CommitmentWithEncodingCfg :: CommitmentWithEncodingCfg where
  "zero_CommitmentWithEncodingCfg = \<lparr>ce_Commitment = [], ce_Encoding = []\<rparr>"

definition buildCommitmentWithEncoding :: "CommitmentWithEncodingCfg \<Rightarrow> jv" where
  "buildCommitmentWithEncoding cfg =
     (let enc = (if ce_Encoding cfg = [] then EncodingBase64 else ce_Encoding cfg)
      in JObj (str_field ''commitment'' (ce_Commitment cfg) @ [(''encoding'', JStr enc)]))"

definition AccountSubscribe ::
  "(bytes \<Rightarrow> AccountInfo option ContextValue result) \<Rightarrow> b58encoder \<Rightarrow> PublicKey \<Rightarrow> CommitmentWithEncodingCfg list \<Rightarrow>
     AccountNotification sub_request" where
  "AccountSubscribe unm b58enc pubkey cfg =
     \<lparr>sq_method = ''accountSubscribe'', sq_unsubMethod = ''accountUnsubscribe'',
      sq_params = Some [pk_json b58enc pubkey, buildCommitmentWithEncoding (FirstOrZero zero_CommitmentWithEncodingCfg cfg)],
      sq_dispatch = decode_with unm (\<lambda>env. \<lparr>an_Slot = cv_Slot env, an_Value = cv_Value env\<rparr>),
      sq_capacity = 64, sq_oneShot = False\<rparr>"

record LogsFilter =
  lf_All :: bool
  lf_AllWithVotes :: bool
  lf_Mentions :: "PublicKey list"

definition LogsSubscribe ::
  "(bytes \<Rightarrow> LogNotification ContextValue result) \<Rightarrow> b58encoder \<Rightarrow> LogsFilter \<Rightarrow> LogsSubscribeCfg list \<Rightarrow> LogNotification sub_request" where
  "LogsSubscribe unm b58enc flt cfg =
     (let filterValue =
        (if lf_AllWithVotes flt then JStr ''allWithVotes''
         else if length (lf_Mentions flt) > 0 then JObj [(''mentions'', JArr (map (pk_json b58enc) (lf_Mentions flt)))]
         else JStr ''all'')
      in \<lparr>sq_method = ''logsSubscribe'', sq_unsubMethod = ''logsUnsubscribe'',
          sq_params = Some [filterValue, json_LogsSubscribeCfg (FirstOrZero \<lparr>lo_Commitment = []\<rparr> cfg)],
          sq_dispatch = decode_with unm (\<lambda>env. (cv_Value env)\<lparr>ln_Slot := cv_Slot env\<rparr>),
          sq_capacity = 64, sq_oneShot = False\<rparr>)"

definition SlotSubscribe :: "(bytes \<Rightarrow> SlotInfo result) \<Rightarrow> SlotInfo sub_request" where
  "SlotSubscribe unm =
     \<lparr>sq_method = ''slotSubscribe'', sq_unsubMethod = ''slotUnsubscribe'', sq_params = None,
      sq_dispatch = decode_with unm (\<lambda>n. n), sq_capacity = 64, sq_oneShot = False\<rparr>"

definition RootSubscribe :: "(bytes \<Rightarrow> u64 result) \<Rightarrow> u64 sub_request" where
  "RootSubscribe unm =
     \<lparr>sq_method = ''rootSubscribe'', sq_unsubMethod = ''rootUnsubscribe'', sq_params = None,
      sq_dispatch = decode_with unm (\<lambda>slot. slot), sq_capacity = 64, sq_oneShot = False\<rparr>"

definition ProgramSubscribe ::
  "(bytes \<Rightarrow> ProgramNotification ContextValue result) \<Rightarrow> b58encoder \<Rightarrow> PublicKey \<Rightarrow> CommitmentWithEncodingCfg list \<Rightarrow>
     ProgramNotification sub_request" where
  "ProgramSubscribe unm b58enc programID cfg =
     \<lparr>sq_method = ''programSubscribe'', sq_unsubMethod = ''programUnsubscribe'',
      sq_params = Some [pk_json b58enc programID, buildCommitmentWithEncoding (FirstOrZero zero_CommitmentWithEncodingCfg cfg)],
      sq_dispatch = decode_with unm (\<lambda>env. (cv_Value env)\<lparr>pn_Slot := cv_Slot env\<rparr>),
      sq_capacity = 64, sq_oneShot = False\<rparr>"

definition SignatureSubscribe ::
  "(bytes \<Rightarrow> SignatureNotification ContextValue result) \<Rightarrow> b58encoder \<Rightarrow> Signature \<Rightarrow> SignatureSubscribeCfg list \<Rightarrow>
     SignatureNotification sub_request" where
  "SignatureSubscribe unm b58enc sig cfg =
     \<lparr>sq_method = ''signatureSubscribe'', sq_unsubMethod = ''signatureUnsubscribe'',
      sq_params = Some [pk_json b58enc sig, json_SignatureSubscribeCfg (FirstOrZero \<lparr>ss_Commitment = []\<rparr> cfg)],
      sq_dispatch = decode_with unm (\<lambda>env. (cv_Value env)\<lparr>sn_Slot := cv_Slot env\<rparr>),
      sq_capacity = 4, sq_oneShot = True\<rparr>"

record BlockFilter =
  bf_All :: bool
  bf_MentionsAccountOrProgram :: PublicKey

definition BlockSubscribe ::
  "(bytes \<Rightarrow> 'f BlockNotification ContextValue result) \<Rightarrow> b58encoder \<Rightarrow> BlockFilter \<Rightarrow> GetBlockCfg list \<Rightarrow>
     'f BlockNotification sub_request" where
  "BlockSubscribe unm b58enc flt cfg =
     (let filterValue =
        (if \<not> pk_IsZero (bf_MentionsAccountOrProgram flt)
         then JObj [(''mentionsAccountOrProgram'', pk_json b58enc (bf_MentionsAccountOrProgram flt))]
         else JStr ''all'')
      in \<lparr>sq_method = ''blockSubscribe'', sq_unsubMethod = ''blockUnsubscribe'',
          sq_params = Some [filterValue, json_GetBlockCfg (get_block_defaults (FirstOrZero zero_GetBlockCfg cfg))],
          sq_dispatch = decode_with unm cv_Value,
          sq_capacity = 16, sq_oneShot = False\<rparr>)"

definition SlotsUpdatesSubscribe :: "(bytes \<Rightarrow> SlotUpdate result) \<Rightarrow> SlotUpdate sub_request" where
  "SlotsUpdatesSubscribe unm =
     \<lparr>sq_method = ''slotsUpdatesSubscribe'', sq_unsubMethod = ''slotsUpdatesUnsubscribe'', sq_params = None,
      sq_dispatch = decode_with unm (\<lambda>n. n), sq_capacity = 64, sq_oneShot = False\<rparr>"

section \<open>The channel\<close>

text \<open>
  Where the sender is: outside \<open>sendOrDropOldest\<close>, past the first select, past the second.
  \<open>ch_sent\<close> and \<open>ch_received\<close> record what was offered and what the consumer took.
\<close>

datatype 'n sender = SIdle | SDrop 'n | SPut 'n

record 'n chan =
  ch_cap :: nat
  ch_buf :: "'n list"
  ch_sender :: "'n sender"
  ch_sent :: "'n list"
  ch_received :: "'n list"

definition new_chan :: "nat \<Rightarrow> 'n chan" where
  "new_chan n = \<lparr>ch_cap = n, ch_buf = [], ch_sender = SIdle, ch_sent = [], ch_received = []\<rparr>"

definition offer :: "'n \<Rightarrow> 'n chan \<Rightarrow> 'n chan" where
  "offer v c =
     (let c = c\<lparr>ch_sent := ch_sent c @ [v]\<rparr>
      in if length (ch_buf c) < ch_cap c then c\<lparr>ch_buf := ch_buf c @ [v]\<rparr> else c\<lparr>ch_sender := SDrop v\<rparr>)"

definition drop_oldest :: "'n \<Rightarrow> 'n chan \<Rightarrow> 'n chan" where
  "drop_oldest v c = c\<lparr>ch_buf := drop 1 (ch_buf c), ch_sender := SPut v\<rparr>"

definition put :: "'n \<Rightarrow> 'n chan \<Rightarrow> 'n chan" where
  "put v c = (if length (ch_buf c) < ch_cap c then c\<lparr>ch_buf := ch_buf c @ [v]\<rparr> else c)\<lparr>ch_sender := SIdle\<rparr>"

definition receive :: "'n \<Rightarrow> 'n list \<Rightarrow> 'n chan \<Rightarrow> 'n chan" where
  "receive x xs c = c\<lparr>ch_buf := xs, ch_received := ch_received c @ [x]\<rparr>"

text \<open>Steps of a channel other than a new offer.\<close>

inductive chan_step :: "'n chan \<Rightarrow> 'n chan \<Rightarrow> bool" where
  drop_step: "ch_sender c = SDrop v \<Longrightarrow> chan_step c (drop_oldest v c)"
| put_step: "ch_sender c = SPut v \<Longrightarrow> chan_step c (put v c)"
| receive_step: "ch_buf c = x # xs \<Longrightarrow> chan_step c (receive x xs c)"

inductive chan_reachable :: "nat \<Rightarrow> 'n chan \<Rightarrow> bool" for n where
  new: "chan_reachable n (new_chan n)"
| offered: "chan_reachable n c \<Longrightarrow> ch_sender c = SIdle \<Longrightarrow> chan_reachable n (offer v c)"
| stepped: "chan_reachable n c \<Longrightarrow> chan_step c c' \<Longrightarrow> chan_reachable n c'"

section \<open>What a channel keeps\<close>

lemmas chan_defs = new_chan_def offer_def drop_oldest_def put_def receive_def Let_def

text \<open>The buffer is a final segment of what was offered, but for the value the sender still holds.\<close>

definition chan_ok :: "'n chan \<Rightarrow> bool" where
  "chan_ok c \<longleftrightarrow>
     length (ch_buf c) \<le> ch_cap c \<and>
     (case ch_sender c of
        SIdle \<Rightarrow> suffix (ch_buf c) (ch_sent c) \<and> subseq (ch_received c @ ch_buf c) (ch_sent c) \<and>
          (ch_sent c \<noteq> [] \<longrightarrow> suffix [last (ch_sent c)] (ch_received c @ ch_buf c))
      | SDrop v \<Rightarrow> (\<exists>vs. ch_sent c = vs @ [v] \<and> suffix (ch_buf c) vs \<and> subseq (ch_received c @ ch_buf c) vs)
      | SPut v \<Rightarrow> length (ch_buf c) < ch_cap c \<and>
          (\<exists>vs. ch_sent c = vs @ [v] \<and> suffix (ch_buf c) vs \<and> subseq (ch_received c @ ch_buf c) vs))"

lemma suffix_tl: "suffix xs ys \<Longrightarrow> suffix (drop k xs) ys"
  by (meson suffix_drop suffix_order.trans)

lemma subseq_drop: "subseq (xs @ ys) zs \<Longrightarrow> subseq (xs @ drop k ys) zs"
  by (meson list_emb_append_mono subseq_order.order_refl subseq_order.order_trans suffix_drop suffix_imp_subseq)

lemma append_last: "suffix ys zs \<Longrightarrow> suffix (ys @ [v]) (zs @ [v])" "subseq (xs @ ys) zs \<Longrightarrow> subseq (xs @ ys @ [v]) (zs @ [v])"
  "suffix [v] (xs @ ys @ [v])"
  by (auto simp: suffix_def) (metis append.assoc subseq_append)

lemma chan_ok_offer: "chan_ok c \<Longrightarrow> ch_sender c = SIdle \<Longrightarrow> chan_ok (offer v c)"
  using append_last(1) [of "ch_buf c" "ch_sent c" v] append_last(2) [of "ch_received c" "ch_buf c" "ch_sent c" v] append_last(3) [of v "ch_received c" "ch_buf c"]
  by (simp add: chan_ok_def offer_def Let_def del: subseq_append)

lemma chan_ok_step:
  assumes "chan_step c c'" and "chan_ok c" and "0 < ch_cap c"
  shows "chan_ok c'"
  using assms(1)
proof cases
  case (drop_step v)
  then obtain vs where vs: "ch_sent c = vs @ [v]" "suffix (ch_buf c) vs" "subseq (ch_received c @ ch_buf c) vs"
    using assms(2) by (auto simp: chan_ok_def)
  have "length (drop 1 (ch_buf c)) < ch_cap c" using assms(2,3) by (auto simp: chan_ok_def)
  then show ?thesis
    using vs suffix_tl [OF vs(2), of 1] subseq_drop [OF vs(3), of 1] by (auto simp: drop_step chan_ok_def drop_oldest_def)
next
  case (put_step v)
  then show ?thesis using assms(2) by (auto simp: put_step chan_ok_def put_def suffix_def)
next
  case (receive_step x xs)
  then have suf: "suffix xs (ch_buf c)" by (auto simp: suffix_def)
  show ?thesis
    using assms(2) receive_step suffix_order.trans [OF suf]
    by (auto simp: chan_ok_def receive_def split: sender.splits)
qed

lemma chan_cap: "chan_reachable n c \<Longrightarrow> ch_cap c = n"
  by (induction rule: chan_reachable.induct) (auto simp: chan_defs elim!: chan_step.cases)

lemma chan_invariant: "chan_reachable n c \<Longrightarrow> 0 < n \<Longrightarrow> chan_ok c"
proof (induction rule: chan_reachable.induct)
  case (stepped c c')
  then show ?case using chan_ok_step chan_cap by blast
qed (simp_all add: chan_ok_offer, simp add: chan_ok_def new_chan_def)

text \<open>Nothing is dropped before the channel has been offered more values than it holds.\<close>

definition chan_full_ok :: "'n chan \<Rightarrow> bool" where
  "chan_full_ok c \<longleftrightarrow> (length (ch_sent c) \<le> ch_cap c \<longrightarrow> ch_sender c = SIdle \<and> ch_received c @ ch_buf c = ch_sent c)"

lemma chan_lossless: "chan_reachable n c \<Longrightarrow> chan_full_ok c"
proof (induction rule: chan_reachable.induct)
  case (offered c v)
  then have "length (ch_sent c) < ch_cap c \<Longrightarrow> length (ch_buf c) < ch_cap c"
    by (metis chan_full_ok_def length_append le_add2 order_le_less_trans order_less_imp_le)
  with offered show ?case by (auto simp: chan_full_ok_def offer_def Let_def)
next
  case (stepped c c')
  from stepped(2,3) show ?case by cases (auto simp: chan_full_ok_def chan_defs)
qed (simp add: chan_full_ok_def new_chan_def)

text \<open>\<open>sendOrDropOldest\<close> of \<open>Ws_Client\<close> is a run of these steps; \<open>taken\<close> is a receive between the selects.\<close>

lemma sendOrDropOldest_steps:
  assumes "ch_sender c = SIdle" and "0 < ch_cap c" and "length (ch_buf c) \<le> ch_cap c"
  shows "\<exists>c'. chan_step\<^sup>*\<^sup>* (offer v c) c' \<and> ch_sender c' = SIdle \<and> ch_buf c' = sendOrDropOldest (ch_cap c) taken v (ch_buf c)"
proof (cases "length (ch_buf c) < ch_cap c")
  case True
  then show ?thesis
    using assms by (intro exI [of _ "offer v c"]) (simp add: offer_def Let_def sendOrDropOldest_def)
next
  case False
  then obtain x xs where x: "ch_buf c = x # xs" using assms(2) by (cases "ch_buf c") auto
  let ?o = "offer v c"
  let ?t = "if taken then receive x xs ?o else ?o"
  have o: "ch_sender ?o = SDrop v" "ch_buf ?o = x # xs" using False x by (simp_all add: offer_def Let_def)
  have t: "chan_step\<^sup>*\<^sup>* ?o ?t" "ch_sender ?t = SDrop v"
    using chan_step.receive_step [OF o(2)] o(1) by (auto simp: receive_def)
  have "chan_step\<^sup>*\<^sup>* ?o (put v (drop_oldest v ?t))"
    using t(1) chan_step.drop_step [OF t(2)] chan_step.put_step [of "drop_oldest v ?t" v]
    by (auto simp: drop_oldest_def intro: rtranclp.rtrancl_into_rtrancl)
  then show ?thesis
    using False x assms(3)
    by (intro exI [of _ "put v (drop_oldest v ?t)"])
      (auto simp: put_def drop_oldest_def offer_def receive_def sendOrDropOldest_def Let_def neq_Nil_conv split: list.split)
qed

text \<open>
  A buffered value can be dropped although the channel is no longer full: the consumer received
  between the selects.
\<close>

lemma drops_when_not_full:
  "\<exists>c :: nat chan. chan_reachable 2 c \<and> ch_sender c = SIdle \<and> ch_sent c = [1, 2, 3] \<and> ch_received c = [1] \<and> ch_buf c = [3]"
proof -
  let ?c2 = "offer 2 (offer 1 (new_chan 2)) :: nat chan"
  have c2: "chan_reachable 2 ?c2" by (intro chan_reachable.intros) (simp_all add: chan_defs)
  have "chan_reachable 2 (put 3 (drop_oldest 3 (receive 1 [2] (offer 3 ?c2))))"
    by (intro chan_reachable.stepped [OF _ put_step] chan_reachable.stepped [OF _ drop_step]
        chan_reachable.stepped [OF _ receive_step] chan_reachable.offered c2) (simp_all add: chan_defs)
  then show ?thesis by (intro exI conjI) (assumption | simp add: chan_defs)+
qed

section \<open>A subscription end to end\<close>

text \<open>
  The client of \<open>Ws_Client\<close> together with the channel of the subscription object \<open>x\<close>, which the
  typed method allocates with its request: with the one-shot flag of \<open>q\<close> and no other.  The read
  loop sends from the dispatch, so it delivers the next notification only when the last send is done.
\<close>

inductive typed_step :: "bool \<Rightarrow> 'n sub_request \<Rightarrow> nat \<Rightarrow> ws_client \<times> 'n chan \<Rightarrow> ws_client \<times> 'n chan \<Rightarrow> bool" for wb q x where
  subscribe_step: "\<not> closedFlag c \<Longrightarrow> nalloc c = x \<Longrightarrow>
     typed_step wb q x (c, ch) (subscribe_begin (sq_oneShot q) c, ch)"
| client_step: "ws_step wb c c' \<Longrightarrow> delivered c' = delivered c \<Longrightarrow> (heap c' x = None \<longleftrightarrow> heap c x = None) \<Longrightarrow>
     typed_step wb q x (c, ch) (c', ch)"
| dispatch_step: "ws_step wb c c' \<Longrightarrow> delivered c' = delivered c @ [(y, raw)] \<Longrightarrow> ch_sender ch = SIdle \<Longrightarrow>
     ch' = (if y = x then (case sq_dispatch q raw of None \<Rightarrow> ch | Some v \<Rightarrow> offer v ch) else ch) \<Longrightarrow>
     typed_step wb q x (c, ch) (c', ch')"
| channel_step: "chan_step ch ch' \<Longrightarrow> typed_step wb q x (c, ch) (c, ch')"

inductive typed_reachable :: "bool \<Rightarrow> 'n sub_request \<Rightarrow> nat \<Rightarrow> ws_client \<times> 'n chan \<Rightarrow> bool" for wb q x where
  typed_init: "typed_reachable wb q x (DialWebSocket, new_chan (sq_capacity q))"
| typed_more: "typed_reachable wb q x s \<Longrightarrow> typed_step wb q x s s' \<Longrightarrow> typed_reachable wb q x s'"

text \<open>The payloads dispatched to object \<open>x\<close>.\<close>

definition dispatched :: "nat \<Rightarrow> ws_client \<Rightarrow> bytes list" where
  "dispatched x c = map snd (filter (\<lambda>d. fst d = x) (delivered c))"

text \<open>The notifications dispatched to object \<open>x\<close>, decoded.\<close>

definition notifications :: "(bytes \<Rightarrow> 'n option) \<Rightarrow> nat \<Rightarrow> ws_client \<Rightarrow> 'n list" where
  "notifications d x c = List.map_filter (\<lambda>(y, raw). if y = x then d raw else None) (delivered c)"

lemma subscribe_begin_delivered: "delivered (subscribe_begin oneShot c) = delivered c"
  by (simp add: subscribe_begin_def Let_def split: option.split)

lemma chan_step_sent: "chan_step ch ch' \<Longrightarrow> ch_sent ch' = ch_sent ch"
  by (auto simp: chan_defs elim!: chan_step.cases)

lemma offer_sent: "ch_sent (offer v c) = ch_sent c @ [v]"
  by (simp add: offer_def Let_def)

lemma typed_parts:
  assumes "typed_reachable wb q x s"
  shows "ws_reachable wb (fst s) \<and> chan_reachable (sq_capacity q) (snd s) \<and> ch_sent (snd s) = notifications (sq_dispatch q) x (fst s)"
  using assms
proof induction
  case typed_init
  then show ?case
    using ws_reachable.init chan_reachable.new
    by (simp add: notifications_def map_filter_simps) (simp add: DialWebSocket_def new_chan_def map_filter_simps)
next
  case (typed_more s s')
  from typed_more(2,3) show ?case
  proof cases
    case (dispatch_step c c' y raw ch ch')
    then have "ch_sent ch' = notifications (sq_dispatch q) x c'"
      using typed_more(3) by (auto simp: notifications_def map_filter_def offer_sent split: option.splits)
    with dispatch_step typed_more(3) show ?thesis
      by (auto intro: ws_reachable.step chan_reachable.offered split: option.splits)
  next
    case (subscribe_step c ch)
    then show ?thesis
      using typed_more(3) subscribe_begin_delivered by (auto intro: ws_reachable.step subscribe simp: notifications_def)
  qed (auto intro: ws_reachable.step chan_reachable.stepped simp: notifications_def chan_step_sent)
qed

lemma notifications_dispatched: "notifications d x c = List.map_filter d (dispatched x c)"
proof -
  have "List.map_filter (\<lambda>(y, raw). if y = x then d raw else None) ds = List.map_filter d (map snd (filter (\<lambda>e. fst e = x) ds))" for ds
    by (induction ds) (auto simp: map_filter_simps split: option.splits if_splits)
  then show ?thesis by (simp add: notifications_def dispatched_def)
qed

lemma length_dispatched: "length (dispatched x c) = deliveries x c"
  by (simp add: dispatched_def deliveries_def)

section \<open>The object of the subscription\<close>

text \<open>A step that does not allocate \<open>x\<close> keeps its one-shot flag.\<close>

lemma oneShot_step:
  assumes "ws_step wb c c'" and "ws_reachable wb c" and "heap c x = Some p"
  shows "\<exists>p'. heap c' x = Some p' \<and> pr_oneShot p' = pr_oneShot p"
proof -
  have "x \<noteq> nalloc c" using reachable_inv(3) [OF assms(2)] assms(3) by (auto simp: allocated_def dom_def)
  with assms(1,3) show ?thesis
    by (induction rule: ws_step.induct)
      (auto simp: op_defs fail_reply_def close_reply_def upd_obj_def Let_def split: option.splits reply.splits)
qed

lemma dispatch_heap: "ws_step wb c c' \<Longrightarrow> delivered c' \<noteq> delivered c \<Longrightarrow> heap c' = heap c"
  by (induction rule: ws_step.induct)
    (auto simp: op_defs fail_reply_def close_reply_def upd_obj_def Let_def split: option.splits reply.splits)

lemma typed_oneShot:
  assumes "typed_reachable wb q x s"
  shows "heap (fst s) x = Some p \<Longrightarrow> pr_oneShot p = sq_oneShot q"
  using assms
proof (induction arbitrary: p)
  case typed_init
  then show ?case by (simp add: DialWebSocket_def)
next
  case (typed_more s s')
  note reach = typed_parts [OF typed_more(1), THEN conjunct1]
  from typed_more(2) show ?case
  proof cases
    case (subscribe_step c ch)
    then show ?thesis using typed_more(4) by (auto simp: subscribe_begin_def Let_def split: option.splits)
  next
    case (client_step c c' ch)
    then obtain p0 where "heap c x = Some p0" using typed_more(4) by fastforce
    then show ?thesis using oneShot_step [of wb c c' x p0] client_step reach typed_more(3,4) by auto
  next
    case (dispatch_step c c' y raw ch ch')
    then have "heap c' = heap c" by (intro dispatch_heap) auto
    then show ?thesis using dispatch_step typed_more(3,4) by simp
  next
    case (channel_step ch ch' c)
    then show ?thesis using typed_more(3,4) by simp
  qed
qed

lemma typed_client:
  "typed_reachable wb q x (c, ch) \<Longrightarrow> ws_step wb c c' \<Longrightarrow> delivered c' = delivered c \<Longrightarrow>
   (heap c' x = None \<longleftrightarrow> heap c x = None) \<Longrightarrow> typed_reachable wb q x (c', ch)"
  by (rule typed_more [OF _ client_step])

section \<open>Properties\<close>

text \<open>
  C20: a typed subscription gives its consumer decoded notifications of its own subscription, in the
  order of dispatch, from a buffer that never exceeds its capacity; the newest is never dropped.
\<close>

theorem subscription_delivers:
  assumes "typed_reachable wb q x (c, ch)" and "0 < sq_capacity q"
  shows "length (ch_buf ch) \<le> sq_capacity q \<and>
    subseq (ch_received ch @ ch_buf ch) (notifications (sq_dispatch q) x c) \<and>
    (ch_sender ch = SIdle \<and> notifications (sq_dispatch q) x c \<noteq> [] \<longrightarrow>
       suffix [last (notifications (sq_dispatch q) x c)] (ch_received ch @ ch_buf ch))"
proof -
  have reach: "chan_reachable (sq_capacity q) ch" and sent: "ch_sent ch = notifications (sq_dispatch q) x c"
    using typed_parts [OF assms(1)] by simp_all
  have "chan_ok ch" using chan_invariant [OF reach assms(2)] .
  then show ?thesis
    using chan_cap [OF reach] unfolding sent [symmetric] chan_ok_def
    by (auto split: sender.splits intro: list_emb_append2)
qed

text \<open>
  C19: a signature subscription is dispatched at most one notification, because its method asks for a
  one-shot object.  If that notification decodes, the consumer has received it or finds it in the
  buffer; if it does not decode, it is dropped and the consumer gets nothing.
\<close>

theorem signature_not_lost:
  assumes "typed_reachable wb (SignatureSubscribe unm b58enc sig cfg) x (c, ch)"
  shows "length (dispatched x c) \<le> 1 \<and>
    ch_received ch @ ch_buf ch =
      (case dispatched x c of
         [] \<Rightarrow> []
       | raw # _ \<Rightarrow> (case unm raw of Inl _ \<Rightarrow> [] | Inr env \<Rightarrow> [(cv_Value env)\<lparr>sn_Slot := cv_Slot env\<rparr>]))"
proof -
  let ?d = "decode_with unm (\<lambda>env. (cv_Value env)\<lparr>sn_Slot := cv_Slot env\<rparr>)"
  have reach: "ws_reachable wb c" "chan_reachable 4 ch" and sent: "ch_sent ch = notifications ?d x c"
    using typed_parts [OF assms] by (simp_all add: SignatureSubscribe_def)
  have one: "heap c x = Some p \<Longrightarrow> pr_oneShot p" for p
    using typed_oneShot [OF assms, of p] by (simp add: SignatureSubscribe_def)
  have le: "length (dispatched x c) \<le> 1"
  proof (cases "heap c x")
    case None
    then show ?thesis using ws_invariants(2) [OF reach(1)] by (simp add: length_dispatched one_shot_def)
  next
    case (Some p)
    then show ?thesis
      using one_shotD(1) [OF ws_invariants(2) [OF reach(1)] Some one] by (cases "deliveries x c = 0") (auto simp: length_dispatched)
  qed
  then have shape: "dispatched x c = [] \<or> (\<exists>raw. dispatched x c = [raw])"
    by (cases "dispatched x c" rule: list.exhaust) auto
  then have "length (ch_sent ch) \<le> 1"
    unfolding sent notifications_dispatched by (auto simp: map_filter_simps split: option.split)
  then have "ch_received ch @ ch_buf ch = ch_sent ch"
    using chan_lossless [OF reach(2)] chan_cap [OF reach(2)] by (auto simp: chan_full_ok_def)
  with le shape show ?thesis
    by (auto simp: sent notifications_dispatched map_filter_simps decode_with_def split: sum.split)
qed

text \<open>A signature subscription whose notification has arrived.\<close>

definition sample_unm :: "bytes \<Rightarrow> SignatureNotification ContextValue result" where
  "sample_unm raw = Inr \<lparr>cv_Slot = 9, cv_Value = \<lparr>sn_Slot = 0, sn_Err = JNull\<rparr>\<rparr>"

lemma sample_typed_before:
  assumes "sq_oneShot q"
  shows "typed_reachable True q 0 (ws_subscribed, new_chan (sq_capacity q))"
proof -
  let ?ch = "new_chan (sq_capacity q)"
  let ?c1 = "reply_begin 1 (ReplySub 7) ws_requested"
  let ?c2 = "reply_resolve 0 (ReplySub 7) ?c1"
  note defs = ws_requested_eq reply_begin_def cancelPending_def reply_resolve_def upd_obj_def Let_def
  have "typed_reachable True q 0 (ws_requested, ?ch)"
    using typed_more [OF typed_init subscribe_step [of DialWebSocket 0], where wb = True and q = q] assms
    by (simp add: ws_requested_def DialWebSocket_def)
  then have 1: "typed_reachable True q 0 (?c1, ?ch)"
    by (rule typed_client) (rule read_reply, simp_all add: defs)
  have "ws_step True ?c1 ?c2" by (rule read_resolve) (simp_all add: defs good_reply_def)
  with 1 have 2: "typed_reachable True q 0 (?c2, ?ch)" by (rule typed_client) (simp_all add: defs)
  have "ws_step True ?c2 ws_acked" unfolding ws_acked_def by (rule read_finish) (simp add: defs)
  with 2 have 3: "typed_reachable True q 0 (ws_acked, ?ch)" by (rule typed_client) (simp_all add: ws_acked_eq defs)
  have "ws_step True ws_acked ws_subscribed"
    unfolding ws_subscribed_def by (rule return [where p = "the (heap ws_acked 0)"]) (simp_all add: ws_acked_eq)
  with 3 show ?thesis by (rule typed_client) (simp_all add: ws_subscribed_def)
qed

lemma sample_typed:
  assumes "sq_oneShot q" and "sq_capacity q = 4"
    and "sq_dispatch q = decode_with sample_unm (\<lambda>env. (cv_Value env)\<lparr>sn_Slot := cv_Slot env\<rparr>)"
  shows "typed_reachable True q 0 (ws_notified, offer \<lparr>sn_Slot = 9, sn_Err = JNull\<rparr> (new_chan 4))"
proof -
  have before: "typed_reachable True q 0 (ws_subscribed, new_chan 4)"
    using sample_typed_before [OF assms(1)] assms(2) by simp
  have "rloop ws_subscribed = RIdle" by (simp add: ws_subscribed_def ws_acked_eq)
  then have "ws_step True ws_subscribed ws_notified" unfolding ws_notified_def by (rule read_notification)
  moreover have "delivered ws_notified = delivered ws_subscribed @ [(0, [1, 2])]"
    by (simp add: ws_notified_def notify_def ws_subscribed_def ws_acked_eq)
  ultimately have "typed_step True q 0 (ws_subscribed, new_chan 4) (ws_notified, offer \<lparr>sn_Slot = 9, sn_Err = JNull\<rparr> (new_chan 4))"
    by (rule dispatch_step) (simp_all add: new_chan_def assms decode_with_def sample_unm_def)
  with before show ?thesis by (rule typed_more)
qed

theorem subscription_delivers_witness:
  "let ch = offer \<lparr>sn_Slot = 9, sn_Err = JNull\<rparr> (new_chan 4)
   in subseq (ch_received ch @ ch_buf ch)
        (notifications (decode_with sample_unm (\<lambda>env. (cv_Value env)\<lparr>sn_Slot := cv_Slot env\<rparr>)) 0 ws_notified)"
  using subscription_delivers [OF sample_typed [of "SignatureSubscribe sample_unm base64_EncodeToString [] []"]]
  by (simp add: SignatureSubscribe_def Let_def)

theorem signature_not_lost_witness:
  "dispatched 0 ws_notified = [[1, 2]] \<and>
   (let ch = offer \<lparr>sn_Slot = 9, sn_Err = JNull\<rparr> (new_chan 4)
    in ch_received ch @ ch_buf ch = [\<lparr>sn_Slot = 9, sn_Err = JNull\<rparr>])"
proof -
  have d: "dispatched 0 ws_notified = [[1, 2]]"
    by (simp add: dispatched_def ws_notified_def notify_def ws_subscribed_def ws_acked_eq)
  show ?thesis
    using signature_not_lost [OF sample_typed [of "SignatureSubscribe sample_unm base64_EncodeToString [] []"]] d
    by (simp add: SignatureSubscribe_def sample_unm_def Let_def)
qed

end
