(* ===== verification/Ws_Frames.thy ===== *)
theory Ws_Frames
  imports Ws_Properties
begin

text \<open>
  The read loop of the WebSocket client over frames (\<open>dispatchIncoming\<close>, \<open>handleReply\<close>, \<open>readLoop\<close> of
  \<open>ws/client.go\<close>) and the endpoint check of \<open>DialWebSocket\<close>.  \<open>Ws_Client\<close> has the sections of the read
  loop as steps; here they run in sequence on what the JSON codec makes of each frame.  The codec is
  the pair of parameters \<open>unm\<close> (a frame) and \<open>unm_id\<close> (a subscription id).
\<close>

section \<open>Dialling\<close>

text \<open>\<open>scheme\<close> is \<open>url.Parse\<close> and the scheme it finds; \<open>dial\<close> is the error of the dialer, if any.\<close>

definition Dial :: "(string \<Rightarrow> string result) \<Rightarrow> (string \<Rightarrow> go_error option) \<Rightarrow> string \<Rightarrow> ws_client result" where
  "Dial scheme dial ep =
     (case scheme ep of
        Inl e \<Rightarrow> Inl (Wrapf ''solana: ws: parse endpoint: %w'' [] e)
      | Inr s \<Rightarrow>
          if s \<noteq> ''ws'' \<and> s \<noteq> ''wss'' then Inl (Errorf ''solana: ws: endpoint scheme must be ws or wss, got %q'' [])
          else case dial ep of
                 Some e \<Rightarrow> Inl (Wrapf ''solana: ws: dial: %w'' [] e)
               | None \<Rightarrow> Inr DialWebSocket)"

section \<open>Frames\<close>

record wsEnvelope =
  we_ID :: "u64 option"
  we_Method :: string
  we_Result :: bytes
  we_Error :: "string option"
  we_Subscription :: u64
  we_ParamsResult :: bytes

text \<open>What \<open>handleReply\<close> finds in a reply: the message of an error object, or the result as an id.\<close>

definition reply_of :: "(bytes \<Rightarrow> string + u64) \<Rightarrow> wsEnvelope \<Rightarrow> reply" where
  "reply_of unm_id env =
     (case we_Error env of
        Some msg \<Rightarrow> ReplyError msg
      | None \<Rightarrow> (case unm_id (we_Result env) of Inl msg \<Rightarrow> ReplyBad msg | Inr subID \<Rightarrow> ReplySub subID))"

text \<open>The part of \<open>dispatchIncoming\<close> up to the first point where it gives up a lock.\<close>

definition dispatchIncoming ::
  "(bytes \<Rightarrow> string + wsEnvelope) \<Rightarrow> (bytes \<Rightarrow> string + u64) \<Rightarrow> bytes \<Rightarrow> ws_client \<Rightarrow> ws_client" where
  "dispatchIncoming unm unm_id msg c =
     (case unm msg of
        Inl _ \<Rightarrow> c
      | Inr env \<Rightarrow>
          (case we_ID env of
             Some i \<Rightarrow> reply_begin i (reply_of unm_id env) c
           | None \<Rightarrow>
               if we_Method env = [] then c
               else notify (we_Subscription env) (we_ParamsResult env) c))"

text \<open>The rest of the handling of a frame, with nothing in between.\<close>

definition finish_reply :: "ws_client \<Rightarrow> ws_client" where
  "finish_reply c = (case rloop c of RFinish x \<Rightarrow> (close_reply x c)\<lparr>rloop := RIdle\<rparr> | _ \<Rightarrow> c)"

definition settle :: "ws_client \<Rightarrow> ws_client" where
  "settle c =
     (case rloop c of
        RReply x r \<Rightarrow> finish_reply (reply_resolve x r c)
      | ROneShot subID e \<Rightarrow> (shutdown_sub (se_obj e) (drop_one_shot subID e c))\<lparr>rloop := RIdle\<rparr>
      | _ \<Rightarrow> c)"

definition handle_frame ::
  "(bytes \<Rightarrow> string + wsEnvelope) \<Rightarrow> (bytes \<Rightarrow> string + u64) \<Rightarrow> bytes \<Rightarrow> ws_client \<Rightarrow> ws_client" where
  "handle_frame unm unm_id msg c = settle (dispatchIncoming unm unm_id msg c)"

text \<open>\<open>readLoop\<close> on what \<open>ReadMessage\<close> returns, \<open>None\<close> being a read error.\<close>

fun readLoop ::
  "(bytes \<Rightarrow> string + wsEnvelope) \<Rightarrow> (bytes \<Rightarrow> string + u64) \<Rightarrow> bytes option list \<Rightarrow> ws_client \<Rightarrow> ws_client" where
  "readLoop unm unm_id [] c = c"
| "readLoop unm unm_id (None # fs) c = c\<lparr>rloop := RStopped\<rparr>"
| "readLoop unm unm_id (Some msg # fs) c = readLoop unm unm_id fs (handle_frame unm unm_id msg c)"

section \<open>Frames are steps\<close>

lemma frame_frame [simp]:
  "rloop (close_reply x c) = rloop c" "rloop (fail_reply msg x c) = rloop c" "rloop (shutdown_sub x c) = rloop c"
  "delivered (close_reply x c) = delivered c" "delivered (fail_reply msg x c) = delivered c" "delivered (shutdown_sub x c) = delivered c"
  "subscriptions (shutdown_sub x c) = subscriptions c"
  by (simp_all add: close_reply_def fail_reply_def shutdown_sub_def upd_obj_def split: option.splits)

lemma reply_resolve_rloop: "rloop (reply_resolve x r c) = RIdle \<or> (\<exists>y. rloop (reply_resolve x r c) = RFinish y)"
  by (auto simp: reply_resolve_def Let_def split: reply.splits option.splits)

lemma reply_begin_rloop:
  "rloop c = RIdle \<Longrightarrow> rloop (reply_begin i r c) = RIdle \<or> (\<exists>x. rloop (reply_begin i r c) = RReply x r)"
  by (auto simp: reply_begin_def split: option.splits)

lemma notify_rloop:
  "rloop c = RIdle \<Longrightarrow> rloop (notify i p c) = RIdle \<or> (\<exists>e. rloop (notify i p c) = ROneShot i e)"
  by (auto simp: notify_def Let_def split: option.splits)

lemma settle_steps:
  assumes "\<not> wb" and "rloop c = RIdle \<or> (\<exists>x r. rloop c = RReply x r) \<or> (\<exists>i e. rloop c = ROneShot i e)"
  shows "(ws_step wb)\<^sup>*\<^sup>* c (settle c) \<and> rloop (settle c) = RIdle"
  using assms(2)
proof (elim disjE exE)
  fix x r assume c: "rloop c = RReply x r"
  have 1: "ws_step wb c (reply_resolve x r c)" using c assms(1) by (intro read_resolve) simp_all
  from reply_resolve_rloop [of x r c] show ?thesis
  proof (elim disjE exE)
    fix y assume y: "rloop (reply_resolve x r c) = RFinish y"
    have "ws_step wb (reply_resolve x r c) ((close_reply y (reply_resolve x r c))\<lparr>rloop := RIdle\<rparr>)" by (rule read_finish [OF y])
    then show ?thesis using 1 c y by (auto simp: settle_def finish_reply_def intro: rtranclp.rtrancl_into_rtrancl)
  qed (use 1 c in \<open>auto simp: settle_def finish_reply_def\<close>)
next
  fix i e assume c: "rloop c = ROneShot i e"
  have 1: "ws_step wb c (drop_one_shot i e c)" by (rule read_drop [OF c])
  have "rloop (drop_one_shot i e c) = RShutdown (se_obj e)" by (simp add: drop_one_shot_def)
  then have "ws_step wb (drop_one_shot i e c) ((shutdown_sub (se_obj e) (drop_one_shot i e c))\<lparr>rloop := RIdle\<rparr>)" by (rule read_shutdown)
  then show ?thesis using 1 c by (auto simp: settle_def intro: rtranclp.rtrancl_into_rtrancl)
qed (simp add: settle_def)

lemma handle_frame_steps:
  assumes "\<not> wb" and "rloop c = RIdle"
  shows "(ws_step wb)\<^sup>*\<^sup>* c (handle_frame unm unm_id msg c) \<and> rloop (handle_frame unm unm_id msg c) = RIdle"
proof -
  let ?d = "dispatchIncoming unm unm_id msg c"
  have "(ws_step wb)\<^sup>*\<^sup>* c ?d \<and> (rloop ?d = RIdle \<or> (\<exists>x r. rloop ?d = RReply x r) \<or> (\<exists>i e. rloop ?d = ROneShot i e))"
    using reply_begin_rloop [OF assms(2)] notify_rloop [OF assms(2)] read_reply [OF assms(2), of wb] read_notification [OF assms(2), of wb]
    by (fastforce simp: dispatchIncoming_def assms(2) split: sum.splits option.splits)
  then show ?thesis using settle_steps [OF assms(1), of ?d] by (auto simp: handle_frame_def intro: rtranclp_trans)
qed

lemma readLoop_steps:
  assumes "\<not> wb" and "rloop c = RIdle"
  shows "(ws_step wb)\<^sup>*\<^sup>* c (readLoop unm unm_id fs c)"
  using assms(2)
proof (induction unm unm_id fs c rule: readLoop.induct)
  case (2 unm unm_id fs c)
  then show ?case using read_error [of c wb] by auto
next
  case (3 unm unm_id msg fs c)
  then show ?case using handle_frame_steps [OF assms(1) 3(2), of unm unm_id msg] by (auto intro: rtranclp_trans)
qed simp

lemma reachable_steps: "(ws_step wb)\<^sup>*\<^sup>* c d \<Longrightarrow> ws_reachable wb c \<Longrightarrow> ws_reachable wb d"
  by (induction rule: rtranclp_induct) (auto intro: ws_reachable.step)

section \<open>Routing\<close>

text \<open>The notification a frame carries: the id it is for and its payload.\<close>

definition notification_of :: "(bytes \<Rightarrow> string + wsEnvelope) \<Rightarrow> bytes \<Rightarrow> (u64 \<times> bytes) option" where
  "notification_of unm msg =
     (case unm msg of
        Inl _ \<Rightarrow> None
      | Inr env \<Rightarrow> if we_ID env = None \<and> we_Method env \<noteq> [] then Some (we_Subscription env, we_ParamsResult env) else None)"

definition is_reply :: "(bytes \<Rightarrow> string + wsEnvelope) \<Rightarrow> bytes \<Rightarrow> bool" where
  "is_reply unm msg = (case unm msg of Inl _ \<Rightarrow> False | Inr env \<Rightarrow> we_ID env \<noteq> None)"

text \<open>The specification: a routing table from ids to subscriptions, which loses one-shot entries when they are served.\<close>

fun routed :: "(u64 \<rightharpoonup> subEntry) \<Rightarrow> (u64 \<times> bytes) list \<Rightarrow> (nat \<times> bytes) list" where
  "routed m [] = []"
| "routed m ((i, p) # ns) =
     (case m i of
        None \<Rightarrow> routed m ns
      | Some e \<Rightarrow> (se_obj e, p) # routed (if se_oneShot e then m(i := None) else m) ns)"

lemma handle_frame_routes:
  assumes "rloop c = RIdle" and "subscriptions c = Some m" and "\<not> is_reply unm msg"
  obtains m' where "subscriptions (handle_frame unm unm_id msg c) = Some m'"
    and "\<And>ns. routed m (case notification_of unm msg of None \<Rightarrow> ns | Some n \<Rightarrow> n # ns) =
           drop (length (delivered c)) (delivered (handle_frame unm unm_id msg c)) @ routed m' ns"
    and "\<exists>ds. delivered (handle_frame unm unm_id msg c) = delivered c @ ds"
proof (cases "notification_of unm msg")
  case None
  then have "handle_frame unm unm_id msg c = c"
    using assms by (auto simp: handle_frame_def dispatchIncoming_def notification_of_def is_reply_def settle_def split: sum.splits option.splits)
  with None assms(2) show ?thesis by (intro that [of m]) simp_all
next
  case (Some n)
  obtain i p where n: "n = (i, p)" by (cases n)
  with Some have d: "dispatchIncoming unm unm_id msg c = notify i p c"
    by (auto simp: dispatchIncoming_def notification_of_def split: sum.splits if_splits)
  show ?thesis
  proof (cases "m i")
    case None
    then have "handle_frame unm unm_id msg c = c" using assms by (simp add: handle_frame_def d notify_def settle_def)
    with Some n None assms(2) show ?thesis by (intro that [of m]) simp_all
  next
    case (Some e)
    then show ?thesis
      using assms \<open>notification_of unm msg = Some n\<close> n
      by (intro that [of "if se_oneShot e then m(i := None) else m"])
        (auto simp: handle_frame_def d notify_def settle_def Let_def drop_one_shot_def)
  qed
qed

lemma readLoop_delivers:
  assumes "rloop c = RIdle" and "subscriptions c = Some m" and "list_all (\<lambda>msg. \<not> is_reply unm msg) msgs"
  shows "delivered (readLoop unm unm_id (map Some msgs) c) = delivered c @ routed m (List.map_filter (notification_of unm) msgs)"
  using assms
proof (induction msgs arbitrary: c m)
  case (Cons msg msgs)
  let ?c = "handle_frame unm unm_id msg c"
  obtain m' ds where m': "subscriptions ?c = Some m'" "delivered ?c = delivered c @ ds"
    and r: "\<And>ns. routed m (case notification_of unm msg of None \<Rightarrow> ns | Some n \<Rightarrow> n # ns) = drop (length (delivered c)) (delivered ?c) @ routed m' ns"
    by (rule handle_frame_routes [OF Cons.prems(1,2), of unm msg unm_id]) (use Cons.prems(3) in auto)
  have "rloop ?c = RIdle" using handle_frame_steps [of False c] Cons.prems(1) by simp
  from Cons.IH [OF this m'(1)] Cons.prems(3) show ?case
    using r [of "List.map_filter (notification_of unm) msgs"] m'(2) by (simp add: map_filter_simps split: option.splits)
qed (simp add: map_filter_simps)

section \<open>Properties\<close>

text \<open>
  C16: from a reachable client, reading frames never panics, whatever they hold; and frames other
  than replies deliver exactly the payloads of the notifications for registered subscriptions, in
  order, to the objects registered under their ids, a one-shot subscription receiving only its first.
\<close>

theorem readLoop_routes:
  assumes "ws_reachable False c" and "rloop c = RIdle" and "subscriptions c = Some m"
  shows "\<not> panicked (readLoop unm unm_id fs c) \<and>
    (list_all (\<lambda>msg. \<not> is_reply unm msg) msgs \<longrightarrow>
       delivered (readLoop unm unm_id (map Some msgs) c) = delivered c @ routed m (List.map_filter (notification_of unm) msgs))"
  using reachable_steps [OF readLoop_steps [OF _ assms(2)] assms(1)] reachable_inv(4) readLoop_delivers [OF assms(2,3)]
  by blast

text \<open>Every frame notifies subscription 7, which is one-shot: the first payload is delivered, the second dropped.\<close>

definition sample_frame :: "bytes \<Rightarrow> string + wsEnvelope" where
  "sample_frame msg = Inr \<lparr>we_ID = None, we_Method = ''signatureNotification'', we_Result = [], we_Error = None,
     we_Subscription = 7, we_ParamsResult = msg\<rparr>"

theorem readLoop_routes_witness:
  "delivered (readLoop sample_frame (\<lambda>r. Inr 7) [Some [1], Some [2]] ws_subscribed) = [(0, [1])]"
proof -
  have c: "rloop ws_subscribed = RIdle" "subscriptions ws_subscribed = Some [7 \<mapsto> \<lparr>se_obj = 0, se_oneShot = True\<rparr>]" "delivered ws_subscribed = []"
    by (simp_all add: ws_subscribed_def ws_acked_eq)
  show ?thesis
    using readLoop_routes [OF ws_subscribed_reachable c(1,2), where unm = sample_frame and unm_id = "\<lambda>r. Inr 7" and fs = "[]" and msgs = "[[1], [2]]"]
    by (simp add: is_reply_def sample_frame_def notification_of_def c(3) map_filter_simps)
qed

end
