(* ===== verification/Hd_Wallet.thy ===== *)
theory Hd_Wallet
  imports Transaction Decimal
begin

text \<open>
  Keys from mnemonics: SLIP-0010 derivation (\<open>internal/hdwallet/hdwallet.go\<close>) and the key sources of
  \<open>mnemonic.go\<close>.  HMAC-SHA512, the BIP-39 functions, the file system and the JSON decoder are
  parameters.
\<close>

section \<open>Derivation\<close>

record hd_Key =
  hk_PrivateKey :: bytes
  hk_ChainCode :: bytes

type_synonym mac = "bytes \<Rightarrow> bytes \<Rightarrow> bytes"

definition ascii :: "string \<Rightarrow> bytes" where
  "ascii s = map of_char s"

definition split_mac :: "bytes \<Rightarrow> hd_Key" where
  "split_mac I = \<lparr>hk_PrivateKey = take 32 I, hk_ChainCode = drop 32 I\<rparr>"

definition CreateMasterKey :: "mac \<Rightarrow> bytes \<Rightarrow> hd_Key" where
  "CreateMasterKey hmac seed = split_mac (hmac (ascii ''ed25519 seed'') seed)"

definition CKDPriv :: "mac \<Rightarrow> hd_Key \<Rightarrow> u32 \<Rightarrow> hd_Key" where
  "CKDPriv hmac key index =
     (let buf = [0] @ hk_PrivateKey key @ rev (le_bytes 4 index)
      in split_mac (hmac (hk_ChainCode key) buf))"

text \<open>
  The regular expression \<open>^m(/\d+')*$\<close>, as the automaton with a state after a segment, after a slash
  and after a digit.
\<close>

datatype path_state = SegmentEnd | SegmentStart | SegmentDigits

fun path_match :: "path_state \<Rightarrow> string \<Rightarrow> bool" where
  "path_match SegmentEnd [] = True"
| "path_match SegmentEnd (c # s) = (c = CHR ''/'' \<and> path_match SegmentStart s)"
| "path_match SegmentStart [] = False"
| "path_match SegmentStart (c # s) = (is_digit c \<and> path_match SegmentDigits s)"
| "path_match SegmentDigits [] = False"
| "path_match SegmentDigits (c # s) =
     (if c = CHR 0x27 then path_match SegmentEnd s else is_digit c \<and> path_match SegmentDigits s)"

definition validPath :: "string \<Rightarrow> bool" where
  "validPath path = (case path of [] \<Rightarrow> False | c # s \<Rightarrow> c = CHR ''m'' \<and> path_match SegmentEnd s)"

text \<open>\<open>strings.Split\<close> at a character and \<open>strconv.ParseUint(s, 10, bits)\<close>.\<close>

fun split_at :: "char \<Rightarrow> string \<Rightarrow> string list" where
  "split_at d [] = [[]]"
| "split_at d (c # s) =
     (if c = d then [] # split_at d s
      else case split_at d s of [] \<Rightarrow> [[c]] | w # ws \<Rightarrow> (c # w) # ws)"

definition ParseUint :: "nat \<Rightarrow> string \<Rightarrow> nat option" where
  "ParseUint bits s = (if s = [] \<or> \<not> list_all is_digit s \<or> decimal s \<ge> 2 ^ bits then None else Some (decimal s))"

fun derive_segments :: "mac \<Rightarrow> hd_Key \<Rightarrow> string list \<Rightarrow> hd_Key result" where
  "derive_segments hmac key [] = Inr key"
| "derive_segments hmac key (segment # segs) =
     (case ParseUint 32 (butlast segment) of
        None \<Rightarrow> Inl (Errorf ''hdwallet: parse segment %q: %w'' [])
      | Some n \<Rightarrow> derive_segments hmac (CKDPriv hmac key (of_nat n + 2 ^ 31)) segs)"

definition Derived :: "mac \<Rightarrow> string \<Rightarrow> bytes \<Rightarrow> hd_Key result" where
  "Derived hmac path seed =
     (if \<not> validPath path then Inl (Errorf ''hdwallet: invalid derivation path %q'' [])
      else derive_segments hmac (CreateMasterKey hmac seed) (tl (split_at (CHR ''/'') path)))"

section \<open>Key sources\<close>

definition DefaultDerivationPath :: string where
  "DefaultDerivationPath = ''m/44'' @ [CHR 0x27] @ ''/501'' @ [CHR 0x27] @ ''/0'' @ [CHR 0x27] @ ''/0'' @ [CHR 0x27]"

text \<open>\<open>new_seed\<close> is \<open>bip39.NewSeedWithErrorChecking\<close>.\<close>

definition Ed25519KeypairFromMnemonic ::
  "mac \<Rightarrow> (bytes \<Rightarrow> bytes) \<Rightarrow> (string \<Rightarrow> string \<Rightarrow> bytes result) \<Rightarrow> string \<Rightarrow> string \<Rightarrow> string \<Rightarrow> Ed25519Keypair result" where
  "Ed25519KeypairFromMnemonic hmac ed_public new_seed mnemonic password path =
     (case new_seed mnemonic password of
        Inl e \<Rightarrow> Inl (Wrapf ''solana: mnemonic: %w'' [] e)
      | Inr seed \<Rightarrow>
          (let path = (if path = [] then DefaultDerivationPath else path)
           in if \<not> validPath path then Inl (Errorf ''solana: mnemonic: invalid derivation path %q'' [])
              else case Derived hmac path seed of
                     Inl e \<Rightarrow> Inl (Wrapf ''solana: mnemonic: %w'' [] e)
                   | Inr derived \<Rightarrow> Ed25519KeypairFromSeed ed_public (take SeedSize (hk_PrivateKey derived))))"

definition GenerateMnemonic :: "(int \<Rightarrow> bytes result) \<Rightarrow> (bytes \<Rightarrow> string result) \<Rightarrow> int \<Rightarrow> string result" where
  "GenerateMnemonic new_entropy new_mnemonic bitSize =
     (case new_entropy bitSize of
        Inl e \<Rightarrow> Inl (Wrapf ''solana: generate mnemonic: %w'' [] e)
      | Inr entropy \<Rightarrow>
          (case new_mnemonic entropy of
             Inl e \<Rightarrow> Inl (Wrapf ''solana: generate mnemonic: %w'' [] e)
           | Inr mnemonic \<Rightarrow> Inr mnemonic))"

definition Ed25519KeypairFromKeygenFile ::
  "(string \<Rightarrow> bytes result) \<Rightarrow> (bytes \<Rightarrow> bytes result) \<Rightarrow> string \<Rightarrow> Ed25519Keypair result" where
  "Ed25519KeypairFromKeygenFile read_file json_bytes path =
     (case read_file path of
        Inl e \<Rightarrow> Inl (Wrapf ''solana: keygen file: %w'' [] e)
      | Inr data \<Rightarrow>
          (case json_bytes data of
             Inl e \<Rightarrow> Inl (Wrapf ''solana: keygen file: decode: %w'' [] e)
           | Inr keyBytes \<Rightarrow> Ed25519KeypairFromPrivateKey keyBytes))"

section \<open>Paths\<close>

definition is_number :: "string \<Rightarrow> bool" where
  "is_number s \<longleftrightarrow> s \<noteq> [] \<and> list_all is_digit s"

definition path_of :: "string list \<Rightarrow> string" where
  "path_of ss = CHR ''m'' # concat (map (\<lambda>s. CHR ''/'' # s @ [CHR 0x27]) ss)"

lemma digit_facts: "is_digit c \<Longrightarrow> c \<noteq> CHR 0x27 \<and> c \<noteq> CHR ''/'' \<and> c \<noteq> CHR ''m''"
  by (auto simp: is_digit_def)

lemma match_number: "list_all is_digit s \<Longrightarrow> path_match SegmentDigits (s @ CHR 0x27 # t) = path_match SegmentEnd t"
  by (induction s) (auto simp: digit_facts)

lemma match_segment: "is_number s \<Longrightarrow> path_match SegmentStart (s @ CHR 0x27 # t) = path_match SegmentEnd t"
  by (cases s) (auto simp: is_number_def match_number)

lemma match_digits_inv:
  "path_match SegmentDigits t \<Longrightarrow> \<exists>ds r. t = ds @ CHR 0x27 # r \<and> list_all is_digit ds \<and> path_match SegmentEnd r"
proof (induction t)
  case (Cons c t)
  show ?case
  proof (cases "c = CHR 0x27")
    case True
    with Cons.prems show ?thesis by (intro exI [of _ "[]"] exI [of _ t]) simp
  next
    case False
    with Cons obtain ds r where "t = ds @ CHR 0x27 # r" "list_all is_digit ds" "path_match SegmentEnd r" "is_digit c" by auto
    then show ?thesis by (intro exI [of _ "c # ds"] exI [of _ r]) simp
  qed
qed simp

lemma path_match_iff:
  "path_match SegmentEnd t \<longleftrightarrow> (\<exists>ss. list_all is_number ss \<and> t = concat (map (\<lambda>s. CHR ''/'' # s @ [CHR 0x27]) ss))"
proof
  assume "path_match SegmentEnd t"
  then show "\<exists>ss. list_all is_number ss \<and> t = concat (map (\<lambda>s. CHR ''/'' # s @ [CHR 0x27]) ss)"
  proof (induction t rule: length_induct)
    case (1 t)
    show ?case
    proof (cases t)
      case (Cons c u)
      with 1(2) obtain d v where v: "c = CHR ''/''" "u = d # v" "is_digit d" "path_match SegmentDigits v"
        by (cases u) auto
      then obtain ds r where r: "v = ds @ CHR 0x27 # r" "list_all is_digit ds" "path_match SegmentEnd r"
        using match_digits_inv by blast
      then have "length r < length t" using Cons v by simp
      with 1(1) r(3) obtain ss where "list_all is_number ss" "r = concat (map (\<lambda>s. CHR ''/'' # s @ [CHR 0x27]) ss)" by blast
      moreover have "is_number (d # ds)" using v r by (simp add: is_number_def)
      ultimately show ?thesis using Cons v r by (intro exI [of _ "(d # ds) # ss"]) simp
    qed (rule exI [of _ "[]"], simp)
  qed
next
  assume "\<exists>ss. list_all is_number ss \<and> t = concat (map (\<lambda>s. CHR ''/'' # s @ [CHR 0x27]) ss)"
  then obtain ss where "list_all is_number ss" "t = concat (map (\<lambda>s. CHR ''/'' # s @ [CHR 0x27]) ss)" by blast
  then show "path_match SegmentEnd t" by (induction ss arbitrary: t) (simp_all add: match_segment)
qed

lemma validPath_iff: "validPath path \<longleftrightarrow> (\<exists>ss. list_all is_number ss \<and> path = path_of ss)"
  by (cases path) (auto simp: validPath_def path_of_def path_match_iff)

lemma split_plain: "d \<notin> set s \<Longrightarrow> split_at d s = [s]"
  by (induction s) auto

lemma split_sep: "d \<notin> set s \<Longrightarrow> split_at d (s @ d # t) = s # split_at d t"
  by (induction s) auto

lemma number_no_slash: "is_number s \<Longrightarrow> CHR ''/'' \<notin> set s"
  unfolding is_number_def list_all_iff using digit_facts by blast

lemma split_path: "list_all is_number ss \<Longrightarrow> tl (split_at (CHR ''/'') (path_of ss)) = map (\<lambda>s. s @ [CHR 0x27]) ss"
proof -
  have segs: "list_all is_number ss \<Longrightarrow> CHR ''/'' \<notin> set w \<Longrightarrow>
      split_at (CHR ''/'') (w @ concat (map (\<lambda>s. CHR ''/'' # s @ [CHR 0x27]) ss)) = w # map (\<lambda>s. s @ [CHR 0x27]) ss" for w ss
  proof (induction ss arbitrary: w)
    case (Cons s ss)
    then show ?case
      using Cons.IH [of "s @ [CHR 0x27]"] by (simp add: split_sep number_no_slash)
  qed (simp add: split_plain)
  show "list_all is_number ss \<Longrightarrow> ?thesis" using segs [of ss "''m''"] by (simp add: path_of_def)
qed

lemma ParseUint_number: "is_number s \<Longrightarrow> ParseUint b s = (if decimal s < 2 ^ b then Some (decimal s) else None)"
  by (simp add: ParseUint_def is_number_def)

definition child_index :: "string \<Rightarrow> u32" where
  "child_index s = of_nat (decimal s) + 2 ^ 31"

lemma derive_segments_iff:
  "list_all is_number ss \<Longrightarrow>
     derive_segments hmac key (map (\<lambda>s. s @ [CHR 0x27]) ss) = Inr k \<longleftrightarrow>
     (\<forall>s \<in> set ss. decimal s < 2 ^ 32) \<and> k = foldl (CKDPriv hmac) key (map child_index ss)"
  by (induction ss arbitrary: key) (auto simp: ParseUint_number child_index_def)

text \<open>The index of a child is hardened exactly when the number in the path is below \<open>2 ^ 31\<close>.\<close>

lemma hardened_sum: "d < 4294967296 \<Longrightarrow> 2147483648 \<le> (d + 2147483648) mod 4294967296 \<longleftrightarrow> d < (2147483648 :: nat)"
  by (cases "d < 2147483648") (simp_all add: le_mod_geq)

lemma child_index_hardened: "2 ^ 31 \<le> unat (child_index s) \<longleftrightarrow> decimal s mod 2 ^ 32 < 2 ^ 31"
  using hardened_sum [of "decimal s mod 4294967296"] by (simp add: child_index_def unat_word_ariths unat_of_nat)

text \<open>So \<open>m/2147483648'\<close>, a path the documentation calls hardened, derives child 0 without hardening.\<close>

lemma unhardened_child:
  "Derived hmac (path_of [''2147483648'']) seed = Inr (CKDPriv hmac (CreateMasterKey hmac seed) 0)"
proof -
  have number: "list_all is_number [''2147483648'']" by (simp add: is_number_def is_digit_def)
  then have "validPath (path_of [''2147483648''])" using validPath_iff by blast
  moreover have dec: "decimal ''2147483648'' = 2147483648" by (simp add: decimal_def)
  have "unat (child_index ''2147483648'') = 0" by (simp add: child_index_def dec unat_word_ariths)
  then have "child_index ''2147483648'' = 0" by (simp add: unat_eq_0)
  then have "derive_segments hmac key (map (\<lambda>s. s @ [CHR 0x27]) [''2147483648'']) = Inr (CKDPriv hmac key 0)" for key
    using derive_segments_iff [OF number, of hmac key "CKDPriv hmac key 0"] by (simp add: dec del: derive_segments.simps)
  ultimately show ?thesis using split_path [OF number] by (simp add: Derived_def del: derive_segments.simps list.map)
qed

text \<open>The default path is the hardened chain 44, 501, 0, 0, and its key always makes a keypair.\<close>

lemma default_path: "DefaultDerivationPath = path_of [''44'', ''501'', ''0'', ''0'']"
  by (simp add: DefaultDerivationPath_def path_of_def)

lemma default_indices: "map child_index [''44'', ''501'', ''0'', ''0''] = [0x8000002C, 0x800001F5, 0x80000000, 0x80000000]"
  by (simp add: child_index_def decimal_def)

lemma Derived_numbers:
  assumes "list_all is_number ss" and "\<forall>s \<in> set ss. decimal s < 2 ^ 32"
  shows "Derived hmac (path_of ss) seed = Inr (foldl (CKDPriv hmac) (CreateMasterKey hmac seed) (map child_index ss))"
  using assms validPath_iff [of "path_of ss"] derive_segments_iff [OF assms(1)] by (auto simp: Derived_def split_path)

lemma private_key_size:
  assumes "\<forall>k m. length (hmac k m) = 64"
  shows "length (hk_PrivateKey (foldl (CKDPriv hmac) (CreateMasterKey hmac seed) is)) = 32"
  by (induction "is" rule: rev_induct) (simp_all add: CreateMasterKey_def CKDPriv_def Let_def split_mac_def assms)

lemma mnemonic_default_path:
  assumes "\<forall>k m. length (hmac k m) = 64" and "new_seed mnemonic password = Inr seed"
  shows "Ed25519KeypairFromMnemonic hmac ed_public new_seed mnemonic password [] =
    (let sk = hk_PrivateKey (foldl (CKDPriv hmac) (CreateMasterKey hmac seed) [0x8000002C, 0x800001F5, 0x80000000, 0x80000000])
     in Inr \<lparr>kp_public = ed_public sk, kp_private = sk @ ed_public sk\<rparr>)"
proof -
  have ok: "list_all is_number [''44'', ''501'', ''0'', ''0'']" "\<forall>s \<in> set [''44'', ''501'', ''0'', ''0'']. decimal s < 2 ^ 32"
    by (simp_all add: is_number_def is_digit_def decimal_def)
  have "validPath DefaultDerivationPath" using ok(1) validPath_iff default_path by blast
  then show ?thesis
    using Derived_numbers [OF ok, of hmac seed] private_key_size [OF assms(1), of seed "[0x8000002C, 0x800001F5, 0x80000000, 0x80000000]"]
    unfolding default_indices default_path [symmetric]
    by (simp add: Ed25519KeypairFromMnemonic_def assms(2) Ed25519KeypairFromSeed_def SeedSize_def NewKeyFromSeed_def priv_Public_def Let_def
        del: foldl_Cons)
qed

section \<open>Properties\<close>

text \<open>
  C21: \<open>Derived\<close> returns a key exactly for the paths \<open>m/n1'/.../nk'\<close> of decimal numbers below \<open>2 ^ 32\<close>,
  and the key is the chain of child derivations from the master key, one for each number in order; a
  child is hardened exactly when its number, which counts modulo \<open>2 ^ 32\<close>, is below \<open>2 ^ 31\<close>.
\<close>

theorem Derived_iff:
  "(Derived hmac path seed = Inr k \<longleftrightarrow>
      (\<exists>ss. list_all is_number ss \<and> list_all (\<lambda>s. decimal s < 2 ^ 32) ss \<and> path = path_of ss \<and>
         k = foldl (CKDPriv hmac) (CreateMasterKey hmac seed) (map child_index ss))) \<and>
   (2 ^ 31 \<le> unat (child_index s)) = (decimal s mod 2 ^ 32 < 2 ^ 31)"
proof -
  have "Derived hmac path seed = Inr k \<longleftrightarrow>
      (\<exists>ss. list_all is_number ss \<and> path = path_of ss \<and> derive_segments hmac (CreateMasterKey hmac seed) (map (\<lambda>s. s @ [CHR 0x27]) ss) = Inr k)"
    using validPath_iff [of path] by (auto simp: Derived_def split_path) (metis split_path)
  then show ?thesis using derive_segments_iff child_index_hardened by (auto simp: list_all_iff)
qed

end
