(* ===== verification/Spec2Isabelle.thy ===== *)
theory Spec2Isabelle
  imports Builder_V0 Entry Token_State Pipeline Jsonrpc_Laws Rpc_Send_Laws Decode_Plan_Memory Ws_Typed Ws_Frames Hd_Wallet
begin

text \<open>
  A verification library for \<open>solana-go\<close>, a Go SDK for the Solana blockchain.  The SDK builds
  instructions for on-chain programs, compiles them into messages, signs and serialises
  transactions, decodes on-chain accounts and ledger entries, and talks to a node over JSON-RPC and
  WebSocket.  File names below are under \<open>src/\<close>.

  \<^bold>\<open>Reading the model.\<close>  A Go struct is a record, an enum or interface a datatype, a method a
  function of its receiver; a method that changes its receiver returns it.  Unsigned integers are
  words of their width, signed ones \<open>int\<close> with the conversions written out, byte arrays and slices
  are byte lists.  An error is a value (\<open>go_error + 'a\<close>, \<open>rpc_error + 'a\<close>); where a computation can
  panic, \<open>None\<close> or the error \<open>Panic\<close> says so.  Decoders are functions of a cursor that also return
  the cursor.  Loops are structural recursions; the two loops the source does not bound itself (the
  HTTP retry loop and the confirmation loop) are partial functions into \<open>option\<close>, \<open>None\<close> meaning
  that they run forever, and are proved to return.

  \<^bold>\<open>Wire format.\<close>  \<open>Prelude\<close> has the Go types, errors and word lemmas; \<open>Shortvec\<close> and \<open>Bincode\<close> the
  encoder, the decoder cursor and the compact-u16 length (\<open>encoding/bincode.go\<close>).  The locale
  \<open>wire_codec\<close> of \<open>Bincode\<close> is the contract between a reader and the bytes it accepts: a read
  returns a value exactly when the value's encoding stands at the cursor.  Every fixed-width read,
  the shortvec read and the message decoder are interpretations of it.  \<open>Reader\<close> models the
  chainable writers, the sticky-error reader and the 128/256-bit integers (\<open>encoding/builder.go\<close>,
  \<open>reader.go\<close>, \<open>u128.go\<close>), \<open>Decimal\<close> and \<open>Large_Int\<close> their text and JSON forms and the integers of
  \<open>large_int.go\<close>.  \<open>Decode_Plan\<close> has the compiler from Go types to decode plans and their
  interpreter (\<open>encoding/decode_plan.go\<close>, \<open>codec.go\<close>, \<open>borsh.go\<close>), with memory as a list of writes at
  offsets; \<open>Decode_Plan_Laws\<close> shows that running the compiled plan is decoding by the type, and that
  decoding inverts the wire encoding for every hand-written decoder that keeps the contract
  \<open>custom_codecs\<close>; \<open>Decode_Plan_Memory\<close> that the writes through \<open>unsafe\<close> pointers stay inside the
  objects they are meant for.

  \<^bold>\<open>Core types and messages.\<close>  \<open>Primitives\<close>: keys, hashes and signatures with their base58, JSON, text
  and SQL forms (\<open>solana.go\<close>).  \<open>Message\<close>: the three message versions, their encoder, decoder, size and
  account resolution (\<open>message.go\<close>, \<open>message_v1.go\<close>); \<open>Message_Wire\<close> shows that \<open>Marshal\<close> and
  \<open>UnmarshalBinary\<close> are inverse, that \<open>SerializedSize\<close> is the length, and what decoding accepts.
  \<open>Message_Builder\<close>: \<open>NewMessage\<close> and \<open>NewMessageV0\<close> (\<open>message_builder.go\<close>, \<open>instruction.go\<close>,
  \<open>account_meta.go\<close>); \<open>Builder_Laws\<close> and \<open>Builder_V0\<close> show that the compiled message means the given
  instructions: payer first, every account with the role asked for, every index resolving to the
  account named, for every iteration order of the Go maps; and exactly when there is none.

  \<^bold>\<open>Transactions and ledger.\<close>  \<open>Transaction\<close>: keypairs, \<open>Sign\<close>, \<open>VerifySignatures\<close>, the wire form
  (\<open>signer.go\<close>, \<open>transaction.go\<close>); \<open>Transaction_Laws\<close>: signing fills exactly the signers' slots,
  leaves new ones empty and verifies, and the round trip with its one exception.  \<open>Hd_Wallet\<close>:
  derivation paths, SLIP-0010 child keys and keypairs from mnemonics and key files (\<open>internal/hdwallet/hdwallet.go\<close>,
  \<open>mnemonic.go\<close>).  \<open>Entry\<close>: bounded decoding of PoH entries
  (\<open>entry.go\<close>).  \<open>Pda\<close>: program-derived addresses and Anchor discriminators (\<open>pda.go\<close>,
  \<open>anchor/anchor.go\<close>).

  \<^bold>\<open>Programs.\<close>  \<open>Programs\<close>, \<open>Token_Programs\<close>, \<open>Stake_Vote_Programs\<close>: every instruction builder under
  \<open>programs/\<close> and the well-known keys of \<open>constants.go\<close>.  \<open>Program_Specs\<close> states the contract between a
  builder and the on-chain program as the locale \<open>instruction_codec\<close>: the program's reading of a
  built instruction is the call it was built from; \<open>Program_Views\<close> interprets it for the Token,
  system, Token-2022 and stake programs (not for the two Token-2022 instructions with tagged optional
  keys, whose builders do not write the tags).  \<open>Token_State\<close>: decoders of token, Token-2022 (TLV
  extensions) and lookup-table accounts.  \<open>Pipeline\<close> and this theory compose the parts: calls are
  built, compiled, signed, serialised, decoded and read back.

  \<^bold>\<open>Node access.\<close>  \<open>Jsonrpc_Errors\<close>: error values, their classification, the retry policy
  (\<open>jsonrpc/errors.go\<close>, \<open>classify.go\<close>, \<open>retry.go\<close>).  \<open>Jsonrpc\<close>: client construction, headers, one HTTP
  exchange, the retry loop, calls and batches (\<open>jsonrpc/client.go\<close>, \<open>call_context.go\<close>, \<open>batch.go\<close>).
  \<open>Jsonrpc_Laws\<close>: the locale \<open>bounded_retry\<close> shows that the loop ends under every policy that gives
  up, and is interpreted on the default policy; batch responses reach the elements whose ids they
  carry.  \<open>Rpc_Send\<close> and \<open>Rpc_Send_Laws\<close>: transaction errors, fee percentiles, confirmation and
  sending with blockhash refresh (\<open>rpc/transaction_error.go\<close>, \<open>priorityfee.go\<close>, \<open>send.go\<close>): confirmation
  ends, and a transaction is sent again only after the previous one expired.  \<open>Ws_Client\<close> is the
  WebSocket client (\<open>ws/client.go\<close>, \<open>ws/util.go\<close>) as a step relation over the interleavings of its
  goroutines; \<open>Ws_Laws\<close>, \<open>Ws_Subscriptions\<close> and \<open>Ws_Properties\<close> prove its invariants, that
  \<open>Close\<close> ends on every fair run, and where \<open>Subscribe\<close>'s answer departs from the subscription map; \<open>Ws_Frames\<close> runs the read loop over what the codec makes of each frame,
  as steps of that relation, and shows where every notification goes.

  \<^bold>\<open>Typed access.\<close>  \<open>Base64\<close> is the standard base64 text of byte strings.  \<open>Rpc_Data\<close>: the JSON forms
  of account data, transactions, versions, base58 and raw data (\<open>account_info.go\<close>, \<open>base58data.go\<close>,
  \<open>options.go\<close>, \<open>jsonrpc/rawjson.go\<close>, parts of \<open>message.go\<close> and \<open>transaction.go\<close>) with their round
  trips.  \<open>Rpc_Types\<close>: options as JSON objects and the data of the answers (\<open>rpc/options.go\<close>,
  \<open>rpc/types.go\<close>, \<open>transaction_meta.go\<close>).  \<open>Rpc_Methods\<close>: every typed method (\<open>rpc/methods_*.go\<close>) as a
  function of the call it makes; \<open>Rpc_Methods_Laws\<close> has the locales \<open>rpc_transport\<close>, the contract of a
  call, interpreted on the client of \<open>Jsonrpc\<close>, and \<open>options_view\<close>, what a node reads from an options
  object, interpreted on the options types, and shows what a node receives.
  \<open>Ws_Typed\<close>: the typed subscriptions (\<open>ws/wsclient_*.go\<close>), the notification channel as a state
  machine whose steps are the selects of \<open>sendOrDropOldest\<close>, and its product with \<open>Ws_Client\<close>: what a
  subscriber receives, and that a signature subscription, being one-shot, is dispatched at most one
  notification, which its subscriber gets unless it does not decode.

  \<^bold>\<open>Parameters.\<close>  Code outside the repository is an argument of the definitions that use it: base58,
  zstd, HMAC-SHA512 and BIP-39, ed25519 signing and verification, SHA-256, the curve check of a point, the JSON library,
  the HTTP transport, the file system, \<open>rand.Int64N\<close>, clocks and contexts.  So are the iteration order of Go maps, the
  peer and the scheduler.  Hypotheses on them are named predicates (\<open>reorders\<close>, \<open>int64n\<close>,
  \<open>clock_ok\<close>, \<open>ctx_ok\<close>, \<open>is_run\<close>, \<open>closer_fair\<close>, \<open>base58_ok\<close>, \<open>json_tuples_ok\<close>, \<open>zstd_ok\<close>) that state documented behaviour; each property that
  uses one has a witness with a concrete function.

  \<^bold>\<open>Bounds.\<close>  No fuel is used.  \<open>sendRaw\<close> makes at most five attempts under the default policy;
  \<open>confirmSignature\<close> at most \<open>confirmTimeout / pollInterval + 2\<close> rounds;
  \<open>SendAndConfirmTransaction\<close> at most \<open>maxBlockhashRetries + 1\<close> sends; \<open>FindProgramAddress\<close> at most 256
  hashes.

  \<^bold>\<open>Not modelled.\<close>  What the JSON library does with a struct's tags when it decodes an answer is a
  parameter, as is the text it writes: the models stop at JSON values.  Also left out: TLS and
  connection pooling (\<open>NewDefaultTransport\<close>), accessors that return a field, and Go's data races (a step of \<open>ws_step\<close> is a critical section or a channel
  operation).  Allocation failure and 32-bit platforms are not considered.
\<close>

section \<open>From calls to bytes and back\<close>

text \<open>
  C1: End to end.  Token calls are built into instructions, compiled into a legacy message,
  signed and marshalled.  Decoding the bytes gives the signed transaction back, and the Token
  program's reading of its instructions is exactly the list of calls, for 32-byte keys, 64-byte
  signatures and fewer than 128 required signers.
\<close>

theorem token_pipeline:
  assumes "reorders ord" and "list_all token_call_ok cs"
    and "NewTransactionFromInstructions ord (map (\<lambda>c. Some (token_build wk c)) cs) bh payer = Inr tx"
    and "Sign signers tx = (None, tx')" and "tx_Marshal tx' = Inr bs"
    and "\<forall>k \<in> fst ` set (uses payer (map (\<lambda>c. Some (token_build wk c)) cs)). length k = PublicKeySize"
    and "length bh = HashSize"
    and "\<forall>s \<in> set signers. \<forall>m sig. sg_Sign s m = Inr sig \<longrightarrow> length sig = SignatureSize"
    and "unat (NumRequiredSignatures (Header (tx_Message tx))) < 128"
  shows "tx_UnmarshalBinary bs = Inr tx' \<and>
    map (call_of token_view (AccountKeys (tx_Message tx'))) (Instructions (tx_Message tx')) = map Some cs"
  using signed_transaction_roundtrip [OF assms(1,3,4,5,6,7,8,9)] token.message_calls [OF assms(1) _ assms(2)]
  by blast

theorem token_pipeline_witness:
  "\<exists>tx tx' bs. NewTransactionFromInstructions rev [Some (token_build sample_keys sample_call)] (replicate 32 4) (replicate 32 1) = Inr tx \<and>
     Sign [sample_signer] tx = (None, tx') \<and> tx_Marshal tx' = Inr bs \<and> tx_UnmarshalBinary bs = Inr tx' \<and>
     map (call_of token_view (AccountKeys (tx_Message tx'))) (Instructions (tx_Message tx')) = [Some sample_call]"
proof -
  obtain tx tx' where tx: "NewTransactionFromInstructions rev [Some (token_build sample_keys sample_call)] (replicate 32 4) (replicate 32 1) = Inr tx"
      "unat (NumRequiredSignatures (Header (tx_Message tx))) < 128" "Sign [sample_signer] tx = (None, tx')"
      "\<exists>bs. tx_Marshal tx' = Inr bs"
    using sample_tx_built sample_tx_signed by auto
  then obtain bs where bs: "tx_Marshal tx' = Inr bs" by blast
  have "tx_UnmarshalBinary bs = Inr tx' \<and>
    map (call_of token_view (AccountKeys (tx_Message tx'))) (Instructions (tx_Message tx')) = map Some [sample_call]"
    by (rule token_pipeline [of rev "[sample_call]" sample_keys "replicate 32 4" "replicate 32 1" tx "[sample_signer]"])
       (use tx bs in \<open>auto simp: sample_uses_ok sample_signer_def sample_call_def HashSize_def SignatureSize_def\<close>)
  with tx bs show ?thesis by auto
qed

end
